(* ===== verification/Prelude.thy ===== *)
theory Prelude
  imports Main "HOL-Library.Word"
begin

text \<open>
  Shared vocabulary of the development: the machine integer types of the C
  and the Go half of the program, byte strings and their little-endian
  encoding, the outcomes of a Go statement that may panic, and the list
  lemmas on which the byte-level proofs of the components rest.

  Two collections carry the component proofs: \<open>bytes_simps\<close> holds the
  equations about loads and stores in a byte buffer, \<open>go_simps\<close> the
  equations about fallible Go statements.
\<close>

named_theorems bytes_simps
named_theorems go_simps

unbundle bit_operations_syntax

section \<open>Machine integers and bytes\<close>

type_synonym u8 = "8 word"
type_synonym u16 = "16 word"
type_synonym u32 = "32 word"
type_synonym u64 = "64 word"
type_synonym bytes = "8 word list"

text \<open>
  \<open>le_encode n w\<close> is the little-endian image of a word in \<open>n\<close> bytes, as a C
  store on the BPF target (and \<open>binary.LittleEndian\<close>) writes it;
  \<open>le_decode\<close> reads such an image back.
\<close>

primrec le_encode :: "nat \<Rightarrow> 'a::len word \<Rightarrow> bytes" where
  "le_encode 0 w = []"
| "le_encode (Suc n) w = ucast w # le_encode n (drop_bit 8 w)"

primrec le_decode :: "bytes \<Rightarrow> 'a::len word" where
  "le_decode [] = 0"
| "le_decode (b # bs) = ucast b OR push_bit 8 (le_decode bs)"

lemma length_le_encode [simp]: "length (le_encode n w) = n"
  by (induction n arbitrary: w) simp_all

lemma le_decode_bit:
  "bit (le_decode bs :: 'a::len word) i \<longleftrightarrow>
     i < LENGTH('a) \<and> i < 8 * length bs \<and> bit (bs ! (i div 8)) (i mod 8)"
proof (induction bs arbitrary: i)
  case Nil
  then show ?case by simp
next
  case (Cons b bs)
  show ?case
  proof (cases "i < 8")
    case True
    then show ?thesis by (simp add: bit_simps)
  next
    case False
    then have "i div 8 = Suc ((i - 8) div 8)" and "i mod 8 = (i - 8) mod 8"
      by (simp_all add: le_div_geq le_mod_geq)
    with False Cons.IH [of "i - 8"] show ?thesis
      by (auto simp add: bit_simps dest: bit_imp_le_length)
  qed
qed

lemma le_encode_nth:
  "i < n \<Longrightarrow> le_encode n w ! i = ucast (drop_bit (8 * i) w)"
proof (induction n arbitrary: w i)
  case 0
  then show ?case by simp
next
  case (Suc n)
  then show ?case by (cases i) (simp_all add: add.commute)
qed

lemma le_decode_encode [bytes_simps]:
  fixes w :: "'a::len word"
  assumes "LENGTH('a) \<le> 8 * n"
  shows "le_decode (le_encode n w) = w"
proof (rule bit_word_eqI)
  fix i assume i: "i < LENGTH('a)"
  with assms have "i div 8 < n" by simp
  with i assms show "bit (le_decode (le_encode n w) :: 'a word) i \<longleftrightarrow> bit w i"
    by (simp add: le_decode_bit le_encode_nth bit_simps)
qed

section \<open>Byte buffers\<close>

text \<open>
  \<open>load off n buf\<close> is the \<open>n\<close> bytes at offset \<open>off\<close>, \<open>store off bs buf\<close> the
  buffer after \<open>bs\<close> has been written there. Every use in the development
  stays inside the buffer; the lemmas below ask for it.
\<close>

definition load :: "nat \<Rightarrow> nat \<Rightarrow> bytes \<Rightarrow> bytes" where
  "load off n buf = take n (drop off buf)"

definition store :: "nat \<Rightarrow> bytes \<Rightarrow> bytes \<Rightarrow> bytes" where
  "store off bs buf = take off buf @ bs @ drop (off + length bs) buf"

lemma length_load [bytes_simps]:
  "off + n \<le> length buf \<Longrightarrow> length (load off n buf) = n"
  by (simp add: load_def)

lemma length_store [bytes_simps]:
  "off + length bs \<le> length buf \<Longrightarrow> length (store off bs buf) = length buf"
  by (simp add: store_def)

lemma load_store_same [bytes_simps]:
  "off + length bs \<le> length buf \<Longrightarrow> n = length bs \<Longrightarrow> load off n (store off bs buf) = bs"
  by (simp add: load_def store_def)

lemma load_store_before:
  "off + n \<le> off' \<Longrightarrow> off' + length bs \<le> length buf \<Longrightarrow>
   load off n (store off' bs buf) = load off n buf"
  by (auto simp: load_def store_def drop_take min_def)

lemma load_store_after:
  assumes "off' + length bs \<le> off" and "off' + length bs \<le> length buf"
  shows "load off n (store off' bs buf) = load off n buf"
  using assms by (simp add: load_def store_def min_def)

lemma load_store_disjoint [bytes_simps]:
  "off' + length bs \<le> length buf \<Longrightarrow> off + n \<le> off' \<or> off' + length bs \<le> off \<Longrightarrow>
   load off n (store off' bs buf) = load off n buf"
  by (blast intro: load_store_before load_store_after)

lemma load_load [bytes_simps]:
  "off' + n' \<le> n \<Longrightarrow> load off' n' (load off n buf) = load (off + off') n' buf"
  by (simp add: load_def drop_take min_def add.commute)

section \<open>Outcomes of Go statements\<close>

text \<open>
  A Go statement either completes or panics. The panics below are the ones
  the run-time system raises for statements of this program: a nil pointer
  dereference, an index out of range, a write to a nil map, a send on a
  closed channel and the close of a closed channel.
\<close>

datatype go_panic =
    NilDereference
  | IndexOutOfRange
  | NilMapWrite
  | SendOnClosedChannel
  | CloseOfClosedChannel

type_synonym 'a go = "go_panic + 'a"

definition go_bind :: "'a go \<Rightarrow> ('a \<Rightarrow> 'b go) \<Rightarrow> 'b go" where
  "go_bind m f = (case m of Inl p \<Rightarrow> Inl p | Inr x \<Rightarrow> f x)"

lemma go_bind_simps [simp]:
  "go_bind (Inl p) f = Inl p"
  "go_bind (Inr x) f = f x"
  by (simp_all add: go_bind_def)

lemma go_bind_Inr_iff [go_simps]:
  "go_bind m f = Inr y \<longleftrightarrow> (\<exists>x. m = Inr x \<and> f x = Inr y)"
  by (cases m) simp_all

lemma go_bind_Inl_iff [go_simps]:
  "go_bind m f = Inl p \<longleftrightarrow> m = Inl p \<or> (\<exists>x. m = Inr x \<and> f x = Inl p)"
  by (cases m) auto

lemma go_bind_assoc: "go_bind (go_bind m f) g = go_bind m (\<lambda>x. go_bind (f x) g)"
  by (cases m) simp_all

end
