(* ===== verification/CLayout.thy ===== *)
theory CLayout
  imports Prelude
begin

text \<open>
  The C object representation the kernel half of the program relies on: the
  types of \<open>bpf/headers/vmlinux.h\<close> and of \<open>bpf/monitor.c\<close> as a datatype, and
  \<open>sizeof\<close>, \<open>alignof\<close> and \<open>offsetof\<close> as clang computes them for the 64-bit
  little-endian BPF target (natural alignment; bit-fields packed into units
  of their declared type; unnamed bit-fields do not raise the alignment of
  the enclosing type).

  The lemmas show that the computed layout is a layout: sizes are multiples
  of alignments, every member lies inside its object at an offset its
  alignment divides, and the members of a struct do not overlap.
\<close>

named_theorems layout_simps

section \<open>C types\<close>

datatype ctype =
    CScalar nat
  | CArray nat ctype
  | CStruct "cmember list"
  | CUnion "cmember list"
and cmember =
    CField string ctype
  | CBits string nat nat

text \<open>
  \<open>CField ''''\<close> is an anonymous struct or union member, whose own members are
  named as if they belonged to the enclosing type. \<open>CBits f s w\<close> is a
  bit-field of width \<open>w\<close> whose declared type has size \<open>s\<close>.
\<close>

abbreviation c_u8 :: ctype where "c_u8 \<equiv> CScalar 1"
abbreviation c_u16 :: ctype where "c_u16 \<equiv> CScalar 2"
abbreviation c_u32 :: ctype where "c_u32 \<equiv> CScalar 4"
abbreviation c_u64 :: ctype where "c_u64 \<equiv> CScalar 8"
abbreviation c_ptr :: ctype where "c_ptr \<equiv> CScalar 8"

definition round_up :: "nat \<Rightarrow> nat \<Rightarrow> nat" where
  "round_up n a = (if n mod a = 0 then n else n + (a - n mod a))"

fun alignof :: "ctype \<Rightarrow> nat"
and align_members :: "cmember list \<Rightarrow> nat" where
  "alignof (CScalar n) = n"
| "alignof (CArray k t) = alignof t"
| "alignof (CStruct ms) = align_members ms"
| "alignof (CUnion ms) = align_members ms"
| "align_members [] = 1"
| "align_members (CField f t # ms) = max (alignof t) (align_members ms)"
| "align_members (CBits f s w # ms) = max (if f = '''' then 1 else s) (align_members ms)"

text \<open>
  Positions inside an object are counted in bits. A bit-field starts at the
  cursor unless it would cross a boundary of its storage unit; a zero-width
  bit-field only moves the cursor to such a boundary.
\<close>

definition bits_start :: "nat \<Rightarrow> nat \<Rightarrow> nat \<Rightarrow> nat" where
  "bits_start cur s w =
     (if w = 0 \<or> cur div (8 * s) \<noteq> (cur + w - 1) div (8 * s)
      then round_up cur (8 * s) else cur)"

fun sizeof :: "ctype \<Rightarrow> nat"
and struct_end :: "nat \<Rightarrow> cmember list \<Rightarrow> nat"
and union_size :: "cmember list \<Rightarrow> nat" where
  "sizeof (CScalar n) = n"
| "sizeof (CArray k t) = k * sizeof t"
| "sizeof (CStruct ms) = round_up (round_up (struct_end 0 ms) 8 div 8) (align_members ms)"
| "sizeof (CUnion ms) = round_up (union_size ms) (align_members ms)"
| "struct_end cur [] = cur"
| "struct_end cur (CField f t # ms) =
     struct_end (round_up cur (8 * alignof t) + 8 * sizeof t) ms"
| "struct_end cur (CBits f s w # ms) = struct_end (bits_start cur s w + w) ms"
| "union_size [] = 0"
| "union_size (CField f t # ms) = max (sizeof t) (union_size ms)"
| "union_size (CBits f s w # ms) = max (round_up w 8 div 8) (union_size ms)"

text \<open>
  \<open>member_at t f\<close> is the byte offset and the type of member \<open>f\<close> of \<open>t\<close>
  (\<open>offsetof(t, f)\<close> and \<open>typeof(((t *)0)->f)\<close>); \<open>path_at\<close> follows a
  designator such as \<open>__sk_common.skc_daddr\<close>.
\<close>

fun member_at :: "ctype \<Rightarrow> string \<Rightarrow> (nat \<times> ctype) option"
and struct_member :: "nat \<Rightarrow> cmember list \<Rightarrow> string \<Rightarrow> (nat \<times> ctype) option"
and union_member :: "cmember list \<Rightarrow> string \<Rightarrow> (nat \<times> ctype) option" where
  "member_at (CScalar n) f = None"
| "member_at (CArray k t) f = None"
| "member_at (CStruct ms) f = struct_member 0 ms f"
| "member_at (CUnion ms) f = union_member ms f"
| "struct_member cur [] f = None"
| "struct_member cur (CField g t # ms) f =
     (let start = round_up cur (8 * alignof t) in
      if g = f then Some (start div 8, t)
      else case (if g = '''' then member_at t f else None) of
             Some (off, u) \<Rightarrow> Some (start div 8 + off, u)
           | None \<Rightarrow> struct_member (start + 8 * sizeof t) ms f)"
| "struct_member cur (CBits g s w # ms) f = struct_member (bits_start cur s w + w) ms f"
| "union_member [] f = None"
| "union_member (CField g t # ms) f =
     (if g = f then Some (0, t)
      else case (if g = '''' then member_at t f else None) of
             Some r \<Rightarrow> Some r
           | None \<Rightarrow> union_member ms f)"
| "union_member (CBits g s w # ms) f = union_member ms f"

fun path_at :: "ctype \<Rightarrow> string list \<Rightarrow> (nat \<times> ctype) option" where
  "path_at t [] = Some (0, t)"
| "path_at t (f # fs) =
     (case member_at t f of
        None \<Rightarrow> None
      | Some (off, u) \<Rightarrow>
          (case path_at u fs of
             None \<Rightarrow> None
           | Some (off', v) \<Rightarrow> Some (off + off', v)))"

definition offsetof :: "ctype \<Rightarrow> string list \<Rightarrow> nat" where
  "offsetof t fs = (case path_at t fs of Some (off, _) \<Rightarrow> off | None \<Rightarrow> 0)"


text \<open>
  Rewrite rules that evaluate a lookup in a concrete member list without
  expanding the positions of the members that are passed over.
\<close>

lemma struct_member_hit [layout_simps]:
  "struct_member cur (CField f t # ms) f = Some (round_up cur (8 * alignof t) div 8, t)"
  by (simp add: Let_def)

lemma struct_member_skip [layout_simps]:
  "g \<noteq> f \<Longrightarrow> g \<noteq> '''' \<Longrightarrow>
   struct_member cur (CField g t # ms) f =
     struct_member (round_up cur (8 * alignof t) + 8 * sizeof t) ms f"
  by (simp add: Let_def)

lemma struct_member_anon [layout_simps]:
  "'''' \<noteq> f \<Longrightarrow>
   struct_member cur (CField '''' t # ms) f =
     (case member_at t f of
        Some (off, u) \<Rightarrow> Some (round_up cur (8 * alignof t) div 8 + off, u)
      | None \<Rightarrow> struct_member (round_up cur (8 * alignof t) + 8 * sizeof t) ms f)"
  by (simp add: Let_def)

text \<open>
  The simplifier writes the alignment 1 as \<open>Suc 0\<close>; these rules keep the
  maximum of alignments a numeral.
\<close>

lemma max_numeral_Suc_0 [layout_simps]:
  "max (numeral k) (Suc 0) = (numeral k :: nat)"
  "max (Suc 0) (numeral k) = (numeral k :: nat)"
  by (simp_all add: max_def)

declare max_numeral_Suc [simp del] max_Suc_numeral [simp del]
declare struct_member.simps(2) [simp del]
declare round_up_def [layout_simps] bits_start_def [layout_simps]

section \<open>The layout laws\<close>

text \<open>
  Well-formed types are built from the scalar sizes of the target, so that
  every alignment is a power of two.
\<close>

fun wf_ctype :: "ctype \<Rightarrow> bool"
and wf_members :: "cmember list \<Rightarrow> bool" where
  "wf_ctype (CScalar n) \<longleftrightarrow> n \<in> {1, 2, 4, 8, 16}"
| "wf_ctype (CArray k t) \<longleftrightarrow> wf_ctype t"
| "wf_ctype (CStruct ms) \<longleftrightarrow> wf_members ms"
| "wf_ctype (CUnion ms) \<longleftrightarrow> wf_members ms"
| "wf_members [] \<longleftrightarrow> True"
| "wf_members (CField f t # ms) \<longleftrightarrow> wf_ctype t \<and> wf_members ms"
| "wf_members (CBits f s w # ms) \<longleftrightarrow> s \<in> {1, 2, 4, 8} \<and> wf_members ms"

text \<open>
  \<open>member_bits cur ms\<close> lists the first bit and the width of every member, in
  declaration order, for a struct whose members start at bit \<open>cur\<close>.
\<close>

fun member_bits :: "nat \<Rightarrow> cmember list \<Rightarrow> (nat \<times> nat) list" where
  "member_bits cur [] = []"
| "member_bits cur (CField f t # ms) =
     (let start = round_up cur (8 * alignof t)
      in (start, 8 * sizeof t) # member_bits (start + 8 * sizeof t) ms)"
| "member_bits cur (CBits f s w # ms) =
     (let start = bits_start cur s w in (start, w) # member_bits (start + w) ms)"

lemma round_up_ge [simp]: "n \<le> round_up n a"
  by (simp add: round_up_def)

lemma round_up_dvd [simp]: "0 < a \<Longrightarrow> a dvd round_up n a"
proof -
  assume "0 < a"
  then have "n mod a < a" and "n mod a \<le> n" by simp_all
  then have "n + (a - n mod a) = (n - n mod a) + a" by simp
  also have "\<dots> = a * (n div a + 1)" by (simp add: minus_mod_eq_mult_div)
  finally show "a dvd round_up n a"
    by (auto simp: round_up_def)
qed

lemma bits_start_ge [simp]: "cur \<le> bits_start cur s w"
  by (simp add: bits_start_def)

lemma pow2_dvd_max:
  "a = 2 ^ i \<Longrightarrow> b = 2 ^ j \<Longrightarrow> a dvd max a b \<and> b dvd max a (b::nat)"
  by (cases "i \<le> j") (auto simp: max_def le_imp_power_dvd)

lemma scalar_pow2:
  assumes "n \<in> {1, 2, 4, 8, 16 :: nat}"
  shows "\<exists>k. n = 2 ^ k"
proof -
  have "{1, 2, 4, 8, 16 :: nat} = (\<lambda>k. 2 ^ k) ` {0, 1, 2, 3, 4}" by simp
  with assms show ?thesis by blast
qed

lemma align_pow2:
  "wf_ctype t \<Longrightarrow> \<exists>k. alignof t = 2 ^ k"
  "wf_members ms \<Longrightarrow> \<exists>k. align_members ms = 2 ^ k"
proof (induction t and ms rule: alignof_align_members.induct)
  case (1 n)
  then show ?case by (simp only: wf_ctype.simps alignof.simps scalar_pow2)
next
  case (7 f s w ms)
  then have "\<exists>k. s = 2 ^ k" by (intro scalar_pow2) auto
  with 7 show ?case by (auto simp: max_def intro: exI [of _ "0::nat"])
qed (auto simp: max_def intro: exI [of _ "0::nat"])

lemma align_pos [simp]: "wf_ctype t \<Longrightarrow> 0 < alignof t"
  "wf_members ms \<Longrightarrow> 0 < align_members ms"
  using align_pow2 by force+

text \<open>Every member's alignment divides the alignment of the enclosing type.\<close>

lemma align_members_dvd:
  "wf_members (CField f t # ms) \<Longrightarrow>
   alignof t dvd align_members (CField f t # ms) \<and>
   align_members ms dvd align_members (CField f t # ms)"
  using align_pow2(1) [of t] align_pow2(2) [of ms] pow2_dvd_max by auto

lemma align_bits_dvd:
  assumes "wf_members (CBits f s w # ms)"
  shows "align_members ms dvd align_members (CBits f s w # ms)"
proof -
  define a where "a = (if f = '''' then 1 else s)"
  from assms have "a \<in> {1, 2, 4, 8, 16}" by (auto simp: a_def)
  then obtain k where k: "a = 2 ^ k" using scalar_pow2 by blast
  from assms obtain j where "align_members ms = 2 ^ j" using align_pow2(2) by auto
  with pow2_dvd_max [OF k this] show ?thesis by (simp add: a_def)
qed

lemma struct_end_ge: "cur \<le> struct_end cur ms"
proof (induction ms arbitrary: cur)
  case (Cons m ms)
  show ?case
  proof (cases m)
    case (CField f t)
    have "cur \<le> round_up cur (8 * alignof t) + 8 * sizeof t"
      by (rule trans_le_add1) simp
    also note Cons.IH
    finally show ?thesis by (simp add: CField)
  next
    case (CBits f s w)
    have "cur \<le> bits_start cur s w + w"
      by (rule trans_le_add1) simp
    also note Cons.IH
    finally show ?thesis by (simp add: CBits)
  qed
qed simp

text \<open>The size of a type is a multiple of its alignment, so array elements stay aligned.\<close>

lemma alignof_dvd_sizeof: "wf_ctype t \<Longrightarrow> alignof t dvd sizeof t"
  by (induction t) auto

text \<open>
  The members of a struct occupy disjoint ranges of bits in declaration
  order, all before the end of the struct.
\<close>

lemma member_bits_ge: "(s, n) \<in> set (member_bits cur ms) \<Longrightarrow> cur \<le> s"
proof (induction cur ms rule: member_bits.induct)
  case (2 cur f t ms)
  then show ?case
    by (auto simp: Let_def intro: order_trans [OF trans_le_add1 [OF round_up_ge]])
next
  case (3 cur f s w ms)
  then show ?case
    by (auto simp: Let_def intro: order_trans [OF trans_le_add1 [OF bits_start_ge]])
qed simp

theorem member_bits_disjoint:
  "sorted_wrt (\<lambda>(s, n) (s', n'). s + n \<le> s') (member_bits cur ms)"
  by (induction cur ms rule: member_bits.induct) (auto simp: Let_def dest: member_bits_ge)

theorem member_bits_inside: "(s, n) \<in> set (member_bits cur ms) \<Longrightarrow> s + n \<le> struct_end cur ms"
  by (induction cur ms rule: member_bits.induct) (auto simp: Let_def struct_end_ge)

text \<open>
  A member found by name lies inside the object, at an offset that its
  alignment divides.
\<close>

lemma union_sizeof_ge: "union_size ms \<le> sizeof (CUnion ms)"
  by simp

lemma struct_sizeof_ge: "struct_end 0 ms \<le> 8 * sizeof (CStruct ms)"
proof -
  let ?e = "struct_end 0 ms"
  have "?e \<le> round_up ?e 8" by simp
  also have "\<dots> = 8 * (round_up ?e 8 div 8)"
    using round_up_dvd [of 8 ?e] by simp
  also have "\<dots> \<le> 8 * sizeof (CStruct ms)"
    unfolding sizeof.simps by (rule mult_le_mono2) (rule round_up_ge)
  finally show ?thesis .
qed

lemma round_up_bytes:
  assumes "0 < a"
  shows "8 * (round_up n (8 * a) div 8) = round_up n (8 * a)"
    and "a dvd round_up n (8 * a) div 8"
proof -
  from assms have "8 * a dvd round_up n (8 * a)" by simp
  then obtain q where "round_up n (8 * a) = 8 * a * q" by (elim dvdE)
  then show "8 * (round_up n (8 * a) div 8) = round_up n (8 * a)"
    and "a dvd round_up n (8 * a) div 8" by simp_all
qed

definition fits :: "ctype \<Rightarrow> nat \<Rightarrow> nat \<Rightarrow> nat \<Rightarrow> bool" where
  "fits u off n algn \<longleftrightarrow>
     wf_ctype u \<and> off + sizeof u \<le> n \<and> alignof u dvd off \<and> alignof u dvd algn"

lemma fits_mono: "fits u off n a \<Longrightarrow> n \<le> m \<Longrightarrow> a dvd a' \<Longrightarrow> fits u off m a'"
  unfolding fits_def using dvd_trans [of "alignof u" a a'] by linarith

lemma fits_shift:
  assumes "fits u off (sizeof t) (alignof t)" and "alignof t dvd base"
    and "base + sizeof t \<le> n" and "alignof t dvd a"
  shows "fits u (base + off) n a"
proof -
  from assms have "alignof u dvd base" and "alignof u dvd off" and "alignof u dvd a"
    using dvd_trans [of "alignof u" "alignof t"] by (simp_all add: fits_def)
  then have "alignof u dvd base + off" by simp
  with assms \<open>alignof u dvd a\<close> show ?thesis by (simp add: fits_def)
qed

lemma fits_self: "wf_ctype t \<Longrightarrow> fits t 0 (sizeof t) (alignof t)"
  by (simp add: fits_def)

lemma struct_field_cases:
  assumes "struct_member cur (CField g t # ms) f = Some (off, u)"
  obtains (here) "off = round_up cur (8 * alignof t) div 8 + 0" "u = t"
    | (inner) o' where "g \<noteq> f" "g = ''''" "member_at t f = Some (o', u)"
        "off = round_up cur (8 * alignof t) div 8 + o'"
    | (later) "g \<noteq> f" "(if g = '''' then member_at t f else None) = None"
        "struct_member (round_up cur (8 * alignof t) + 8 * sizeof t) ms f = Some (off, u)"
proof (cases "g = f")
  case True
  with assms have "off = round_up cur (8 * alignof t) div 8 + 0" and "u = t"
    by (auto simp: struct_member_hit)
  then show ?thesis by (rule here)
next
  case False
  show ?thesis
  proof (cases "if g = '''' then member_at t f else None")
    case None
    with False assms have "struct_member (round_up cur (8 * alignof t) + 8 * sizeof t) ms f = Some (off, u)"
      by (simp only: struct_member.simps(2) Let_def if_False option.case)
    with False None later show ?thesis by blast
  next
    case (Some r)
    obtain o' v where r: "r = (o', v)" by (cases r)
    with False Some assms have "Some (round_up cur (8 * alignof t) div 8 + o', v) = Some (off, u)"
      by (simp only: struct_member.simps(2) Let_def if_False option.case prod.case)
    then have "off = round_up cur (8 * alignof t) div 8 + o'" and "v = u" by simp_all
    moreover from Some r have "g = ''''" and "member_at t f = Some (o', v)"
      by (simp_all split: if_splits)
    ultimately show ?thesis using False by (metis inner)
  qed
qed

lemma struct_field_fits:
  assumes wf: "wf_members (CField g t # ms)"
    and found: "struct_member cur (CField g t # ms) f = Some (off, u)"
    and nested: "\<And>o'. g \<noteq> f \<Longrightarrow> g = '''' \<Longrightarrow> member_at t f = Some (o', u) \<Longrightarrow>
      fits u o' (sizeof t) (alignof t)"
    and later: "g \<noteq> f \<Longrightarrow> (if g = '''' then member_at t f else None) = None \<Longrightarrow>
      struct_member (round_up cur (8 * alignof t) + 8 * sizeof t) ms f = Some (off, u) \<Longrightarrow>
      fits u off (struct_end cur (CField g t # ms) div 8) (align_members ms)"
  shows "fits u off (struct_end cur (CField g t # ms) div 8) (align_members (CField g t # ms))"
proof -
  let ?s = "round_up cur (8 * alignof t)"
  let ?e = "struct_end cur (CField g t # ms) div 8" and ?a = "align_members (CField g t # ms)"
  from wf have t: "wf_ctype t" and pos: "0 < alignof t" by auto
  note dvd = align_members_dvd [OF wf] and start = round_up_bytes [OF pos, of cur]
  have "?s + 8 * sizeof t \<le> struct_end cur (CField g t # ms)"
    using struct_end_ge by simp
  with start(1) have fin: "?s div 8 + sizeof t \<le> ?e" by linarith
  have shift: "fits u (?s div 8 + o') ?e ?a" if "fits u o' (sizeof t) (alignof t)" for o'
    using that start(2) fin dvd by (blast intro: fits_shift)
  from found show ?thesis
  proof (cases rule: struct_field_cases)
    case here
    then show ?thesis using shift fits_self [OF t] by blast
  next
    case inner
    then show ?thesis using shift nested by blast
  next
    case later
    from assms(4) [OF later] dvd show ?thesis by (blast intro: fits_mono)
  qed
qed

lemma union_field_fits:
  assumes wf: "wf_members (CField g t # ms)"
    and found: "union_member (CField g t # ms) f = Some (off, u)"
    and nested: "g \<noteq> f \<Longrightarrow> g = '''' \<Longrightarrow> member_at t f = Some (off, u) \<Longrightarrow>
      fits u off (sizeof t) (alignof t)"
    and later: "g \<noteq> f \<Longrightarrow> (if g = '''' then member_at t f else None) = None \<Longrightarrow>
      union_member ms f = Some (off, u) \<Longrightarrow> fits u off (union_size ms) (align_members ms)"
  shows "fits u off (union_size (CField g t # ms)) (align_members (CField g t # ms))"
proof -
  let ?n = "union_size (CField g t # ms)"
  note dvd = align_members_dvd [OF wf]
  have le: "sizeof t \<le> ?n" "union_size ms \<le> ?n" by simp_all
  consider (here) "off = 0" "u = t"
    | (inner) "g \<noteq> f" "g = ''''" "member_at t f = Some (off, u)"
    | (later) "g \<noteq> f" "(if g = '''' then member_at t f else None) = None"
        "union_member ms f = Some (off, u)"
    using found by (auto split: if_splits option.splits)
  then show ?thesis
  proof cases
    case here
    then show ?thesis using wf fits_mono [OF fits_self le(1)] dvd by simp
  next
    case inner
    from fits_mono [OF nested [OF inner] le(1)] dvd show ?thesis by blast
  next
    case later
    from fits_mono [OF assms(4) [OF later] le(2)] dvd show ?thesis by blast
  qed
qed

lemma member_at_fits:
  "wf_ctype t \<Longrightarrow> member_at t f = Some (off, u) \<Longrightarrow> fits u off (sizeof t) (alignof t)"
  "wf_members ms \<Longrightarrow> struct_member cur ms f = Some (off, u) \<Longrightarrow>
     fits u off (struct_end cur ms div 8) (align_members ms)"
  "wf_members ms \<Longrightarrow> union_member ms f = Some (off, u) \<Longrightarrow>
     fits u off (union_size ms) (align_members ms)"
proof (induction t f and cur ms f and ms f arbitrary: off u and off u and off u
    rule: member_at_struct_member_union_member.induct)
  case (3 ms f)
  have "struct_end 0 ms div 8 \<le> sizeof (CStruct ms)"
    using struct_sizeof_ge [of ms] by linarith
  with 3 show ?case by (auto intro: fits_mono)
next
  case (4 ms f)
  with union_sizeof_ge [of ms] show ?case by (auto intro: fits_mono)
next
  case (6 cur g t ms f)
  from "6.prems"(1) have wf: "wf_ctype t" "wf_members ms" by auto
  show ?case
    by (rule struct_field_fits [OF "6.prems"])
      (simp_all only: "6.IH"(1) [OF refl _ _ wf(1)] "6.IH"(2) [OF refl _ _ wf(2)]
        struct_end.simps if_True not_False_eq_True)
next
  case (7 cur g s w ms f)
  with align_bits_dvd [OF "7.prems"(1)] show ?case by (auto intro: fits_mono)
next
  case (9 g t ms f)
  from "9.prems"(1) have wf: "wf_ctype t" "wf_members ms" by auto
  show ?case
    by (rule union_field_fits [OF "9.prems"])
      (simp_all only: "9.IH"(1) [OF _ _ wf(1)] "9.IH"(2) [OF _ _ wf(2)] if_True not_False_eq_True)
next
  case (10 g s w ms f)
  with align_bits_dvd [OF "10.prems"(1)] show ?case by (auto intro: fits_mono)
qed simp_all

theorem path_at_fits:
  "wf_ctype t \<Longrightarrow> path_at t fs = Some (off, u) \<Longrightarrow> fits u off (sizeof t) (alignof t)"
proof (induction fs arbitrary: t off)
  case Nil
  then show ?case by (simp add: fits_self)
next
  case (Cons f fs)
  then obtain a v b where v: "member_at t f = Some (a, v)" and "path_at v fs = Some (b, u)"
      and off: "off = a + b"
    by (auto split: option.splits)
  from v Cons.prems(1) have a: "fits v a (sizeof t) (alignof t)" by (simp add: member_at_fits)
  then have "wf_ctype v" by (simp add: fits_def)
  then have b: "fits u b (sizeof v) (alignof v)"
    using \<open>path_at v fs = Some (b, u)\<close> by (rule Cons.IH)
  from a fits_shift [OF b, of a "sizeof t" "alignof t"] show ?case
    unfolding off by (simp add: fits_def)
qed

end
