(* ===== verification/Vmlinux_Sock.thy ===== *)
theory Vmlinux_Sock
  imports CLayout
begin

text \<open>
  Kernel socket types of \<open>bpf/headers/vmlinux.h\<close>: \<open>struct sock\<close>, which the
  probes on \<open>tcp_connect\<close> and \<open>inet_csk_accept\<close> read, the TCP control blocks
  that embed it, and every type they contain by value. Each declaration is
  the member list of the header; pointers and enumerations are scalars of
  their size. The \<open>_layout\<close> lemma after each declaration evaluates its size
  and alignment; enclosing types use it instead of unfolding the declaration.
\<close>

definition typedef___u64 :: ctype where
  "typedef___u64 = c_u64"

lemma typedef___u64_layout [layout_simps]:
  "sizeof typedef___u64 = 8" "alignof typedef___u64 = 8" "wf_ctype typedef___u64"
  by (simp_all add: typedef___u64_def layout_simps)

definition typedef___addrpair :: ctype where
  "typedef___addrpair = typedef___u64"

lemma typedef___addrpair_layout [layout_simps]:
  "sizeof typedef___addrpair = 8" "alignof typedef___addrpair = 8" "wf_ctype typedef___addrpair"
  by (simp_all add: typedef___addrpair_def layout_simps)

definition typedef___u32 :: ctype where
  "typedef___u32 = c_u32"

lemma typedef___u32_layout [layout_simps]:
  "sizeof typedef___u32 = 4" "alignof typedef___u32 = 4" "wf_ctype typedef___u32"
  by (simp_all add: typedef___u32_def layout_simps)

definition typedef___be32 :: ctype where
  "typedef___be32 = typedef___u32"

lemma typedef___be32_layout [layout_simps]:
  "sizeof typedef___be32 = 4" "alignof typedef___be32 = 4" "wf_ctype typedef___be32"
  by (simp_all add: typedef___be32_def layout_simps)

definition typedef___u16 :: ctype where
  "typedef___u16 = c_u16"

lemma typedef___u16_layout [layout_simps]:
  "sizeof typedef___u16 = 2" "alignof typedef___u16 = 2" "wf_ctype typedef___u16"
  by (simp_all add: typedef___u16_def layout_simps)

definition typedef___portpair :: ctype where
  "typedef___portpair = typedef___u32"

lemma typedef___portpair_layout [layout_simps]:
  "sizeof typedef___portpair = 4" "alignof typedef___portpair = 4" "wf_ctype typedef___portpair"
  by (simp_all add: typedef___portpair_def layout_simps)

definition typedef___be16 :: ctype where
  "typedef___be16 = typedef___u16"

lemma typedef___be16_layout [layout_simps]:
  "sizeof typedef___be16 = 2" "alignof typedef___be16 = 2" "wf_ctype typedef___be16"
  by (simp_all add: typedef___be16_def layout_simps)

definition struct_hlist_node :: ctype where
  "struct_hlist_node = CStruct [
    CField ''next'' c_u64,
    CField ''pprev'' c_u64]"

lemma struct_hlist_node_layout [layout_simps]:
  "sizeof struct_hlist_node = 16" "alignof struct_hlist_node = 8" "wf_ctype struct_hlist_node"
  by (simp_all add: struct_hlist_node_def layout_simps)

definition typedef_possible_net_t :: ctype where
  "typedef_possible_net_t = CStruct [
    CField ''net'' c_u64]"

lemma typedef_possible_net_t_layout [layout_simps]:
  "sizeof typedef_possible_net_t = 8" "alignof typedef_possible_net_t = 8" "wf_ctype typedef_possible_net_t"
  by (simp_all add: typedef_possible_net_t_def layout_simps)

definition typedef___u8 :: ctype where
  "typedef___u8 = c_u8"

lemma typedef___u8_layout [layout_simps]:
  "sizeof typedef___u8 = 1" "alignof typedef___u8 = 1" "wf_ctype typedef___u8"
  by (simp_all add: typedef___u8_def layout_simps)

definition struct_in6_addr :: ctype where
  "struct_in6_addr = CStruct [
    CField ''in6_u'' (CUnion [
      CField ''u6_addr8'' (CArray 16 typedef___u8),
      CField ''u6_addr16'' (CArray 8 typedef___be16),
      CField ''u6_addr32'' (CArray 4 typedef___be32)])]"

lemma struct_in6_addr_layout [layout_simps]:
  "sizeof struct_in6_addr = 16" "alignof struct_in6_addr = 4" "wf_ctype struct_in6_addr"
  by (simp_all add: struct_in6_addr_def layout_simps)

definition typedef___s64 :: ctype where
  "typedef___s64 = c_u64"

lemma typedef___s64_layout [layout_simps]:
  "sizeof typedef___s64 = 8" "alignof typedef___s64 = 8" "wf_ctype typedef___s64"
  by (simp_all add: typedef___s64_def layout_simps)

definition typedef_s64 :: ctype where
  "typedef_s64 = typedef___s64"

lemma typedef_s64_layout [layout_simps]:
  "sizeof typedef_s64 = 8" "alignof typedef_s64 = 8" "wf_ctype typedef_s64"
  by (simp_all add: typedef_s64_def layout_simps)

definition typedef_atomic64_t :: ctype where
  "typedef_atomic64_t = CStruct [
    CField ''counter'' typedef_s64]"

lemma typedef_atomic64_t_layout [layout_simps]:
  "sizeof typedef_atomic64_t = 8" "alignof typedef_atomic64_t = 8" "wf_ctype typedef_atomic64_t"
  by (simp_all add: typedef_atomic64_t_def layout_simps)

definition struct_hlist_nulls_node :: ctype where
  "struct_hlist_nulls_node = CStruct [
    CField ''next'' c_u64,
    CField ''pprev'' c_u64]"

lemma struct_hlist_nulls_node_layout [layout_simps]:
  "sizeof struct_hlist_nulls_node = 16" "alignof struct_hlist_nulls_node = 8" "wf_ctype struct_hlist_nulls_node"
  by (simp_all add: struct_hlist_nulls_node_def layout_simps)

definition typedef_u32 :: ctype where
  "typedef_u32 = typedef___u32"

lemma typedef_u32_layout [layout_simps]:
  "sizeof typedef_u32 = 4" "alignof typedef_u32 = 4" "wf_ctype typedef_u32"
  by (simp_all add: typedef_u32_def layout_simps)

definition typedef_atomic_t :: ctype where
  "typedef_atomic_t = CStruct [
    CField ''counter'' c_u32]"

lemma typedef_atomic_t_layout [layout_simps]:
  "sizeof typedef_atomic_t = 4" "alignof typedef_atomic_t = 4" "wf_ctype typedef_atomic_t"
  by (simp_all add: typedef_atomic_t_def layout_simps)

definition struct_refcount_struct :: ctype where
  "struct_refcount_struct = CStruct [
    CField ''refs'' typedef_atomic_t]"

lemma struct_refcount_struct_layout [layout_simps]:
  "sizeof struct_refcount_struct = 4" "alignof struct_refcount_struct = 4" "wf_ctype struct_refcount_struct"
  by (simp_all add: struct_refcount_struct_def layout_simps)

definition typedef_refcount_t :: ctype where
  "typedef_refcount_t = struct_refcount_struct"

lemma typedef_refcount_t_layout [layout_simps]:
  "sizeof typedef_refcount_t = 4" "alignof typedef_refcount_t = 4" "wf_ctype typedef_refcount_t"
  by (simp_all add: typedef_refcount_t_def layout_simps)

definition struct_sock_common :: ctype where
  "struct_sock_common = CStruct [
    CField '''' (CUnion [
      CField ''skc_addrpair'' typedef___addrpair,
      CField '''' (CStruct [
        CField ''skc_daddr'' typedef___be32,
        CField ''skc_rcv_saddr'' typedef___be32])]),
    CField '''' (CUnion [
      CField ''skc_hash'' c_u32,
      CField ''skc_u16hashes'' (CArray 2 typedef___u16)]),
    CField '''' (CUnion [
      CField ''skc_portpair'' typedef___portpair,
      CField '''' (CStruct [
        CField ''skc_dport'' typedef___be16,
        CField ''skc_num'' typedef___u16])]),
    CField ''skc_family'' c_u16,
    CField ''skc_state'' c_u8,
    CBits ''skc_reuse'' 1 4,
    CBits ''skc_reuseport'' 1 1,
    CBits ''skc_ipv6only'' 1 1,
    CBits ''skc_net_refcnt'' 1 1,
    CField ''skc_bound_dev_if'' c_u32,
    CField '''' (CUnion [
      CField ''skc_bind_node'' struct_hlist_node,
      CField ''skc_portaddr_node'' struct_hlist_node]),
    CField ''skc_prot'' c_u64,
    CField ''skc_net'' typedef_possible_net_t,
    CField ''skc_v6_daddr'' struct_in6_addr,
    CField ''skc_v6_rcv_saddr'' struct_in6_addr,
    CField ''skc_cookie'' typedef_atomic64_t,
    CField '''' (CUnion [
      CField ''skc_flags'' c_u64,
      CField ''skc_listener'' c_u64,
      CField ''skc_tw_dr'' c_u64]),
    CField ''skc_dontcopy_begin'' (CArray 0 c_u32),
    CField '''' (CUnion [
      CField ''skc_node'' struct_hlist_node,
      CField ''skc_nulls_node'' struct_hlist_nulls_node]),
    CField ''skc_tx_queue_mapping'' c_u16,
    CField ''skc_rx_queue_mapping'' c_u16,
    CField '''' (CUnion [
      CField ''skc_incoming_cpu'' c_u32,
      CField ''skc_rcv_wnd'' typedef_u32,
      CField ''skc_tw_rcv_nxt'' typedef_u32]),
    CField ''skc_refcnt'' typedef_refcount_t,
    CField ''skc_dontcopy_end'' (CArray 0 c_u32),
    CField '''' (CUnion [
      CField ''skc_rxhash'' typedef_u32,
      CField ''skc_window_clamp'' typedef_u32,
      CField ''skc_tw_snd_nxt'' typedef_u32])]"

lemma struct_sock_common_layout [layout_simps]:
  "sizeof struct_sock_common = 136" "alignof struct_sock_common = 8" "wf_ctype struct_sock_common"
  by (simp_all add: struct_sock_common_def layout_simps)

definition typedef___s32 :: ctype where
  "typedef___s32 = c_u32"

lemma typedef___s32_layout [layout_simps]:
  "sizeof typedef___s32 = 4" "alignof typedef___s32 = 4" "wf_ctype typedef___s32"
  by (simp_all add: typedef___s32_def layout_simps)

definition struct_sk_buff_list :: ctype where
  "struct_sk_buff_list = CStruct [
    CField ''next'' c_u64,
    CField ''prev'' c_u64]"

lemma struct_sk_buff_list_layout [layout_simps]:
  "sizeof struct_sk_buff_list = 16" "alignof struct_sk_buff_list = 8" "wf_ctype struct_sk_buff_list"
  by (simp_all add: struct_sk_buff_list_def layout_simps)

definition typedef_u8 :: ctype where
  "typedef_u8 = typedef___u8"

lemma typedef_u8_layout [layout_simps]:
  "sizeof typedef_u8 = 1" "alignof typedef_u8 = 1" "wf_ctype typedef_u8"
  by (simp_all add: typedef_u8_def layout_simps)

definition typedef_u16 :: ctype where
  "typedef_u16 = typedef___u16"

lemma typedef_u16_layout [layout_simps]:
  "sizeof typedef_u16 = 2" "alignof typedef_u16 = 2" "wf_ctype typedef_u16"
  by (simp_all add: typedef_u16_def layout_simps)

definition struct_qspinlock :: ctype where
  "struct_qspinlock = CStruct [
    CField '''' (CUnion [
      CField ''val'' typedef_atomic_t,
      CField '''' (CStruct [
        CField ''locked'' typedef_u8,
        CField ''pending'' typedef_u8]),
      CField '''' (CStruct [
        CField ''locked_pending'' typedef_u16,
        CField ''tail'' typedef_u16])])]"

lemma struct_qspinlock_layout [layout_simps]:
  "sizeof struct_qspinlock = 4" "alignof struct_qspinlock = 4" "wf_ctype struct_qspinlock"
  by (simp_all add: struct_qspinlock_def layout_simps)

definition typedef_arch_spinlock_t :: ctype where
  "typedef_arch_spinlock_t = struct_qspinlock"

lemma typedef_arch_spinlock_t_layout [layout_simps]:
  "sizeof typedef_arch_spinlock_t = 4" "alignof typedef_arch_spinlock_t = 4" "wf_ctype typedef_arch_spinlock_t"
  by (simp_all add: typedef_arch_spinlock_t_def layout_simps)

definition struct_raw_spinlock :: ctype where
  "struct_raw_spinlock = CStruct [
    CField ''raw_lock'' typedef_arch_spinlock_t]"

lemma struct_raw_spinlock_layout [layout_simps]:
  "sizeof struct_raw_spinlock = 4" "alignof struct_raw_spinlock = 4" "wf_ctype struct_raw_spinlock"
  by (simp_all add: struct_raw_spinlock_def layout_simps)

definition struct_spinlock :: ctype where
  "struct_spinlock = CStruct [
    CField '''' (CUnion [
      CField ''rlock'' struct_raw_spinlock])]"

lemma struct_spinlock_layout [layout_simps]:
  "sizeof struct_spinlock = 4" "alignof struct_spinlock = 4" "wf_ctype struct_spinlock"
  by (simp_all add: struct_spinlock_def layout_simps)

definition typedef_spinlock_t :: ctype where
  "typedef_spinlock_t = struct_spinlock"

lemma typedef_spinlock_t_layout [layout_simps]:
  "sizeof typedef_spinlock_t = 4" "alignof typedef_spinlock_t = 4" "wf_ctype typedef_spinlock_t"
  by (simp_all add: typedef_spinlock_t_def layout_simps)

definition struct_sk_buff_head :: ctype where
  "struct_sk_buff_head = CStruct [
    CField '''' (CUnion [
      CField '''' (CStruct [
        CField ''next'' c_u64,
        CField ''prev'' c_u64]),
      CField ''list'' struct_sk_buff_list]),
    CField ''qlen'' typedef___u32,
    CField ''lock'' typedef_spinlock_t]"

lemma struct_sk_buff_head_layout [layout_simps]:
  "sizeof struct_sk_buff_head = 24" "alignof struct_sk_buff_head = 8" "wf_ctype struct_sk_buff_head"
  by (simp_all add: struct_sk_buff_head_def layout_simps)

definition struct_list_head :: ctype where
  "struct_list_head = CStruct [
    CField ''next'' c_u64,
    CField ''prev'' c_u64]"

lemma struct_list_head_layout [layout_simps]:
  "sizeof struct_list_head = 16" "alignof struct_list_head = 8" "wf_ctype struct_list_head"
  by (simp_all add: struct_list_head_def layout_simps)

definition struct_wait_queue_head :: ctype where
  "struct_wait_queue_head = CStruct [
    CField ''lock'' typedef_spinlock_t,
    CField ''head'' struct_list_head]"

lemma struct_wait_queue_head_layout [layout_simps]:
  "sizeof struct_wait_queue_head = 24" "alignof struct_wait_queue_head = 8" "wf_ctype struct_wait_queue_head"
  by (simp_all add: struct_wait_queue_head_def layout_simps)

definition typedef_wait_queue_head_t :: ctype where
  "typedef_wait_queue_head_t = struct_wait_queue_head"

lemma typedef_wait_queue_head_t_layout [layout_simps]:
  "sizeof typedef_wait_queue_head_t = 24" "alignof typedef_wait_queue_head_t = 8" "wf_ctype typedef_wait_queue_head_t"
  by (simp_all add: typedef_wait_queue_head_t_def layout_simps)

definition typedef_socket_lock_t :: ctype where
  "typedef_socket_lock_t = CStruct [
    CField ''slock'' typedef_spinlock_t,
    CField ''owned'' c_u32,
    CField ''wq'' typedef_wait_queue_head_t]"

lemma typedef_socket_lock_t_layout [layout_simps]:
  "sizeof typedef_socket_lock_t = 32" "alignof typedef_socket_lock_t = 8" "wf_ctype typedef_socket_lock_t"
  by (simp_all add: typedef_socket_lock_t_def layout_simps)

definition struct_rb_root :: ctype where
  "struct_rb_root = CStruct [
    CField ''rb_node'' c_u64]"

lemma struct_rb_root_layout [layout_simps]:
  "sizeof struct_rb_root = 8" "alignof struct_rb_root = 8" "wf_ctype struct_rb_root"
  by (simp_all add: struct_rb_root_def layout_simps)

definition struct_page_frag :: ctype where
  "struct_page_frag = CStruct [
    CField ''page'' c_u64,
    CField ''offset'' typedef___u32,
    CField ''size'' typedef___u32]"

lemma struct_page_frag_layout [layout_simps]:
  "sizeof struct_page_frag = 16" "alignof struct_page_frag = 8" "wf_ctype struct_page_frag"
  by (simp_all add: struct_page_frag_def layout_simps)

definition struct_timer_list :: ctype where
  "struct_timer_list = CStruct [
    CField ''entry'' struct_hlist_node,
    CField ''expires'' c_u64,
    CField ''function'' c_u64,
    CField ''flags'' typedef_u32]"

lemma struct_timer_list_layout [layout_simps]:
  "sizeof struct_timer_list = 40" "alignof struct_timer_list = 8" "wf_ctype struct_timer_list"
  by (simp_all add: struct_timer_list_def layout_simps)

definition typedef___kernel_uid32_t :: ctype where
  "typedef___kernel_uid32_t = c_u32"

lemma typedef___kernel_uid32_t_layout [layout_simps]:
  "sizeof typedef___kernel_uid32_t = 4" "alignof typedef___kernel_uid32_t = 4" "wf_ctype typedef___kernel_uid32_t"
  by (simp_all add: typedef___kernel_uid32_t_def layout_simps)

definition typedef_uid_t :: ctype where
  "typedef_uid_t = typedef___kernel_uid32_t"

lemma typedef_uid_t_layout [layout_simps]:
  "sizeof typedef_uid_t = 4" "alignof typedef_uid_t = 4" "wf_ctype typedef_uid_t"
  by (simp_all add: typedef_uid_t_def layout_simps)

definition typedef_kuid_t :: ctype where
  "typedef_kuid_t = CStruct [
    CField ''val'' typedef_uid_t]"

lemma typedef_kuid_t_layout [layout_simps]:
  "sizeof typedef_kuid_t = 4" "alignof typedef_kuid_t = 4" "wf_ctype typedef_kuid_t"
  by (simp_all add: typedef_kuid_t_def layout_simps)

definition typedef_u64 :: ctype where
  "typedef_u64 = typedef___u64"

lemma typedef_u64_layout [layout_simps]:
  "sizeof typedef_u64 = 8" "alignof typedef_u64 = 8" "wf_ctype typedef_u64"
  by (simp_all add: typedef_u64_def layout_simps)

definition typedef_netdev_features_t :: ctype where
  "typedef_netdev_features_t = typedef_u64"

lemma typedef_netdev_features_t_layout [layout_simps]:
  "sizeof typedef_netdev_features_t = 8" "alignof typedef_netdev_features_t = 8" "wf_ctype typedef_netdev_features_t"
  by (simp_all add: typedef_netdev_features_t_def layout_simps)

definition typedef_gfp_t :: ctype where
  "typedef_gfp_t = c_u32"

lemma typedef_gfp_t_layout [layout_simps]:
  "sizeof typedef_gfp_t = 4" "alignof typedef_gfp_t = 4" "wf_ctype typedef_gfp_t"
  by (simp_all add: typedef_gfp_t_def layout_simps)

definition typedef_bool :: ctype where
  "typedef_bool = c_u8"

lemma typedef_bool_layout [layout_simps]:
  "sizeof typedef_bool = 1" "alignof typedef_bool = 1" "wf_ctype typedef_bool"
  by (simp_all add: typedef_bool_def layout_simps)

definition struct_qrwlock :: ctype where
  "struct_qrwlock = CStruct [
    CField '''' (CUnion [
      CField ''cnts'' typedef_atomic_t,
      CField '''' (CStruct [
        CField ''wlocked'' typedef_u8,
        CField ''__lstate'' (CArray 3 typedef_u8)])]),
    CField ''wait_lock'' typedef_arch_spinlock_t]"

lemma struct_qrwlock_layout [layout_simps]:
  "sizeof struct_qrwlock = 8" "alignof struct_qrwlock = 4" "wf_ctype struct_qrwlock"
  by (simp_all add: struct_qrwlock_def layout_simps)

definition typedef_arch_rwlock_t :: ctype where
  "typedef_arch_rwlock_t = struct_qrwlock"

lemma typedef_arch_rwlock_t_layout [layout_simps]:
  "sizeof typedef_arch_rwlock_t = 8" "alignof typedef_arch_rwlock_t = 4" "wf_ctype typedef_arch_rwlock_t"
  by (simp_all add: typedef_arch_rwlock_t_def layout_simps)

definition typedef_rwlock_t :: ctype where
  "typedef_rwlock_t = CStruct [
    CField ''raw_lock'' typedef_arch_rwlock_t]"

lemma typedef_rwlock_t_layout [layout_simps]:
  "sizeof typedef_rwlock_t = 8" "alignof typedef_rwlock_t = 4" "wf_ctype typedef_rwlock_t"
  by (simp_all add: typedef_rwlock_t_def layout_simps)

definition typedef_ktime_t :: ctype where
  "typedef_ktime_t = typedef_s64"

lemma typedef_ktime_t_layout [layout_simps]:
  "sizeof typedef_ktime_t = 8" "alignof typedef_ktime_t = 8" "wf_ctype typedef_ktime_t"
  by (simp_all add: typedef_ktime_t_def layout_simps)

definition struct_sock_cgroup_data :: ctype where
  "struct_sock_cgroup_data = CStruct [
    CField ''cgroup'' c_u64,
    CField ''classid'' typedef_u32,
    CField ''prioidx'' typedef_u16]"

lemma struct_sock_cgroup_data_layout [layout_simps]:
  "sizeof struct_sock_cgroup_data = 16" "alignof struct_sock_cgroup_data = 8" "wf_ctype struct_sock_cgroup_data"
  by (simp_all add: struct_sock_cgroup_data_def layout_simps)

definition struct_callback_head :: ctype where
  "struct_callback_head = CStruct [
    CField ''next'' c_u64,
    CField ''func'' c_u64]"

lemma struct_callback_head_layout [layout_simps]:
  "sizeof struct_callback_head = 16" "alignof struct_callback_head = 8" "wf_ctype struct_callback_head"
  by (simp_all add: struct_callback_head_def layout_simps)

definition typedef_netns_tracker :: ctype where
  "typedef_netns_tracker = CStruct []"

lemma typedef_netns_tracker_layout [layout_simps]:
  "sizeof typedef_netns_tracker = 0" "alignof typedef_netns_tracker = 1" "wf_ctype typedef_netns_tracker"
  by (simp_all add: typedef_netns_tracker_def layout_simps)

definition struct_xarray :: ctype where
  "struct_xarray = CStruct [
    CField ''xa_lock'' typedef_spinlock_t,
    CField ''xa_flags'' typedef_gfp_t,
    CField ''xa_head'' c_u64]"

lemma struct_xarray_layout [layout_simps]:
  "sizeof struct_xarray = 16" "alignof struct_xarray = 8" "wf_ctype struct_xarray"
  by (simp_all add: struct_xarray_def layout_simps)

definition struct_sock :: ctype where
  "struct_sock = CStruct [
    CField ''__sk_common'' struct_sock_common,
    CField ''__cacheline_group_begin__sock_write_rx'' (CArray 0 typedef___u8),
    CField ''sk_drops'' typedef_atomic_t,
    CField ''sk_peek_off'' typedef___s32,
    CField ''sk_error_queue'' struct_sk_buff_head,
    CField ''sk_receive_queue'' struct_sk_buff_head,
    CField ''sk_backlog'' (CStruct [
      CField ''rmem_alloc'' typedef_atomic_t,
      CField ''len'' c_u32,
      CField ''head'' c_u64,
      CField ''tail'' c_u64]),
    CField ''__cacheline_group_end__sock_write_rx'' (CArray 0 typedef___u8),
    CField ''__cacheline_group_begin__sock_read_rx'' (CArray 0 typedef___u8),
    CField ''sk_rx_dst'' c_u64,
    CField ''sk_rx_dst_ifindex'' c_u32,
    CField ''sk_rx_dst_cookie'' typedef_u32,
    CField ''sk_ll_usec'' c_u32,
    CField ''sk_napi_id'' c_u32,
    CField ''sk_busy_poll_budget'' typedef_u16,
    CField ''sk_prefer_busy_poll'' typedef_u8,
    CField ''sk_userlocks'' typedef_u8,
    CField ''sk_rcvbuf'' c_u32,
    CField ''sk_filter'' c_u64,
    CField '''' (CUnion [
      CField ''sk_wq'' c_u64,
      CField ''sk_wq_raw'' c_u64]),
    CField ''sk_data_ready'' c_u64,
    CField ''sk_rcvtimeo'' c_u64,
    CField ''sk_rcvlowat'' c_u32,
    CField ''__cacheline_group_end__sock_read_rx'' (CArray 0 typedef___u8),
    CField ''__cacheline_group_begin__sock_read_rxtx'' (CArray 0 typedef___u8),
    CField ''sk_err'' c_u32,
    CField ''sk_socket'' c_u64,
    CField ''sk_memcg'' c_u64,
    CField ''sk_policy'' (CArray 2 c_u64),
    CField ''psp_assoc'' c_u64,
    CField ''__cacheline_group_end__sock_read_rxtx'' (CArray 0 typedef___u8),
    CField ''__cacheline_group_begin__sock_write_rxtx'' (CArray 0 typedef___u8),
    CField ''sk_lock'' typedef_socket_lock_t,
    CField ''sk_reserved_mem'' typedef_u32,
    CField ''sk_forward_alloc'' c_u32,
    CField ''sk_tsflags'' typedef_u32,
    CField ''__cacheline_group_end__sock_write_rxtx'' (CArray 0 typedef___u8),
    CField ''__cacheline_group_begin__sock_write_tx'' (CArray 0 typedef___u8),
    CField ''sk_write_pending'' c_u32,
    CField ''sk_omem_alloc'' typedef_atomic_t,
    CField ''sk_err_soft'' c_u32,
    CField ''sk_wmem_queued'' c_u32,
    CField ''sk_wmem_alloc'' typedef_refcount_t,
    CField ''sk_tsq_flags'' c_u64,
    CField '''' (CUnion [
      CField ''sk_send_head'' c_u64,
      CField ''tcp_rtx_queue'' struct_rb_root]),
    CField ''sk_write_queue'' struct_sk_buff_head,
    CField ''sk_dst_pending_confirm'' typedef_u32,
    CField ''sk_pacing_status'' typedef_u32,
    CField ''sk_frag'' struct_page_frag,
    CField ''sk_timer'' struct_timer_list,
    CField ''sk_pacing_rate'' c_u64,
    CField ''sk_zckey'' typedef_atomic_t,
    CField ''sk_tskey'' typedef_atomic_t,
    CField ''__cacheline_group_end__sock_write_tx'' (CArray 0 typedef___u8),
    CField ''__cacheline_group_begin__sock_read_tx'' (CArray 0 typedef___u8),
    CField ''sk_max_pacing_rate'' c_u64,
    CField ''sk_sndtimeo'' c_u64,
    CField ''sk_priority'' typedef_u32,
    CField ''sk_mark'' typedef_u32,
    CField ''sk_uid'' typedef_kuid_t,
    CField ''sk_protocol'' typedef_u16,
    CField ''sk_type'' typedef_u16,
    CField ''sk_dst_cache'' c_u64,
    CField ''sk_route_caps'' typedef_netdev_features_t,
    CField ''sk_validate_xmit_skb'' c_u64,
    CField ''sk_gso_type'' typedef_u16,
    CField ''sk_gso_max_segs'' typedef_u16,
    CField ''sk_gso_max_size'' c_u32,
    CField ''sk_allocation'' typedef_gfp_t,
    CField ''sk_txhash'' typedef_u32,
    CField ''sk_sndbuf'' c_u32,
    CField ''sk_pacing_shift'' typedef_u8,
    CField ''sk_use_task_frag'' typedef_bool,
    CField ''__cacheline_group_end__sock_read_tx'' (CArray 0 typedef___u8),
    CBits ''sk_gso_disabled'' 1 1,
    CBits ''sk_kern_sock'' 1 1,
    CBits ''sk_no_check_tx'' 1 1,
    CBits ''sk_no_check_rx'' 1 1,
    CField ''sk_shutdown'' typedef_u8,
    CField ''sk_lingertime'' c_u64,
    CField ''sk_prot_creator'' c_u64,
    CField ''sk_callback_lock'' typedef_rwlock_t,
    CField ''sk_ack_backlog'' typedef_u32,
    CField ''sk_max_ack_backlog'' typedef_u32,
    CField ''sk_ino'' c_u64,
    CField ''sk_peer_lock'' typedef_spinlock_t,
    CField ''sk_bind_phc'' c_u32,
    CField ''sk_peer_pid'' c_u64,
    CField ''sk_peer_cred'' c_u64,
    CField ''sk_stamp'' typedef_ktime_t,
    CField ''sk_disconnects'' c_u32,
    CField '''' (CUnion [
      CField ''sk_txrehash'' typedef_u8,
      CField ''sk_scm_recv_flags'' typedef_u8,
      CField '''' (CStruct [
        CBits ''sk_scm_credentials'' 1 1,
        CBits ''sk_scm_security'' 1 1,
        CBits ''sk_scm_pidfd'' 1 1,
        CBits ''sk_scm_rights'' 1 1,
        CBits ''sk_scm_unused'' 1 4])]),
    CField ''sk_clockid'' typedef_u8,
    CBits ''sk_txtime_deadline_mode'' 1 1,
    CBits ''sk_txtime_report_errors'' 1 1,
    CBits ''sk_txtime_unused'' 1 6,
    CField ''sk_bpf_cb_flags'' typedef_u8,
    CField ''sk_user_data'' c_u64,
    CField ''sk_security'' c_u64,
    CField ''sk_cgrp_data'' struct_sock_cgroup_data,
    CField ''sk_state_change'' c_u64,
    CField ''sk_write_space'' c_u64,
    CField ''sk_error_report'' c_u64,
    CField ''sk_backlog_rcv'' c_u64,
    CField ''sk_destruct'' c_u64,
    CField ''sk_reuseport_cb'' c_u64,
    CField ''sk_bpf_storage'' c_u64,
    CField ''sk_drop_counters'' c_u64,
    CField ''sk_rcu'' struct_callback_head,
    CField ''ns_tracker'' typedef_netns_tracker,
    CField ''sk_user_frags'' struct_xarray]"

lemma struct_sock_layout [layout_simps]:
  "sizeof struct_sock = 800" "alignof struct_sock = 8" "wf_ctype struct_sock"
  by (simp_all add: struct_sock_def layout_simps)

definition typedef___s16 :: ctype where
  "typedef___s16 = c_u16"

lemma typedef___s16_layout [layout_simps]:
  "sizeof typedef___s16 = 2" "alignof typedef___s16 = 2" "wf_ctype typedef___s16"
  by (simp_all add: typedef___s16_def layout_simps)

definition struct_inet_cork :: ctype where
  "struct_inet_cork = CStruct [
    CField ''flags'' c_u32,
    CField ''addr'' typedef___be32,
    CField ''opt'' c_u64,
    CField ''fragsize'' c_u32,
    CField ''length'' c_u32,
    CField ''dst'' c_u64,
    CField ''tx_flags'' typedef_u8,
    CField ''ttl'' typedef___u8,
    CField ''tos'' typedef___s16,
    CField ''priority'' typedef_u32,
    CField ''gso_size'' typedef___u16,
    CField ''ts_opt_id'' typedef_u32,
    CField ''transmit_time'' typedef_u64,
    CField ''mark'' typedef_u32]"

lemma struct_inet_cork_layout [layout_simps]:
  "sizeof struct_inet_cork = 64" "alignof struct_inet_cork = 8" "wf_ctype struct_inet_cork"
  by (simp_all add: struct_inet_cork_def layout_simps)

definition typedef_dscp_t :: ctype where
  "typedef_dscp_t = typedef_u8"

lemma typedef_dscp_t_layout [layout_simps]:
  "sizeof typedef_dscp_t = 1" "alignof typedef_dscp_t = 1" "wf_ctype typedef_dscp_t"
  by (simp_all add: typedef_dscp_t_def layout_simps)

definition typedef___be64 :: ctype where
  "typedef___be64 = typedef___u64"

lemma typedef___be64_layout [layout_simps]:
  "sizeof typedef___be64 = 8" "alignof typedef___be64 = 8" "wf_ctype typedef___be64"
  by (simp_all add: typedef___be64_def layout_simps)

definition struct_flowi_tunnel :: ctype where
  "struct_flowi_tunnel = CStruct [
    CField ''tun_id'' typedef___be64]"

lemma struct_flowi_tunnel_layout [layout_simps]:
  "sizeof struct_flowi_tunnel = 8" "alignof struct_flowi_tunnel = 8" "wf_ctype struct_flowi_tunnel"
  by (simp_all add: struct_flowi_tunnel_def layout_simps)

definition struct_flowi_common :: ctype where
  "struct_flowi_common = CStruct [
    CField ''flowic_oif'' c_u32,
    CField ''flowic_iif'' c_u32,
    CField ''flowic_l3mdev'' c_u32,
    CField ''flowic_mark'' typedef___u32,
    CField ''flowic_dscp'' typedef_dscp_t,
    CField ''flowic_scope'' typedef___u8,
    CField ''flowic_proto'' typedef___u8,
    CField ''flowic_flags'' typedef___u8,
    CField ''flowic_secid'' typedef___u32,
    CField ''flowic_uid'' typedef_kuid_t,
    CField ''flowic_multipath_hash'' typedef___u32,
    CField ''flowic_tun_key'' struct_flowi_tunnel]"

lemma struct_flowi_common_layout [layout_simps]:
  "sizeof struct_flowi_common = 40" "alignof struct_flowi_common = 8" "wf_ctype struct_flowi_common"
  by (simp_all add: struct_flowi_common_def layout_simps)

definition union_flowi_uli :: ctype where
  "union_flowi_uli = CUnion [
    CField ''ports'' (CStruct [
      CField ''dport'' typedef___be16,
      CField ''sport'' typedef___be16]),
    CField ''icmpt'' (CStruct [
      CField ''type'' typedef___u8,
      CField ''code'' typedef___u8]),
    CField ''gre_key'' typedef___be32,
    CField ''mht'' (CStruct [
      CField ''type'' typedef___u8])]"

lemma union_flowi_uli_layout [layout_simps]:
  "sizeof union_flowi_uli = 4" "alignof union_flowi_uli = 4" "wf_ctype union_flowi_uli"
  by (simp_all add: union_flowi_uli_def layout_simps)

definition struct_flowi4 :: ctype where
  "struct_flowi4 = CStruct [
    CField ''__fl_common'' struct_flowi_common,
    CField ''saddr'' typedef___be32,
    CField ''daddr'' typedef___be32,
    CField ''uli'' union_flowi_uli]"

lemma struct_flowi4_layout [layout_simps]:
  "sizeof struct_flowi4 = 56" "alignof struct_flowi4 = 8" "wf_ctype struct_flowi4"
  by (simp_all add: struct_flowi4_def layout_simps)

definition struct_flowi6 :: ctype where
  "struct_flowi6 = CStruct [
    CField ''__fl_common'' struct_flowi_common,
    CField ''daddr'' struct_in6_addr,
    CField ''saddr'' struct_in6_addr,
    CField ''flowlabel'' typedef___be32,
    CField ''uli'' union_flowi_uli,
    CField ''mp_hash'' typedef___u32]"

lemma struct_flowi6_layout [layout_simps]:
  "sizeof struct_flowi6 = 88" "alignof struct_flowi6 = 8" "wf_ctype struct_flowi6"
  by (simp_all add: struct_flowi6_def layout_simps)

definition struct_flowi :: ctype where
  "struct_flowi = CStruct [
    CField ''u'' (CUnion [
      CField ''__fl_common'' struct_flowi_common,
      CField ''ip4'' struct_flowi4,
      CField ''ip6'' struct_flowi6])]"

lemma struct_flowi_layout [layout_simps]:
  "sizeof struct_flowi = 88" "alignof struct_flowi = 8" "wf_ctype struct_flowi"
  by (simp_all add: struct_flowi_def layout_simps)

definition struct_inet_cork_full :: ctype where
  "struct_inet_cork_full = CStruct [
    CField ''base'' struct_inet_cork,
    CField ''fl'' struct_flowi]"

lemma struct_inet_cork_full_layout [layout_simps]:
  "sizeof struct_inet_cork_full = 152" "alignof struct_inet_cork_full = 8" "wf_ctype struct_inet_cork_full"
  by (simp_all add: struct_inet_cork_full_def layout_simps)

definition struct_inet_sock :: ctype where
  "struct_inet_sock = CStruct [
    CField ''sk'' struct_sock,
    CField ''pinet6'' c_u64,
    CField ''inet_flags'' c_u64,
    CField ''inet_saddr'' typedef___be32,
    CField ''uc_ttl'' typedef___s16,
    CField ''inet_sport'' typedef___be16,
    CField ''inet_opt'' c_u64,
    CField ''inet_id'' typedef_atomic_t,
    CField ''tos'' typedef___u8,
    CField ''min_ttl'' typedef___u8,
    CField ''mc_ttl'' typedef___u8,
    CField ''pmtudisc'' typedef___u8,
    CField ''rcv_tos'' typedef___u8,
    CField ''convert_csum'' typedef___u8,
    CField ''uc_index'' c_u32,
    CField ''mc_index'' c_u32,
    CField ''mc_addr'' typedef___be32,
    CField ''local_port_range'' typedef_u32,
    CField ''mc_list'' c_u64,
    CField ''cork'' struct_inet_cork_full]"

lemma struct_inet_sock_layout [layout_simps]:
  "sizeof struct_inet_sock = 1024" "alignof struct_inet_sock = 8" "wf_ctype struct_inet_sock"
  by (simp_all add: struct_inet_sock_def layout_simps)

definition struct_fastopen_queue :: ctype where
  "struct_fastopen_queue = CStruct [
    CField ''rskq_rst_head'' c_u64,
    CField ''rskq_rst_tail'' c_u64,
    CField ''lock'' typedef_spinlock_t,
    CField ''qlen'' c_u32,
    CField ''max_qlen'' c_u32,
    CField ''ctx'' c_u64]"

lemma struct_fastopen_queue_layout [layout_simps]:
  "sizeof struct_fastopen_queue = 40" "alignof struct_fastopen_queue = 8" "wf_ctype struct_fastopen_queue"
  by (simp_all add: struct_fastopen_queue_def layout_simps)

definition struct_request_sock_queue :: ctype where
  "struct_request_sock_queue = CStruct [
    CField ''rskq_lock'' typedef_spinlock_t,
    CField ''rskq_defer_accept'' typedef_u8,
    CField ''synflood_warned'' typedef_u8,
    CField ''qlen'' typedef_atomic_t,
    CField ''young'' typedef_atomic_t,
    CField ''rskq_accept_head'' c_u64,
    CField ''rskq_accept_tail'' c_u64,
    CField ''fastopenq'' struct_fastopen_queue]"

lemma struct_request_sock_queue_layout [layout_simps]:
  "sizeof struct_request_sock_queue = 72" "alignof struct_request_sock_queue = 8" "wf_ctype struct_request_sock_queue"
  by (simp_all add: struct_request_sock_queue_def layout_simps)

definition struct_inet_connection_sock :: ctype where
  "struct_inet_connection_sock = CStruct [
    CField ''icsk_inet'' struct_inet_sock,
    CField ''icsk_accept_queue'' struct_request_sock_queue,
    CField ''icsk_bind_hash'' c_u64,
    CField ''icsk_bind2_hash'' c_u64,
    CField ''icsk_retransmit_timer'' struct_timer_list,
    CField ''icsk_delack_timer'' struct_timer_list,
    CField ''icsk_rto'' typedef___u32,
    CField ''icsk_rto_min'' typedef___u32,
    CField ''icsk_rto_max'' typedef_u32,
    CField ''icsk_delack_max'' typedef___u32,
    CField ''icsk_pmtu_cookie'' typedef___u32,
    CField ''icsk_ca_ops'' c_u64,
    CField ''icsk_af_ops'' c_u64,
    CField ''icsk_ulp_ops'' c_u64,
    CField ''icsk_ulp_data'' c_u64,
    CField ''icsk_sync_mss'' c_u64,
    CBits ''icsk_ca_state'' 1 5,
    CBits ''icsk_ca_initialized'' 1 1,
    CBits ''icsk_ca_setsockopt'' 1 1,
    CBits ''icsk_ca_dst_locked'' 1 1,
    CField ''icsk_retransmits'' typedef___u8,
    CField ''icsk_pending'' typedef___u8,
    CField ''icsk_backoff'' typedef___u8,
    CField ''icsk_syn_retries'' typedef___u8,
    CField ''icsk_probes_out'' typedef___u8,
    CField ''icsk_ext_hdr_len'' typedef___u16,
    CField ''icsk_ack'' (CStruct [
      CField ''pending'' typedef___u8,
      CField ''quick'' typedef___u8,
      CField ''pingpong'' typedef___u8,
      CField ''retry'' typedef___u8,
      CBits ''ato'' 4 8,
      CBits ''lrcv_flowlabel'' 4 20,
      CBits ''dst_quick_ack'' 4 1,
      CBits ''unused'' 4 3,
      CField ''lrcvtime'' typedef___u32,
      CField ''last_seg_size'' typedef___u16,
      CField ''rcv_mss'' typedef___u16]),
    CField ''icsk_mtup'' (CStruct [
      CField ''search_high'' c_u32,
      CField ''search_low'' c_u32,
      CBits ''probe_size'' 4 31,
      CBits ''enabled'' 4 1,
      CField ''probe_timestamp'' typedef_u32]),
    CField ''icsk_probes_tstamp'' typedef_u32,
    CField ''icsk_user_timeout'' typedef_u32,
    CField ''icsk_ca_priv'' (CArray 13 typedef_u64)]"

lemma struct_inet_connection_sock_layout [layout_simps]:
  "sizeof struct_inet_connection_sock = 1408" "alignof struct_inet_connection_sock = 8" "wf_ctype struct_inet_connection_sock"
  by (simp_all add: struct_inet_connection_sock_def layout_simps)

definition struct_minmax_sample :: ctype where
  "struct_minmax_sample = CStruct [
    CField ''t'' typedef_u32,
    CField ''v'' typedef_u32]"

lemma struct_minmax_sample_layout [layout_simps]:
  "sizeof struct_minmax_sample = 8" "alignof struct_minmax_sample = 4" "wf_ctype struct_minmax_sample"
  by (simp_all add: struct_minmax_sample_def layout_simps)

definition struct_minmax :: ctype where
  "struct_minmax = CStruct [
    CField ''s'' (CArray 3 struct_minmax_sample)]"

lemma struct_minmax_layout [layout_simps]:
  "sizeof struct_minmax = 24" "alignof struct_minmax = 4" "wf_ctype struct_minmax"
  by (simp_all add: struct_minmax_def layout_simps)

definition struct_tcp_options_received :: ctype where
  "struct_tcp_options_received = CStruct [
    CField ''ts_recent_stamp'' c_u32,
    CField ''ts_recent'' typedef_u32,
    CField ''rcv_tsval'' typedef_u32,
    CField ''rcv_tsecr'' typedef_u32,
    CBits ''saw_tstamp'' 2 1,
    CBits ''tstamp_ok'' 2 1,
    CBits ''dsack'' 2 1,
    CBits ''wscale_ok'' 2 1,
    CBits ''sack_ok'' 2 3,
    CBits ''smc_ok'' 2 1,
    CBits ''snd_wscale'' 2 4,
    CBits ''rcv_wscale'' 2 4,
    CBits ''accecn'' 1 6,
    CBits ''saw_unknown'' 1 1,
    CBits ''unused'' 1 1,
    CField ''num_sacks'' typedef_u8,
    CField ''user_mss'' typedef_u16,
    CField ''mss_clamp'' typedef_u16]"

lemma struct_tcp_options_received_layout [layout_simps]:
  "sizeof struct_tcp_options_received = 24" "alignof struct_tcp_options_received = 4" "wf_ctype struct_tcp_options_received"
  by (simp_all add: struct_tcp_options_received_def layout_simps)

definition struct_tcp_rack :: ctype where
  "struct_tcp_rack = CStruct [
    CField ''mstamp'' typedef_u64,
    CField ''rtt_us'' typedef_u32,
    CField ''end_seq'' typedef_u32,
    CField ''last_delivered'' typedef_u32,
    CField ''reo_wnd_steps'' typedef_u8,
    CBits ''reo_wnd_persist'' 1 5,
    CBits ''dsack_seen'' 1 1,
    CBits ''advanced'' 1 1]"

lemma struct_tcp_rack_layout [layout_simps]:
  "sizeof struct_tcp_rack = 24" "alignof struct_tcp_rack = 8" "wf_ctype struct_tcp_rack"
  by (simp_all add: struct_tcp_rack_def layout_simps)

definition struct_rb_node :: ctype where
  "struct_rb_node = CStruct [
    CField ''__rb_parent_color'' c_u64,
    CField ''rb_right'' c_u64,
    CField ''rb_left'' c_u64]"

lemma struct_rb_node_layout [layout_simps]:
  "sizeof struct_rb_node = 24" "alignof struct_rb_node = 8" "wf_ctype struct_rb_node"
  by (simp_all add: struct_rb_node_def layout_simps)

definition struct_timerqueue_node :: ctype where
  "struct_timerqueue_node = CStruct [
    CField ''node'' struct_rb_node,
    CField ''expires'' typedef_ktime_t]"

lemma struct_timerqueue_node_layout [layout_simps]:
  "sizeof struct_timerqueue_node = 32" "alignof struct_timerqueue_node = 8" "wf_ctype struct_timerqueue_node"
  by (simp_all add: struct_timerqueue_node_def layout_simps)

definition struct_hrtimer :: ctype where
  "struct_hrtimer = CStruct [
    CField ''node'' struct_timerqueue_node,
    CField ''_softexpires'' typedef_ktime_t,
    CField ''function'' c_u64,
    CField ''base'' c_u64,
    CField ''state'' typedef_u8,
    CField ''is_rel'' typedef_u8,
    CField ''is_soft'' typedef_u8,
    CField ''is_hard'' typedef_u8]"

lemma struct_hrtimer_layout [layout_simps]:
  "sizeof struct_hrtimer = 64" "alignof struct_hrtimer = 8" "wf_ctype struct_hrtimer"
  by (simp_all add: struct_hrtimer_def layout_simps)

definition struct_tcp_sack_block :: ctype where
  "struct_tcp_sack_block = CStruct [
    CField ''start_seq'' typedef_u32,
    CField ''end_seq'' typedef_u32]"

lemma struct_tcp_sack_block_layout [layout_simps]:
  "sizeof struct_tcp_sack_block = 8" "alignof struct_tcp_sack_block = 4" "wf_ctype struct_tcp_sack_block"
  by (simp_all add: struct_tcp_sack_block_def layout_simps)

definition struct_tcp_sock_members_1 :: "cmember list" where
  "struct_tcp_sock_members_1 = [
    CField ''inet_conn'' struct_inet_connection_sock,
    CField ''__cacheline_group_begin__tcp_sock_read_tx'' (CArray 0 typedef___u8),
    CField ''max_window'' typedef_u32,
    CField ''rcv_ssthresh'' typedef_u32,
    CField ''reordering'' typedef_u32,
    CField ''notsent_lowat'' typedef_u32,
    CField ''gso_segs'' typedef_u16,
    CField ''retransmit_skb_hint'' c_u64,
    CField ''tcp_clean_acked'' c_u64,
    CField ''__cacheline_group_end__tcp_sock_read_tx'' (CArray 0 typedef___u8),
    CField ''__cacheline_group_begin__tcp_sock_read_txrx'' (CArray 0 typedef___u8),
    CField ''tsoffset'' typedef_u32,
    CField ''snd_wnd'' typedef_u32,
    CField ''mss_cache'' typedef_u32,
    CField ''snd_cwnd'' typedef_u32,
    CField ''prr_out'' typedef_u32,
    CField ''lost_out'' typedef_u32,
    CField ''sacked_out'' typedef_u32,
    CField ''tcp_header_len'' typedef_u16,
    CField ''scaling_ratio'' typedef_u8,
    CBits ''chrono_type'' 1 2,
    CBits ''repair'' 1 1,
    CBits ''tcp_usec_ts'' 1 1,
    CBits ''is_sack_reneg'' 1 1,
    CBits ''is_cwnd_limited'' 1 1,
    CBits ''recvmsg_inq'' 1 1,
    CField ''__cacheline_group_end__tcp_sock_read_txrx'' (CArray 0 typedef___u8),
    CField ''__cacheline_group_begin__tcp_sock_read_rx'' (CArray 0 typedef___u8),
    CField ''copied_seq'' typedef_u32,
    CField ''snd_wl1'' typedef_u32,
    CField ''tlp_high_seq'' typedef_u32,
    CField ''rttvar_us'' typedef_u32,
    CField ''retrans_out'' typedef_u32,
    CField ''advmss'' typedef_u16,
    CField ''urg_data'' typedef_u16,
    CField ''lost'' typedef_u32,
    CField ''snd_ssthresh'' typedef_u32,
    CField ''rtt_min'' struct_minmax,
    CField ''out_of_order_queue'' struct_rb_root,
    CField ''__cacheline_group_end__tcp_sock_read_rx'' (CArray 0 typedef___u8),
    CBits '''' 8 64,
    CBits '''' 8 64,
    CBits '''' 8 64,
    CBits '''' 8 64,
    CBits '''' 8 64,
    CBits '''' 8 64,
    CBits '''' 8 64,
    CField ''__cacheline_group_begin__tcp_sock_write_tx'' (CArray 0 typedef___u8),
    CField ''segs_out'' typedef_u32,
    CField ''data_segs_out'' typedef_u32,
    CField ''bytes_sent'' typedef_u64,
    CField ''snd_sml'' typedef_u32,
    CField ''chrono_start'' typedef_u32,
    CField ''chrono_stat'' (CArray 3 typedef_u32),
    CField ''write_seq'' typedef_u32,
    CField ''pushed_seq'' typedef_u32,
    CField ''lsndtime'' typedef_u32,
    CField ''mdev_us'' typedef_u32,
    CField ''rtt_seq'' typedef_u32,
    CField ''tcp_wstamp_ns'' typedef_u64,
    CField ''accecn_opt_tstamp'' typedef_u64,
    CField ''tsorted_sent_queue'' struct_list_head,
    CField ''highest_sack'' c_u64,
    CField ''ecn_flags'' typedef_u8,
    CField ''__cacheline_group_end__tcp_sock_write_tx'' (CArray 0 typedef___u8),
    CField ''__cacheline_group_begin__tcp_sock_write_txrx'' (CArray 0 typedef___u8),
    CBits ''nonagle'' 1 4,
    CBits ''rate_app_limited'' 1 1,
    CBits '''' 2 3,
    CBits ''received_ce_pending'' 1 4,
    CBits ''unused2'' 1 4,
    CBits ''accecn_minlen'' 1 2,
    CBits ''est_ecnfield'' 1 2,
    CBits ''accecn_opt_demand'' 1 2,
    CBits ''prev_ecnfield'' 1 2,
    CField ''pred_flags'' typedef___be32,
    CField ''tcp_clock_cache'' typedef_u64,
    CField ''tcp_mstamp'' typedef_u64,
    CField ''rcv_nxt'' typedef_u32,
    CField ''snd_nxt'' typedef_u32,
    CField ''snd_una'' typedef_u32,
    CField ''window_clamp'' typedef_u32,
    CField ''srtt_us'' typedef_u32,
    CField ''packets_out'' typedef_u32,
    CField ''snd_up'' typedef_u32,
    CField ''delivered'' typedef_u32,
    CField ''delivered_ce'' typedef_u32,
    CField ''received_ce'' typedef_u32,
    CField ''received_ecn_bytes'' (CArray 3 typedef_u32),
    CField ''app_limited'' typedef_u32,
    CField ''rcv_wnd'' typedef_u32,
    CField ''rcv_tstamp'' typedef_u32,
    CField ''rx_opt'' struct_tcp_options_received,
    CField ''__cacheline_group_end__tcp_sock_write_txrx'' (CArray 0 typedef___u8),
    CField ''__cacheline_group_begin__tcp_sock_write_rx'' (CArray 0 typedef___u8),
    CField ''bytes_received'' typedef_u64,
    CField ''segs_in'' typedef_u32,
    CField ''data_segs_in'' typedef_u32,
    CField ''rcv_wup'' typedef_u32,
    CField ''max_packets_out'' typedef_u32,
    CField ''cwnd_usage_seq'' typedef_u32,
    CField ''rate_delivered'' typedef_u32,
    CField ''rate_interval_us'' typedef_u32,
    CField ''rcv_rtt_last_tsecr'' typedef_u32,
    CField ''delivered_ecn_bytes'' (CArray 3 typedef_u32),
    CField ''first_tx_mstamp'' typedef_u64,
    CField ''delivered_mstamp'' typedef_u64,
    CField ''bytes_acked'' typedef_u64,
    CField ''rcv_rtt_est'' (CStruct [
      CField ''rtt_us'' typedef_u32,
      CField ''seq'' typedef_u32,
      CField ''time'' typedef_u64]),
    CField ''rcvq_space'' (CStruct [
      CField ''space'' c_u32,
      CField ''seq'' typedef_u32,
      CField ''time'' typedef_u64]),
    CField ''__cacheline_group_end__tcp_sock_write_rx'' (CArray 0 typedef___u8),
    CField ''dsack_dups'' typedef_u32,
    CField ''compressed_ack_rcv_nxt'' typedef_u32,
    CField ''tsq_node'' struct_list_head,
    CField ''rack'' struct_tcp_rack,
    CField ''compressed_ack'' typedef_u8,
    CBits ''dup_ack_counter'' 1 2,
    CBits ''tlp_retrans'' 1 1,
    CBits ''syn_ect_snt'' 1 2,
    CBits ''syn_ect_rcv'' 1 2,
    CBits ''thin_lto'' 1 1,
    CBits ''fastopen_connect'' 1 1,
    CBits ''fastopen_no_cookie'' 1 1,
    CBits ''fastopen_client_fail'' 1 2,
    CBits ''frto'' 1 1,
    CField ''repair_queue'' typedef_u8,
    CBits ''save_syn'' 1 2,
    CBits ''syn_data'' 1 1,
    CBits ''syn_fastopen'' 1 1,
    CBits ''syn_fastopen_exp'' 1 1,
    CBits ''syn_fastopen_ch'' 1 1,
    CBits ''syn_data_acked'' 1 1,
    CBits ''syn_fastopen_child'' 1 1,
    CField ''keepalive_probes'' typedef_u8,
    CBits ''accecn_fail_mode'' 1 4,
    CBits ''saw_accecn_opt'' 1 2]"

definition struct_tcp_sock_members_2 :: "cmember list" where
  "struct_tcp_sock_members_2 = [
    CField ''tcp_tx_delay'' typedef_u32,
    CField ''mdev_max_us'' typedef_u32,
    CField ''reord_seen'' typedef_u32,
    CField ''snd_cwnd_cnt'' typedef_u32,
    CField ''snd_cwnd_clamp'' typedef_u32,
    CField ''snd_cwnd_used'' typedef_u32,
    CField ''snd_cwnd_stamp'' typedef_u32,
    CField ''prior_cwnd'' typedef_u32,
    CField ''prr_delivered'' typedef_u32,
    CField ''last_oow_ack_time'' typedef_u32,
    CField ''pacing_timer'' struct_hrtimer,
    CField ''compressed_ack_timer'' struct_hrtimer,
    CField ''ooo_last_skb'' c_u64,
    CField ''duplicate_sack'' (CArray 1 struct_tcp_sack_block),
    CField ''selective_acks'' (CArray 4 struct_tcp_sack_block),
    CField ''recv_sack_cache'' (CArray 4 struct_tcp_sack_block),
    CField ''prior_ssthresh'' typedef_u32,
    CField ''high_seq'' typedef_u32,
    CField ''retrans_stamp'' typedef_u32,
    CField ''undo_marker'' typedef_u32,
    CField ''undo_retrans'' c_u32,
    CField ''mtu_info'' typedef_u32,
    CField ''bytes_retrans'' typedef_u64,
    CField ''total_retrans'' typedef_u32,
    CField ''rto_stamp'' typedef_u32,
    CField ''total_rto'' typedef_u16,
    CField ''total_rto_recoveries'' typedef_u16,
    CField ''total_rto_time'' typedef_u32,
    CField ''urg_seq'' typedef_u32,
    CField ''keepalive_time'' c_u32,
    CField ''keepalive_intvl'' c_u32,
    CField ''linger2'' c_u32,
    CField ''bpf_sock_ops_cb_flags'' typedef_u8,
    CBits ''bpf_chg_cc_inprogress'' 1 1,
    CField ''timeout_rehash'' typedef_u16,
    CField ''rcv_ooopack'' typedef_u32,
    CField ''mtu_probe'' (CStruct [
      CField ''probe_seq_start'' typedef_u32,
      CField ''probe_seq_end'' typedef_u32]),
    CField ''plb_rehash'' typedef_u32,
    CField ''is_mptcp'' typedef_bool,
    CField ''syn_smc'' typedef_bool,
    CField ''smc_hs_congested'' c_u64,
    CField ''af_specific'' c_u64,
    CField ''md5sig_info'' c_u64,
    CField ''ao_info'' c_u64,
    CField ''fastopen_req'' c_u64,
    CField ''fastopen_rsk'' c_u64,
    CField ''saved_syn'' c_u64]"

definition struct_tcp_sock :: ctype where
  "struct_tcp_sock = CStruct (struct_tcp_sock_members_1 @ struct_tcp_sock_members_2)"

lemmas struct_tcp_sock_defs = struct_tcp_sock_def struct_tcp_sock_members_1_def struct_tcp_sock_members_2_def

lemma struct_tcp_sock_layout [layout_simps]:
  "sizeof struct_tcp_sock = 2368" "alignof struct_tcp_sock = 8" "wf_ctype struct_tcp_sock"
  by (simp_all add: struct_tcp_sock_defs layout_simps)

definition struct_request_sock :: ctype where
  "struct_request_sock = CStruct [
    CField ''__req_common'' struct_sock_common,
    CField ''dl_next'' c_u64,
    CField ''mss'' typedef_u16,
    CField ''num_retrans'' typedef_u8,
    CBits ''syncookie'' 1 1,
    CBits ''num_timeout'' 1 7,
    CField ''ts_recent'' typedef_u32,
    CField ''rsk_timer'' struct_timer_list,
    CField ''rsk_ops'' c_u64,
    CField ''sk'' c_u64,
    CField ''saved_syn'' c_u64,
    CField ''secid'' typedef_u32,
    CField ''peer_secid'' typedef_u32,
    CField ''timeout'' typedef_u32]"

lemma struct_request_sock_layout [layout_simps]:
  "sizeof struct_request_sock = 232" "alignof struct_request_sock = 8" "wf_ctype struct_request_sock"
  by (simp_all add: struct_request_sock_def layout_simps)

definition struct_inet_request_sock :: ctype where
  "struct_inet_request_sock = CStruct [
    CField ''req'' struct_request_sock,
    CBits ''snd_wscale'' 2 4,
    CBits ''rcv_wscale'' 2 4,
    CBits ''tstamp_ok'' 2 1,
    CBits ''sack_ok'' 2 1,
    CBits ''wscale_ok'' 2 1,
    CBits ''ecn_ok'' 2 1,
    CBits ''acked'' 2 1,
    CBits ''no_srccheck'' 2 1,
    CBits ''smc_ok'' 2 1,
    CField ''ir_mark'' typedef_u32,
    CField '''' (CUnion [
      CField ''ireq_opt'' c_u64,
      CField '''' (CStruct [
        CField ''ipv6_opt'' c_u64,
        CField ''pktopts'' c_u64])])]"

lemma struct_inet_request_sock_layout [layout_simps]:
  "sizeof struct_inet_request_sock = 256" "alignof struct_inet_request_sock = 8" "wf_ctype struct_inet_request_sock"
  by (simp_all add: struct_inet_request_sock_def layout_simps)

definition struct_tcp_request_sock :: ctype where
  "struct_tcp_request_sock = CStruct [
    CField ''req'' struct_inet_request_sock,
    CField ''af_specific'' c_u64,
    CField ''snt_synack'' typedef_u64,
    CField ''tfo_listener'' typedef_bool,
    CField ''is_mptcp'' typedef_bool,
    CField ''req_usec_ts'' typedef_bool,
    CField ''drop_req'' typedef_bool,
    CField ''txhash'' typedef_u32,
    CField ''rcv_isn'' typedef_u32,
    CField ''snt_isn'' typedef_u32,
    CField ''ts_off'' typedef_u32,
    CField ''snt_tsval_first'' typedef_u32,
    CField ''snt_tsval_last'' typedef_u32,
    CField ''last_oow_ack_time'' typedef_u32,
    CField ''rcv_nxt'' typedef_u32,
    CField ''syn_tos'' typedef_u8,
    CField ''accecn_ok'' typedef_bool,
    CBits ''syn_ect_snt'' 1 2,
    CBits ''syn_ect_rcv'' 1 2,
    CBits ''accecn_fail_mode'' 1 4,
    CBits ''saw_accecn_opt'' 1 2,
    CField ''ao_keyid'' typedef_u8,
    CField ''ao_rcv_next'' typedef_u8,
    CField ''used_tcp_ao'' typedef_bool]"

lemma struct_tcp_request_sock_layout [layout_simps]:
  "sizeof struct_tcp_request_sock = 320" "alignof struct_tcp_request_sock = 8" "wf_ctype struct_tcp_request_sock"
  by (simp_all add: struct_tcp_request_sock_def layout_simps)

end
