(* ===== verification/Vmlinux_Task.thy ===== *)
theory Vmlinux_Task
  imports Vmlinux_Sock
begin

text \<open>
  Kernel task types of \<open>bpf/headers/vmlinux.h\<close>: \<open>struct task_struct\<close>, from
  which the execve probe reads the parent process, the register frame of a
  kprobe, the context of a syscall tracepoint, and every type they contain
  by value.
\<close>

definition struct_thread_info :: ctype where
  "struct_thread_info = CStruct [
    CField ''flags'' c_u64,
    CField ''syscall_work'' c_u64,
    CField ''status'' typedef_u32,
    CField ''cpu'' typedef_u32]"

lemma struct_thread_info_layout [layout_simps]:
  "sizeof struct_thread_info = 24" "alignof struct_thread_info = 8" "wf_ctype struct_thread_info"
  by (simp_all add: struct_thread_info_def layout_simps)

definition struct_llist_node :: ctype where
  "struct_llist_node = CStruct [
    CField ''next'' c_u64]"

lemma struct_llist_node_layout [layout_simps]:
  "sizeof struct_llist_node = 8" "alignof struct_llist_node = 8" "wf_ctype struct_llist_node"
  by (simp_all add: struct_llist_node_def layout_simps)

definition struct___call_single_node :: ctype where
  "struct___call_single_node = CStruct [
    CField ''llist'' struct_llist_node,
    CField '''' (CUnion [
      CField ''u_flags'' c_u32,
      CField ''a_flags'' typedef_atomic_t]),
    CField ''src'' typedef_u16,
    CField ''dst'' typedef_u16]"

lemma struct___call_single_node_layout [layout_simps]:
  "sizeof struct___call_single_node = 16" "alignof struct___call_single_node = 8" "wf_ctype struct___call_single_node"
  by (simp_all add: struct___call_single_node_def layout_simps)

definition struct_load_weight :: ctype where
  "struct_load_weight = CStruct [
    CField ''weight'' c_u64,
    CField ''inv_weight'' typedef_u32]"

lemma struct_load_weight_layout [layout_simps]:
  "sizeof struct_load_weight = 16" "alignof struct_load_weight = 8" "wf_ctype struct_load_weight"
  by (simp_all add: struct_load_weight_def layout_simps)

definition struct_sched_avg :: ctype where
  "struct_sched_avg = CStruct [
    CField ''last_update_time'' typedef_u64,
    CField ''load_sum'' typedef_u64,
    CField ''runnable_sum'' typedef_u64,
    CField ''util_sum'' typedef_u32,
    CField ''period_contrib'' typedef_u32,
    CField ''load_avg'' c_u64,
    CField ''runnable_avg'' c_u64,
    CField ''util_avg'' c_u64,
    CField ''util_est'' c_u32]"

lemma struct_sched_avg_layout [layout_simps]:
  "sizeof struct_sched_avg = 64" "alignof struct_sched_avg = 8" "wf_ctype struct_sched_avg"
  by (simp_all add: struct_sched_avg_def layout_simps)

definition struct_sched_entity :: ctype where
  "struct_sched_entity = CStruct [
    CField ''load'' struct_load_weight,
    CField ''run_node'' struct_rb_node,
    CField ''deadline'' typedef_u64,
    CField ''min_vruntime'' typedef_u64,
    CField ''min_slice'' typedef_u64,
    CField ''group_node'' struct_list_head,
    CField ''on_rq'' c_u8,
    CField ''sched_delayed'' c_u8,
    CField ''rel_deadline'' c_u8,
    CField ''custom_slice'' c_u8,
    CField ''exec_start'' typedef_u64,
    CField ''sum_exec_runtime'' typedef_u64,
    CField ''prev_sum_exec_runtime'' typedef_u64,
    CField ''vruntime'' typedef_u64,
    CField '''' (CUnion [
      CField ''vlag'' typedef_s64,
      CField ''vprot'' typedef_u64]),
    CField ''slice'' typedef_u64,
    CField ''nr_migrations'' typedef_u64,
    CField ''depth'' c_u32,
    CField ''parent'' c_u64,
    CField ''cfs_rq'' c_u64,
    CField ''my_q'' c_u64,
    CField ''runnable_weight'' c_u64,
    CBits '''' 8 64,
    CField ''avg'' struct_sched_avg]"

lemma struct_sched_entity_layout [layout_simps]:
  "sizeof struct_sched_entity = 256" "alignof struct_sched_entity = 8" "wf_ctype struct_sched_entity"
  by (simp_all add: struct_sched_entity_def layout_simps)

definition struct_sched_rt_entity :: ctype where
  "struct_sched_rt_entity = CStruct [
    CField ''run_list'' struct_list_head,
    CField ''timeout'' c_u64,
    CField ''watchdog_stamp'' c_u64,
    CField ''time_slice'' c_u32,
    CField ''on_rq'' c_u16,
    CField ''on_list'' c_u16,
    CField ''back'' c_u64]"

lemma struct_sched_rt_entity_layout [layout_simps]:
  "sizeof struct_sched_rt_entity = 48" "alignof struct_sched_rt_entity = 8" "wf_ctype struct_sched_rt_entity"
  by (simp_all add: struct_sched_rt_entity_def layout_simps)

definition typedef_dl_server_pick_f :: ctype where
  "typedef_dl_server_pick_f = c_u64"

lemma typedef_dl_server_pick_f_layout [layout_simps]:
  "sizeof typedef_dl_server_pick_f = 8" "alignof typedef_dl_server_pick_f = 8" "wf_ctype typedef_dl_server_pick_f"
  by (simp_all add: typedef_dl_server_pick_f_def layout_simps)

definition struct_sched_dl_entity :: ctype where
  "struct_sched_dl_entity = CStruct [
    CField ''rb_node'' struct_rb_node,
    CField ''dl_runtime'' typedef_u64,
    CField ''dl_deadline'' typedef_u64,
    CField ''dl_period'' typedef_u64,
    CField ''dl_bw'' typedef_u64,
    CField ''dl_density'' typedef_u64,
    CField ''runtime'' typedef_s64,
    CField ''deadline'' typedef_u64,
    CField ''flags'' c_u32,
    CBits ''dl_throttled'' 4 1,
    CBits ''dl_yielded'' 4 1,
    CBits ''dl_non_contending'' 4 1,
    CBits ''dl_overrun'' 4 1,
    CBits ''dl_server'' 4 1,
    CBits ''dl_server_active'' 4 1,
    CBits ''dl_defer'' 4 1,
    CBits ''dl_defer_armed'' 4 1,
    CBits ''dl_defer_running'' 4 1,
    CField ''dl_timer'' struct_hrtimer,
    CField ''inactive_timer'' struct_hrtimer,
    CField ''rq'' c_u64,
    CField ''server_pick_task'' typedef_dl_server_pick_f,
    CField ''pi_se'' c_u64]"

lemma struct_sched_dl_entity_layout [layout_simps]:
  "sizeof struct_sched_dl_entity = 240" "alignof struct_sched_dl_entity = 8" "wf_ctype struct_sched_dl_entity"
  by (simp_all add: struct_sched_dl_entity_def layout_simps)

definition struct_scx_dsq_list_node :: ctype where
  "struct_scx_dsq_list_node = CStruct [
    CField ''node'' struct_list_head,
    CField ''flags'' typedef_u32,
    CField ''priv'' typedef_u32]"

lemma struct_scx_dsq_list_node_layout [layout_simps]:
  "sizeof struct_scx_dsq_list_node = 24" "alignof struct_scx_dsq_list_node = 8" "wf_ctype struct_scx_dsq_list_node"
  by (simp_all add: struct_scx_dsq_list_node_def layout_simps)

definition typedef_s32 :: ctype where
  "typedef_s32 = typedef___s32"

lemma typedef_s32_layout [layout_simps]:
  "sizeof typedef_s32 = 4" "alignof typedef_s32 = 4" "wf_ctype typedef_s32"
  by (simp_all add: typedef_s32_def layout_simps)

definition typedef_atomic_long_t :: ctype where
  "typedef_atomic_long_t = typedef_atomic64_t"

lemma typedef_atomic_long_t_layout [layout_simps]:
  "sizeof typedef_atomic_long_t = 8" "alignof typedef_atomic_long_t = 8" "wf_ctype typedef_atomic_long_t"
  by (simp_all add: typedef_atomic_long_t_def layout_simps)

definition struct_sched_ext_entity :: ctype where
  "struct_sched_ext_entity = CStruct [
    CField ''dsq'' c_u64,
    CField ''dsq_list'' struct_scx_dsq_list_node,
    CField ''dsq_priq'' struct_rb_node,
    CField ''dsq_seq'' typedef_u32,
    CField ''dsq_flags'' typedef_u32,
    CField ''flags'' typedef_u32,
    CField ''weight'' typedef_u32,
    CField ''sticky_cpu'' typedef_s32,
    CField ''holding_cpu'' typedef_s32,
    CField ''selected_cpu'' typedef_s32,
    CField ''kf_mask'' typedef_u32,
    CField ''kf_tasks'' (CArray 2 c_u64),
    CField ''ops_state'' typedef_atomic_long_t,
    CField ''runnable_node'' struct_list_head,
    CField ''runnable_at'' c_u64,
    CField ''core_sched_at'' typedef_u64,
    CField ''ddsp_dsq_id'' typedef_u64,
    CField ''ddsp_enq_flags'' typedef_u64,
    CField ''slice'' typedef_u64,
    CField ''dsq_vtime'' typedef_u64,
    CField ''disallow'' typedef_bool,
    CField ''cgrp_moving_from'' c_u64,
    CField ''tasks_node'' struct_list_head]"

lemma struct_sched_ext_entity_layout [layout_simps]:
  "sizeof struct_sched_ext_entity = 208" "alignof struct_sched_ext_entity = 8" "wf_ctype struct_sched_ext_entity"
  by (simp_all add: struct_sched_ext_entity_def layout_simps)

definition struct_uclamp_se :: ctype where
  "struct_uclamp_se = CStruct [
    CBits ''value'' 4 11,
    CBits ''bucket_id'' 4 3,
    CBits ''active'' 4 1,
    CBits ''user_defined'' 4 1]"

lemma struct_uclamp_se_layout [layout_simps]:
  "sizeof struct_uclamp_se = 4" "alignof struct_uclamp_se = 4" "wf_ctype struct_uclamp_se"
  by (simp_all add: struct_uclamp_se_def layout_simps)

definition struct_sched_statistics :: ctype where
  "struct_sched_statistics = CStruct [
    CField ''wait_start'' typedef_u64,
    CField ''wait_max'' typedef_u64,
    CField ''wait_count'' typedef_u64,
    CField ''wait_sum'' typedef_u64,
    CField ''iowait_count'' typedef_u64,
    CField ''iowait_sum'' typedef_u64,
    CField ''sleep_start'' typedef_u64,
    CField ''sleep_max'' typedef_u64,
    CField ''sum_sleep_runtime'' typedef_s64,
    CField ''block_start'' typedef_u64,
    CField ''block_max'' typedef_u64,
    CField ''sum_block_runtime'' typedef_s64,
    CField ''exec_max'' typedef_s64,
    CField ''slice_max'' typedef_u64,
    CField ''nr_migrations_cold'' typedef_u64,
    CField ''nr_failed_migrations_affine'' typedef_u64,
    CField ''nr_failed_migrations_running'' typedef_u64,
    CField ''nr_failed_migrations_hot'' typedef_u64,
    CField ''nr_forced_migrations'' typedef_u64,
    CField ''nr_wakeups'' typedef_u64,
    CField ''nr_wakeups_sync'' typedef_u64,
    CField ''nr_wakeups_migrate'' typedef_u64,
    CField ''nr_wakeups_local'' typedef_u64,
    CField ''nr_wakeups_remote'' typedef_u64,
    CField ''nr_wakeups_affine'' typedef_u64,
    CField ''nr_wakeups_affine_attempts'' typedef_u64,
    CField ''nr_wakeups_passive'' typedef_u64,
    CField ''nr_wakeups_idle'' typedef_u64,
    CField ''core_forceidle_sum'' typedef_u64,
    CBits '''' 8 64,
    CBits '''' 8 64,
    CBits '''' 8 64]"

lemma struct_sched_statistics_layout [layout_simps]:
  "sizeof struct_sched_statistics = 256" "alignof struct_sched_statistics = 8" "wf_ctype struct_sched_statistics"
  by (simp_all add: struct_sched_statistics_def layout_simps)

definition struct_hlist_head :: ctype where
  "struct_hlist_head = CStruct [
    CField ''first'' c_u64]"

lemma struct_hlist_head_layout [layout_simps]:
  "sizeof struct_hlist_head = 8" "alignof struct_hlist_head = 8" "wf_ctype struct_hlist_head"
  by (simp_all add: struct_hlist_head_def layout_simps)

definition struct_cpumask :: ctype where
  "struct_cpumask = CStruct [
    CField ''bits'' (CArray 128 c_u64)]"

lemma struct_cpumask_layout [layout_simps]:
  "sizeof struct_cpumask = 1024" "alignof struct_cpumask = 8" "wf_ctype struct_cpumask"
  by (simp_all add: struct_cpumask_def layout_simps)

definition typedef_cpumask_t :: ctype where
  "typedef_cpumask_t = struct_cpumask"

lemma typedef_cpumask_t_layout [layout_simps]:
  "sizeof typedef_cpumask_t = 1024" "alignof typedef_cpumask_t = 8" "wf_ctype typedef_cpumask_t"
  by (simp_all add: typedef_cpumask_t_def layout_simps)

definition union_rcu_special :: ctype where
  "union_rcu_special = CUnion [
    CField ''b'' (CStruct [
      CField ''blocked'' typedef_u8,
      CField ''need_qs'' typedef_u8,
      CField ''exp_hint'' typedef_u8,
      CField ''need_mb'' typedef_u8]),
    CField ''s'' typedef_u32]"

lemma union_rcu_special_layout [layout_simps]:
  "sizeof union_rcu_special = 4" "alignof union_rcu_special = 4" "wf_ctype union_rcu_special"
  by (simp_all add: union_rcu_special_def layout_simps)

definition struct_sched_info :: ctype where
  "struct_sched_info = CStruct [
    CField ''pcount'' c_u64,
    CField ''run_delay'' c_u64,
    CField ''max_run_delay'' c_u64,
    CField ''min_run_delay'' c_u64,
    CField ''last_arrival'' c_u64,
    CField ''last_queued'' c_u64]"

lemma struct_sched_info_layout [layout_simps]:
  "sizeof struct_sched_info = 48" "alignof struct_sched_info = 8" "wf_ctype struct_sched_info"
  by (simp_all add: struct_sched_info_def layout_simps)

definition struct_plist_node :: ctype where
  "struct_plist_node = CStruct [
    CField ''prio'' c_u32,
    CField ''prio_list'' struct_list_head,
    CField ''node_list'' struct_list_head]"

lemma struct_plist_node_layout [layout_simps]:
  "sizeof struct_plist_node = 40" "alignof struct_plist_node = 8" "wf_ctype struct_plist_node"
  by (simp_all add: struct_plist_node_def layout_simps)

definition typedef___kernel_clockid_t :: ctype where
  "typedef___kernel_clockid_t = c_u32"

lemma typedef___kernel_clockid_t_layout [layout_simps]:
  "sizeof typedef___kernel_clockid_t = 4" "alignof typedef___kernel_clockid_t = 4" "wf_ctype typedef___kernel_clockid_t"
  by (simp_all add: typedef___kernel_clockid_t_def layout_simps)

definition typedef_clockid_t :: ctype where
  "typedef_clockid_t = typedef___kernel_clockid_t"

lemma typedef_clockid_t_layout [layout_simps]:
  "sizeof typedef_clockid_t = 4" "alignof typedef_clockid_t = 4" "wf_ctype typedef_clockid_t"
  by (simp_all add: typedef_clockid_t_def layout_simps)

definition enum_timespec_type :: ctype where
  "enum_timespec_type = c_u32"

lemma enum_timespec_type_layout [layout_simps]:
  "sizeof enum_timespec_type = 4" "alignof enum_timespec_type = 4" "wf_ctype enum_timespec_type"
  by (simp_all add: enum_timespec_type_def layout_simps)

definition struct_restart_block :: ctype where
  "struct_restart_block = CStruct [
    CField ''arch_data'' c_u64,
    CField ''fn'' c_u64,
    CField '''' (CUnion [
      CField ''futex'' (CStruct [
        CField ''uaddr'' c_u64,
        CField ''val'' typedef_u32,
        CField ''flags'' typedef_u32,
        CField ''bitset'' typedef_u32,
        CField ''time'' typedef_u64,
        CField ''uaddr2'' c_u64]),
      CField ''nanosleep'' (CStruct [
        CField ''clockid'' typedef_clockid_t,
        CField ''type'' enum_timespec_type,
        CField '''' (CUnion [
          CField ''rmtp'' c_u64,
          CField ''compat_rmtp'' c_u64]),
        CField ''expires'' typedef_u64]),
      CField ''poll'' (CStruct [
        CField ''ufds'' c_u64,
        CField ''nfds'' c_u32,
        CField ''has_timeout'' c_u32,
        CField ''tv_sec'' c_u64,
        CField ''tv_nsec'' c_u64])])]"

lemma struct_restart_block_layout [layout_simps]:
  "sizeof struct_restart_block = 56" "alignof struct_restart_block = 8" "wf_ctype struct_restart_block"
  by (simp_all add: struct_restart_block_def layout_simps)

definition typedef___kernel_pid_t :: ctype where
  "typedef___kernel_pid_t = c_u32"

lemma typedef___kernel_pid_t_layout [layout_simps]:
  "sizeof typedef___kernel_pid_t = 4" "alignof typedef___kernel_pid_t = 4" "wf_ctype typedef___kernel_pid_t"
  by (simp_all add: typedef___kernel_pid_t_def layout_simps)

definition typedef_pid_t :: ctype where
  "typedef_pid_t = typedef___kernel_pid_t"

lemma typedef_pid_t_layout [layout_simps]:
  "sizeof typedef_pid_t = 4" "alignof typedef_pid_t = 4" "wf_ctype typedef_pid_t"
  by (simp_all add: typedef_pid_t_def layout_simps)

definition typedef_raw_spinlock_t :: ctype where
  "typedef_raw_spinlock_t = struct_raw_spinlock"

lemma typedef_raw_spinlock_t_layout [layout_simps]:
  "sizeof typedef_raw_spinlock_t = 4" "alignof typedef_raw_spinlock_t = 4" "wf_ctype typedef_raw_spinlock_t"
  by (simp_all add: typedef_raw_spinlock_t_def layout_simps)

definition struct_prev_cputime :: ctype where
  "struct_prev_cputime = CStruct [
    CField ''utime'' typedef_u64,
    CField ''stime'' typedef_u64,
    CField ''lock'' typedef_raw_spinlock_t]"

lemma struct_prev_cputime_layout [layout_simps]:
  "sizeof struct_prev_cputime = 24" "alignof struct_prev_cputime = 8" "wf_ctype struct_prev_cputime"
  by (simp_all add: struct_prev_cputime_def layout_simps)

definition struct_seqcount :: ctype where
  "struct_seqcount = CStruct [
    CField ''sequence'' c_u32]"

lemma struct_seqcount_layout [layout_simps]:
  "sizeof struct_seqcount = 4" "alignof struct_seqcount = 4" "wf_ctype struct_seqcount"
  by (simp_all add: struct_seqcount_def layout_simps)

definition typedef_seqcount_t :: ctype where
  "typedef_seqcount_t = struct_seqcount"

lemma typedef_seqcount_t_layout [layout_simps]:
  "sizeof typedef_seqcount_t = 4" "alignof typedef_seqcount_t = 4" "wf_ctype typedef_seqcount_t"
  by (simp_all add: typedef_seqcount_t_def layout_simps)

definition enum_vtime_state :: ctype where
  "enum_vtime_state = c_u32"

lemma enum_vtime_state_layout [layout_simps]:
  "sizeof enum_vtime_state = 4" "alignof enum_vtime_state = 4" "wf_ctype enum_vtime_state"
  by (simp_all add: enum_vtime_state_def layout_simps)

definition struct_vtime :: ctype where
  "struct_vtime = CStruct [
    CField ''seqcount'' typedef_seqcount_t,
    CField ''starttime'' c_u64,
    CField ''state'' enum_vtime_state,
    CField ''cpu'' c_u32,
    CField ''utime'' typedef_u64,
    CField ''stime'' typedef_u64,
    CField ''gtime'' typedef_u64]"

lemma struct_vtime_layout [layout_simps]:
  "sizeof struct_vtime = 48" "alignof struct_vtime = 8" "wf_ctype struct_vtime"
  by (simp_all add: struct_vtime_def layout_simps)

definition struct_rb_root_cached :: ctype where
  "struct_rb_root_cached = CStruct [
    CField ''rb_root'' struct_rb_root,
    CField ''rb_leftmost'' c_u64]"

lemma struct_rb_root_cached_layout [layout_simps]:
  "sizeof struct_rb_root_cached = 16" "alignof struct_rb_root_cached = 8" "wf_ctype struct_rb_root_cached"
  by (simp_all add: struct_rb_root_cached_def layout_simps)

definition struct_timerqueue_head :: ctype where
  "struct_timerqueue_head = CStruct [
    CField ''rb_root'' struct_rb_root_cached]"

lemma struct_timerqueue_head_layout [layout_simps]:
  "sizeof struct_timerqueue_head = 16" "alignof struct_timerqueue_head = 8" "wf_ctype struct_timerqueue_head"
  by (simp_all add: struct_timerqueue_head_def layout_simps)

definition struct_posix_cputimer_base :: ctype where
  "struct_posix_cputimer_base = CStruct [
    CField ''nextevt'' typedef_u64,
    CField ''tqhead'' struct_timerqueue_head]"

lemma struct_posix_cputimer_base_layout [layout_simps]:
  "sizeof struct_posix_cputimer_base = 24" "alignof struct_posix_cputimer_base = 8" "wf_ctype struct_posix_cputimer_base"
  by (simp_all add: struct_posix_cputimer_base_def layout_simps)

definition struct_posix_cputimers :: ctype where
  "struct_posix_cputimers = CStruct [
    CField ''bases'' (CArray 3 struct_posix_cputimer_base),
    CField ''timers_active'' c_u32,
    CField ''expiry_active'' c_u32]"

lemma struct_posix_cputimers_layout [layout_simps]:
  "sizeof struct_posix_cputimers = 80" "alignof struct_posix_cputimers = 8" "wf_ctype struct_posix_cputimers"
  by (simp_all add: struct_posix_cputimers_def layout_simps)

definition struct_optimistic_spin_queue :: ctype where
  "struct_optimistic_spin_queue = CStruct [
    CField ''tail'' typedef_atomic_t]"

lemma struct_optimistic_spin_queue_layout [layout_simps]:
  "sizeof struct_optimistic_spin_queue = 4" "alignof struct_optimistic_spin_queue = 4" "wf_ctype struct_optimistic_spin_queue"
  by (simp_all add: struct_optimistic_spin_queue_def layout_simps)

definition struct_mutex :: ctype where
  "struct_mutex = CStruct [
    CField ''owner'' typedef_atomic_long_t,
    CField ''wait_lock'' typedef_raw_spinlock_t,
    CField ''osq'' struct_optimistic_spin_queue,
    CField ''wait_list'' struct_list_head]"

lemma struct_mutex_layout [layout_simps]:
  "sizeof struct_mutex = 32" "alignof struct_mutex = 8" "wf_ctype struct_mutex"
  by (simp_all add: struct_mutex_def layout_simps)

definition struct_posix_cputimers_work :: ctype where
  "struct_posix_cputimers_work = CStruct [
    CField ''work'' struct_callback_head,
    CField ''mutex'' struct_mutex,
    CField ''scheduled'' c_u32]"

lemma struct_posix_cputimers_work_layout [layout_simps]:
  "sizeof struct_posix_cputimers_work = 56" "alignof struct_posix_cputimers_work = 8" "wf_ctype struct_posix_cputimers_work"
  by (simp_all add: struct_posix_cputimers_work_def layout_simps)

definition struct_sysv_sem :: ctype where
  "struct_sysv_sem = CStruct [
    CField ''undo_list'' c_u64]"

lemma struct_sysv_sem_layout [layout_simps]:
  "sizeof struct_sysv_sem = 8" "alignof struct_sysv_sem = 8" "wf_ctype struct_sysv_sem"
  by (simp_all add: struct_sysv_sem_def layout_simps)

definition struct_sysv_shm :: ctype where
  "struct_sysv_shm = CStruct [
    CField ''shm_clist'' struct_list_head]"

lemma struct_sysv_shm_layout [layout_simps]:
  "sizeof struct_sysv_shm = 16" "alignof struct_sysv_shm = 8" "wf_ctype struct_sysv_shm"
  by (simp_all add: struct_sysv_shm_def layout_simps)

definition typedef_sigset_t :: ctype where
  "typedef_sigset_t = CStruct [
    CField ''sig'' (CArray 1 c_u64)]"

lemma typedef_sigset_t_layout [layout_simps]:
  "sizeof typedef_sigset_t = 8" "alignof typedef_sigset_t = 8" "wf_ctype typedef_sigset_t"
  by (simp_all add: typedef_sigset_t_def layout_simps)

definition struct_sigpending :: ctype where
  "struct_sigpending = CStruct [
    CField ''list'' struct_list_head,
    CField ''signal'' typedef_sigset_t]"

lemma struct_sigpending_layout [layout_simps]:
  "sizeof struct_sigpending = 24" "alignof struct_sigpending = 8" "wf_ctype struct_sigpending"
  by (simp_all add: struct_sigpending_def layout_simps)

definition typedef___kernel_ulong_t :: ctype where
  "typedef___kernel_ulong_t = c_u64"

lemma typedef___kernel_ulong_t_layout [layout_simps]:
  "sizeof typedef___kernel_ulong_t = 8" "alignof typedef___kernel_ulong_t = 8" "wf_ctype typedef___kernel_ulong_t"
  by (simp_all add: typedef___kernel_ulong_t_def layout_simps)

definition typedef___kernel_size_t :: ctype where
  "typedef___kernel_size_t = typedef___kernel_ulong_t"

lemma typedef___kernel_size_t_layout [layout_simps]:
  "sizeof typedef___kernel_size_t = 8" "alignof typedef___kernel_size_t = 8" "wf_ctype typedef___kernel_size_t"
  by (simp_all add: typedef___kernel_size_t_def layout_simps)

definition typedef_size_t :: ctype where
  "typedef_size_t = typedef___kernel_size_t"

lemma typedef_size_t_layout [layout_simps]:
  "sizeof typedef_size_t = 8" "alignof typedef_size_t = 8" "wf_ctype typedef_size_t"
  by (simp_all add: typedef_size_t_def layout_simps)

definition struct_seccomp :: ctype where
  "struct_seccomp = CStruct [
    CField ''mode'' c_u32,
    CField ''filter_count'' typedef_atomic_t,
    CField ''filter'' c_u64]"

lemma struct_seccomp_layout [layout_simps]:
  "sizeof struct_seccomp = 16" "alignof struct_seccomp = 8" "wf_ctype struct_seccomp"
  by (simp_all add: struct_seccomp_def layout_simps)

definition struct_syscall_user_dispatch :: ctype where
  "struct_syscall_user_dispatch = CStruct [
    CField ''selector'' c_u64,
    CField ''offset'' c_u64,
    CField ''len'' c_u64,
    CField ''on_dispatch'' typedef_bool]"

lemma struct_syscall_user_dispatch_layout [layout_simps]:
  "sizeof struct_syscall_user_dispatch = 32" "alignof struct_syscall_user_dispatch = 8" "wf_ctype struct_syscall_user_dispatch"
  by (simp_all add: struct_syscall_user_dispatch_def layout_simps)

definition struct_wake_q_node :: ctype where
  "struct_wake_q_node = CStruct [
    CField ''next'' c_u64]"

lemma struct_wake_q_node_layout [layout_simps]:
  "sizeof struct_wake_q_node = 8" "alignof struct_wake_q_node = 8" "wf_ctype struct_wake_q_node"
  by (simp_all add: struct_wake_q_node_def layout_simps)

definition struct_task_io_accounting :: ctype where
  "struct_task_io_accounting = CStruct [
    CField ''rchar'' typedef_u64,
    CField ''wchar'' typedef_u64,
    CField ''syscr'' typedef_u64,
    CField ''syscw'' typedef_u64,
    CField ''read_bytes'' typedef_u64,
    CField ''write_bytes'' typedef_u64,
    CField ''cancelled_write_bytes'' typedef_u64]"

lemma struct_task_io_accounting_layout [layout_simps]:
  "sizeof struct_task_io_accounting = 56" "alignof struct_task_io_accounting = 8" "wf_ctype struct_task_io_accounting"
  by (simp_all add: struct_task_io_accounting_def layout_simps)

definition typedef_nodemask_t :: ctype where
  "typedef_nodemask_t = CStruct [
    CField ''bits'' (CArray 16 c_u64)]"

lemma typedef_nodemask_t_layout [layout_simps]:
  "sizeof typedef_nodemask_t = 128" "alignof typedef_nodemask_t = 8" "wf_ctype typedef_nodemask_t"
  by (simp_all add: typedef_nodemask_t_def layout_simps)

definition struct_seqcount_spinlock :: ctype where
  "struct_seqcount_spinlock = CStruct [
    CField ''seqcount'' typedef_seqcount_t]"

lemma struct_seqcount_spinlock_layout [layout_simps]:
  "sizeof struct_seqcount_spinlock = 4" "alignof struct_seqcount_spinlock = 4" "wf_ctype struct_seqcount_spinlock"
  by (simp_all add: struct_seqcount_spinlock_def layout_simps)

definition typedef_seqcount_spinlock_t :: ctype where
  "typedef_seqcount_spinlock_t = struct_seqcount_spinlock"

lemma typedef_seqcount_spinlock_t_layout [layout_simps]:
  "sizeof typedef_seqcount_spinlock_t = 4" "alignof typedef_seqcount_spinlock_t = 4" "wf_ctype typedef_seqcount_spinlock_t"
  by (simp_all add: typedef_seqcount_spinlock_t_def layout_simps)

definition struct_arch_tlbflush_unmap_batch :: ctype where
  "struct_arch_tlbflush_unmap_batch = CStruct [
    CField ''cpumask'' struct_cpumask,
    CField ''unmapped_pages'' typedef_bool]"

lemma struct_arch_tlbflush_unmap_batch_layout [layout_simps]:
  "sizeof struct_arch_tlbflush_unmap_batch = 1032" "alignof struct_arch_tlbflush_unmap_batch = 8" "wf_ctype struct_arch_tlbflush_unmap_batch"
  by (simp_all add: struct_arch_tlbflush_unmap_batch_def layout_simps)

definition struct_tlbflush_unmap_batch :: ctype where
  "struct_tlbflush_unmap_batch = CStruct [
    CField ''arch'' struct_arch_tlbflush_unmap_batch,
    CField ''flush_required'' typedef_bool,
    CField ''writable'' typedef_bool]"

lemma struct_tlbflush_unmap_batch_layout [layout_simps]:
  "sizeof struct_tlbflush_unmap_batch = 1040" "alignof struct_tlbflush_unmap_batch = 8" "wf_ctype struct_tlbflush_unmap_batch"
  by (simp_all add: struct_tlbflush_unmap_batch_def layout_simps)

definition struct_kmap_ctrl :: ctype where
  "struct_kmap_ctrl = CStruct []"

lemma struct_kmap_ctrl_layout [layout_simps]:
  "sizeof struct_kmap_ctrl = 0" "alignof struct_kmap_ctrl = 1" "wf_ctype struct_kmap_ctrl"
  by (simp_all add: struct_kmap_ctrl_def layout_simps)

definition struct_llist_head :: ctype where
  "struct_llist_head = CStruct [
    CField ''first'' c_u64]"

lemma struct_llist_head_layout [layout_simps]:
  "sizeof struct_llist_head = 8" "alignof struct_llist_head = 8" "wf_ctype struct_llist_head"
  by (simp_all add: struct_llist_head_def layout_simps)

definition struct_desc_struct :: ctype where
  "struct_desc_struct = CStruct [
    CField ''limit0'' typedef_u16,
    CField ''base0'' typedef_u16,
    CBits ''base1'' 2 8,
    CBits ''type'' 2 4,
    CBits ''s'' 2 1,
    CBits ''dpl'' 2 2,
    CBits ''p'' 2 1,
    CBits ''limit1'' 2 4,
    CBits ''avl'' 2 1,
    CBits ''l'' 2 1,
    CBits ''d'' 2 1,
    CBits ''g'' 2 1,
    CBits ''base2'' 2 8]"

lemma struct_desc_struct_layout [layout_simps]:
  "sizeof struct_desc_struct = 8" "alignof struct_desc_struct = 2" "wf_ctype struct_desc_struct"
  by (simp_all add: struct_desc_struct_def layout_simps)

definition struct_thread_shstk :: ctype where
  "struct_thread_shstk = CStruct [
    CField ''base'' typedef_u64,
    CField ''size'' typedef_u64]"

lemma struct_thread_shstk_layout [layout_simps]:
  "sizeof struct_thread_shstk = 16" "alignof struct_thread_shstk = 8" "wf_ctype struct_thread_shstk"
  by (simp_all add: struct_thread_shstk_def layout_simps)

definition struct_thread_struct :: ctype where
  "struct_thread_struct = CStruct [
    CField ''tls_array'' (CArray 3 struct_desc_struct),
    CField ''sp'' c_u64,
    CField ''es'' c_u16,
    CField ''ds'' c_u16,
    CField ''fsindex'' c_u16,
    CField ''gsindex'' c_u16,
    CField ''fsbase'' c_u64,
    CField ''gsbase'' c_u64,
    CField ''ptrace_bps'' (CArray 4 c_u64),
    CField ''virtual_dr6'' c_u64,
    CField ''ptrace_dr7'' c_u64,
    CField ''cr2'' c_u64,
    CField ''trap_nr'' c_u64,
    CField ''error_code'' c_u64,
    CField ''io_bitmap'' c_u64,
    CField ''iopl_emul'' c_u64,
    CBits ''iopl_warn'' 4 1,
    CField ''pkru'' typedef_u32,
    CField ''features'' c_u64,
    CField ''features_locked'' c_u64,
    CField ''shstk'' struct_thread_shstk]"

lemma struct_thread_struct_layout [layout_simps]:
  "sizeof struct_thread_struct = 184" "alignof struct_thread_struct = 8" "wf_ctype struct_thread_struct"
  by (simp_all add: struct_thread_struct_def layout_simps)

definition struct_task_struct_members_1 :: "cmember list" where
  "struct_task_struct_members_1 = [
    CField ''thread_info'' struct_thread_info,
    CField ''__state'' c_u32,
    CField ''saved_state'' c_u32,
    CField ''stack'' c_u64,
    CField ''usage'' typedef_refcount_t,
    CField ''flags'' c_u32,
    CField ''ptrace'' c_u32,
    CField ''on_cpu'' c_u32,
    CField ''wake_entry'' struct___call_single_node,
    CField ''wakee_flips'' c_u32,
    CField ''wakee_flip_decay_ts'' c_u64,
    CField ''last_wakee'' c_u64,
    CField ''recent_used_cpu'' c_u32,
    CField ''wake_cpu'' c_u32,
    CField ''on_rq'' c_u32,
    CField ''prio'' c_u32,
    CField ''static_prio'' c_u32,
    CField ''normal_prio'' c_u32,
    CField ''rt_priority'' c_u32,
    CField ''se'' struct_sched_entity,
    CField ''rt'' struct_sched_rt_entity,
    CField ''dl'' struct_sched_dl_entity,
    CField ''dl_server'' c_u64,
    CField ''scx'' struct_sched_ext_entity,
    CField ''sched_class'' c_u64,
    CField ''core_node'' struct_rb_node,
    CField ''core_cookie'' c_u64,
    CField ''core_occupation'' c_u32,
    CField ''sched_task_group'' c_u64,
    CField ''sched_throttle_work'' struct_callback_head,
    CField ''throttle_node'' struct_list_head,
    CField ''throttled'' typedef_bool,
    CField ''uclamp_req'' (CArray 2 struct_uclamp_se),
    CField ''uclamp'' (CArray 2 struct_uclamp_se),
    CBits '''' 8 64,
    CBits '''' 8 64,
    CBits '''' 8 64,
    CField ''stats'' struct_sched_statistics,
    CField ''preempt_notifiers'' struct_hlist_head,
    CField ''btrace_seq'' c_u32,
    CField ''policy'' c_u32,
    CField ''max_allowed_capacity'' c_u64,
    CField ''nr_cpus_allowed'' c_u32,
    CField ''cpus_ptr'' c_u64,
    CField ''user_cpus_ptr'' c_u64,
    CField ''cpus_mask'' typedef_cpumask_t,
    CField ''migration_pending'' c_u64,
    CField ''migration_disabled'' c_u16,
    CField ''migration_flags'' c_u16,
    CField ''rcu_read_lock_nesting'' c_u32,
    CField ''rcu_read_unlock_special'' union_rcu_special,
    CField ''rcu_node_entry'' struct_list_head,
    CField ''rcu_blocked_node'' c_u64,
    CField ''rcu_tasks_nvcsw'' c_u64,
    CField ''rcu_tasks_holdout'' typedef_u8,
    CField ''rcu_tasks_idx'' typedef_u8,
    CField ''rcu_tasks_idle_cpu'' c_u32,
    CField ''rcu_tasks_holdout_list'' struct_list_head,
    CField ''rcu_tasks_exit_cpu'' c_u32,
    CField ''rcu_tasks_exit_list'' struct_list_head,
    CField ''trc_reader_nesting'' c_u32,
    CField ''trc_ipi_to_cpu'' c_u32,
    CField ''trc_reader_special'' union_rcu_special,
    CField ''trc_holdout_list'' struct_list_head,
    CField ''trc_blkd_node'' struct_list_head,
    CField ''trc_blkd_cpu'' c_u32,
    CField ''sched_info'' struct_sched_info,
    CField ''tasks'' struct_list_head,
    CField ''pushable_tasks'' struct_plist_node,
    CField ''pushable_dl_tasks'' struct_rb_node,
    CField ''mm'' c_u64,
    CField ''active_mm'' c_u64,
    CField ''faults_disabled_mapping'' c_u64,
    CField ''exit_state'' c_u32,
    CField ''exit_code'' c_u32,
    CField ''exit_signal'' c_u32,
    CField ''pdeath_signal'' c_u32,
    CField ''jobctl'' c_u64,
    CField ''personality'' c_u32,
    CBits ''sched_reset_on_fork'' 4 1,
    CBits ''sched_contributes_to_load'' 4 1,
    CBits ''sched_migrated'' 4 1,
    CBits ''sched_task_hot'' 4 1,
    CBits '''' 8 28,
    CBits ''sched_remote_wakeup'' 4 1,
    CBits ''sched_rt_mutex'' 4 1,
    CBits ''in_execve'' 4 1,
    CBits ''in_iowait'' 4 1,
    CBits ''restore_sigmask'' 4 1,
    CBits ''in_lru_fault'' 4 1,
    CBits ''no_cgroup_migration'' 4 1,
    CBits ''frozen'' 4 1,
    CBits ''use_memdelay'' 4 1,
    CBits ''in_memstall'' 4 1,
    CBits ''in_eventfd'' 4 1,
    CBits ''pasid_activated'' 4 1,
    CBits ''reported_split_lock'' 4 1,
    CBits ''in_thrashing'' 4 1,
    CBits ''in_nf_duplicate'' 4 1,
    CField ''atomic_flags'' c_u64,
    CField ''restart_block'' struct_restart_block,
    CField ''pid'' typedef_pid_t,
    CField ''tgid'' typedef_pid_t,
    CField ''stack_canary'' c_u64,
    CField ''real_parent'' c_u64,
    CField ''parent'' c_u64,
    CField ''children'' struct_list_head,
    CField ''sibling'' struct_list_head,
    CField ''group_leader'' c_u64,
    CField ''ptraced'' struct_list_head,
    CField ''ptrace_entry'' struct_list_head,
    CField ''thread_pid'' c_u64,
    CField ''pid_links'' (CArray 4 struct_hlist_node),
    CField ''thread_node'' struct_list_head,
    CField ''vfork_done'' c_u64,
    CField ''set_child_tid'' c_u64,
    CField ''clear_child_tid'' c_u64,
    CField ''worker_private'' c_u64,
    CField ''utime'' typedef_u64,
    CField ''stime'' typedef_u64,
    CField ''gtime'' typedef_u64,
    CField ''prev_cputime'' struct_prev_cputime,
    CField ''vtime'' struct_vtime,
    CField ''tick_dep_mask'' typedef_atomic_t,
    CField ''nvcsw'' c_u64,
    CField ''nivcsw'' c_u64,
    CField ''start_time'' typedef_u64,
    CField ''start_boottime'' typedef_u64,
    CField ''min_flt'' c_u64,
    CField ''maj_flt'' c_u64,
    CField ''posix_cputimers'' struct_posix_cputimers,
    CField ''posix_cputimers_work'' struct_posix_cputimers_work,
    CField ''ptracer_cred'' c_u64,
    CField ''real_cred'' c_u64,
    CField ''cred'' c_u64,
    CField ''cached_requested_key'' c_u64,
    CField ''comm'' (CArray 16 c_u8),
    CField ''nameidata'' c_u64,
    CField ''sysvsem'' struct_sysv_sem,
    CField ''sysvshm'' struct_sysv_shm,
    CField ''last_switch_count'' c_u64,
    CField ''last_switch_time'' c_u64,
    CField ''fs'' c_u64,
    CField ''files'' c_u64]"

definition struct_task_struct_members_2 :: "cmember list" where
  "struct_task_struct_members_2 = [
    CField ''io_uring'' c_u64,
    CField ''nsproxy'' c_u64,
    CField ''signal'' c_u64,
    CField ''sighand'' c_u64,
    CField ''blocked'' typedef_sigset_t,
    CField ''real_blocked'' typedef_sigset_t,
    CField ''saved_sigmask'' typedef_sigset_t,
    CField ''pending'' struct_sigpending,
    CField ''sas_ss_sp'' c_u64,
    CField ''sas_ss_size'' typedef_size_t,
    CField ''sas_ss_flags'' c_u32,
    CField ''task_works'' c_u64,
    CField ''audit_context'' c_u64,
    CField ''loginuid'' typedef_kuid_t,
    CField ''sessionid'' c_u32,
    CField ''seccomp'' struct_seccomp,
    CField ''syscall_dispatch'' struct_syscall_user_dispatch,
    CField ''parent_exec_id'' typedef_u64,
    CField ''self_exec_id'' typedef_u64,
    CField ''alloc_lock'' typedef_spinlock_t,
    CField ''pi_lock'' typedef_raw_spinlock_t,
    CField ''wake_q'' struct_wake_q_node,
    CField ''pi_waiters'' struct_rb_root_cached,
    CField ''pi_top_task'' c_u64,
    CField ''pi_blocked_on'' c_u64,
    CField ''blocked_on'' c_u64,
    CField ''blocker'' c_u64,
    CField ''journal_info'' c_u64,
    CField ''bio_list'' c_u64,
    CField ''plug'' c_u64,
    CField ''reclaim_state'' c_u64,
    CField ''io_context'' c_u64,
    CField ''capture_control'' c_u64,
    CField ''ptrace_message'' c_u64,
    CField ''last_siginfo'' c_u64,
    CField ''ioac'' struct_task_io_accounting,
    CField ''psi_flags'' c_u32,
    CField ''acct_rss_mem1'' typedef_u64,
    CField ''acct_vm_mem1'' typedef_u64,
    CField ''acct_timexpd'' typedef_u64,
    CField ''mems_allowed'' typedef_nodemask_t,
    CField ''mems_allowed_seq'' typedef_seqcount_spinlock_t,
    CField ''cpuset_mem_spread_rotor'' c_u32,
    CField ''cgroups'' c_u64,
    CField ''cg_list'' struct_list_head,
    CField ''closid'' typedef_u32,
    CField ''rmid'' typedef_u32,
    CField ''robust_list'' c_u64,
    CField ''compat_robust_list'' c_u64,
    CField ''pi_state_list'' struct_list_head,
    CField ''pi_state_cache'' c_u64,
    CField ''futex_exit_mutex'' struct_mutex,
    CField ''futex_state'' c_u32,
    CField ''perf_recursion'' (CArray 4 typedef_u8),
    CField ''perf_event_ctxp'' c_u64,
    CField ''perf_event_mutex'' struct_mutex,
    CField ''perf_event_list'' struct_list_head,
    CField ''perf_ctx_data'' c_u64,
    CField ''mempolicy'' c_u64,
    CField ''il_prev'' c_u16,
    CField ''il_weight'' typedef_u8,
    CField ''pref_node_fork'' c_u16,
    CField ''numa_scan_seq'' c_u32,
    CField ''numa_scan_period'' c_u32,
    CField ''numa_scan_period_max'' c_u32,
    CField ''numa_preferred_nid'' c_u32,
    CField ''numa_migrate_retry'' c_u64,
    CField ''node_stamp'' typedef_u64,
    CField ''last_task_numa_placement'' typedef_u64,
    CField ''last_sum_exec_runtime'' typedef_u64,
    CField ''numa_work'' struct_callback_head,
    CField ''numa_group'' c_u64,
    CField ''numa_faults'' c_u64,
    CField ''total_numa_faults'' c_u64,
    CField ''numa_faults_locality'' (CArray 3 c_u64),
    CField ''numa_pages_migrated'' c_u64,
    CField ''rseq'' c_u64,
    CField ''rseq_len'' typedef_u32,
    CField ''rseq_sig'' typedef_u32,
    CField ''rseq_event_mask'' c_u64,
    CField ''mm_cid'' c_u32,
    CField ''last_mm_cid'' c_u32,
    CField ''migrate_from_cpu'' c_u32,
    CField ''mm_cid_active'' c_u32,
    CField ''cid_work'' struct_callback_head,
    CField ''tlb_ubc'' struct_tlbflush_unmap_batch,
    CField ''splice_pipe'' c_u64,
    CField ''task_frag'' struct_page_frag,
    CField ''delays'' c_u64,
    CField ''nr_dirtied'' c_u32,
    CField ''nr_dirtied_pause'' c_u32,
    CField ''dirty_paused_when'' c_u64,
    CField ''timer_slack_ns'' typedef_u64,
    CField ''default_timer_slack_ns'' typedef_u64,
    CField ''curr_ret_stack'' c_u32,
    CField ''curr_ret_depth'' c_u32,
    CField ''ret_stack'' c_u64,
    CField ''ftrace_timestamp'' c_u64,
    CField ''ftrace_sleeptime'' c_u64,
    CField ''trace_overrun'' typedef_atomic_t,
    CField ''tracing_graph_pause'' typedef_atomic_t,
    CField ''trace_recursion'' c_u64,
    CField ''memcg_nr_pages_over_high'' c_u32,
    CField ''active_memcg'' c_u64,
    CField ''objcg'' c_u64,
    CField ''throttle_disk'' c_u64,
    CField ''utask'' c_u64,
    CField ''sequential_io'' c_u32,
    CField ''sequential_io_avg'' c_u32,
    CField ''kmap_ctrl'' struct_kmap_ctrl,
    CField ''rcu'' struct_callback_head,
    CField ''rcu_users'' typedef_refcount_t,
    CField ''pagefault_disabled'' c_u32,
    CField ''oom_reaper_list'' c_u64,
    CField ''oom_reaper_timer'' struct_timer_list,
    CField ''stack_vm_area'' c_u64,
    CField ''stack_refcount'' typedef_refcount_t,
    CField ''security'' c_u64,
    CField ''bpf_storage'' c_u64,
    CField ''bpf_ctx'' c_u64,
    CField ''bpf_net_context'' c_u64,
    CField ''mce_vaddr'' c_u64,
    CField ''mce_kflags'' typedef___u64,
    CField ''mce_addr'' typedef_u64,
    CBits ''mce_ripv'' 8 1,
    CBits ''mce_whole_page'' 8 1,
    CBits ''__mce_reserved'' 8 62,
    CField ''mce_kill_me'' struct_callback_head,
    CField ''mce_count'' c_u32,
    CField ''kretprobe_instances'' struct_llist_head,
    CField ''rethooks'' struct_llist_head,
    CField ''l1d_flush_kill'' struct_callback_head,
    CField ''user_event_mm'' c_u64,
    CField ''thread'' struct_thread_struct,
    CBits '''' 8 64,
    CBits '''' 8 64,
    CBits '''' 8 64,
    CBits '''' 8 64,
    CBits '''' 8 64,
    CBits '''' 8 64]"

definition struct_task_struct :: ctype where
  "struct_task_struct = CStruct (struct_task_struct_members_1 @ struct_task_struct_members_2)"

lemmas struct_task_struct_defs = struct_task_struct_def struct_task_struct_members_1_def struct_task_struct_members_2_def

lemma struct_task_struct_layout [layout_simps]:
  "sizeof struct_task_struct = 5952" "alignof struct_task_struct = 8" "wf_ctype struct_task_struct"
  by (simp_all add: struct_task_struct_defs layout_simps)

definition struct_fred_cs :: ctype where
  "struct_fred_cs = CStruct [
    CBits ''cs'' 8 16,
    CBits ''sl'' 8 2,
    CBits ''wfe'' 8 1]"

lemma struct_fred_cs_layout [layout_simps]:
  "sizeof struct_fred_cs = 8" "alignof struct_fred_cs = 8" "wf_ctype struct_fred_cs"
  by (simp_all add: struct_fred_cs_def layout_simps)

definition struct_fred_ss :: ctype where
  "struct_fred_ss = CStruct [
    CBits ''ss'' 8 16,
    CBits ''sti'' 8 1,
    CBits ''swevent'' 8 1,
    CBits ''nmi'' 8 1,
    CBits '''' 4 13,
    CBits ''vector'' 8 8,
    CBits '''' 2 8,
    CBits ''type'' 8 4,
    CBits '''' 1 4,
    CBits ''enclave'' 8 1,
    CBits ''lm'' 8 1,
    CBits ''nested'' 8 1,
    CBits '''' 1 1,
    CBits ''insnlen'' 8 4]"

lemma struct_fred_ss_layout [layout_simps]:
  "sizeof struct_fred_ss = 8" "alignof struct_fred_ss = 8" "wf_ctype struct_fred_ss"
  by (simp_all add: struct_fred_ss_def layout_simps)

definition struct_pt_regs :: ctype where
  "struct_pt_regs = CStruct [
    CField ''r15'' c_u64,
    CField ''r14'' c_u64,
    CField ''r13'' c_u64,
    CField ''r12'' c_u64,
    CField ''bp'' c_u64,
    CField ''bx'' c_u64,
    CField ''r11'' c_u64,
    CField ''r10'' c_u64,
    CField ''r9'' c_u64,
    CField ''r8'' c_u64,
    CField ''ax'' c_u64,
    CField ''cx'' c_u64,
    CField ''dx'' c_u64,
    CField ''si'' c_u64,
    CField ''di'' c_u64,
    CField ''orig_ax'' c_u64,
    CField ''ip'' c_u64,
    CField '''' (CUnion [
      CField ''cs'' typedef_u16,
      CField ''csx'' typedef_u64,
      CField ''fred_cs'' struct_fred_cs]),
    CField ''flags'' c_u64,
    CField ''sp'' c_u64,
    CField '''' (CUnion [
      CField ''ss'' typedef_u16,
      CField ''ssx'' typedef_u64,
      CField ''fred_ss'' struct_fred_ss])]"

lemma struct_pt_regs_layout [layout_simps]:
  "sizeof struct_pt_regs = 168" "alignof struct_pt_regs = 8" "wf_ctype struct_pt_regs"
  by (simp_all add: struct_pt_regs_def layout_simps)

definition struct_trace_entry :: ctype where
  "struct_trace_entry = CStruct [
    CField ''type'' c_u16,
    CField ''flags'' c_u8,
    CField ''preempt_count'' c_u8,
    CField ''pid'' c_u32]"

lemma struct_trace_entry_layout [layout_simps]:
  "sizeof struct_trace_entry = 8" "alignof struct_trace_entry = 4" "wf_ctype struct_trace_entry"
  by (simp_all add: struct_trace_entry_def layout_simps)

definition struct_trace_event_raw_sys_enter :: ctype where
  "struct_trace_event_raw_sys_enter = CStruct [
    CField ''ent'' struct_trace_entry,
    CField ''id'' c_u64,
    CField ''args'' (CArray 6 c_u64),
    CField ''__data'' (CArray 0 c_u8)]"

lemma struct_trace_event_raw_sys_enter_layout [layout_simps]:
  "sizeof struct_trace_event_raw_sys_enter = 64" "alignof struct_trace_event_raw_sys_enter = 8" "wf_ctype struct_trace_event_raw_sys_enter"
  by (simp_all add: struct_trace_event_raw_sys_enter_def layout_simps)

end
