(* ===== verification/Monitor.thy ===== *)
theory Monitor
  imports Vmlinux_Task
begin

text \<open>
  The kernel half of the program, \<open>bpf/monitor.c\<close>: the event record, the ring
  buffer and the four probe handlers, at the level of bytes. A handler reads
  kernel memory at the offsets that the types of \<open>vmlinux.h\<close> give, writes the
  fields of the reserved sample at the offsets of \<open>struct event\<close>, and submits
  it. The BPF helpers, the ring buffer's memory and kernel memory itself are
  kernel code: they enter as the environment \<open>bpf_env\<close>.
\<close>

section \<open>The event record\<close>

definition EVENT_NET_CONNECT :: u8 where "EVENT_NET_CONNECT = 1"
definition EVENT_NET_ACCEPT :: u8 where "EVENT_NET_ACCEPT = 2"
definition EVENT_NET_CLOSE :: u8 where "EVENT_NET_CLOSE = 3"
definition EVENT_FILE_OPEN :: u8 where "EVENT_FILE_OPEN = 4"
definition EVENT_EXEC :: u8 where "EVENT_EXEC = 5"

lemmas event_type_defs = EVENT_NET_CONNECT_def EVENT_NET_ACCEPT_def EVENT_NET_CLOSE_def
  EVENT_FILE_OPEN_def EVENT_EXEC_def

definition struct_event :: ctype where
  "struct_event = CStruct [
     CField ''pid'' c_u32,
     CField ''cgroup_id'' c_u64,
     CField ''timestamp'' c_u64,
     CField ''event_type'' c_u8,
     CField ''src_addr'' c_u32,
     CField ''src_port'' c_u16,
     CField ''dst_addr'' c_u32,
     CField ''dst_port'' c_u16,
     CField ''comm'' (CArray 16 c_u8),
     CField ''filepath'' (CArray 256 c_u8),
     CField ''ppid'' c_u32,
     CField ''parent_comm'' (CArray 16 c_u8),
     CField ''flags'' c_u32]"

text \<open>Position and size of a member; \<open>x->f = v\<close> is a store there.\<close>

definition fieldof :: "ctype \<Rightarrow> string list \<Rightarrow> nat \<times> nat" where
  "fieldof t fs = (case path_at t fs of Some (off, u) \<Rightarrow> (off, sizeof u) | None \<Rightarrow> (0, 0))"

definition get_field :: "string \<Rightarrow> bytes \<Rightarrow> bytes" where
  "get_field f ev = (case fieldof struct_event [f] of (off, n) \<Rightarrow> load off n ev)"

definition set_field :: "string \<Rightarrow> bytes \<Rightarrow> bytes \<Rightarrow> bytes" where
  "set_field f bs ev = (case fieldof struct_event [f] of (off, n) \<Rightarrow> store off bs ev)"

section \<open>The environment of a handler\<close>

text \<open>
  What the kernel supplies while a handler runs. \<open>bpf_probe_read_kernel a n\<close>
  is the content of the \<open>n\<close>-byte destination after the helper has read kernel
  address \<open>a\<close>; the string helpers map the old content of their destination to
  its new content; \<open>bpf_ringbuf_reserve\<close> yields the reserved sample, whose
  bytes are whatever the ring buffer held before, or nothing when the buffer
  is full.
\<close>

record bpf_env =
  bpf_get_current_pid_tgid :: u64
  bpf_get_current_cgroup_id :: u64
  bpf_ktime_get_ns :: u64
  bpf_get_current_task :: u64
  bpf_get_current_comm :: "bytes \<Rightarrow> bytes"
  bpf_probe_read_kernel :: "u64 \<Rightarrow> nat \<Rightarrow> bytes"
  bpf_probe_read_user_str :: "u64 \<Rightarrow> bytes \<Rightarrow> bytes"
  bpf_probe_read_kernel_str :: "bytes \<Rightarrow> bytes \<Rightarrow> bytes"
  bpf_ringbuf_reserve :: "nat \<Rightarrow> bytes option"

text \<open>The ring buffer map \<open>events\<close>: the submitted samples, oldest first.\<close>

type_synonym ringbuf = "bytes list"

definition bpf_ringbuf_submit :: "bytes \<Rightarrow> ringbuf \<Rightarrow> ringbuf" where
  "bpf_ringbuf_submit ev rb = rb @ [ev]"

text \<open>\<open>BPF_CORE_READ(p, f)\<close>: the bytes of member \<open>f\<close> of the object at \<open>p\<close>.\<close>

definition core_read :: "bpf_env \<Rightarrow> ctype \<Rightarrow> string list \<Rightarrow> u64 \<Rightarrow> bytes" where
  "core_read env t fs p =
     (case fieldof t fs of (off, n) \<Rightarrow> bpf_probe_read_kernel env (p + of_nat off) n)"

definition bpf_htons :: "u16 \<Rightarrow> u16" where
  "bpf_htons w = push_bit 8 w OR drop_bit 8 w"

section \<open>The handlers\<close>

text \<open>\<open>fill_common_fields\<close> does nothing on a null event.\<close>

definition fill_common_fields :: "bpf_env \<Rightarrow> bytes option \<Rightarrow> u8 \<Rightarrow> bytes option" where
  "fill_common_fields env event ty =
     (case event of
        None \<Rightarrow> None
      | Some ev \<Rightarrow>
          (let ev = set_field ''event_type'' (le_encode 1 ty) ev;
               ev = set_field ''pid''
                      (le_encode 4 (ucast (drop_bit 32 (bpf_get_current_pid_tgid env)) :: u32)) ev;
               ev = set_field ''cgroup_id'' (le_encode 8 (bpf_get_current_cgroup_id env)) ev;
               ev = set_field ''timestamp'' (le_encode 8 (bpf_ktime_get_ns env)) ev;
               ev = set_field ''comm'' (bpf_get_current_comm env (get_field ''comm'' ev)) ev
           in Some ev))"

text \<open>
  The body shared by the two socket probes: local address and port from
  \<open>skc_rcv_saddr\<close> and \<open>skc_num\<close> (host order), remote ones from \<open>skc_daddr\<close> and
  \<open>skc_dport\<close> (network order, hence the byte swap).
\<close>

definition sock_fields :: "bpf_env \<Rightarrow> u64 \<Rightarrow> bytes \<Rightarrow> bytes" where
  "sock_fields env sk ev =
     (let ev = set_field ''src_addr''
                 (le_encode 4 (le_decode (core_read env struct_sock [''__sk_common'', ''skc_rcv_saddr''] sk) :: u32)) ev;
          ev = set_field ''dst_addr''
                 (le_encode 4 (le_decode (core_read env struct_sock [''__sk_common'', ''skc_daddr''] sk) :: u32)) ev;
          ev = set_field ''src_port''
                 (le_encode 2 (le_decode (core_read env struct_sock [''__sk_common'', ''skc_num''] sk) :: u16)) ev;
          ev = set_field ''dst_port''
                 (le_encode 2 (bpf_htons
                   (le_decode (core_read env struct_sock [''__sk_common'', ''skc_dport''] sk)))) ev
      in ev)"

definition AF_INET :: u16 where "AF_INET = 2"

definition tcp_connect :: "bpf_env \<Rightarrow> u64 \<Rightarrow> ringbuf \<Rightarrow> int \<times> ringbuf" where
  "tcp_connect env sk rb =
     (if sk = 0 then (0, rb)
      else
        let family = le_decode (core_read env struct_sock [''__sk_common'', ''skc_family''] sk) :: u16
        in if family \<noteq> AF_INET then (0, rb)
           else case bpf_ringbuf_reserve env (sizeof struct_event) of
                  None \<Rightarrow> (0, rb)
                | Some event \<Rightarrow>
                    (case fill_common_fields env (Some event) EVENT_NET_CONNECT of
                       None \<Rightarrow> (0, rb)
                     | Some ev \<Rightarrow> (0, bpf_ringbuf_submit (sock_fields env sk ev) rb)))"

definition inet_csk_accept :: "bpf_env \<Rightarrow> u64 \<Rightarrow> ringbuf \<Rightarrow> int \<times> ringbuf" where
  "inet_csk_accept env sk rb =
     (if sk = 0 then (0, rb)
      else
        let family = le_decode (core_read env struct_sock [''__sk_common'', ''skc_family''] sk) :: u16
        in if family \<noteq> AF_INET then (0, rb)
           else case bpf_ringbuf_reserve env (sizeof struct_event) of
                  None \<Rightarrow> (0, rb)
                | Some event \<Rightarrow>
                    (case fill_common_fields env (Some event) EVENT_NET_ACCEPT of
                       None \<Rightarrow> (0, rb)
                     | Some ev \<Rightarrow> (0, bpf_ringbuf_submit (sock_fields env sk ev) rb)))"

text \<open>\<open>ctx->args[i]\<close> of a syscall tracepoint, read from the context's bytes.\<close>

definition ctx_arg :: "bytes \<Rightarrow> nat \<Rightarrow> u64" where
  "ctx_arg ctx i = le_decode (load (fst (fieldof struct_trace_event_raw_sys_enter [''args'']) + 8 * i) 8 ctx)"

definition handle_openat :: "bpf_env \<Rightarrow> bytes \<Rightarrow> ringbuf \<Rightarrow> int \<times> ringbuf" where
  "handle_openat env ctx rb =
     (let cgroup_id = bpf_get_current_cgroup_id env
      in if cgroup_id = 0 then (0, rb)
         else case bpf_ringbuf_reserve env (sizeof struct_event) of
                None \<Rightarrow> (0, rb)
              | Some event \<Rightarrow>
                  (case fill_common_fields env (Some event) EVENT_FILE_OPEN of
                     None \<Rightarrow> (0, rb)
                   | Some ev \<Rightarrow>
                       (let pathname = ctx_arg ctx 1;
                            ev = set_field ''filepath''
                                   (bpf_probe_read_user_str env pathname (get_field ''filepath'' ev)) ev;
                            ev = set_field ''flags'' (le_encode 4 (ucast (ctx_arg ctx 2) :: u32)) ev
                        in (0, bpf_ringbuf_submit ev rb))))"

definition handle_execve :: "bpf_env \<Rightarrow> bytes \<Rightarrow> ringbuf \<Rightarrow> int \<times> ringbuf" where
  "handle_execve env ctx rb =
     (let cgroup_id = bpf_get_current_cgroup_id env
      in if cgroup_id = 0 then (0, rb)
         else case bpf_ringbuf_reserve env (sizeof struct_event) of
                None \<Rightarrow> (0, rb)
              | Some event \<Rightarrow>
                  (case fill_common_fields env (Some event) EVENT_EXEC of
                     None \<Rightarrow> (0, rb)
                   | Some ev \<Rightarrow>
                       (let pathname = ctx_arg ctx 0;
                            ev = set_field ''filepath''
                                   (bpf_probe_read_user_str env pathname (get_field ''filepath'' ev)) ev;
                            task = bpf_get_current_task env;
                            parent = le_decode (core_read env struct_task_struct [''real_parent''] task) :: u64;
                            ev = set_field ''ppid''
                                   (le_encode 4 (le_decode (core_read env struct_task_struct [''tgid''] parent) :: u32)) ev;
                            ev = set_field ''parent_comm''
                                   (bpf_probe_read_kernel_str env
                                      (core_read env struct_task_struct [''comm''] parent)
                                      (get_field ''parent_comm'' ev)) ev
                        in (0, bpf_ringbuf_submit ev rb))))"

section \<open>What the helpers promise\<close>

text \<open>
  The documented behaviour of the helpers on which the handlers rely. A
  string helper leaves a NUL-terminated string at the start of its
  destination and may leave the bytes after it as they were; \<open>comm\<close> is the
  name of the current task, \<open>ustr a\<close> the (possibly truncated) user string at
  \<open>a\<close>. A reserved sample has the requested size.
\<close>

definition cstr_write :: "bytes \<Rightarrow> bytes \<Rightarrow> bytes \<Rightarrow> bool" where
  "cstr_write dst s dst' \<longleftrightarrow>
     length dst' = length dst \<and> length s < length dst \<and> 0 \<notin> set s \<and>
     take (Suc (length s)) dst' = s @ [0]"

definition bpf_env_ok :: "bpf_env \<Rightarrow> bytes \<Rightarrow> (u64 \<Rightarrow> bytes) \<Rightarrow> bool" where
  "bpf_env_ok env comm ustr \<longleftrightarrow>
     (\<forall>buf. length buf = 16 \<longrightarrow> cstr_write buf comm (bpf_get_current_comm env buf)) \<and>
     (\<forall>a n. length (bpf_probe_read_kernel env a n) = n) \<and>
     (\<forall>a buf. length buf = 256 \<longrightarrow> cstr_write buf (ustr a) (bpf_probe_read_user_str env a buf)) \<and>
     (\<forall>src buf. length src = 16 \<longrightarrow> length buf = 16 \<longrightarrow>
        cstr_write buf (take 15 (takeWhile (\<lambda>b. b \<noteq> 0) src)) (bpf_probe_read_kernel_str env src buf)) \<and>
     (\<forall>n b. bpf_ringbuf_reserve env n = Some b \<longrightarrow> length b = n)"

section \<open>Layout of the objects the handlers touch\<close>

lemma sizeof_struct_event [layout_simps]: "sizeof struct_event = 344"
  by (simp add: struct_event_def layout_simps)

lemma wf_struct_event: "wf_ctype struct_event"
  by (simp add: struct_event_def)

lemma event_fields [bytes_simps]:
  "fieldof struct_event [''pid''] = (0, 4)"
  "fieldof struct_event [''cgroup_id''] = (8, 8)"
  "fieldof struct_event [''timestamp''] = (16, 8)"
  "fieldof struct_event [''event_type''] = (24, 1)"
  "fieldof struct_event [''src_addr''] = (28, 4)"
  "fieldof struct_event [''src_port''] = (32, 2)"
  "fieldof struct_event [''dst_addr''] = (36, 4)"
  "fieldof struct_event [''dst_port''] = (40, 2)"
  "fieldof struct_event [''comm''] = (42, 16)"
  "fieldof struct_event [''filepath''] = (58, 256)"
  "fieldof struct_event [''ppid''] = (316, 4)"
  "fieldof struct_event [''parent_comm''] = (320, 16)"
  "fieldof struct_event [''flags''] = (336, 4)"
  by (simp_all add: fieldof_def struct_event_def layout_simps)

lemma sock_fieldof [bytes_simps]:
  "fieldof struct_sock [''__sk_common'', ''skc_daddr''] = (0, 4)"
  "fieldof struct_sock [''__sk_common'', ''skc_rcv_saddr''] = (4, 4)"
  "fieldof struct_sock [''__sk_common'', ''skc_dport''] = (12, 2)"
  "fieldof struct_sock [''__sk_common'', ''skc_num''] = (14, 2)"
  "fieldof struct_sock [''__sk_common'', ''skc_family''] = (16, 2)"
  by (simp_all add: fieldof_def struct_sock_def struct_sock_common_def layout_simps)

lemma task_fieldof [bytes_simps]:
  "fieldof struct_task_struct [''tgid''] = (2772, 4)"
  "fieldof struct_task_struct [''real_parent''] = (2784, 8)"
  "fieldof struct_task_struct [''comm''] = (3312, 16)"
  by (simp_all add: fieldof_def struct_task_struct_defs layout_simps)

lemma args_fieldof [bytes_simps]:
  "fieldof struct_trace_event_raw_sys_enter [''args''] = (16, 48)"
  by (simp add: fieldof_def struct_trace_event_raw_sys_enter_def layout_simps)

section \<open>Effect of the common part\<close>

lemma bpf_env_okD:
  assumes "bpf_env_ok env comm ustr"
  shows "length buf = 16 \<Longrightarrow> cstr_write buf comm (bpf_get_current_comm env buf)"
    and "length (bpf_probe_read_kernel env a n) = n"
    and "length buf = 256 \<Longrightarrow> cstr_write buf (ustr a) (bpf_probe_read_user_str env a buf)"
    and "length src = 16 \<Longrightarrow> length buf = 16 \<Longrightarrow>
       cstr_write buf (take 15 (takeWhile (\<lambda>b. b \<noteq> 0) src)) (bpf_probe_read_kernel_str env src buf)"
    and "bpf_ringbuf_reserve env n = Some b \<Longrightarrow> length b = n"
  using assms by (simp_all add: bpf_env_ok_def)

lemma cstr_write_length: "cstr_write dst s dst' \<Longrightarrow> length dst' = length dst"
  by (simp add: cstr_write_def)

lemma helper_lengths:
  assumes "bpf_env_ok env comm ustr"
  shows "length buf = 16 \<Longrightarrow> length (bpf_get_current_comm env buf) = 16"
    and "length buf = 256 \<Longrightarrow> length (bpf_probe_read_user_str env a buf) = 256"
    and "length src = 16 \<Longrightarrow> length buf = 16 \<Longrightarrow> length (bpf_probe_read_kernel_str env src buf) = 16"
  using bpf_env_okD [OF assms] cstr_write_length by metis+

lemmas field_defs = set_field_def get_field_def

text \<open>
  \<open>common_part env ty stale ev\<close>: the sample \<open>ev\<close> carries what
  \<open>fill_common_fields\<close> writes. Stores to the other members keep it.
\<close>

definition common_part :: "bpf_env \<Rightarrow> u8 \<Rightarrow> bytes \<Rightarrow> bytes \<Rightarrow> bool" where
  "common_part env ty stale ev \<longleftrightarrow>
     length ev = 344 \<and>
     load 0 4 ev = le_encode 4 (ucast (drop_bit 32 (bpf_get_current_pid_tgid env)) :: u32) \<and>
     load 8 8 ev = le_encode 8 (bpf_get_current_cgroup_id env) \<and>
     load 16 8 ev = le_encode 8 (bpf_ktime_get_ns env) \<and>
     load 24 1 ev = le_encode 1 ty \<and>
     load 42 16 ev = bpf_get_current_comm env (load 42 16 stale)"

lemma fill_common_fields_part:
  assumes ok: "bpf_env_ok env comm ustr" and len: "length ev = 344"
  shows "\<exists>ev'. fill_common_fields env (Some ev) ty = Some ev' \<and> common_part env ty ev ev'"
proof -
  let ?cm = "bpf_get_current_comm env (load 42 16 ev)"
  define ev' where "ev' = store 42 ?cm (store 16 (le_encode 8 (bpf_ktime_get_ns env))
     (store 8 (le_encode 8 (bpf_get_current_cgroup_id env))
       (store 0 (le_encode 4 (ucast (drop_bit 32 (bpf_get_current_pid_tgid env)) :: u32))
         (store 24 (le_encode 1 ty) ev))))"
  have cm: "length ?cm = 16" using helper_lengths(1) [OF ok] len by (simp add: bytes_simps)
  note simps = bytes_simps cm len
  have "fill_common_fields env (Some ev) ty = Some ev'"
    by (simp add: fill_common_fields_def field_defs ev'_def Let_def simps)
  moreover have "common_part env ty ev ev'"
    by (simp add: common_part_def ev'_def simps)
  ultimately show ?thesis by blast
qed

lemma common_part_store:
  assumes "common_part env ty stale ev" and "off + length bs \<le> 344"
    and "58 \<le> off \<or> 28 \<le> off \<and> off + length bs \<le> 42"
  shows "common_part env ty stale (store off bs ev)"
  using assms by (auto simp: common_part_def bytes_simps)

lemma common_part_length: "common_part env ty stale ev \<Longrightarrow> length ev = 344"
  by (simp add: common_part_def)

lemma fill_common_fields_total: "fill_common_fields env (Some ev) ty \<noteq> None"
  by (simp add: fill_common_fields_def Let_def)

end
