(* ===== verification/GoLib.thy ===== *)
theory GoLib
  imports Prelude "HOL-Library.Sublist"
begin

text \<open>
  The parts of the Go language and its standard library that the program
  uses: strings as byte sequences and the functions of package \<open>strings\<close>,
  decimal conversion (\<open>strconv.ParseUint\<close> and the verb \<open>%d\<close>), and points and
  spans of time (package \<open>time\<close>).
\<close>

section \<open>Strings\<close>

text \<open>A Go string is a sequence of bytes; \<open>string(b)\<close> copies a byte slice.\<close>

definition go_string :: "bytes \<Rightarrow> string" where
  "go_string bs = map (\<lambda>b. char_of (unat b)) bs"

definition HasPrefix :: "string \<Rightarrow> string \<Rightarrow> bool" where
  "HasPrefix s p \<longleftrightarrow> prefix p s"

definition HasSuffix :: "string \<Rightarrow> string \<Rightarrow> bool" where
  "HasSuffix s p \<longleftrightarrow> suffix p s"

definition TrimPrefix :: "string \<Rightarrow> string \<Rightarrow> string" where
  "TrimPrefix s p = (if prefix p s then drop (length p) s else s)"

text \<open>
  White space as \<open>unicode.IsSpace\<close> defines it: six ASCII characters, and the
  UTF-8 images of U+0085, U+00A0, U+1680, U+2000 to U+200A, U+2028, U+2029,
  U+202F, U+205F and U+3000.
\<close>

definition space_tokens :: "string list" where
  "space_tokens =
     map (map char_of)
       ([[9], [10], [11], [12], [13], [32], [194, 133], [194, 160], [225, 154, 128]]
        @ map (\<lambda>k. [226, 128, k]) ([128..<139] @ [168, 169, 175])
        @ [[226, 129, 159], [227, 128, 128::nat]])"

text \<open>\<open>head_token ts s\<close> is the length of a token of \<open>ts\<close> at the head of \<open>s\<close>, or 0.\<close>

fun head_token :: "string list \<Rightarrow> string \<Rightarrow> nat" where
  "head_token [] s = 0"
| "head_token (t # ts) s = (if prefix t s then length t else head_token ts s)"

function strip_tokens :: "string list \<Rightarrow> string \<Rightarrow> string" where
  "strip_tokens ts s =
     (if head_token ts s = 0 \<or> s = [] then s else strip_tokens ts (drop (head_token ts s) s))"
  by pat_completeness auto
termination
  by (relation "measure (\<lambda>(ts, s). length s)") auto

declare strip_tokens.simps [simp del]

definition TrimSpace :: "string \<Rightarrow> string" where
  "TrimSpace s =
     rev (strip_tokens (map rev space_tokens) (rev (strip_tokens space_tokens s)))"

text \<open>\<open>strings.Trim\<close> with a cutset of ASCII characters.\<close>

definition Trim :: "string \<Rightarrow> string \<Rightarrow> string" where
  "Trim s cutset =
     rev (dropWhile (\<lambda>c. c \<in> set cutset) (rev (dropWhile (\<lambda>c. c \<in> set cutset) s)))"

text \<open>
  \<open>cut sep s\<close> splits at the first occurrence of a non-empty separator;
  \<open>Split\<close>, \<open>SplitN\<close> with limit 2 and \<open>Contains\<close> are built from it.
\<close>

fun cut :: "string \<Rightarrow> string \<Rightarrow> (string \<times> string) option" where
  "cut sep [] = None"
| "cut sep (c # s) =
     (if prefix sep (c # s) then Some ([], drop (length sep) (c # s))
      else map_option (\<lambda>(a, b). (c # a, b)) (cut sep s))"

lemma cut_shorter: "cut sep s = Some (a, b) \<Longrightarrow> sep \<noteq> [] \<Longrightarrow> length b < length s"
  by (induction s arbitrary: a) (auto split: if_splits simp: Suc_le_eq)

definition Contains :: "string \<Rightarrow> string \<Rightarrow> bool" where
  "Contains s sep \<longleftrightarrow> cut sep s \<noteq> None"

definition SplitN2 :: "string \<Rightarrow> string \<Rightarrow> string list" where
  "SplitN2 s sep = (case cut sep s of None \<Rightarrow> [s] | Some (a, b) \<Rightarrow> [a, b])"

function Split :: "string \<Rightarrow> string \<Rightarrow> string list" where
  "Split s sep =
     (if sep = [] then [s]
      else case cut sep s of None \<Rightarrow> [s] | Some (a, b) \<Rightarrow> a # Split b sep)"
  by pat_completeness auto
termination
  by (relation "measure (\<lambda>(s, sep). length s)") (auto dest: cut_shorter)

declare Split.simps [simp del]

fun Join :: "string list \<Rightarrow> string \<Rightarrow> string" where
  "Join [] sep = []"
| "Join [s] sep = s"
| "Join (s # t # ss) sep = s @ sep @ Join (t # ss) sep"

text \<open>
  Splitting at a separator that is a single character that no part contains
  undoes joining.
\<close>

lemma cut_append_sep:
  "c \<notin> set a \<Longrightarrow> cut [c] (a @ c # b) = Some (a, b)"
  by (induction a) auto

lemma cut_none: "c \<notin> set a \<Longrightarrow> cut [c] a = None"
  by (induction a) auto

lemma Split_cons: "c \<notin> set a \<Longrightarrow> Split (a @ c # b) [c] = a # Split b [c]"
  by (subst Split.simps) (simp add: cut_append_sep)

lemma Split_last: "c \<notin> set a \<Longrightarrow> Split a [c] = [a]"
  by (subst Split.simps) (simp add: cut_none)

lemma Split_Join:
  "ss \<noteq> [] \<Longrightarrow> \<forall>s\<in>set ss. c \<notin> set s \<Longrightarrow> Split (Join ss [c]) [c] = ss"
  by (induction ss rule: induct_list012) (simp_all add: Split_cons Split_last)

lemma Join_inject:
  assumes "\<forall>s\<in>set ss. c \<notin> set s" and "\<forall>t\<in>set ts. c \<notin> set t"
    and "ss \<noteq> []" and "ts \<noteq> []" and "Join ss [c] = Join ts [c]"
  shows "ss = ts"
  using Split_Join [of ss c] Split_Join [of ts c] assms by metis

text \<open>Text without white space at its ends is not trimmed.\<close>

lemma head_token_other:
  "(\<And>t. t \<in> set ts \<Longrightarrow> t \<noteq> [] \<and> hd t \<noteq> c) \<Longrightarrow> head_token ts (c # s) = 0"
proof (induction ts)
  case (Cons t ts)
  from Cons.prems [of t] obtain d u where "t = d # u" "d \<noteq> c" by (auto simp: neq_Nil_conv)
  then have "\<not> prefix t (c # s)" by simp
  with Cons show ?case by simp
qed simp

definition graphic :: "char \<Rightarrow> bool" where
  "graphic c \<longleftrightarrow> of_char c \<in> {33..126::nat}"

lemma space_token_ends:
  assumes "t \<in> set space_tokens" and "graphic c"
  shows "t \<noteq> []" and "hd t \<noteq> c" and "last t \<noteq> c"
  using assms by (auto simp: space_tokens_def graphic_def upt_rec)

lemma strip_graphic:
  assumes "s \<noteq> []" and "graphic (hd s)"
  shows "strip_tokens space_tokens s = s" and "strip_tokens (map rev space_tokens) s = s"
proof -
  obtain c u where s: "s = c # u" using assms(1) by (cases s) auto
  from assms(2) s have c: "graphic c" by simp
  have "head_token space_tokens s = 0"
    unfolding s by (rule head_token_other) (use space_token_ends [OF _ c] in blast)
  moreover have "head_token (map rev space_tokens) s = 0"
    unfolding s
  proof (rule head_token_other)
    fix t assume "t \<in> set (map rev space_tokens)"
    then obtain u where "u \<in> set space_tokens" and t: "t = rev u" by auto
    from space_token_ends(1,3) [OF this(1) c] show "t \<noteq> [] \<and> hd t \<noteq> c"
      by (simp add: t hd_rev)
  qed
  ultimately have "head_token space_tokens s = 0" and "head_token (map rev space_tokens) s = 0"
    by blast+
  then show "strip_tokens space_tokens s = s" and "strip_tokens (map rev space_tokens) s = s"
    by (subst strip_tokens.simps, simp)+
qed

lemma TrimSpace_graphic:
  "s \<noteq> [] \<Longrightarrow> graphic (hd s) \<Longrightarrow> graphic (last s) \<Longrightarrow> TrimSpace s = s"
  by (simp add: TrimSpace_def strip_graphic hd_rev)

lemma Trim_other:
  "s \<noteq> [] \<Longrightarrow> hd s \<notin> set cs \<Longrightarrow> last s \<notin> set cs \<Longrightarrow> Trim s cs = s"
proof -
  have "dropWhile (\<lambda>c. c \<in> set cs) u = u" if "u \<noteq> []" "hd u \<notin> set cs" for u
    using that by (cases u) auto
  then show "s \<noteq> [] \<Longrightarrow> hd s \<notin> set cs \<Longrightarrow> last s \<notin> set cs \<Longrightarrow> Trim s cs = s"
    by (simp add: Trim_def hd_rev)
qed

text \<open>A line feed at the end is trimmed.\<close>

lemma TrimSpace_newline:
  assumes "s \<noteq> []" and "graphic (hd s)" and "graphic (last s)"
  shows "TrimSpace (s @ [CHR 0x0A]) = s"
proof -
  have "head_token (map rev space_tokens) (CHR 0x0A # rev s) = 1"
  proof -
    obtain rest where st: "space_tokens = [CHR 0x09] # [CHR 0x0A] # rest"
      by (simp add: space_tokens_def char_of_def bit_0)
    show ?thesis unfolding st by simp
  qed
  then have "strip_tokens (map rev space_tokens) (CHR 0x0A # rev s) = strip_tokens (map rev space_tokens) (rev s)"
    by (subst strip_tokens.simps) simp
  moreover have "strip_tokens space_tokens (s @ [CHR 0x0A]) = s @ [CHR 0x0A]"
    using assms by (intro strip_graphic) simp_all
  ultimately show ?thesis using assms by (simp add: TrimSpace_def strip_graphic hd_rev)
qed

section \<open>Decimal numbers\<close>

text \<open>The verb \<open>%d\<close> on an unsigned value.\<close>

definition digit_char :: "nat \<Rightarrow> char" where
  "digit_char d = char_of (48 + d)"

fun dec :: "nat \<Rightarrow> string" where
  "dec n = (if n < 10 then [digit_char n] else dec (n div 10) @ [digit_char (n mod 10)])"

declare dec.simps [simp del]

definition is_digit :: "char \<Rightarrow> bool" where
  "is_digit c \<longleftrightarrow> of_char c \<in> {48..57::nat}"

definition digit_val :: "char \<Rightarrow> nat" where
  "digit_val c = of_char c - 48"

text \<open>
  \<open>strconv.ParseUint(s, 10, bits)\<close>: the value and whether there was an error.
  A syntax error returns 0, a value out of range the largest value of the
  width.
\<close>

datatype num_error = ErrSyntax | ErrRange

fun parse_uint :: "nat \<Rightarrow> nat \<Rightarrow> string \<Rightarrow> nat \<times> num_error option" where
  "parse_uint maxVal n [] = (n, None)"
| "parse_uint maxVal n (c # cs) =
     (if \<not> is_digit c then (0, Some ErrSyntax)
      else if maxVal < 10 * n + digit_val c then (maxVal, Some ErrRange)
      else parse_uint maxVal (10 * n + digit_val c) cs)"

definition ParseUint :: "string \<Rightarrow> nat \<Rightarrow> nat \<times> num_error option" where
  "ParseUint s bits =
     (if s = [] then (0, Some ErrSyntax) else parse_uint (2 ^ bits - 1) 0 s)"

lemma digit_char_val:
  assumes "d < 10"
  shows "is_digit (digit_char d)" and "digit_val (digit_char d) = d"
  using assms by (simp_all add: is_digit_def digit_val_def digit_char_def)

lemma parse_uint_append:
  "parse_uint m n (a @ b) =
     (case parse_uint m n a of (v, None) \<Rightarrow> parse_uint m v b | r \<Rightarrow> r)"
  by (induction a arbitrary: n) auto

lemma parse_uint_bound: "n \<le> m \<Longrightarrow> fst (parse_uint m n s) \<le> m"
  by (induction s arbitrary: n) auto

lemma ParseUint_bound: "fst (ParseUint s bits) < 2 ^ bits"
proof -
  have "fst (parse_uint (2 ^ bits - 1) 0 s) \<le> 2 ^ bits - 1"
    by (rule parse_uint_bound) simp
  then have "fst (parse_uint (2 ^ bits - 1) 0 s) < 2 ^ bits"
    by (rule le_less_trans) simp
  then show ?thesis by (simp add: ParseUint_def)
qed

text \<open>Printing in decimal and parsing back.\<close>

lemma dec_nonempty: "dec n \<noteq> []"
  by (subst dec.simps) simp

lemma dec_digits: "\<forall>c\<in>set (dec n). is_digit c"
proof (induction n rule: dec.induct)
  case (1 n)
  show ?case
  proof (cases "n < 10")
    case True
    then show ?thesis by (subst dec.simps) (simp add: digit_char_val)
  next
    case False
    with 1 show ?thesis by (subst dec.simps) (simp add: digit_char_val)
  qed
qed

lemma parse_dec: "n \<le> m \<Longrightarrow> parse_uint m 0 (dec n) = (n, None)"
proof (induction n rule: dec.induct)
  case (1 n)
  show ?case
  proof (cases "n < 10")
    case True
    with 1 show ?thesis by (subst dec.simps) (simp add: digit_char_val)
  next
    case False
    with 1 have "parse_uint m 0 (dec (n div 10)) = (n div 10, None)"
      by (simp add: order_trans [OF div_le_dividend])
    with False 1 show ?thesis
      by (subst dec.simps) (simp add: parse_uint_append digit_char_val mult_div_mod_eq)
  qed
qed

lemma ParseUint_dec: "n < 2 ^ bits \<Longrightarrow> ParseUint (dec n) bits = (n, None)"
  using parse_dec [of n "2 ^ bits - 1"] by (simp add: ParseUint_def dec_nonempty)

lemma dec_inject: "dec m = dec n \<longleftrightarrow> m = n"
proof
  assume eq: "dec m = dec n"
  have "parse_uint (max m n) 0 (dec m) = (m, None)" by (rule parse_dec) simp
  moreover have "parse_uint (max m n) 0 (dec n) = (n, None)" by (rule parse_dec) simp
  ultimately show "m = n" using eq by (metis prod.inject)
qed simp

text \<open>\<open>strings.Fields\<close>: the maximal runs between white space.\<close>

function Fields_from :: "string \<Rightarrow> string \<Rightarrow> string list" where
  "Fields_from cur s =
     (if s = [] then (if cur = [] then [] else [cur])
      else if head_token space_tokens s \<noteq> 0
      then (if cur = [] then [] else [cur])
             @ Fields_from [] (drop (head_token space_tokens s) s)
      else Fields_from (cur @ [hd s]) (tl s))"
  by pat_completeness auto
termination
  by (relation "measure (\<lambda>(cur, s). length s)") auto

declare Fields_from.simps [simp del]

definition Fields :: "string \<Rightarrow> string list" where
  "Fields s = Fields_from [] s"

section \<open>Time\<close>

text \<open>
  A \<open>time.Time\<close> is its wall clock reading in nanoseconds since the Unix
  epoch, a \<open>time.Duration\<close> a signed 64-bit number of nanoseconds.
  \<open>Time.Sub\<close> saturates at the ends of that range. The zero \<open>time.Time\<close> is
  midnight of 1 January of year 1.
\<close>

type_synonym go_time = int
type_synonym duration = int

definition time_Second :: duration where "time_Second = 1000000000"

definition zero_time :: go_time where "zero_time = - 62135596800 * 1000000000"

definition time_Unix :: "int \<Rightarrow> int \<Rightarrow> go_time" where
  "time_Unix sec nsec = sec * 1000000000 + nsec"

definition time_Add :: "go_time \<Rightarrow> duration \<Rightarrow> go_time" where
  "time_Add t d = t + d"

definition time_Sub :: "go_time \<Rightarrow> go_time \<Rightarrow> duration" where
  "time_Sub t u = max (- (2 ^ 63)) (min (2 ^ 63 - 1) (t - u))"

lemma time_Sub_mono: "t \<le> t' \<Longrightarrow> time_Sub t u \<le> time_Sub t' u"
  by (simp add: time_Sub_def)

lemma time_Sub_antimono: "u \<le> u' \<Longrightarrow> time_Sub t u' \<le> time_Sub t u"
  by (simp add: time_Sub_def)

lemma time_Sub_self [simp]: "time_Sub t t = 0"
  by (simp add: time_Sub_def)

lemma time_Sub_gt_iff:
  "- (2 ^ 63) \<le> d \<Longrightarrow> d < 2 ^ 63 - 1 \<Longrightarrow> d < time_Sub t u \<longleftrightarrow> u + d < t"
  by (auto simp: time_Sub_def)

end
