(* ===== verification/Helpers.thy ===== *)
theory Helpers
  imports GoLib
begin

text \<open>
  Package \<open>internal/helpers\<close>: C strings and open flags (\<open>string.go\<close>), IPv4
  addresses (\<open>network.go\<close>) and the conversion of kernel time stamps
  (\<open>time.go\<close>).
\<close>

section \<open>string.go\<close>

text \<open>The loop of \<open>NullTermStr\<close> over the remaining bytes, at index \<open>i\<close> of \<open>b\<close>.\<close>

fun NullTermStr_loop :: "bytes \<Rightarrow> nat \<Rightarrow> bytes \<Rightarrow> string" where
  "NullTermStr_loop b i [] = go_string b"
| "NullTermStr_loop b i (c # cs) =
     (if c = 0 then go_string (take i b) else NullTermStr_loop b (Suc i) cs)"

definition NullTermStr :: "bytes \<Rightarrow> string" where
  "NullTermStr b = NullTermStr_loop b 0 b"

definition OpenFlagsToOp :: "u32 \<Rightarrow> string" where
  "OpenFlagsToOp flags =
     (let O_WRONLY = 0x1; O_RDWR = 0x2; O_CREAT = 0x40
      in if flags AND (O_WRONLY OR O_RDWR OR O_CREAT) \<noteq> 0 then ''write'' else ''read'')"

lemma NullTermStr_loop_eq:
  "i \<le> length b \<Longrightarrow> 0 \<notin> set (take i b) \<Longrightarrow>
   NullTermStr_loop b i (drop i b) = go_string (takeWhile (\<lambda>c. c \<noteq> 0) b)"
proof (induction "length b - i" arbitrary: i)
  case 0
  then have "i = length b" by simp
  with 0 have "takeWhile (\<lambda>c. c \<noteq> 0) b = b"
    by (auto simp: takeWhile_eq_all_conv)
  with \<open>i = length b\<close> show ?case by (simp del: takeWhile_eq_all_conv)
next
  case (Suc n)
  then have i: "i < length b" by simp
  then have drop: "drop i b = b ! i # drop (Suc i) b" by (rule Cons_nth_drop_Suc [symmetric])
  show ?case
  proof (cases "b ! i = 0")
    case True
    have "takeWhile (\<lambda>c. c \<noteq> 0) (take i b @ b ! i # drop (Suc i) b) = take i b"
      using Suc.prems True by (subst takeWhile_append2) auto
    then have "takeWhile (\<lambda>c. c \<noteq> 0) b = take i b"
      using id_take_nth_drop [OF i] by simp
    then show ?thesis by (simp add: drop True)
  next
    case False
    then have "0 \<notin> set (take (Suc i) b)"
      using Suc.prems i by (simp add: take_Suc_conv_app_nth)
    with Suc.hyps(1) [of "Suc i"] Suc.hyps(2) i False show ?thesis by (simp add: drop)
  qed
qed

text \<open>\<open>NullTermStr\<close> is the string before the first zero byte.\<close>

lemma NullTermStr_eq: "NullTermStr b = go_string (takeWhile (\<lambda>c. c \<noteq> 0) b)"
  using NullTermStr_loop_eq [of 0 b] by (simp add: NullTermStr_def)

lemma NullTermStr_cstring:
  assumes "take (Suc (length s)) b = s @ [0]" and "0 \<notin> set s"
  shows "NullTermStr b = go_string s"
proof -
  have "b = (s @ [0]) @ drop (Suc (length s)) b"
    using append_take_drop_id [of "Suc (length s)" b] assms(1) by simp
  then have "takeWhile (\<lambda>c. c \<noteq> 0) b = takeWhile (\<lambda>c. c \<noteq> 0) (s @ 0 # drop (Suc (length s)) b)"
    by simp
  also have "\<dots> = s" using assms(2) by (subst takeWhile_append2) auto
  finally show ?thesis by (simp add: NullTermStr_eq)
qed

text \<open>An open is a write exactly when one of the bits 0, 1 and 6 is set.\<close>

lemma OpenFlagsToOp_write_iff:
  "OpenFlagsToOp flags = ''write'' \<longleftrightarrow> bit flags 0 \<or> bit flags 1 \<or> bit flags 6"
proof -
  have "flags AND (1 OR 2 OR 64) = 0 \<longleftrightarrow>
      flags AND 2 ^ 0 = 0 \<and> flags AND 2 ^ 1 = 0 \<and> flags AND 2 ^ 6 = 0"
    unfolding bit.conj_disj_distrib or_eq_0_iff by simp
  then have "flags AND (1 OR 2 OR 64) = 0 \<longleftrightarrow> \<not> bit flags 0 \<and> \<not> bit flags 1 \<and> \<not> bit flags 6"
    unfolding and_exp_eq_0_iff_not_bit .
  then show ?thesis by (simp add: OpenFlagsToOp_def)
qed

section \<open>network.go\<close>

text \<open>
  \<open>BytesToIPv4\<close> stores the address little-endian, which undoes the load of a
  big-endian kernel field on a little-endian machine, and prints the four
  bytes as \<open>net.IP.String\<close> does for a 4-byte address.
\<close>

definition BytesToIPv4 :: "u32 \<Rightarrow> string" where
  "BytesToIPv4 data = (let ip = le_encode 4 data in Join (map (\<lambda>b. dec (unat b)) ip) ''.'')"

section \<open>time.go\<close>

text \<open>
  The package variable \<open>bootTime\<close> is set by \<open>init\<close> from \<open>/proc/stat\<close>: to the
  current time when the file cannot be read, to the seconds of the first
  \<open>btime\<close> line otherwise, and left at the zero time when there is none.
  Indexing \<open>fields[1]\<close> panics when that line has no second field; a failed
  \<open>ParseUint\<close> is ignored.
\<close>

fun boot_time_lines :: "string list \<Rightarrow> go_time go" where
  "boot_time_lines [] = Inr zero_time"
| "boot_time_lines (line # lines) =
     (if HasPrefix line ''btime '' then
        (case Fields line of
           _ # secs_field # _ \<Rightarrow>
             (let secs = of_nat (fst (ParseUint secs_field 64)) :: u64
              in Inr (time_Unix (sint secs) 0))
         | _ \<Rightarrow> Inl IndexOutOfRange)
      else boot_time_lines lines)"

definition init_bootTime :: "string option \<Rightarrow> go_time \<Rightarrow> go_time go" where
  "init_bootTime data now =
     (case data of
        None \<Rightarrow> Inr now
      | Some d \<Rightarrow> boot_time_lines (Split d [CHR 0x0A]))"

text \<open>
  The location of the boot time, in which event times are printed: the zero
  time is in UTC, \<open>time.Now\<close> and \<open>time.Unix\<close> give local times.
\<close>

definition boot_local :: "string option \<Rightarrow> bool" where
  "boot_local data =
     (case data of
        None \<Rightarrow> True
      | Some d \<Rightarrow> list_ex (\<lambda>line. HasPrefix line ''btime '') (Split d [CHR 0x0A]))"

definition TimeFromNano :: "u64 \<Rightarrow> go_time" where
  "TimeFromNano nano = time_Unix 0 (sint nano)"

definition KTimeToTime :: "go_time \<Rightarrow> u64 \<Rightarrow> go_time" where
  "KTimeToTime bootTime ktime = time_Add bootTime (sint ktime)"

text \<open>Distinct addresses print differently.\<close>

lemma le_encode_inject:
  fixes v w :: "'a::len word"
  assumes "LENGTH('a) \<le> 8 * n" and "le_encode n v = le_encode n w"
  shows "v = w"
  using assms le_decode_encode by metis

lemma dec_no_dot: "CHR ''.'' \<notin> set (dec n)"
  using dec_digits [of n] by (auto simp: is_digit_def)

lemma BytesToIPv4_inject: "BytesToIPv4 a = BytesToIPv4 b \<longleftrightarrow> a = b"
proof
  assume eq: "BytesToIPv4 a = BytesToIPv4 b"
  have ne: "map (\<lambda>b. dec (unat b)) (le_encode 4 w) \<noteq> []" for w :: u32
    by (metis length_le_encode length_map list.size(3) zero_neq_numeral)
  have "map (\<lambda>b. dec (unat b)) (le_encode 4 a) = map (\<lambda>b. dec (unat b)) (le_encode 4 b)"
    by (rule Join_inject [OF _ _ ne ne])
      (use eq in \<open>auto simp: BytesToIPv4_def Let_def dec_no_dot\<close>)
  then have "le_encode 4 a = le_encode 4 b"
    by (rule map_injective) (auto simp: inj_def dec_inject word_unat_eq_iff)
  then show "a = b" by (rule le_encode_inject [rotated]) simp
qed simp

text \<open>Kernel time stamps below 2 to the 63 keep their order and distance.\<close>

lemma sint_small:
  fixes w :: u64
  assumes "unat w < 2 ^ 63"
  shows "sint w = int (unat w)"
proof -
  from assms have "int (unat w) < int (2 ^ 63)" by (simp only: of_nat_less_iff)
  then have "uint w < 2 ^ 63" by simp
  moreover have "- (2 ^ 63) \<le> uint w" by (rule order_trans [of _ 0]) simp_all
  ultimately have "signed_take_bit 63 (uint w) = uint w"
    by (intro signed_take_bit_int_eq_self)
  then show ?thesis by (simp add: sint_uint)
qed

lemma KTimeToTime_small: "unat k < 2 ^ 63 \<Longrightarrow> KTimeToTime t k = t + int (unat k)"
  by (simp add: KTimeToTime_def time_Add_def sint_small)

lemma sint_large:
  fixes w :: u64
  assumes "2 ^ 63 \<le> unat w"
  shows "sint w = int (unat w) - 2 ^ 64"
proof -
  have "int (2 ^ 63) \<le> int (unat w)" using assms by (simp only: of_nat_le_iff)
  then have "signed_take_bit 63 (uint w) = signed_take_bit 63 (uint w - 2 ^ 64)"
    using minus_mod_self2 [of "uint w + 9223372036854775808" 18446744073709551616]
    by (simp add: signed_take_bit_eq_take_bit_shift take_bit_eq_mod)
  moreover have "- (2 ^ 63) \<le> uint w - 2 ^ 64" "uint w - 2 ^ 64 < 2 ^ 63"
    using \<open>int (2 ^ 63) \<le> int (unat w)\<close> uint_lt2p [of w] by simp_all
  then have "signed_take_bit 63 (uint w - 2 ^ 64) = uint w - 2 ^ 64"
    by (intro signed_take_bit_int_eq_self)
  ultimately show ?thesis by (simp add: sint_uint)
qed

lemma KTimeToTime_large:
  assumes "unat k < 2 ^ 63"
  shows "KTimeToTime t (k + 2 ^ 63) = t + int (unat k) - 2 ^ 63"
proof -
  have "unat (2 ^ 63 :: u64) = 2 ^ 63" by simp
  with assms have u: "unat (k + 2 ^ 63) = unat k + 2 ^ 63"
    by (subst unat_add_lem [THEN iffD1]) simp_all
  then have "sint (k + 2 ^ 63) = int (unat k) - 2 ^ 63" by (subst sint_large) simp_all
  then show ?thesis by (simp add: KTimeToTime_def time_Add_def)
qed

end
