(* ===== verification/Wire.thy ===== *)
theory Wire
  imports Monitor Helpers
begin

text \<open>
  The Go side of the sample format, \<open>internal/ebpf/types.go\<close>: the struct
  \<open>MonitorEvent\<close> with its explicit padding, and \<open>ParseEvent\<close>, which decodes
  it with \<open>encoding/binary\<close>: fields in declaration order, no implicit padding,
  little-endian.
\<close>

section \<open>MonitorEvent\<close>

record MonitorEvent =
  Pid :: u32
  Pad1 :: bytes
  CgroupId :: u64
  Timestamp :: u64
  EventType :: u8
  Pad2 :: bytes
  SrcAddr :: u32
  SrcPort :: u16
  Pad3 :: bytes
  DstAddr :: u32
  DstPort :: u16
  Comm :: bytes
  Filepath :: bytes
  Pad4 :: bytes
  Ppid :: u32
  ParentComm :: bytes
  Flags :: u32

text \<open>The encoded size of each field, in order; \<open>binary.Size\<close> is their sum.\<close>

definition MonitorEvent_sizes :: "nat list" where
  "MonitorEvent_sizes = [4, 4, 8, 8, 1, 3, 4, 2, 2, 4, 2, 16, 256, 2, 4, 16, 4]"

definition binary_Size :: nat where
  "binary_Size = sum_list MonitorEvent_sizes"

fun split_fields :: "nat list \<Rightarrow> bytes \<Rightarrow> bytes list" where
  "split_fields [] bs = []"
| "split_fields (n # ns) bs = take n bs # split_fields ns (drop n bs)"

text \<open>
  \<open>binary.Read\<close> takes \<open>binary.Size\<close> bytes from the reader, failing when there
  are fewer, and decodes field after field.
\<close>

definition binary_Read :: "bytes \<Rightarrow> MonitorEvent option" where
  "binary_Read data =
     (if length data < binary_Size then None
      else case split_fields MonitorEvent_sizes data of
        [pid, pad1, cgid, ts, ty, pad2, sa, sp, pad3, da, dp, cm, fp, pad4, pp, pc, fl] \<Rightarrow>
          Some \<lparr>Pid = le_decode pid, Pad1 = pad1, CgroupId = le_decode cgid,
                Timestamp = le_decode ts, EventType = le_decode ty, Pad2 = pad2,
                SrcAddr = le_decode sa, SrcPort = le_decode sp, Pad3 = pad3,
                DstAddr = le_decode da, DstPort = le_decode dp, Comm = cm, Filepath = fp,
                Pad4 = pad4, Ppid = le_decode pp, ParentComm = pc, Flags = le_decode fl\<rparr>
      | _ \<Rightarrow> None)"

definition ParseEvent :: "bytes \<Rightarrow> MonitorEvent option" where
  "ParseEvent data =
     (if length data < binary_Size then None
      else case binary_Read data of
             None \<Rightarrow> None
           | Some event \<Rightarrow> Some event)"

section \<open>Both sides agree on the format\<close>

lemma binary_Size_eq: "binary_Size = 340"
  by (simp add: binary_Size_def MonitorEvent_sizes_def)

text \<open>Every sample of at least 340 bytes parses, each field to a fixed slice.\<close>

lemma ParseEvent_loads:
  assumes "340 \<le> length data"
  shows "ParseEvent data = Some
    \<lparr>Pid = le_decode (load 0 4 data), Pad1 = load 4 4 data,
     CgroupId = le_decode (load 8 8 data), Timestamp = le_decode (load 16 8 data),
     EventType = le_decode (load 24 1 data), Pad2 = load 25 3 data,
     SrcAddr = le_decode (load 28 4 data), SrcPort = le_decode (load 32 2 data),
     Pad3 = load 34 2 data, DstAddr = le_decode (load 36 4 data),
     DstPort = le_decode (load 40 2 data), Comm = load 42 16 data,
     Filepath = load 58 256 data, Pad4 = load 314 2 data,
     Ppid = le_decode (load 316 4 data), ParentComm = load 320 16 data,
     Flags = le_decode (load 336 4 data)\<rparr>"
  using assms
  by (simp add: ParseEvent_def binary_Read_def binary_Size_eq MonitorEvent_sizes_def load_def)

lemma ParseEvent_short: "length data < 340 \<Longrightarrow> ParseEvent data = None"
  by (simp add: ParseEvent_def binary_Size_eq)

end
