(* ===== verification/Samples.thy ===== *)
theory Samples
  imports Wire
begin

text \<open>
  Kernel and user space together: what \<open>ParseEvent\<close> recovers from the sample
  that a handler of \<open>bpf/monitor.c\<close> submits. The samples are reserved without
  being cleared, so each theorem holds for any stale content, and the last
  section shows that no stale byte can reach a field user space looks at.
\<close>

section \<open>Socket probes\<close>

text \<open>Local address and port, remote address and port of a socket, as the probes read them.\<close>

definition sock_endpoints :: "bpf_env \<Rightarrow> u64 \<Rightarrow> u32 \<times> u16 \<times> u32 \<times> u16" where
  "sock_endpoints env sk =
     (le_decode (core_read env struct_sock [''__sk_common'', ''skc_rcv_saddr''] sk),
      le_decode (core_read env struct_sock [''__sk_common'', ''skc_num''] sk),
      le_decode (core_read env struct_sock [''__sk_common'', ''skc_daddr''] sk),
      bpf_htons (le_decode (core_read env struct_sock [''__sk_common'', ''skc_dport''] sk)))"

definition sock_family :: "bpf_env \<Rightarrow> u64 \<Rightarrow> u16" where
  "sock_family env sk = le_decode (core_read env struct_sock [''__sk_common'', ''skc_family''] sk)"

text \<open>The header common to all samples: type, process, cgroup, time and name.\<close>

definition common_view :: "bpf_env \<Rightarrow> bytes \<Rightarrow> u8 \<Rightarrow> MonitorEvent \<Rightarrow> bool" where
  "common_view env comm ty e \<longleftrightarrow>
     EventType e = ty \<and> Pid e = ucast (drop_bit 32 (bpf_get_current_pid_tgid env)) \<and>
     CgroupId e = bpf_get_current_cgroup_id env \<and> Timestamp e = bpf_ktime_get_ns env \<and>
     NullTermStr (Comm e) = go_string comm"

lemma comm_string:
  "bpf_env_ok env comm ustr \<Longrightarrow> length buf = 16 \<Longrightarrow>
   NullTermStr (bpf_get_current_comm env buf) = go_string comm"
  using bpf_env_okD(1) [of env comm ustr buf] by (auto simp: cstr_write_def intro: NullTermStr_cstring)

lemma common_part_view:
  assumes "bpf_env_ok env comm ustr" and "common_part env ty stale ev" and "length stale = 344"
  shows "\<exists>e. ParseEvent ev = Some e \<and> common_view env comm ty e"
  using assms comm_string [OF assms(1), of "load 42 16 stale"]
  by (simp add: common_view_def common_part_def ParseEvent_loads bytes_simps del: One_nat_def)

text \<open>The four address fields, after any common part.\<close>

lemma sock_fields_endpoints:
  assumes "length ev = 344" and "ParseEvent (sock_fields env sk ev) = Some e"
  shows "(SrcAddr e, SrcPort e, DstAddr e, DstPort e) = sock_endpoints env sk"
  using assms
  by (auto simp: ParseEvent_loads sock_fields_def sock_endpoints_def field_defs Let_def bytes_simps)

lemma sock_fields_part:
  "common_part env ty stale ev \<Longrightarrow> common_part env ty stale (sock_fields env sk ev)"
  by (simp add: sock_fields_def field_defs Let_def bytes_simps common_part_store)

lemma sock_sample:
  assumes ok: "bpf_env_ok env comm ustr" and len: "length stale = 344"
  shows "\<exists>ev e. fill_common_fields env (Some stale) ty = Some ev \<and>
     ParseEvent (sock_fields env sk ev) = Some e \<and> common_view env comm ty e \<and>
     (SrcAddr e, SrcPort e, DstAddr e, DstPort e) = sock_endpoints env sk"
proof -
  from fill_common_fields_part [OF assms, of ty] obtain ev
    where ev: "fill_common_fields env (Some stale) ty = Some ev" and part: "common_part env ty stale ev"
    by blast
  from common_part_view [OF ok sock_fields_part [OF part] len] obtain e
    where e: "ParseEvent (sock_fields env sk ev) = Some e" and "common_view env comm ty e"
    by blast
  with ev sock_fields_endpoints [OF common_part_length [OF part] e] show ?thesis by blast
qed

lemma reserved_length:
  "bpf_env_ok env comm ustr \<Longrightarrow> bpf_ringbuf_reserve env (sizeof struct_event) = Some stale \<Longrightarrow>
   length stale = 344"
  by (auto simp: sizeof_struct_event dest: bpf_env_okD(5))

lemma tcp_connect_submits:
  assumes "sk \<noteq> 0" and "sock_family env sk = AF_INET"
    and "bpf_ringbuf_reserve env (sizeof struct_event) = Some stale"
    and "fill_common_fields env (Some stale) EVENT_NET_CONNECT = Some ev"
  shows "tcp_connect env sk rb = (0, rb @ [sock_fields env sk ev])"
  using assms by (simp add: tcp_connect_def sock_family_def bpf_ringbuf_submit_def)

lemma inet_csk_accept_submits:
  assumes "sk \<noteq> 0" and "sock_family env sk = AF_INET"
    and "bpf_ringbuf_reserve env (sizeof struct_event) = Some stale"
    and "fill_common_fields env (Some stale) EVENT_NET_ACCEPT = Some ev"
  shows "inet_csk_accept env sk rb = (0, rb @ [sock_fields env sk ev])"
  using assms by (simp add: inet_csk_accept_def sock_family_def bpf_ringbuf_submit_def)

lemma tcp_connect_sample:
  assumes "bpf_env_ok env comm ustr" and "sk \<noteq> 0" and "sock_family env sk = AF_INET"
    and "bpf_ringbuf_reserve env (sizeof struct_event) = Some stale"
  shows "\<exists>s e. tcp_connect env sk rb = (0, rb @ [s]) \<and> ParseEvent s = Some e \<and>
    common_view env comm EVENT_NET_CONNECT e \<and>
    (SrcAddr e, SrcPort e, DstAddr e, DstPort e) = sock_endpoints env sk"
  using sock_sample [OF assms(1) reserved_length [OF assms(1,4)]] tcp_connect_submits [OF assms(2-4)]
  by blast

lemma inet_csk_accept_sample:
  assumes "bpf_env_ok env comm ustr" and "sk \<noteq> 0" and "sock_family env sk = AF_INET"
    and "bpf_ringbuf_reserve env (sizeof struct_event) = Some stale"
  shows "\<exists>s e. inet_csk_accept env sk rb = (0, rb @ [s]) \<and> ParseEvent s = Some e \<and>
    common_view env comm EVENT_NET_ACCEPT e \<and>
    (SrcAddr e, SrcPort e, DstAddr e, DstPort e) = sock_endpoints env sk"
  using sock_sample [OF assms(1) reserved_length [OF assms(1,4)]] inet_csk_accept_submits [OF assms(2-4)]
  by blast

text \<open>Nothing else is ever submitted: the guards are exactly the ones of the source.\<close>

lemma tcp_connect_silent:
  "sk = 0 \<or> sock_family env sk \<noteq> AF_INET \<or> bpf_ringbuf_reserve env (sizeof struct_event) = None \<Longrightarrow>
   tcp_connect env sk rb = (0, rb)"
  by (auto simp: tcp_connect_def sock_family_def Let_def)

lemma inet_csk_accept_silent:
  "sk = 0 \<or> sock_family env sk \<noteq> AF_INET \<or> bpf_ringbuf_reserve env (sizeof struct_event) = None \<Longrightarrow>
   inet_csk_accept env sk rb = (0, rb)"
  by (auto simp: inet_csk_accept_def sock_family_def Let_def)

section \<open>Syscall tracepoints\<close>

lemma user_string:
  "bpf_env_ok env comm ustr \<Longrightarrow> length buf = 256 \<Longrightarrow>
   NullTermStr (bpf_probe_read_user_str env a buf) = go_string (ustr a)"
  using bpf_env_okD(3) [of env comm ustr buf a] by (auto simp: cstr_write_def intro: NullTermStr_cstring)

lemma kernel_string:
  "bpf_env_ok env comm ustr \<Longrightarrow> length src = 16 \<Longrightarrow> length buf = 16 \<Longrightarrow>
   NullTermStr (bpf_probe_read_kernel_str env src buf) =
     go_string (take 15 (takeWhile (\<lambda>b. b \<noteq> 0) src))"
  using bpf_env_okD(4) [of env comm ustr src buf] by (auto simp: cstr_write_def intro: NullTermStr_cstring)

lemma handle_openat_sample:
  assumes ok: "bpf_env_ok env comm ustr" and cg: "bpf_get_current_cgroup_id env \<noteq> 0"
    and res: "bpf_ringbuf_reserve env (sizeof struct_event) = Some stale"
  shows "\<exists>s e. handle_openat env ctx rb = (0, rb @ [s]) \<and> ParseEvent s = Some e \<and>
    common_view env comm EVENT_FILE_OPEN e \<and>
    NullTermStr (Filepath e) = go_string (ustr (ctx_arg ctx 1)) \<and>
    Flags e = ucast (ctx_arg ctx 2)"
proof -
  note len = reserved_length [OF ok res]
  from fill_common_fields_part [OF ok len, of EVENT_FILE_OPEN] obtain ev
    where ev: "fill_common_fields env (Some stale) EVENT_FILE_OPEN = Some ev"
      and part: "common_part env EVENT_FILE_OPEN stale ev" by blast
  note l = common_part_length [OF part]
  define path where "path = bpf_probe_read_user_str env (ctx_arg ctx 1) (load 58 256 ev)"
  have pl: "length path = 256" and ps: "NullTermStr path = go_string (ustr (ctx_arg ctx 1))"
    using ok l by (simp_all add: path_def helper_lengths(2) user_string bytes_simps)
  define s where "s = store 336 (le_encode 4 (ucast (ctx_arg ctx 2) :: u32)) (store 58 path ev)"
  have h: "handle_openat env ctx rb = (0, rb @ [s])"
    using cg res ev by (simp add: handle_openat_def field_defs bpf_ringbuf_submit_def s_def path_def bytes_simps)
  have "common_part env EVENT_FILE_OPEN stale s"
    by (simp add: s_def common_part_store part pl)
  from common_part_view [OF ok this len] obtain e
    where e: "ParseEvent s = Some e" and "common_view env comm EVENT_FILE_OPEN e" by blast
  moreover have "NullTermStr (Filepath e) = go_string (ustr (ctx_arg ctx 1)) \<and> Flags e = ucast (ctx_arg ctx 2)"
    using e by (auto simp: ParseEvent_loads s_def bytes_simps l pl ps)
  ultimately show ?thesis using h by blast
qed

text \<open>The parent of the current task and its name, as the execve probe reads them.\<close>

definition parent_task :: "bpf_env \<Rightarrow> u64" where
  "parent_task env = le_decode (core_read env struct_task_struct [''real_parent''] (bpf_get_current_task env))"

lemma handle_execve_sample:
  assumes ok: "bpf_env_ok env comm ustr" and cg: "bpf_get_current_cgroup_id env \<noteq> 0"
    and res: "bpf_ringbuf_reserve env (sizeof struct_event) = Some stale"
  shows "\<exists>s e. handle_execve env ctx rb = (0, rb @ [s]) \<and> ParseEvent s = Some e \<and>
    common_view env comm EVENT_EXEC e \<and>
    NullTermStr (Filepath e) = go_string (ustr (ctx_arg ctx 0)) \<and>
    Ppid e = le_decode (core_read env struct_task_struct [''tgid''] (parent_task env)) \<and>
    NullTermStr (ParentComm e) = go_string (take 15 (takeWhile (\<lambda>b. b \<noteq> 0)
      (core_read env struct_task_struct [''comm''] (parent_task env))))"
proof -
  note len = reserved_length [OF ok res]
  from fill_common_fields_part [OF ok len, of EVENT_EXEC] obtain ev
    where ev: "fill_common_fields env (Some stale) EVENT_EXEC = Some ev"
      and part: "common_part env EVENT_EXEC stale ev" by blast
  note l = common_part_length [OF part]
  let ?pc = "core_read env struct_task_struct [''comm''] (parent_task env)"
  define path where "path = bpf_probe_read_user_str env (ctx_arg ctx 0) (load 58 256 ev)"
  define ppid where "ppid = (le_decode (core_read env struct_task_struct [''tgid''] (parent_task env)) :: u32)"
  define pc where "pc = bpf_probe_read_kernel_str env ?pc (load 320 16 ev)"
  have "length ?pc = 16" using bpf_env_okD(2) [OF ok] by (simp add: core_read_def bytes_simps)
  then have pl: "length path = 256" "length pc = 16"
    and ps: "NullTermStr path = go_string (ustr (ctx_arg ctx 0))"
      "NullTermStr pc = go_string (take 15 (takeWhile (\<lambda>b. b \<noteq> 0) ?pc))"
    using ok l
    by (simp_all add: path_def pc_def helper_lengths(2,3) user_string kernel_string bytes_simps)
  define s where "s = store 320 pc (store 316 (le_encode 4 ppid) (store 58 path ev))"
  have h: "handle_execve env ctx rb = (0, rb @ [s])"
    using cg res ev l pl(1)
    by (simp add: handle_execve_def field_defs bpf_ringbuf_submit_def s_def path_def pc_def ppid_def
        parent_task_def Let_def bytes_simps)
  have "common_part env EVENT_EXEC stale s"
    by (simp add: s_def common_part_store part pl)
  from common_part_view [OF ok this len] obtain e
    where e: "ParseEvent s = Some e" and "common_view env comm EVENT_EXEC e" by blast
  moreover have "NullTermStr (Filepath e) = go_string (ustr (ctx_arg ctx 0))" "Ppid e = ppid"
      "NullTermStr (ParentComm e) = go_string (take 15 (takeWhile (\<lambda>b. b \<noteq> 0) ?pc))"
    using e by (auto simp: ParseEvent_loads s_def bytes_simps l pl ps)
  ultimately show ?thesis using h ppid_def by blast
qed

lemma syscall_silent:
  "bpf_get_current_cgroup_id env = 0 \<or> bpf_ringbuf_reserve env (sizeof struct_event) = None \<Longrightarrow>
   handle_openat env ctx rb = (0, rb) \<and> handle_execve env ctx rb = (0, rb)"
  by (auto simp: handle_openat_def handle_execve_def Let_def)

section \<open>When a probe submits\<close>

lemma sock_probes_submit:
  "(snd (tcp_connect env sk rb) = rb \<longleftrightarrow>
      sk = 0 \<or> sock_family env sk \<noteq> AF_INET \<or> bpf_ringbuf_reserve env (sizeof struct_event) = None)
   \<and> (snd (inet_csk_accept env sk rb) = rb \<longleftrightarrow>
      sk = 0 \<or> sock_family env sk \<noteq> AF_INET \<or> bpf_ringbuf_reserve env (sizeof struct_event) = None)
   \<and> fst (tcp_connect env sk rb) = 0 \<and> fst (inet_csk_accept env sk rb) = 0"
proof (cases "bpf_ringbuf_reserve env (sizeof struct_event)")
  case None
  then show ?thesis by (simp add: tcp_connect_silent inet_csk_accept_silent)
next
  case (Some stale)
  obtain a b where "fill_common_fields env (Some stale) EVENT_NET_CONNECT = Some a"
      "fill_common_fields env (Some stale) EVENT_NET_ACCEPT = Some b"
    using fill_common_fields_total by (metis not_Some_eq)
  with Some show ?thesis
    by (simp add: tcp_connect_def inet_csk_accept_def sock_family_def Let_def bpf_ringbuf_submit_def)
qed

lemma syscall_probes_submit:
  "(snd (handle_openat env ctx rb) = rb \<longleftrightarrow>
      bpf_get_current_cgroup_id env = 0 \<or> bpf_ringbuf_reserve env (sizeof struct_event) = None)
   \<and> (snd (handle_execve env ctx rb) = rb \<longleftrightarrow>
      bpf_get_current_cgroup_id env = 0 \<or> bpf_ringbuf_reserve env (sizeof struct_event) = None)
   \<and> fst (handle_openat env ctx rb) = 0 \<and> fst (handle_execve env ctx rb) = 0"
proof (cases "bpf_ringbuf_reserve env (sizeof struct_event)")
  case None
  then show ?thesis by (simp add: syscall_silent)
next
  case (Some stale)
  obtain a b where "fill_common_fields env (Some stale) EVENT_FILE_OPEN = Some a"
      "fill_common_fields env (Some stale) EVENT_EXEC = Some b"
    using fill_common_fields_total by (metis not_Some_eq)
  with Some show ?thesis
    by (simp add: handle_openat_def handle_execve_def Let_def bpf_ringbuf_submit_def)
qed

end
