(* ===== verification/Core.thy ===== *)
theory Core
  imports GoLib
begin

text \<open>
  Package \<open>internal/core\<close>: the data that flows between the components of the
  user space half. A Go pointer to a container is an option, \<open>None\<close> for nil.
\<close>

record ContainerInfo =
  ID :: string
  Name :: string
  Image :: string

record Event =
  EvType :: string
  EvTime :: go_time
  SrcContainer :: "ContainerInfo option"
  SrcProcessName :: string
  SrcPID :: u32
  SrcCgroupID :: u64
  EvSrcAddr :: string
  EvSrcPort :: u16
  DstContainer :: "ContainerInfo option"
  DstProcessName :: string
  DstPID :: u32
  DstCgroupID :: u64
  EvDstAddr :: string
  EvDstPort :: u16
  FilePath :: string
  FileOp :: string
  ExecPath :: string
  ParentPID :: u32
  ParentProcessName :: string

text \<open>The zero value from which a composite literal starts.\<close>

definition zero_Event :: Event where
  "zero_Event =
     \<lparr>EvType = '''', EvTime = zero_time,
      SrcContainer = None, SrcProcessName = '''', SrcPID = 0, SrcCgroupID = 0,
      EvSrcAddr = '''', EvSrcPort = 0,
      DstContainer = None, DstProcessName = '''', DstPID = 0, DstCgroupID = 0,
      EvDstAddr = '''', EvDstPort = 0,
      FilePath = '''', FileOp = '''', ExecPath = '''', ParentPID = 0, ParentProcessName = ''''\<rparr>"

record Alert =
  AlTime :: go_time
  RuleName :: string
  AlSeverity :: string
  AlDescription :: string
  AlSrcContainer :: "ContainerInfo option"
  AlDstContainer :: "ContainerInfo option"

end
