(* ===== verification/Chan.thy ===== *)
theory Chan
  imports Prelude
begin

text \<open>
  Buffered Go channels, which connect the goroutines of the program, and the
  interface its components rely on: a channel is a bounded queue that hands
  out what was sent in the order it was sent. The contract is the locale
  \<open>fifo\<close>; the model of the language's channels interprets it.
\<close>

section \<open>Channels\<close>

record 'a chan =
  chan_buf :: "'a list"
  chan_cap :: nat
  chan_closed :: bool

definition make_chan :: "nat \<Rightarrow> 'a chan" where
  "make_chan n = \<lparr>chan_buf = [], chan_cap = n, chan_closed = False\<rparr>"

text \<open>
  A send on a closed channel panics; on a full one it waits (\<open>Inr None\<close>, the
  statement cannot take its step yet). A receive takes the oldest value; on
  an empty closed channel it reports the end (\<open>Some (None, _)\<close>), on an empty
  open one it waits (\<open>None\<close>).
\<close>

definition chan_send :: "'a \<Rightarrow> 'a chan \<Rightarrow> 'a chan option go" where
  "chan_send x c =
     (if chan_closed c then Inl SendOnClosedChannel
      else if length (chan_buf c) < chan_cap c
      then Inr (Some (c\<lparr>chan_buf := chan_buf c @ [x]\<rparr>))
      else Inr None)"

definition chan_recv :: "'a chan \<Rightarrow> ('a option \<times> 'a chan) option" where
  "chan_recv c =
     (case chan_buf c of
        x # xs \<Rightarrow> Some (Some x, c\<lparr>chan_buf := xs\<rparr>)
      | [] \<Rightarrow> if chan_closed c then Some (None, c) else None)"

definition chan_close :: "'a chan \<Rightarrow> 'a chan go" where
  "chan_close c =
     (if chan_closed c then Inl CloseOfClosedChannel else Inr (c\<lparr>chan_closed := True\<rparr>))"

definition chan_wf :: "'a chan \<Rightarrow> bool" where
  "chan_wf c \<longleftrightarrow> length (chan_buf c) \<le> chan_cap c"

section \<open>The queue contract\<close>

text \<open>
  \<open>send x q = Some q'\<close>: the send takes its step; \<open>recv q = Some (x, q')\<close>: a
  value is received. A client interleaves sends and receives; \<open>transfer\<close> runs
  such an interleaving and collects what is received.
\<close>

datatype 'a queue_op = QSend 'a | QRecv

locale fifo =
  fixes send :: "'a \<Rightarrow> 'q \<Rightarrow> 'q option"
    and recv :: "'q \<Rightarrow> ('a \<times> 'q) option"
    and contents :: "'q \<Rightarrow> 'a list"
    and inv :: "'q \<Rightarrow> bool"
    and capacity :: "'q \<Rightarrow> nat"
  assumes send_contents: "send x q = Some q' \<Longrightarrow> contents q' = contents q @ [x]"
    and recv_contents: "recv q = Some (x, q') \<Longrightarrow> contents q = x # contents q'"
    and recv_progress: "contents q \<noteq> [] \<Longrightarrow> recv q \<noteq> None"
    and send_inv: "inv q \<Longrightarrow> send x q = Some q' \<Longrightarrow> inv q' \<and> capacity q' = capacity q"
    and recv_inv: "inv q \<Longrightarrow> recv q = Some (x, q') \<Longrightarrow> inv q' \<and> capacity q' = capacity q"
    and inv_bound: "inv q \<Longrightarrow> length (contents q) \<le> capacity q"
begin

fun transfer :: "'q \<Rightarrow> 'a queue_op list \<Rightarrow> ('a list \<times> 'q) option" where
  "transfer q [] = Some ([], q)"
| "transfer q (QSend x # ops) =
     (case send x q of None \<Rightarrow> None | Some q' \<Rightarrow> transfer q' ops)"
| "transfer q (QRecv # ops) =
     (case recv q of None \<Rightarrow> None
      | Some (x, q') \<Rightarrow> map_option (\<lambda>(xs, q''). (x # xs, q'')) (transfer q' ops))"

text \<open>
  What is received, followed by what is still queued, is what was queued at
  the start followed by what was sent: nothing is lost, duplicated or
  reordered.
\<close>

lemma transfer_order:
  "transfer q ops = Some (xs, q') \<Longrightarrow>
   xs @ contents q' = contents q @ concat (map (\<lambda>op. case op of QSend x \<Rightarrow> [x] | QRecv \<Rightarrow> []) ops)"
proof (induction q ops arbitrary: xs rule: transfer.induct)
  case (2 q x ops)
  then show ?case by (auto split: option.splits dest: send_contents)
next
  case (3 q ops)
  then show ?case by (auto split: option.splits dest!: recv_contents)
qed simp

lemma transfer_inv: "inv q \<Longrightarrow> transfer q ops = Some (xs, q') \<Longrightarrow> inv q' \<and> capacity q' = capacity q"
proof (induction q ops arbitrary: xs rule: transfer.induct)
  case (2 q x ops)
  then show ?case by (auto split: option.splits dest: send_inv)
next
  case (3 q ops)
  then show ?case by (auto split: option.splits dest: recv_inv)
qed simp

lemma transfer_bound:
  "inv q \<Longrightarrow> transfer q ops = Some (xs, q') \<Longrightarrow> length (contents q') \<le> capacity q"
  using transfer_inv inv_bound by metis

end

text \<open>Go channels keep the contract: a blocked or panicking send takes no step.\<close>

definition send_step :: "'a \<Rightarrow> 'a chan \<Rightarrow> 'a chan option" where
  "send_step x c = (case chan_send x c of Inr r \<Rightarrow> r | Inl p \<Rightarrow> None)"

definition recv_step :: "'a chan \<Rightarrow> ('a \<times> 'a chan) option" where
  "recv_step c = (case chan_recv c of Some (Some x, c') \<Rightarrow> Some (x, c') | _ \<Rightarrow> None)"

interpretation ch: fifo send_step recv_step chan_buf chan_wf chan_cap
proof unfold_locales
  fix x :: 'a and q q' :: "'a chan"
  show "send_step x q = Some q' \<Longrightarrow> chan_buf q' = chan_buf q @ [x]"
    and "chan_wf q \<Longrightarrow> send_step x q = Some q' \<Longrightarrow> chan_wf q' \<and> chan_cap q' = chan_cap q"
    by (auto simp: send_step_def chan_send_def chan_wf_def split: if_splits)
  show "recv_step q = Some (x, q') \<Longrightarrow> chan_buf q = x # chan_buf q'"
    and "chan_buf q \<noteq> [] \<Longrightarrow> recv_step q \<noteq> None"
    and "chan_wf q \<Longrightarrow> recv_step q = Some (x, q') \<Longrightarrow> chan_wf q' \<and> chan_cap q' = chan_cap q"
    by (auto simp: recv_step_def chan_recv_def chan_wf_def split: list.splits if_splits)
  show "chan_wf q \<Longrightarrow> length (chan_buf q) \<le> chan_cap q"
    by (simp add: chan_wf_def)
qed

lemma chan_wf_make [simp]: "chan_wf (make_chan n)"
  by (simp add: chan_wf_def make_chan_def)

lemma chan_send_cases:
  obtains (panic) "chan_send x c = Inl SendOnClosedChannel" "chan_closed c"
  | (blocks) "chan_send x c = Inr None" "\<not> chan_closed c" "chan_cap c \<le> length (chan_buf c)"
  | (sent) "chan_send x c = Inr (Some (c\<lparr>chan_buf := chan_buf c @ [x]\<rparr>))" "\<not> chan_closed c"
      "length (chan_buf c) < chan_cap c"
  by (cases "chan_closed c"; cases "length (chan_buf c) < chan_cap c") (auto simp: chan_send_def)

end
