(* ===== verification/Machine.thy ===== *)
theory Machine
  imports Prelude
begin

text \<open>
  Runs of a component: a list of operations performed one after the other,
  each of which completes, panics or has to wait. The locale \<open>machine\<close> is the
  contract between a component and its specification: the specification
  reads a history of operations, newest first, and every step keeps the
  relation between history and state. The locale \<open>draining\<close> is the contract of
  a system whose internal operations use up the work it has been given.
\<close>

fun run :: "('op \<Rightarrow> 's \<Rightarrow> 's option go) \<Rightarrow> 'op list \<Rightarrow> 's \<Rightarrow> 's option go" where
  "run step [] s = Inr (Some s)"
| "run step (op # ops) s =
     go_bind (step op s) (\<lambda>r. case r of None \<Rightarrow> Inr None | Some s' \<Rightarrow> run step ops s')"

lemma run_Cons_Some [go_simps]:
  "run step (op # ops) s = Inr (Some s') \<longleftrightarrow>
     (\<exists>s1. step op s = Inr (Some s1) \<and> run step ops s1 = Inr (Some s'))"
  by (auto simp: go_simps split: option.splits)

lemma run_append:
  "run step (ops @ ops') s =
     go_bind (run step ops s) (\<lambda>r. case r of None \<Rightarrow> Inr None | Some s' \<Rightarrow> run step ops' s')"
proof (induction ops arbitrary: s)
  case (Cons op ops)
  show ?case
  proof (cases "step op s")
    case (Inr r)
    with Cons.IH show ?thesis by (cases r) simp_all
  qed simp
qed simp

locale machine =
  fixes step :: "'op \<Rightarrow> 's \<Rightarrow> 's option go"
    and init :: 's
    and related :: "'op list \<Rightarrow> 's \<Rightarrow> bool"
    and enabled :: "'op list \<Rightarrow> bool"
  assumes init_related: "related [] init"
    and step_related: "related h s \<Longrightarrow> enabled (op # h) \<Longrightarrow> step op s = Inr (Some s') \<Longrightarrow> related (op # h) s'"
    and enabled_tl: "enabled (op # h) \<Longrightarrow> enabled h"
begin

lemma enabled_append: "enabled (h' @ h) \<Longrightarrow> enabled h"
  by (induction h') (auto dest: enabled_tl)

lemma run_related_from:
  "related h s \<Longrightarrow> enabled (rev ops @ h) \<Longrightarrow> run step ops s = Inr (Some s') \<Longrightarrow> related (rev ops @ h) s'"
proof (induction ops arbitrary: h s)
  case (Cons op ops)
  from Cons.prems(3) obtain s1 where s1: "step op s = Inr (Some s1)" "run step ops s1 = Inr (Some s')"
    by (auto simp: run_Cons_Some simp del: run.simps)
  from Cons.prems(2) have en: "enabled (rev ops @ op # h)" by simp
  then have "related (op # h) s1"
    using Cons.prems(1) s1(1) by (auto intro: step_related enabled_append)
  then show ?case using Cons.IH [of "op # h" s1] en s1(2) by simp
qed simp

lemma run_related:
  "enabled (rev ops) \<Longrightarrow> run step ops init = Inr (Some s') \<Longrightarrow> related (rev ops) s'"
  using run_related_from [OF init_related, of ops s'] by simp

end

text \<open>
  A machine that works off what it holds: on good states an internal
  operation leaves less work, and one is possible until the machine is idle.
\<close>

locale draining =
  fixes step :: "'op \<Rightarrow> 's \<Rightarrow> 's option go"
    and internal :: "'op \<Rightarrow> bool"
    and good :: "'s \<Rightarrow> bool"
    and work :: "'s \<Rightarrow> nat"
    and idle :: "'s \<Rightarrow> bool"
  assumes step_works: "good s \<Longrightarrow> internal a \<Longrightarrow> step a s = Inr (Some s') \<Longrightarrow> good s' \<and> work s' < work s"
    and progress: "good s \<Longrightarrow> \<not> idle s \<Longrightarrow> \<exists>a s'. internal a \<and> step a s = Inr (Some s')"
begin

lemma run_works:
  "good s \<Longrightarrow> list_all internal as \<Longrightarrow> run step as s = Inr (Some s') \<Longrightarrow>
   good s' \<and> work s' + length as \<le> work s"
proof (induction as arbitrary: s)
  case (Cons a as)
  from Cons.prems(3) obtain s1 where s1: "step a s = Inr (Some s1)" "run step as s1 = Inr (Some s')"
    by (auto simp: run_Cons_Some simp del: run.simps)
  have "good s1 \<and> work s1 < work s" using step_works [OF Cons.prems(1) _ s1(1)] Cons.prems(2) by simp
  with Cons.IH [of s1] Cons.prems(2) s1(2) show ?case by auto
qed simp

lemma drains: "good s \<Longrightarrow> \<exists>as s'. list_all internal as \<and> run step as s = Inr (Some s') \<and> idle s'"
proof (induction "work s" arbitrary: s rule: less_induct)
  case less
  show ?case
  proof (cases "idle s")
    case True
    then show ?thesis by (intro exI [of _ "[]"] exI [of _ s]) simp
  next
    case False
    with progress less.prems obtain a s1 where a: "internal a" "step a s = Inr (Some s1)" by blast
    with step_works less.prems have "good s1" "work s1 < work s" by blast+
    with less.hyps obtain as s' where "list_all internal as" "run step as s1 = Inr (Some s')" "idle s'" by blast
    with a show ?thesis by (intro exI [of _ "a # as"] exI [of _ s']) simp
  qed
qed

end

end
