(* ===== verification/Correlator.thy ===== *)
theory Correlator
  imports Core Helpers Chan Machine
begin

text \<open>
  Package \<open>internal/correlator\<close>: pairs the connect of one container with the
  accept of another. Every operation runs under the mutex, so an operation is
  one atomic step of the state; the only statement that can wait is the send
  of \<open>HandleAccept\<close> on the full output channel, and then the mutex stays
  held: no step is taken.

  The specification at the end reads a history of operations backwards; the
  refinement lemmas show that the map and the channel compute it.
\<close>

section \<open>State and operations\<close>

record IncompleteConnection =
  icSrcAddr :: u32
  icSrcPort :: u16
  icDstAddr :: u32
  icDstPort :: u16

record PendingConnectionEntry =
  peTimestamp :: go_time
  peSrcCgroupID :: u64
  peSrcPID :: u32
  peSrcProcessName :: string

record Correlator =
  pending :: "IncompleteConnection \<rightharpoonup> PendingConnectionEntry"
  timeout :: duration
  outch :: "Event chan option"

definition New :: "duration \<Rightarrow> Correlator" where
  "New tmo = \<lparr>pending = Map.empty, timeout = tmo, outch = Some (make_chan 1024)\<rparr>"

definition Close :: "Correlator \<Rightarrow> Correlator go" where
  "Close c =
     (case outch c of
        None \<Rightarrow> Inr c
      | Some ch \<Rightarrow> go_bind (chan_close ch) (\<lambda>ch'. Inr (c\<lparr>outch := Some ch'\<rparr>)))"

text \<open>One tick of \<open>Cleanup\<close>: every entry older than the timeout is deleted.\<close>

definition expired :: "Correlator \<Rightarrow> go_time \<Rightarrow> PendingConnectionEntry \<Rightarrow> bool" where
  "expired c now entry \<longleftrightarrow> timeout c < time_Sub now (peTimestamp entry)"

definition Cleanup_tick :: "go_time \<Rightarrow> Correlator \<Rightarrow> Correlator" where
  "Cleanup_tick now c =
     c\<lparr>pending := (\<lambda>key. case pending c key of
                          None \<Rightarrow> None
                        | Some entry \<Rightarrow> if expired c now entry then None else Some entry)\<rparr>"

definition HandleConnect ::
  "go_time \<Rightarrow> u32 \<Rightarrow> u16 \<Rightarrow> u32 \<Rightarrow> u16 \<Rightarrow> u64 \<Rightarrow> u32 \<Rightarrow> bytes \<Rightarrow> u64 \<Rightarrow> Correlator \<Rightarrow> Correlator" where
  "HandleConnect bootTime srcAddr srcPort dstAddr dstPort cgroupID pid comm timestamp c =
     (let conn = \<lparr>icSrcAddr = srcAddr, icSrcPort = srcPort, icDstAddr = dstAddr, icDstPort = dstPort\<rparr>
      in c\<lparr>pending := (pending c)(conn \<mapsto>
             \<lparr>peTimestamp = KTimeToTime bootTime timestamp, peSrcCgroupID = cgroupID,
              peSrcPID = pid, peSrcProcessName = NullTermStr comm\<rparr>)\<rparr>)"

text \<open>The event that \<open>HandleAccept\<close> builds from the entry and its own arguments.\<close>

definition connection_event ::
  "PendingConnectionEntry \<Rightarrow> u32 \<Rightarrow> u16 \<Rightarrow> u32 \<Rightarrow> u16 \<Rightarrow> u64 \<Rightarrow> u32 \<Rightarrow> bytes \<Rightarrow> Event" where
  "connection_event entry localAddr localPort remoteAddr remotePort cgroupID pid comm =
     zero_Event\<lparr>EvType := ''connection'', EvTime := peTimestamp entry,
       SrcCgroupID := peSrcCgroupID entry, SrcPID := peSrcPID entry,
       SrcProcessName := peSrcProcessName entry,
       DstCgroupID := cgroupID, DstPID := pid, DstProcessName := NullTermStr comm,
       EvSrcAddr := BytesToIPv4 remoteAddr, EvSrcPort := remotePort,
       EvDstAddr := BytesToIPv4 localAddr, EvDstPort := localPort\<rparr>"

text \<open>
  \<open>Inr None\<close>: the send waits. A send on a nil channel waits for ever; the
  constructor never leaves \<open>output\<close> (here \<open>outch\<close>) nil.
\<close>

definition HandleAccept ::
  "u32 \<Rightarrow> u16 \<Rightarrow> u32 \<Rightarrow> u16 \<Rightarrow> u64 \<Rightarrow> u32 \<Rightarrow> bytes \<Rightarrow> Correlator \<Rightarrow> Correlator option go" where
  "HandleAccept localAddr localPort remoteAddr remotePort cgroupID pid comm c =
     (let conn = \<lparr>icSrcAddr = remoteAddr, icSrcPort = remotePort,
                  icDstAddr = localAddr, icDstPort = localPort\<rparr>
      in case pending c conn of
           None \<Rightarrow> Inr (Some c)
         | Some entry \<Rightarrow>
             (let event = connection_event entry localAddr localPort remoteAddr remotePort cgroupID pid comm
              in case outch c of
                   None \<Rightarrow> Inr None
                 | Some ch \<Rightarrow>
                     go_bind (chan_send event ch) (\<lambda>sent.
                       Inr (map_option (\<lambda>ch'. c\<lparr>outch := Some ch',
                                                pending := (pending c)(conn := None)\<rparr>) sent))))"

section \<open>Runs\<close>

text \<open>
  The operations the rest of the program performs on a correlator: the two
  handlers from the main loop, a tick of the cleanup goroutine, a receive by
  the fan-in goroutine. A run collects the received events; it is \<open>Inr None\<close>
  when a step of the list is not possible.
\<close>

datatype corr_op =
    Connect u32 u16 u32 u16 u64 u32 bytes u64
  | Accept u32 u16 u32 u16 u64 u32 bytes
  | Tick go_time
  | Receive

fun corr_step :: "go_time \<Rightarrow> corr_op \<Rightarrow> Correlator \<times> Event list \<Rightarrow> (Correlator \<times> Event list) option go" where
  "corr_step boot (Connect sa sp da dp cg pid cm ts) (c, evs) =
     Inr (Some (HandleConnect boot sa sp da dp cg pid cm ts c, evs))"
| "corr_step boot (Accept la lp ra rp cg pid cm) (c, evs) =
     go_bind (HandleAccept la lp ra rp cg pid cm c) (\<lambda>r. Inr (map_option (\<lambda>c'. (c', evs)) r))"
| "corr_step boot (Tick now) (c, evs) = Inr (Some (Cleanup_tick now c, evs))"
| "corr_step boot Receive (c, evs) =
     Inr (case outch c of
            None \<Rightarrow> None
          | Some ch \<Rightarrow> map_option (\<lambda>(e, ch'). (c\<lparr>outch := Some ch'\<rparr>, evs @ [e])) (recv_step ch))"

definition corr_run :: "go_time \<Rightarrow> corr_op list \<Rightarrow> Correlator \<times> Event list \<Rightarrow> (Correlator \<times> Event list) option go" where
  "corr_run boot = run (corr_step boot)"

section \<open>Specification\<close>

text \<open>
  What a history of operations, newest first, says about a connection: it is
  pending when its latest connect has been followed neither by an accept nor
  by a tick that finds it expired.
\<close>

definition connect_key :: "u32 \<Rightarrow> u16 \<Rightarrow> u32 \<Rightarrow> u16 \<Rightarrow> IncompleteConnection" where
  "connect_key sa sp da dp = \<lparr>icSrcAddr = sa, icSrcPort = sp, icDstAddr = da, icDstPort = dp\<rparr>"

fun spec_pending :: "go_time \<Rightarrow> duration \<Rightarrow> corr_op list \<Rightarrow> IncompleteConnection \<Rightarrow> PendingConnectionEntry option" where
  "spec_pending boot tmo [] k = None"
| "spec_pending boot tmo (Connect sa sp da dp cg pid cm ts # h) k =
     (if k = connect_key sa sp da dp
      then Some \<lparr>peTimestamp = KTimeToTime boot ts, peSrcCgroupID = cg, peSrcPID = pid,
                 peSrcProcessName = NullTermStr cm\<rparr>
      else spec_pending boot tmo h k)"
| "spec_pending boot tmo (Accept la lp ra rp cg pid cm # h) k =
     (if k = connect_key ra rp la lp then None else spec_pending boot tmo h k)"
| "spec_pending boot tmo (Tick now # h) k =
     (case spec_pending boot tmo h k of
        None \<Rightarrow> None
      | Some e \<Rightarrow> if tmo < time_Sub now (peTimestamp e) then None else Some e)"
| "spec_pending boot tmo (Receive # h) k = spec_pending boot tmo h k"

text \<open>The events of a history, oldest first: one for every accept of a pending connection.\<close>

fun spec_events :: "go_time \<Rightarrow> duration \<Rightarrow> corr_op list \<Rightarrow> Event list" where
  "spec_events boot tmo [] = []"
| "spec_events boot tmo (Accept la lp ra rp cg pid cm # h) =
     spec_events boot tmo h @
     (case spec_pending boot tmo h (connect_key ra rp la lp) of
        None \<Rightarrow> []
      | Some e \<Rightarrow> [connection_event e la lp ra rp cg pid cm])"
| "spec_events boot tmo (op # h) = spec_events boot tmo h"

section \<open>Refinement\<close>

lemma key_eq: "\<lparr>icSrcAddr = a, icSrcPort = b, icDstAddr = c, icDstPort = d\<rparr> = connect_key a b c d"
  by (simp add: connect_key_def)

text \<open>The correlator after a history: its map, its timeout, and its events in order.\<close>

definition corr_abs :: "go_time \<Rightarrow> duration \<Rightarrow> corr_op list \<Rightarrow> Correlator \<times> Event list \<Rightarrow> bool" where
  "corr_abs boot tmo h s \<longleftrightarrow>
     pending (fst s) = spec_pending boot tmo h \<and> timeout (fst s) = tmo \<and>
     (\<exists>ch. outch (fst s) = Some ch \<and> chan_wf ch \<and> chan_cap ch = 1024 \<and>
           snd s @ chan_buf ch = spec_events boot tmo h)"

lemma corr_abs_New: "corr_abs boot tmo [] (New tmo, [])"
  by (auto simp: corr_abs_def New_def make_chan_def chan_wf_def)

lemma corr_abs_accept:
  assumes abs: "corr_abs boot tmo h (c, evs)"
    and step: "HandleAccept la lp ra rp cg pid cm c = Inr (Some c')"
  shows "corr_abs boot tmo (Accept la lp ra rp cg pid cm # h) (c', evs)"
proof (cases "pending c (connect_key ra rp la lp)")
  case None
  with assms show ?thesis by (auto simp: corr_abs_def HandleAccept_def key_eq)
next
  case (Some e)
  let ?ev = "connection_event e la lp ra rp cg pid cm"
  from abs obtain ch where ch: "outch c = Some ch" "chan_wf ch" "chan_cap ch = 1024"
      "evs @ chan_buf ch = spec_events boot tmo h" by (auto simp: corr_abs_def)
  with step Some obtain ch' where sent: "send_step ?ev ch = Some ch'"
      and c': "c' = c\<lparr>outch := Some ch', pending := (pending c)(connect_key ra rp la lp := None)\<rparr>"
    by (auto simp: HandleAccept_def key_eq go_simps send_step_def)
  from sent ch have "chan_buf ch' = chan_buf ch @ [?ev]" "chan_wf ch'" "chan_cap ch' = 1024"
    by (auto dest: ch.send_contents ch.send_inv)
  with c' abs ch Some show ?thesis by (auto simp: corr_abs_def)
qed

lemma corr_abs_tick:
  "corr_abs boot tmo h (c, evs) \<Longrightarrow> corr_abs boot tmo (Tick now # h) (Cleanup_tick now c, evs)"
  by (auto simp: corr_abs_def Cleanup_tick_def expired_def intro!: ext split: option.splits)

lemma corr_abs_receive:
  assumes "corr_abs boot tmo h (c, evs)" and "outch c = Some ch" and "recv_step ch = Some (e, ch')"
  shows "corr_abs boot tmo (Receive # h) (c\<lparr>outch := Some ch'\<rparr>, evs @ [e])"
  using assms by (auto simp: corr_abs_def dest: ch.recv_contents ch.recv_inv)

lemma corr_abs_step:
  assumes "corr_abs boot tmo h s" and "corr_step boot op s = Inr (Some s')"
  shows "corr_abs boot tmo (op # h) s'"
proof -
  obtain c evs where s: "s = (c, evs)" by (cases s)
  show ?thesis
  proof (cases op)
    case (Connect sa sp da dp cg pid cm ts)
    with assms s show ?thesis by (auto simp: corr_abs_def HandleConnect_def key_eq)
  next
    case Accept
    with assms s show ?thesis by (auto simp: go_simps intro: corr_abs_accept)
  next
    case Tick
    with assms s show ?thesis by (auto intro: corr_abs_tick)
  next
    case Receive
    with assms s show ?thesis by (auto split: option.splits intro: corr_abs_receive)
  qed
qed

interpretation cm: machine "corr_step boot" "(New tmo, [])" "corr_abs boot tmo" "\<lambda>h. True"
  for boot :: go_time and tmo :: duration
  by unfold_locales (auto simp: corr_abs_New intro: corr_abs_step)

lemma corr_abs_run:
  "corr_run boot ops (New tmo, []) = Inr (Some s') \<Longrightarrow> corr_abs boot tmo (rev ops) s'"
  unfolding corr_run_def by (rule cm.run_related) simp

text \<open>
  From a state that a run has reached, the handlers and the ticker never
  panic, and only an accept that finds the output channel full has to wait.
\<close>

lemma corr_step_progress:
  assumes "corr_abs boot tmo h (c, evs)" and "op \<noteq> Receive"
    and "\<And>ch. outch c = Some ch \<Longrightarrow> \<not> chan_closed ch \<and> length (chan_buf ch) < 1024"
  shows "\<exists>s'. corr_step boot op (c, evs) = Inr (Some s')"
proof (cases op)
  case (Accept la lp ra rp cg pid cm)
  from assms(1) obtain ch where "outch c = Some ch" "chan_cap ch = 1024" by (auto simp: corr_abs_def)
  with assms(3) [of ch] show ?thesis
    by (cases "pending c (connect_key ra rp la lp)")
      (auto simp: Accept HandleAccept_def chan_send_def key_eq)
qed (use assms(2) in auto)

text \<open>After a tick nothing older than the timeout is pending.\<close>

lemma Cleanup_tick_fresh:
  "pending (Cleanup_tick now c) k = Some e \<Longrightarrow> time_Sub now (peTimestamp e) \<le> timeout c"
  by (auto simp: Cleanup_tick_def expired_def split: option.splits if_splits)

lemma Cleanup_tick_keeps:
  "pending c k = Some e \<Longrightarrow> time_Sub now (peTimestamp e) \<le> timeout c \<Longrightarrow>
   pending (Cleanup_tick now c) k = Some e"
  by (simp add: Cleanup_tick_def expired_def)

end
