(* ===== verification/Resolver.thy ===== *)
theory Resolver
  imports Core Machine
begin

text \<open>
  Package \<open>internal/resolver\<close>: the cache from cgroup ids to containers. The
  Docker client and the operating system are parameters: what the daemon
  lists and inspects, the content of a file, the inode of a path. They are
  passed to every operation, since they differ from call to call.
\<close>

section \<open>Paths\<close>

text \<open>
  \<open>filepath.Clean\<close>: empty and \<open>.\<close> elements are dropped, \<open>..\<close> removes the
  element before it; at the root of a rooted path it is dropped.
\<close>

fun clean_parts :: "bool \<Rightarrow> string list \<Rightarrow> string list \<Rightarrow> string list" where
  "clean_parts rooted out [] = rev out"
| "clean_parts rooted out (p # ps) =
     (if p = '''' \<or> p = ''.'' then clean_parts rooted out ps
      else if p = ''..'' then
        (if out \<noteq> [] \<and> hd out \<noteq> ''..'' then clean_parts rooted (tl out) ps
         else if rooted then clean_parts rooted out ps
         else clean_parts rooted (p # out) ps)
      else clean_parts rooted (p # out) ps)"

definition Clean :: "string \<Rightarrow> string" where
  "Clean path =
     (let rooted = HasPrefix path ''/'';
          body = Join (clean_parts rooted [] (Split path ''/'')) ''/''
      in if rooted then CHR ''/'' # body else if body = '''' then ''.'' else body)"

definition filepath_Join :: "string \<Rightarrow> string \<Rightarrow> string" where
  "filepath_Join a b =
     (if a = '''' \<and> b = '''' then ''''
      else Clean (if a = '''' then b else a @ ''/'' @ b))"

section \<open>The environment\<close>

record inspect_result =
  inspName :: string
  statePid :: "int option"

text \<open>
  \<open>Inl\<close> is an error returned by the call. The list pairs the id of a
  container with its image; \<open>statePid\<close> is the \<open>Pid\<close> of the \<open>State\<close> of the
  container, \<open>None\<close> when that pointer is nil.
\<close>

record 'e resolver_env =
  ContainerList :: "'e + (string \<times> string) list"
  ContainerInspect :: "string \<Rightarrow> 'e + inspect_result"
  ReadFile :: "string \<Rightarrow> 'e + string"
  StatIno :: "string \<Rightarrow> 'e + u64"

record Resolver =
  cache :: "u64 \<rightharpoonup> ContainerInfo"

section \<open>Operations\<close>

definition Resolve :: "Resolver \<Rightarrow> u64 \<Rightarrow> ContainerInfo option" where
  "Resolve r cgroupID = cache r cgroupID"

definition dec_int :: "int \<Rightarrow> string" where
  "dec_int i = (if i < 0 then CHR ''-'' # dec (nat (- i)) else dec (nat i))"

definition getCgroupID :: "'e resolver_env \<Rightarrow> int \<Rightarrow> ('e + u64) go" where
  "getCgroupID env pid =
     (case ReadFile env (''/proc/'' @ dec_int pid @ ''/cgroup'') of
        Inl err \<Rightarrow> Inr (Inl err)
      | Inr data \<Rightarrow>
          (case SplitN2 (TrimSpace data) ''::'' of
             _ # cgroupPath # _ \<Rightarrow>
               (let fullPath = filepath_Join ''/sys/fs/cgroup'' cgroupPath
                in Inr (StatIno env fullPath))
           | _ \<Rightarrow> Inl IndexOutOfRange))"

text \<open>
  One round of the loop over the containers, and the loop: an error stops it
  and leaves in the cache what the rounds before have stored.
\<close>

definition update_one :: "'e resolver_env \<Rightarrow> string \<times> string \<Rightarrow> ('e + u64 \<times> ContainerInfo) go" where
  "update_one env c =
     (case ContainerInspect env (fst c) of
        Inl err \<Rightarrow> Inr (Inl err)
      | Inr inspect \<Rightarrow>
          (case statePid inspect of
             None \<Rightarrow> Inl NilDereference
           | Some pid \<Rightarrow>
               go_bind (getCgroupID env pid) (\<lambda>res.
                 Inr (map_sum id (\<lambda>cgroupID.
                   (cgroupID, \<lparr>ID = fst c, Name = TrimPrefix (inspName inspect) ''/'', Image = snd c\<rparr>)) res))))"

fun update_loop :: "'e resolver_env \<Rightarrow> (string \<times> string) list \<Rightarrow> Resolver \<Rightarrow> (Resolver \<times> 'e option) go" where
  "update_loop env [] r = Inr (r, None)"
| "update_loop env (c # cs) r =
     go_bind (update_one env c) (\<lambda>res.
       case res of
         Inl err \<Rightarrow> Inr (r, Some err)
       | Inr (cgroupID, info) \<Rightarrow> update_loop env cs (r\<lparr>cache := (cache r)(cgroupID \<mapsto> info)\<rparr>))"

definition updateInfo :: "'e resolver_env \<Rightarrow> Resolver \<Rightarrow> (Resolver \<times> 'e option) go" where
  "updateInfo env r =
     (case ContainerList env of
        Inl err \<Rightarrow> Inr (r, Some err)
      | Inr containers \<Rightarrow> update_loop env containers r)"

text \<open>\<open>client_err\<close> is the error of creating the Docker client, \<open>None\<close> if there is none.\<close>

definition New_resolver :: "'e option \<Rightarrow> 'e resolver_env \<Rightarrow> ('e + Resolver) go" where
  "New_resolver client_err env =
     (case client_err of
        Some e \<Rightarrow> Inr (Inl e)
      | None \<Rightarrow>
          go_bind (updateInfo env \<lparr>cache = Map.empty\<rparr>) (\<lambda>(r, err).
            Inr (case err of Some e \<Rightarrow> Inl e | None \<Rightarrow> Inr r)))"

text \<open>
  One round of \<open>MonitorEventsLoop\<close>: what the select receives. The error of
  \<open>updateInfo\<close> is dropped. The second component says whether the loop goes on.
\<close>

datatype 'e docker_msg = DockerEvent string "'e resolver_env" | DockerError 'e | CtxDone

fun monitor_round :: "'e docker_msg \<Rightarrow> Resolver \<Rightarrow> (Resolver \<times> bool) go" where
  "monitor_round (DockerEvent action env) r =
     (if action = ''start''
      then go_bind (updateInfo env r) (\<lambda>(r', err). Inr (r', True))
      else Inr (r, True))"
| "monitor_round (DockerError err) r = Inr (r, False)"
| "monitor_round CtxDone r = Inr (r, False)"

fun MonitorEventsLoop :: "'e docker_msg list \<Rightarrow> Resolver \<Rightarrow> Resolver go" where
  "MonitorEventsLoop [] r = Inr r"
| "MonitorEventsLoop (msg # msgs) r =
     go_bind (monitor_round msg r) (\<lambda>(r', continue).
       if continue then MonitorEventsLoop msgs r' else Inr r')"

section \<open>What the cache holds\<close>

text \<open>
  Whether it succeeds or stops at an error, an update writes the entries of
  the containers it got through, later ones over earlier ones, and leaves
  every other entry alone.
\<close>

lemma update_loop_cache:
  assumes "update_loop env cs r = Inr (r', err)"
  shows "\<exists>n es. n \<le> length cs \<and> (err = None \<longrightarrow> n = length cs)
           \<and> list_all2 (\<lambda>c e. update_one env c = Inr (Inr e)) (take n cs) es
           \<and> cache r' = cache r ++ map_of (rev es)"
  using assms
proof (induction cs arbitrary: r)
  case (Cons c cs)
  then obtain res where res: "update_one env c = Inr res"
      "(case res of Inl e \<Rightarrow> Inr (r, Some e)
        | Inr (k, info) \<Rightarrow> update_loop env cs (r\<lparr>cache := (cache r)(k \<mapsto> info)\<rparr>)) = Inr (r', err)"
    by (auto simp: go_simps)
  show ?case
  proof (cases res)
    case (Inl e)
    with res show ?thesis by (intro exI [of _ 0] exI [of _ "[]"]) auto
  next
    case (Inr e)
    obtain k info where e: "e = (k, info)" by (cases e)
    with res Inr Cons.IH obtain n es where "n \<le> length cs" "err = None \<longrightarrow> n = length cs"
        "list_all2 (\<lambda>c e. update_one env c = Inr (Inr e)) (take n cs) es"
        "cache r' = (cache r)(k \<mapsto> info) ++ map_of (rev es)" by fastforce
    with e Inr res(1) show ?thesis by (intro exI [of _ "Suc n"] exI [of _ "e # es"]) simp
  qed
qed simp

lemma update_loop_all:
  "list_all2 (\<lambda>c e. update_one env c = Inr (Inr e)) cs es \<Longrightarrow>
   update_loop env cs r = Inr (r\<lparr>cache := cache r ++ map_of (rev es)\<rparr>, None)"
proof (induction cs es arbitrary: r rule: list_all2_induct)
  case (Cons c cs e es)
  obtain k info where e: "e = (k, info)" by (cases e)
  have "cache r ++ map_of (rev (e # es)) = (cache r)(k \<mapsto> info) ++ map_of (rev es)"
    by (simp add: e)
  moreover have "update_loop env (c # cs) r = update_loop env cs (r\<lparr>cache := (cache r)(k \<mapsto> info)\<rparr>)"
    using Cons.hyps(1) e by simp
  ultimately show ?case
    by (cases r) (simp only: Cons.IH Resolver.update_convs Resolver.select_convs)
qed simp

lemma updateInfo_keeps:
  assumes "updateInfo env r = Inr (r', err)"
  shows "dom (cache r) \<subseteq> dom (cache r')"
proof (cases "ContainerList env")
  case (Inr cs)
  with assms have "update_loop env cs r = Inr (r', err)" by (simp add: updateInfo_def)
  from update_loop_cache [OF this] obtain es where "cache r' = cache r ++ map_of (rev es)" by blast
  then show ?thesis by (simp only: dom_map_add) blast
qed (use assms in \<open>auto simp: updateInfo_def\<close>)

lemma monitor_round_keeps:
  "monitor_round msg r = Inr (r', c) \<Longrightarrow> dom (cache r) \<subseteq> dom (cache r')"
  by (cases msg) (auto simp: go_simps split: if_splits dest: updateInfo_keeps)

lemma MonitorEventsLoop_keeps:
  "MonitorEventsLoop msgs r = Inr r' \<Longrightarrow> dom (cache r) \<subseteq> dom (cache r')"
proof (induction msgs arbitrary: r)
  case (Cons msg msgs)
  then obtain r1 c where "monitor_round msg r = Inr (r1, c)"
      "(if c then MonitorEventsLoop msgs r1 else Inr r1) = Inr r'" by (auto simp: go_simps)
  with Cons.IH [of r1] monitor_round_keeps [of msg r r1 c] show ?case by (auto split: if_splits)
qed simp

section \<open>The path of a cgroup\<close>

definition segment :: "string \<Rightarrow> bool" where
  "segment p \<longleftrightarrow> p \<noteq> '''' \<and> p \<noteq> ''.'' \<and> p \<noteq> ''..'' \<and> CHR ''/'' \<notin> set p \<and> (\<forall>c\<in>set p. graphic c)"

text \<open>A path of \<open>n\<close> steps up, then down through \<open>ps\<close>.\<close>

definition up_down :: "nat \<Rightarrow> string list \<Rightarrow> string list" where
  "up_down n ps = replicate n ''..'' @ ps"

lemma clean_parts_up_down:
  "list_all segment ps \<Longrightarrow> ''..'' \<notin> set out \<Longrightarrow> clean_parts True out (up_down n ps) = rev (drop n out) @ ps"
proof (induction n arbitrary: out)
  case 0
  then show ?case unfolding up_down_def by (induction ps arbitrary: out) (auto simp: segment_def)
next
  case (Suc n)
  then show ?case by (cases out) (auto simp: up_down_def)
qed

lemma up_down_parts:
  assumes "list_all segment ps" and "p \<in> set (up_down n ps)"
  shows "p \<noteq> ''''" and "CHR ''/'' \<notin> set p" and "c \<in> set p \<Longrightarrow> graphic c"
  using assms by (auto simp: up_down_def list_all_iff segment_def graphic_def)

lemma Clean_up_down:
  assumes "list_all segment ps"
  shows "filepath_Join ''/sys/fs/cgroup'' (CHR ''/'' # Join (up_down n ps) ''/'')
           = CHR ''/'' # Join (take (3 - n) [''sys'', ''fs'', ''cgroup''] @ ps) ''/''"
proof -
  let ?ps = "up_down n ps"
  define qs where "qs = ['''', ''sys'', ''fs'', ''cgroup'', ''''] @ (if ?ps = [] then [''''] else ?ps)"
  have path: "''/sys/fs/cgroup'' @ ''/'' @ CHR ''/'' # Join ?ps ''/'' = Join qs ''/''"
    by (cases ?ps) (simp_all add: qs_def)
  have "\<forall>q\<in>set qs. CHR ''/'' \<notin> set q" using up_down_parts(2) [OF assms, of _ n] by (auto simp: qs_def)
  then have split: "Split (Join qs ''/'') ''/'' = qs" by (intro Split_Join) (simp_all add: qs_def)
  have "clean_parts True [] qs = clean_parts True [''cgroup'', ''fs'', ''sys''] ?ps" by (simp add: qs_def)
  also have "\<dots> = take (3 - n) [''sys'', ''fs'', ''cgroup''] @ ps"
    using clean_parts_up_down [OF assms, of "[''cgroup'', ''fs'', ''sys'']" n] by (simp add: rev_drop eval_nat_numeral)
  finally have "clean_parts True [] qs = take (3 - n) [''sys'', ''fs'', ''cgroup''] @ ps" .
  moreover have "HasPrefix (Join qs ''/'') ''/''"
    unfolding path [symmetric] by (simp add: HasPrefix_def)
  ultimately show ?thesis
    unfolding filepath_Join_def Clean_def path by (simp add: split Let_def)
qed

lemma set_Join: "set (Join qs sep) \<subseteq> \<Union> (set ` set qs) \<union> set sep"
  by (induction qs rule: induct_list012) auto

lemma cgroup_line_trim:
  assumes "list_all segment ps"
  shows "TrimSpace (''0::/'' @ Join (up_down n ps) ''/'' @ [CHR 0x0A]) = ''0::/'' @ Join (up_down n ps) ''/''"
proof -
  have slash: "graphic (CHR ''/'')" and zero: "\<not> graphic (CHR 0x0A)" "graphic (CHR ''0'')" by (simp_all add: graphic_def)
  have "\<forall>c\<in>set (Join qs ''/''). graphic c" if "\<forall>p\<in>set qs. \<forall>c\<in>set p. graphic c" for qs
    using set_Join [of qs "''/''"] that slash by auto
  note all = this
  have "\<forall>p\<in>set (up_down n ps). \<forall>c\<in>set p. graphic c" by (intro ballI) (rule up_down_parts(3) [OF assms])
  note all = all [OF this]
  have "graphic (last (CHR ''0'' # CHR '':'' # CHR '':'' # CHR ''/'' # xs))" if "\<forall>c\<in>set xs. graphic c" for xs
    using slash that by (cases "xs = []") simp_all
  from this [OF all] have "graphic (last (''0::/'' @ Join (up_down n ps) ''/''))" by (simp only: append_Cons append_Nil)
  then show ?thesis
    using TrimSpace_newline [of "''0::/'' @ Join (up_down n ps) ''/''"] zero by simp
qed

lemma getCgroupID_up_down:
  assumes "list_all segment ps"
    and "ReadFile env (''/proc/'' @ dec_int pid @ ''/cgroup'') = Inr (''0::/'' @ Join (up_down n ps) ''/'' @ [CHR 0x0A])"
  shows "getCgroupID env pid
           = Inr (StatIno env (CHR ''/'' # Join (take (3 - n) [''sys'', ''fs'', ''cgroup''] @ ps) ''/''))"
  using assms(2) cgroup_line_trim [OF assms(1)] Clean_up_down [OF assms(1)]
  by (simp add: getCgroupID_def SplitN2_def)

lemma getCgroupID_path:
  assumes "list_all segment ps"
    and "ReadFile env (''/proc/'' @ dec_int pid @ ''/cgroup'') = Inr (''0::/'' @ Join ps ''/'' @ [CHR 0x0A])"
  shows "getCgroupID env pid
           = Inr (StatIno env (CHR ''/'' # Join ([''sys'', ''fs'', ''cgroup''] @ ps) ''/''))"
  using getCgroupID_up_down [of ps env pid 0] assms by (simp add: up_down_def)

section \<open>Absence of panics\<close>

text \<open>
  What the code relies on: the daemon reports a state for every container,
  and a cgroup file holds a line of the unified hierarchy.
\<close>

definition env_ok :: "'e resolver_env \<Rightarrow> bool" where
  "env_ok env \<longleftrightarrow>
     (\<forall>c insp. ContainerInspect env c = Inr insp \<longrightarrow> statePid insp \<noteq> None)
     \<and> (\<forall>f data. ReadFile env f = Inr data \<longrightarrow> Contains (TrimSpace data) ''::'')"

lemma getCgroupID_no_panic:
  "(\<forall>f data. ReadFile env f = Inr data \<longrightarrow> Contains (TrimSpace data) ''::'') \<Longrightarrow> getCgroupID env pid \<noteq> Inl p"
proof (cases "ReadFile env (''/proc/'' @ dec_int pid @ ''/cgroup'')")
  case (Inr data)
  assume "\<forall>f data. ReadFile env f = Inr data \<longrightarrow> Contains (TrimSpace data) ''::''"
  with Inr have "Contains (TrimSpace data) ''::''" by blast
  with Inr show ?thesis by (auto simp: getCgroupID_def SplitN2_def Contains_def)
qed (simp add: getCgroupID_def)

lemma update_one_no_panic: "env_ok env \<Longrightarrow> update_one env c \<noteq> Inl p"
proof (cases "ContainerInspect env (fst c)")
  case (Inr insp)
  assume ok: "env_ok env"
  with Inr obtain pid where "statePid insp = Some pid" unfolding env_ok_def by blast
  moreover have "getCgroupID env pid \<noteq> Inl q" for q
    by (rule getCgroupID_no_panic) (use ok in \<open>simp add: env_ok_def\<close>)
  ultimately show ?thesis using Inr by (auto simp: update_one_def go_simps)
qed (simp add: update_one_def)

lemma update_loop_no_panic: "env_ok env \<Longrightarrow> update_loop env cs r \<noteq> Inl p"
proof (induction cs arbitrary: r)
  case (Cons c cs)
  then show ?case
    using update_one_no_panic [OF Cons.prems, of c] by (auto simp: go_simps split: sum.splits)
qed simp

lemma updateInfo_no_panic: "env_ok env \<Longrightarrow> updateInfo env r \<noteq> Inl p"
  by (auto simp: updateInfo_def update_loop_no_panic split: sum.splits)

fun msg_ok :: "'e docker_msg \<Rightarrow> bool" where
  "msg_ok (DockerEvent action env) \<longleftrightarrow> env_ok env"
| "msg_ok m \<longleftrightarrow> True"

lemma monitor_round_no_panic: "msg_ok msg \<Longrightarrow> monitor_round msg r \<noteq> Inl p"
  by (cases msg) (auto simp: go_simps updateInfo_no_panic)

end
