(* ===== verification/PortExpr.thy ===== *)
theory PortExpr
  imports GoLib
begin

text \<open>
  Port expressions of rules, \<open>internal/ruleengine/portexpr.go\<close>: the parser,
  the decoder of YAML nodes and the matcher.
\<close>

section \<open>Expressions\<close>

record PortExpr =
  Ports :: "u16 list"
  Ranges :: "(u16 \<times> u16) list"
  Negate :: bool
  Wildcard :: bool

definition zero_PortExpr :: PortExpr where
  "zero_PortExpr = \<lparr>Ports = [], Ranges = [], Negate = False, Wildcard = False\<rparr>"

datatype port_error =
    InvalidRangeStart num_error
  | InvalidRangeEnd num_error
  | InvalidPort num_error
  | UnexpectedNodeKind nat

text \<open>The loop body of \<open>ParsePortExpr\<close> on one comma-separated part.\<close>

definition parse_part :: "string \<Rightarrow> PortExpr \<Rightarrow> port_error + PortExpr" where
  "parse_part part0 expr =
     (let part = Trim (TrimSpace part0) [CHR 0x22, CHR 0x27] in
      if part = '''' then Inr expr
      else if Contains part ''-'' then
        (case SplitN2 part ''-'' of
           [a, b] \<Rightarrow>
             (case ParseUint (TrimSpace a) 16 of
                (_, Some err) \<Rightarrow> Inl (InvalidRangeStart err)
              | (rangeStart, None) \<Rightarrow>
                  (case ParseUint (TrimSpace b) 16 of
                     (_, Some err) \<Rightarrow> Inl (InvalidRangeEnd err)
                   | (rangeEnd, None) \<Rightarrow>
                       Inr (expr\<lparr>Ranges := Ranges expr @ [(of_nat rangeStart, of_nat rangeEnd)]\<rparr>)))
         | _ \<Rightarrow> Inr expr)
      else
        (case ParseUint part 16 of
           (_, Some err) \<Rightarrow> Inl (InvalidPort err)
         | (port, None) \<Rightarrow> Inr (expr\<lparr>Ports := Ports expr @ [of_nat port]\<rparr>)))"

fun parse_parts :: "string list \<Rightarrow> PortExpr \<Rightarrow> port_error + PortExpr" where
  "parse_parts [] expr = Inr expr"
| "parse_parts (part # parts) expr =
     (case parse_part part expr of Inl err \<Rightarrow> Inl err | Inr expr' \<Rightarrow> parse_parts parts expr')"

definition ParsePortExpr :: "string \<Rightarrow> port_error + PortExpr" where
  "ParsePortExpr s =
     (let raw = TrimSpace s in
      if raw = ''*'' \<or> raw = '''' then Inr (zero_PortExpr\<lparr>Wildcard := True\<rparr>)
      else
        let expr = (if HasPrefix raw ''!'' then zero_PortExpr\<lparr>Negate := True\<rparr> else zero_PortExpr);
            raw = (if HasPrefix raw ''!'' then tl raw else raw);
            raw = (if HasPrefix raw ''['' \<and> HasSuffix raw '']'' then butlast (tl raw) else raw)
        in parse_parts (Split raw '','') expr)"

definition Match :: "PortExpr \<Rightarrow> u16 \<Rightarrow> bool" where
  "Match p port =
     (let matched = list_ex (\<lambda>q. q = port) (Ports p);
          matched = (if \<not> matched then list_ex (\<lambda>r. fst r \<le> port \<and> port \<le> snd r) (Ranges p) else matched);
          matched = (if Negate p then \<not> matched else matched)
      in matched)"

definition IsZero :: "PortExpr \<Rightarrow> bool" where
  "IsZero p \<longleftrightarrow> \<not> Wildcard p \<and> \<not> Negate p \<and> length (Ports p) = 0 \<and> length (Ranges p) = 0"

text \<open>
  A YAML node as the decoder hands it over: a scalar with its value, a
  sequence with its items (its \<open>Value\<close> is empty), or a node of another kind
  with its kind and value.
\<close>

datatype yaml_node =
    ScalarNode string
  | SequenceNode "yaml_node list"
  | OtherNode nat string

fun node_value :: "yaml_node \<Rightarrow> string" where
  "node_value (ScalarNode v) = v"
| "node_value (SequenceNode items) = ''''"
| "node_value (OtherNode k v) = v"

fun unmarshal_items :: "yaml_node list \<Rightarrow> PortExpr \<Rightarrow> port_error + PortExpr" where
  "unmarshal_items [] p = Inr p"
| "unmarshal_items (item # items) p =
     (case ParsePortExpr (node_value item) of
        Inl err \<Rightarrow> Inl err
      | Inr parsed \<Rightarrow>
          unmarshal_items items
            (p\<lparr>Ports := Ports p @ Ports parsed, Ranges := Ranges p @ Ranges parsed\<rparr>))"

fun UnmarshalYAML :: "yaml_node \<Rightarrow> PortExpr \<Rightarrow> port_error + PortExpr" where
  "UnmarshalYAML (ScalarNode v) p = ParsePortExpr v"
| "UnmarshalYAML (SequenceNode items) p = unmarshal_items items p"
| "UnmarshalYAML (OtherNode k v) p = Inl (UnexpectedNodeKind k)"

section \<open>Matching\<close>

lemma Match_iff:
  "Match p port \<longleftrightarrow>
     ((port \<in> set (Ports p) \<or> (\<exists>(lo, hi) \<in> set (Ranges p). lo \<le> port \<and> port \<le> hi)) \<noteq> Negate p)"
  by (force simp: Match_def Let_def list_ex_iff)

text \<open>A list collects the ports and ranges of its items, nothing else.\<close>

lemma unmarshal_items_collects:
  assumes "unmarshal_items items p = Inr q"
  shows "Negate q = Negate p \<and> Wildcard q = Wildcard p
     \<and> (\<exists>ps. list_all2 (\<lambda>i x. ParsePortExpr (node_value i) = Inr x) items ps
          \<and> Ports q = Ports p @ concat (map Ports ps) \<and> Ranges q = Ranges p @ concat (map Ranges ps))"
  using assms
proof (induction items arbitrary: p)
  case (Cons item items)
  then obtain x where x: "ParsePortExpr (node_value item) = Inr x"
    and rest: "unmarshal_items items (p\<lparr>Ports := Ports p @ Ports x, Ranges := Ranges p @ Ranges x\<rparr>) = Inr q"
    by (auto split: sum.splits)
  from Cons.IH [OF rest] obtain ps where
    "list_all2 (\<lambda>i x. ParsePortExpr (node_value i) = Inr x) items ps"
    "Ports q = Ports p @ concat (map Ports (x # ps))" "Ranges q = Ranges p @ concat (map Ranges (x # ps))"
    "Negate q = Negate p" "Wildcard q = Wildcard p" by auto
  with x show ?case by (intro conjI exI [of _ "x # ps"]) simp_all
qed simp

section \<open>Parsing what was printed\<close>

text \<open>Concrete syntax: ports, then ranges, separated by commas, after an optional \<open>!\<close>.\<close>

definition show_range :: "u16 \<times> u16 \<Rightarrow> string" where
  "show_range r = dec (unat (fst r)) @ ''-'' @ dec (unat (snd r))"

definition show_PortExpr :: "PortExpr \<Rightarrow> string" where
  "show_PortExpr p =
     (if Wildcard p then ''*''
      else (if Negate p then ''!'' else '''')
           @ Join (map (\<lambda>q. dec (unat q)) (Ports p) @ map show_range (Ranges p)) '','')"

text \<open>A word of digits and hyphens that starts and ends with a digit survives all trimming.\<close>

definition num_word :: "string \<Rightarrow> bool" where
  "num_word s \<longleftrightarrow> s \<noteq> [] \<and> is_digit (hd s) \<and> is_digit (last s) \<and>
     (\<forall>c\<in>set s. is_digit c \<or> c = CHR ''-'')"

lemma digit_graphic: "is_digit c \<Longrightarrow> graphic c"
  and digit_not_quote: "is_digit c \<Longrightarrow> c \<notin> {CHR 0x22, CHR 0x27, CHR ''-'', CHR '','', CHR ''!'', CHR ''*'', CHR ''['', CHR '']''}"
  by (auto simp: is_digit_def graphic_def)

lemma num_word_trim:
  assumes "num_word s"
  shows "TrimSpace s = s" and "Trim s [CHR 0x22, CHR 0x27] = s"
  using assms digit_not_quote [of "hd s"] digit_not_quote [of "last s"]
  by (auto simp: num_word_def digit_graphic intro!: TrimSpace_graphic Trim_other)

lemma num_word_dec: "num_word (dec n)"
  using dec_digits [of n] dec_nonempty [of n] by (auto simp: num_word_def)

lemma num_word_range: "num_word (show_range r)"
  using num_word_dec [of "unat (fst r)"] num_word_dec [of "unat (snd r)"]
  by (auto simp: num_word_def show_range_def)

lemma num_word_no_comma: "num_word s \<Longrightarrow> CHR '','' \<notin> set s"
  using digit_not_quote by (auto simp: num_word_def)

lemma dec_no_hyphen: "CHR ''-'' \<notin> set (dec n)"
  using dec_digits [of n] digit_not_quote by blast

lemma unat_u16_bound: "unat (w :: u16) < 2 ^ 16"
  using unsigned_less [of w, where 'a = nat] by simp

lemma parse_part_port:
  "parse_part (dec (unat q)) expr = Inr (expr\<lparr>Ports := Ports expr @ [q]\<rparr>)"
  by (simp add: parse_part_def num_word_trim num_word_dec dec_nonempty Contains_def cut_none
      dec_no_hyphen ParseUint_dec unat_u16_bound [simplified])

lemma parse_part_range:
  "parse_part (show_range r) expr = Inr (expr\<lparr>Ranges := Ranges expr @ [r]\<rparr>)"
proof -
  have "show_range r \<noteq> []" by (simp add: show_range_def)
  moreover have "cut ''-'' (show_range r) = Some (dec (unat (fst r)), dec (unat (snd r)))"
    by (simp add: show_range_def cut_append_sep dec_no_hyphen)
  ultimately show ?thesis
    by (simp add: parse_part_def num_word_trim num_word_range num_word_dec Contains_def SplitN2_def
        ParseUint_dec unat_u16_bound [simplified])
qed

lemma parse_parts_ports:
  "parse_parts (map (\<lambda>q. dec (unat q)) qs @ rest) expr =
     parse_parts rest (expr\<lparr>Ports := Ports expr @ qs\<rparr>)"
  by (induction qs arbitrary: expr) (simp_all add: parse_part_port)

lemma parse_parts_ranges:
  "parse_parts (map show_range rs) expr = Inr (expr\<lparr>Ranges := Ranges expr @ rs\<rparr>)"
  by (induction rs arbitrary: expr) (simp_all add: parse_part_range)

lemma Join_hd: "ss \<noteq> [] \<Longrightarrow> hd ss \<noteq> [] \<Longrightarrow> Join ss sep \<noteq> [] \<and> hd (Join ss sep) = hd (hd ss)"
  by (induction ss rule: induct_list012) auto

lemma Join_last:
  "ss \<noteq> [] \<Longrightarrow> \<forall>s\<in>set ss. s \<noteq> [] \<Longrightarrow> last (Join ss [c]) = last (last ss)"
  using Join_hd by (induction ss rule: induct_list012) auto

text \<open>A non-empty expression is parsed back from its concrete syntax.\<close>

lemma Parse_words:
  assumes "ws \<noteq> []" and "\<forall>w\<in>set ws. num_word w"
  shows "ParsePortExpr ((if neg then ''!'' else '''') @ Join ws '','') =
    parse_parts ws (zero_PortExpr\<lparr>Negate := neg\<rparr>)"
proof -
  let ?j = "Join ws '',''"
  have ne: "\<forall>w\<in>set ws. w \<noteq> []" and d: "is_digit (hd (hd ws))" "is_digit (last (last ws))"
    using assms by (auto simp: num_word_def)
  then have j: "?j \<noteq> []" "is_digit (hd ?j)" "is_digit (last ?j)"
    using Join_hd [of ws "'',''"] Join_last [OF assms(1) ne] assms(1) by simp_all
  have split: "Split ?j '','' = ws"
    using assms num_word_no_comma by (intro Split_Join) auto
  note q = digit_not_quote [OF j(2)]
  have pre: "\<not> prefix [c] ?j" if "c \<in> {CHR ''!'', CHR ''['', CHR ''*''}" for c
    using that q by (cases ?j) auto
  have "graphic (CHR ''!'')" by (simp add: graphic_def)
  then have "TrimSpace ((if neg then ''!'' else '''') @ ?j) = (if neg then ''!'' else '''') @ ?j"
    using j by (intro TrimSpace_graphic) (auto simp: digit_graphic)
  moreover have "?j \<noteq> ''*''" using q by (metis insert_iff list.sel(1))
  ultimately show ?thesis
    using j(1) pre split
    by (cases neg) (auto simp: ParsePortExpr_def Let_def HasPrefix_def zero_PortExpr_def)
qed

lemma ParsePortExpr_show:
  assumes "\<not> Wildcard p" and "Ports p \<noteq> [] \<or> Ranges p \<noteq> []"
  shows "ParsePortExpr (show_PortExpr p) = Inr p"
proof -
  let ?ws = "map (\<lambda>q. dec (unat q)) (Ports p) @ map show_range (Ranges p)"
  have "?ws \<noteq> []" and "\<forall>w\<in>set ?ws. num_word w"
    using assms(2) by (auto simp: num_word_dec num_word_range)
  from Parse_words [OF this, of "Negate p"]
  have "ParsePortExpr (show_PortExpr p) = parse_parts ?ws (zero_PortExpr\<lparr>Negate := Negate p\<rparr>)"
    using assms(1) by (simp add: show_PortExpr_def)
  also have "\<dots> = Inr p"
    using assms(1) by (simp add: parse_parts_ports parse_parts_ranges zero_PortExpr_def)
  finally show ?thesis .
qed

end
