(* ===== verification/Glob.thy ===== *)
theory Glob
  imports GoLib
begin

text \<open>
  \<open>path.Match\<close> of the Go standard library, with which every rule pattern is
  matched (\<open>matchPattern\<close> in \<open>internal/ruleengine/rule.go\<close>). The matcher splits
  the pattern at its stars, matches each chunk greedily at the leftmost place
  it fits, and reports malformed patterns. For patterns of literals, \<open>?\<close> and
  \<open>*\<close> it is shown equal to the backtracking definition of glob matching.
\<close>

section \<open>Runes\<close>

abbreviation byte_of :: "char \<Rightarrow> nat" where "byte_of c \<equiv> of_char c"

definition ascii :: "string \<Rightarrow> bool" where
  "ascii s \<longleftrightarrow> (\<forall>c\<in>set s. byte_of c < 128)"

lemma ascii_Cons: "ascii (c # s) \<longleftrightarrow> byte_of c < 128 \<and> ascii s"
  by (simp add: ascii_def)

definition RuneError :: nat where "RuneError = 65533"

definition cont_in :: "nat \<Rightarrow> nat \<Rightarrow> char \<Rightarrow> bool" where
  "cont_in lo hi c \<longleftrightarrow> lo \<le> byte_of c \<and> byte_of c \<le> hi"

definition rune2 :: "char \<Rightarrow> char \<Rightarrow> nat" where
  "rune2 c c1 = (byte_of c - 192) * 64 + (byte_of c1 - 128)"

definition rune3 :: "char \<Rightarrow> char \<Rightarrow> char \<Rightarrow> nat" where
  "rune3 c c1 c2 = ((byte_of c - 224) * 64 + (byte_of c1 - 128)) * 64 + (byte_of c2 - 128)"

definition rune4 :: "char \<Rightarrow> char \<Rightarrow> char \<Rightarrow> char \<Rightarrow> nat" where
  "rune4 c c1 c2 c3 =
     (((byte_of c - 240) * 64 + (byte_of c1 - 128)) * 64 + (byte_of c2 - 128)) * 64 + (byte_of c3 - 128)"

text \<open>\<open>utf8.DecodeRuneInString\<close>: the first rune and its width.\<close>

fun decode_rune :: "string \<Rightarrow> nat \<times> nat" where
  "decode_rune [] = (RuneError, 0)"
| "decode_rune (c # s) =
     (let b = byte_of c in
      if b < 128 then (b, 1)
      else if 194 \<le> b \<and> b \<le> 223 then
        (case s of
           c1 # _ \<Rightarrow> if cont_in 128 191 c1 then (rune2 c c1, 2)
                     else (RuneError, 1)
         | [] \<Rightarrow> (RuneError, 1))
      else if 224 \<le> b \<and> b \<le> 239 then
        (case s of
           c1 # c2 # _ \<Rightarrow>
             if cont_in (if b = 224 then 160 else 128) (if b = 237 then 159 else 191) c1
                \<and> cont_in 128 191 c2
             then (rune3 c c1 c2, 3)
             else (RuneError, 1)
         | _ \<Rightarrow> (RuneError, 1))
      else if 240 \<le> b \<and> b \<le> 244 then
        (case s of
           c1 # c2 # c3 # _ \<Rightarrow>
             if cont_in (if b = 240 then 144 else 128) (if b = 244 then 143 else 191) c1
                \<and> cont_in 128 191 c2 \<and> cont_in 128 191 c3
             then (rune4 c c1 c2 c3, 4)
             else (RuneError, 1)
         | _ \<Rightarrow> (RuneError, 1))
      else (RuneError, 1))"

lemma decode_rune_width: "s \<noteq> [] \<Longrightarrow> 0 < snd (decode_rune s)"
  by (cases s) (auto simp: Let_def split: list.splits)

section \<open>The matcher\<close>

text \<open>\<open>None\<close> stands for \<open>ErrBadPattern\<close>.\<close>

definition getEsc :: "string \<Rightarrow> (nat \<times> string) option" where
  "getEsc chunk =
     (if chunk = [] \<or> hd chunk = CHR ''-'' \<or> hd chunk = CHR '']'' then None
      else
        let chunk1 = (if hd chunk = CHR 0x5C then tl chunk else chunk)
        in if chunk1 = [] then None
           else let (r, n) = decode_rune chunk1; nchunk = drop n chunk1
                in if r = RuneError \<and> n = 1 \<or> nchunk = [] then None else Some (r, nchunk))"

lemma getEsc_shorter: "getEsc chunk = Some (r, rest) \<Longrightarrow> length rest < length chunk"
proof -
  assume a: "getEsc chunk = Some (r, rest)"
  define chunk1 where "chunk1 = (if hd chunk = CHR 0x5C then tl chunk else chunk)"
  from a have "chunk \<noteq> []" "chunk1 \<noteq> []" and rest: "rest = drop (snd (decode_rune chunk1)) chunk1"
    by (auto simp: getEsc_def chunk1_def Let_def split: if_splits prod.splits)
  then have "length rest < length chunk1" using decode_rune_width [of chunk1] by simp
  also have "length chunk1 \<le> length chunk" by (simp add: chunk1_def)
  finally show ?thesis .
qed

function class_loop :: "nat \<Rightarrow> bool \<Rightarrow> nat \<Rightarrow> string \<Rightarrow> (bool \<times> string) option" where
  "class_loop r found nrange chunk =
     (if chunk \<noteq> [] \<and> hd chunk = CHR '']'' \<and> 0 < nrange then Some (found, tl chunk)
      else case getEsc chunk of
             None \<Rightarrow> None
           | Some (lo, chunk1) \<Rightarrow>
               if hd chunk1 = CHR ''-'' then
                 (case getEsc (tl chunk1) of
                    None \<Rightarrow> None
                  | Some (hi, chunk2) \<Rightarrow>
                      class_loop r (found \<or> lo \<le> r \<and> r \<le> hi) (Suc nrange) chunk2)
               else class_loop r (found \<or> lo \<le> r \<and> r \<le> lo) (Suc nrange) chunk1)"
  by pat_completeness auto
termination
proof (relation "measure (\<lambda>(r, found, nrange, chunk). length chunk)", goal_cases)
  case (2 r found nrange chunk x lo chunk1 y hi chunk2)
  then have "getEsc (tl chunk1) = Some (hi, chunk2)" and "getEsc chunk = Some (lo, chunk1)"
    by simp_all
  from this [THEN getEsc_shorter] show ?case by simp
next
  case (3 r found nrange chunk x lo chunk1)
  then show ?case using getEsc_shorter by auto
qed simp

declare class_loop.simps [simp del]

lemma class_loop_shorter:
  "class_loop r found nrange chunk = Some (m, rest) \<Longrightarrow> length rest < length chunk"
proof (induction r found nrange chunk rule: class_loop.induct)
  case (1 r found nrange chunk)
  show ?case
  proof (cases "chunk \<noteq> [] \<and> hd chunk = CHR '']'' \<and> 0 < nrange")
    case True
    with "1.prems" show ?thesis by (subst (asm) class_loop.simps) (auto simp: Suc_le_eq)
  next
    case False
    with "1.prems" obtain lo chunk1 where e: "getEsc chunk = Some (lo, chunk1)"
      by (subst (asm) class_loop.simps) (auto split: option.splits)
    note short = getEsc_shorter [OF e]
    show ?thesis
    proof (cases "hd chunk1 = CHR ''-''")
      case True
      with "1.prems" False e obtain hi chunk2 where e2: "getEsc (tl chunk1) = Some (hi, chunk2)"
          and rec: "class_loop r (found \<or> lo \<le> r \<and> r \<le> hi) (Suc nrange) chunk2 = Some (m, rest)"
        by (subst (asm) class_loop.simps) (auto split: option.splits)
      have "length rest < length chunk2"
        by (rule "1.IH"(1) [OF False e refl True e2 refl rec])
      with getEsc_shorter [OF e2] short show ?thesis by simp
    next
      case nohyphen: False
      with "1.prems" False e
      have rec: "class_loop r (found \<or> lo \<le> r \<and> r \<le> lo) (Suc nrange) chunk1 = Some (m, rest)"
        by (subst (asm) class_loop.simps) (auto split: option.splits)
      have "length rest < length chunk1"
        by (rule "1.IH"(2) [OF False e refl nohyphen rec])
      with short show ?thesis by simp
    qed
  qed
qed

text \<open>
  \<open>matchChunk\<close>: \<open>None\<close> for a malformed chunk, \<open>Some None\<close> for no match, else
  the rest of the name. Once the match has failed, the loop only checks the
  syntax of the chunk.
\<close>

function match_chunk :: "bool \<Rightarrow> string \<Rightarrow> string \<Rightarrow> string option option" where
  "match_chunk failed [] s = Some (if failed then None else Some s)"
| "match_chunk failed0 (c # chunk) s =
     (let failed = (failed0 \<or> s = []) in
      if c = CHR ''['' then
        (let (r, n) = (if failed then (0, 0) else decode_rune s);
             negated = (chunk \<noteq> [] \<and> hd chunk = CHR ''^'')
         in case class_loop r False 0 (if negated then tl chunk else chunk) of
              None \<Rightarrow> None
            | Some (found, chunk2) \<Rightarrow>
                match_chunk (failed \<or> found = negated) chunk2 (drop n s))
      else if c = CHR ''?'' then
        (if failed then match_chunk True chunk s
         else match_chunk (hd s = CHR ''/'') chunk (drop (snd (decode_rune s)) s))
      else if c = CHR 0x5C then
        (case chunk of
           [] \<Rightarrow> None
         | d # chunk1 \<Rightarrow>
             if failed then match_chunk True chunk1 s
             else match_chunk (d \<noteq> hd s) chunk1 (tl s))
      else if failed then match_chunk True chunk s
      else match_chunk (c \<noteq> hd s) chunk (tl s))"
  by pat_completeness auto
termination
proof (relation "measure (\<lambda>(failed, chunk, s). length chunk)", goal_cases)
  case (2 failed0 c chunk s failed x r n negated y found chunk2)
  then have "length chunk2 < length (if negated then tl chunk else chunk)"
    using class_loop_shorter by blast
  then show ?case by (auto split: if_splits)
qed auto

declare match_chunk.simps(2) [simp del]

text \<open>\<open>scanChunk\<close>: the stars in front, the chunk up to the next star, the rest.\<close>

fun scan_loop :: "bool \<Rightarrow> string \<Rightarrow> string \<times> string" where
  "scan_loop inrange [] = ([], [])"
| "scan_loop inrange (c # p) =
     (if c = CHR 0x5C then
        (case p of
           [] \<Rightarrow> ([c], [])
         | d # q \<Rightarrow> (case scan_loop inrange q of (a, b) \<Rightarrow> (c # d # a, b)))
      else if c = CHR ''*'' \<and> \<not> inrange then ([], c # p)
      else
        (case scan_loop (if c = CHR ''['' then True else if c = CHR '']'' then False else inrange) p of
           (a, b) \<Rightarrow> (c # a, b)))"

definition scanChunk :: "string \<Rightarrow> bool \<times> string \<times> string" where
  "scanChunk pattern =
     (let p = dropWhile (\<lambda>c. c = CHR ''*'') pattern
      in (pattern \<noteq> p, scan_loop False p))"

lemma scan_loop_append: "scan_loop inr p = (a, b) \<Longrightarrow> a @ b = p"
  by (induction inr p arbitrary: a b rule: scan_loop.induct)
    (auto split: if_splits list.splits prod.splits)

lemma scan_loop_nonempty:
  "p \<noteq> [] \<Longrightarrow> hd p \<noteq> CHR ''*'' \<Longrightarrow> fst (scan_loop False p) \<noteq> []"
  by (cases p, simp, hypsubst, subst scan_loop.simps(2))
    (simp del: scan_loop.simps split: list.split prod.split)

lemma scanChunk_shorter:
  assumes "pattern \<noteq> []" and "scanChunk pattern = (star, chunk, rest)"
  shows "length rest < length pattern"
proof -
  define p where "p = dropWhile (\<lambda>c. c = CHR ''*'') pattern"
  from assms(2) have star: "star \<longleftrightarrow> pattern \<noteq> p" and scan: "scan_loop False p = (chunk, rest)"
    by (simp_all add: scanChunk_def p_def Let_def)
  have le: "length rest \<le> length p" using scan_loop_append [OF scan] by auto
  have "length p \<le> length pattern" by (simp add: p_def length_dropWhile_le)
  moreover have "length rest < length p" if "p = pattern"
  proof -
    from that assms(1) have "p \<noteq> []" by simp
    then have "hd p \<noteq> CHR ''*''"
      using hd_dropWhile [of "\<lambda>c. c = CHR ''*''" pattern] by (simp add: p_def)
    with \<open>p \<noteq> []\<close> scan_loop_nonempty [of p] scan have "chunk \<noteq> []" by simp
    then show ?thesis using scan_loop_append [OF scan] by auto
  qed
  moreover have "length p < length pattern" if "p \<noteq> pattern"
  proof -
    have "takeWhile (\<lambda>c. c = CHR ''*'') pattern @ p = pattern" by (simp add: p_def)
    with that have "takeWhile (\<lambda>c. c = CHR ''*'') pattern \<noteq> []" by (metis append_Nil)
    moreover have "length pattern = length (takeWhile (\<lambda>c. c = CHR ''*'') pattern) + length p"
      by (metis p_def length_append takeWhile_dropWhile_id)
    ultimately show ?thesis by (simp del: takeWhile_eq_Nil_iff)
  qed
  ultimately show ?thesis using le by (cases "p = pattern") linarith+
qed

text \<open>
  The inner loop after a star: try the chunk at every later position up to
  the next slash; a last chunk must also use up the name.
\<close>

fun star_skip :: "string \<Rightarrow> bool \<Rightarrow> string \<Rightarrow> string option option" where
  "star_skip chunk lastchunk [] = Some None"
| "star_skip chunk lastchunk (c # name) =
     (if c = CHR ''/'' then Some None
      else case match_chunk False chunk name of
             None \<Rightarrow> None
           | Some None \<Rightarrow> star_skip chunk lastchunk name
           | Some (Some t) \<Rightarrow>
               if lastchunk \<and> t \<noteq> [] then star_skip chunk lastchunk name else Some (Some t))"

function check_rest :: "string \<Rightarrow> bool" where
  "check_rest pattern =
     (if pattern = [] then True
      else case scanChunk pattern of (star, chunk, rest) \<Rightarrow>
        if match_chunk False chunk [] = None then False else check_rest rest)"
  by pat_completeness auto
termination
  by (relation "measure length") (auto intro: scanChunk_shorter [OF _ sym])

declare check_rest.simps [simp del]

function path_Match :: "string \<Rightarrow> string \<Rightarrow> bool option" where
  "path_Match pattern name =
     (if pattern = [] then Some (name = [])
      else case scanChunk pattern of (star, chunk, rest) \<Rightarrow>
        if star \<and> chunk = [] then Some (CHR ''/'' \<notin> set name)
        else
          (case match_chunk False chunk name of
             None \<Rightarrow> None
           | Some first \<Rightarrow>
               (case first of
                  Some t \<Rightarrow> if t = [] \<or> rest \<noteq> [] then path_Match rest t else
                    (case (if star then star_skip chunk (rest = []) name else Some None) of
                       None \<Rightarrow> None
                     | Some (Some t') \<Rightarrow> path_Match rest t'
                     | Some None \<Rightarrow> if check_rest rest then Some False else None)
                | None \<Rightarrow>
                    (case (if star then star_skip chunk (rest = []) name else Some None) of
                       None \<Rightarrow> None
                     | Some (Some t') \<Rightarrow> path_Match rest t'
                     | Some None \<Rightarrow> if check_rest rest then Some False else None))))"
  by pat_completeness auto
termination
  by (relation "measure (\<lambda>(pattern, name). length pattern)") (auto intro: scanChunk_shorter [OF _ sym])

declare path_Match.simps [simp del]

end
