(* ===== verification/Rule.thy ===== *)
theory Rule
  imports Core PortExpr Glob
begin

text \<open>
  Rules and their match blocks, \<open>internal/ruleengine/rule.go\<close>, with the
  sequence part of a rule from \<open>sequence.go\<close>. A pointer field of the YAML
  structures is an option, nil being \<open>None\<close>.
\<close>

section \<open>Match blocks\<close>

datatype MatchBlock =
  MatchBlock
    (mbEventType: string)
    (mbSrcProcess: string) (mbDstProcess: string)
    (mbSrcContainer: string) (mbDstContainer: string)
    (mbSrcPort: PortExpr) (mbDstPort: PortExpr)
    (mbFilePath: string) (mbFileOp: string)
    (mbExecPath: string) (mbParentProcess: string)
    (mbNot: "MatchBlock option")

definition zero_MatchBlock :: MatchBlock where
  "zero_MatchBlock =
     MatchBlock '''' '''' '''' '''' '''' zero_PortExpr zero_PortExpr '''' '''' '''' '''' None"

text \<open>A malformed pattern matches nothing.\<close>

definition matchPattern :: "string \<Rightarrow> string \<Rightarrow> bool" where
  "matchPattern pattern value =
     (case path_Match pattern value of None \<Rightarrow> False | Some matched \<Rightarrow> matched)"

fun MatchEvent :: "MatchBlock \<Rightarrow> Event \<Rightarrow> bool" where
  "MatchEvent (MatchBlock eventType srcProcess dstProcess srcContainer dstContainer srcPort dstPort
                 filePath fileOp execPath parentProcess notBlock) event =
     (case notBlock of
        Some m \<Rightarrow> \<not> MatchEvent m event
      | None \<Rightarrow>
          if eventType \<noteq> '''' \<and> eventType \<noteq> EvType event then False
          else
            let res = True;
                res = (if srcProcess \<noteq> '''' then res \<and> matchPattern srcProcess (SrcProcessName event) else res);
                res = (if dstProcess \<noteq> '''' then res \<and> matchPattern dstProcess (DstProcessName event) else res);
                res = (case SrcContainer event of
                         Some info \<Rightarrow> if srcContainer \<noteq> '''' then res \<and> matchPattern srcContainer (Name info) else res
                       | None \<Rightarrow> res);
                res = (case DstContainer event of
                         Some info \<Rightarrow> if dstContainer \<noteq> '''' then res \<and> matchPattern dstContainer (Name info) else res
                       | None \<Rightarrow> res);
                res = (if \<not> IsZero srcPort \<and> EvSrcPort event \<noteq> 0 then res \<and> Match srcPort (EvSrcPort event) else res);
                res = (if \<not> IsZero dstPort \<and> EvDstPort event \<noteq> 0 then res \<and> Match dstPort (EvDstPort event) else res);
                res = (if execPath \<noteq> '''' then res \<and> matchPattern execPath (ExecPath event) else res);
                res = (if parentProcess \<noteq> '''' then res \<and> matchPattern parentProcess (ParentProcessName event) else res);
                res = (if filePath \<noteq> '''' then res \<and> matchPattern filePath (FilePath event) else res);
                res = (if fileOp \<noteq> '''' then res \<and> matchPattern fileOp (FileOp event) else res)
            in res)"

declare MatchEvent.simps [simp del]

section \<open>Rules\<close>

record DetectConfig =
  Mode :: string
  Count :: int
  Window :: string
  GroupBy :: "string list"

record SequenceConfig =
  seqWindow :: string
  seqGroupBy :: "string list"
  Steps :: "MatchBlock list"

record Rule =
  rName :: string
  rDescription :: string
  rSeverity :: string
  rMitre :: string
  rMatch :: "MatchBlock option"
  rAny :: "MatchBlock list"
  rAll :: "MatchBlock list"
  rDetect :: DetectConfig
  rSequence :: "SequenceConfig option"

fun any_loop :: "MatchBlock list \<Rightarrow> Event \<Rightarrow> bool" where
  "any_loop [] event = False"
| "any_loop (m # ms) event = (if MatchEvent m event then True else any_loop ms event)"

fun all_loop :: "MatchBlock list \<Rightarrow> Event \<Rightarrow> bool" where
  "all_loop [] event = True"
| "all_loop (m # ms) event = (if \<not> MatchEvent m event then False else all_loop ms event)"

definition Rule_MatchEvent :: "Rule \<Rightarrow> Event \<Rightarrow> bool" where
  "Rule_MatchEvent r event =
     (case rMatch r of
        Some m \<Rightarrow> MatchEvent m event
      | None \<Rightarrow>
          if 0 < length (rAny r) then any_loop (rAny r) event
          else if 0 < length (rAll r) then all_loop (rAll r) event
          else False)"

section \<open>What a block accepts\<close>

text \<open>
  A constraint of a block on an attribute of the event: absent constraints
  hold, and constraints on containers and ports hold of events that lack
  the attribute.
\<close>

definition accepts :: "string \<Rightarrow> string \<Rightarrow> bool" where
  "accepts pattern v \<longleftrightarrow> pattern = '''' \<or> matchPattern pattern v"

definition accepts_container :: "string \<Rightarrow> ContainerInfo option \<Rightarrow> bool" where
  "accepts_container pattern c \<longleftrightarrow>
     pattern = '''' \<or> (case c of None \<Rightarrow> True | Some info \<Rightarrow> matchPattern pattern (Name info))"

definition accepts_port :: "PortExpr \<Rightarrow> u16 \<Rightarrow> bool" where
  "accepts_port p port \<longleftrightarrow> IsZero p \<or> port = 0 \<or> Match p port"

lemma let_guard:
  "(let res = (if P then r \<and> b else r) in f res) = f (r \<and> (P \<longrightarrow> b))"
  "(let res = (case c of Some i \<Rightarrow> if P then r \<and> q i else r | None \<Rightarrow> r) in f res) =
   f (r \<and> (P \<longrightarrow> (case c of Some i \<Rightarrow> q i | None \<Rightarrow> True)))"
  "(let res = True in f res) = f True"
  by (cases P; cases r; simp add: Let_def split: option.split)+

lemma MatchEvent_iff:
  "MatchEvent m e \<longleftrightarrow>
     (case mbNot m of
        Some n \<Rightarrow> \<not> MatchEvent n e
      | None \<Rightarrow>
          (mbEventType m = '''' \<or> mbEventType m = EvType e)
          \<and> accepts (mbSrcProcess m) (SrcProcessName e) \<and> accepts (mbDstProcess m) (DstProcessName e)
          \<and> accepts_container (mbSrcContainer m) (SrcContainer e)
          \<and> accepts_container (mbDstContainer m) (DstContainer e)
          \<and> accepts_port (mbSrcPort m) (EvSrcPort e) \<and> accepts_port (mbDstPort m) (EvDstPort e)
          \<and> accepts (mbExecPath m) (ExecPath e) \<and> accepts (mbParentProcess m) (ParentProcessName e)
          \<and> accepts (mbFilePath m) (FilePath e) \<and> accepts (mbFileOp m) (FileOp e))"
proof (cases m)
  case (MatchBlock et sp dp sc dc spo dpo fp fo ep pp notBlock)
  show ?thesis
  proof (cases notBlock)
    case None
    show ?thesis
      unfolding MatchBlock None MatchEvent.simps let_guard option.case MatchBlock.sel
        accepts_def accepts_container_def accepts_port_def
      by (cases "SrcContainer e"; cases "DstContainer e") (simp_all, blast+)
  qed (simp add: MatchBlock MatchEvent.simps)
qed

text \<open>Nested negations are counted: only the innermost block constrains the event.\<close>

fun innermost :: "MatchBlock \<Rightarrow> MatchBlock" where
  "innermost (MatchBlock et sp dp sc dc spo dpo fp fo ep pp notBlock) =
     (case notBlock of None \<Rightarrow> MatchBlock et sp dp sc dc spo dpo fp fo ep pp None | Some m \<Rightarrow> innermost m)"

fun not_depth :: "MatchBlock \<Rightarrow> nat" where
  "not_depth (MatchBlock et sp dp sc dc spo dpo fp fo ep pp notBlock) =
     (case notBlock of None \<Rightarrow> 0 | Some m \<Rightarrow> Suc (not_depth m))"

lemma innermost_simps:
  "mbNot m = None \<Longrightarrow> innermost m = m \<and> not_depth m = 0"
  "mbNot m = Some n \<Longrightarrow> innermost m = innermost n \<and> not_depth m = Suc (not_depth n)"
  by (cases m, simp)+

lemma innermost_Not: "mbNot (innermost m) = None"
  by (induction m rule: innermost.induct) (simp split: option.split)

lemma MatchEvent_Some: "mbNot m = Some n \<Longrightarrow> MatchEvent m e \<longleftrightarrow> \<not> MatchEvent n e"
  by (subst MatchEvent_iff) simp

lemma MatchEvent_innermost:
  "MatchEvent m e \<longleftrightarrow> (MatchEvent (innermost m) e \<longleftrightarrow> even (not_depth m))"
proof (induction m rule: innermost.induct)
  case (1 et sp dp sc dc spo dpo fp fo ep pp notBlock)
  let ?m = "MatchBlock et sp dp sc dc spo dpo fp fo ep pp notBlock"
  show ?case
  proof (cases notBlock)
    case None
    then show ?thesis by simp
  next
    case (Some n)
    then have "MatchEvent ?m e \<longleftrightarrow> \<not> MatchEvent n e" by (simp add: MatchEvent_Some)
    with Some "1.IH" [OF Some] show ?thesis by simp
  qed
qed

lemma any_loop_iff: "any_loop ms e \<longleftrightarrow> (\<exists>m\<in>set ms. MatchEvent m e)"
  by (induction ms) auto

lemma all_loop_iff: "all_loop ms e \<longleftrightarrow> (\<forall>m\<in>set ms. MatchEvent m e)"
  by (induction ms) auto

lemma Rule_MatchEvent_iff:
  "Rule_MatchEvent r e \<longleftrightarrow>
     (case rMatch r of
        Some m \<Rightarrow> MatchEvent m e
      | None \<Rightarrow> if rAny r \<noteq> [] then \<exists>m\<in>set (rAny r). MatchEvent m e
                else rAll r \<noteq> [] \<and> (\<forall>m\<in>set (rAll r). MatchEvent m e))"
  by (auto simp: Rule_MatchEvent_def any_loop_iff all_loop_iff split: option.split)

end
