(* ===== verification/Duration.thy ===== *)
theory Duration
  imports GoLib
begin

text \<open>
  \<open>time.ParseDuration\<close> of the Go standard library, with which the rule engine
  reads the windows of its rules. \<open>None\<close> stands for the error. The fraction
  of a number is scaled in \<open>float64\<close>, which is modelled by rounding quotients
  of naturals to 53 significant bits, ties to even; the values that occur are
  normal numbers.
\<close>

section \<open>Rounding to \<open>float64\<close>\<close>

text \<open>\<open>bits_of n\<close> is the length of the binary representation.\<close>

fun bits_of :: "nat \<Rightarrow> nat" where
  "bits_of n = (if n = 0 then 0 else Suc (bits_of (n div 2)))"

declare bits_of.simps [simp del]

definition round_div :: "nat \<Rightarrow> nat \<Rightarrow> nat" where
  "round_div a b =
     (let q = a div b; r = a mod b in
      if b < 2 * r \<or> b = 2 * r \<and> odd q then q + 1 else q)"

text \<open>
  A positive quotient \<open>a / b\<close> is scaled by a power of two so that its integral
  part has 53 bits, rounded there and scaled back.
\<close>

definition fl :: "nat \<times> nat \<Rightarrow> nat \<times> nat" where
  "fl = (\<lambda>(a, b).
     let down = bits_of (a div b) - 53; up = 53 - bits_of (a div b);
         up = (if a div b = 0 then 53 + bits_of (b div a) else up);
         up = (if a div b = 0 \<and> 53 < bits_of (a * 2 ^ up div b) then up - 1 else up)
     in if 0 < down then (round_div a (b * 2 ^ down) * 2 ^ down, 1)
        else (round_div (a * 2 ^ up) b, 2 ^ up))"

definition fl_mult :: "nat \<times> nat \<Rightarrow> nat \<times> nat \<Rightarrow> nat \<times> nat" where
  "fl_mult x y = fl (fst x * fst y, snd x * snd y)"

section \<open>The parser\<close>

fun leadingInt :: "nat \<Rightarrow> string \<Rightarrow> (nat \<times> string) option" where
  "leadingInt x [] = Some (x, [])"
| "leadingInt x (c # s) =
     (if \<not> is_digit c then Some (x, c # s)
      else if 2 ^ 63 div 10 < x then None
      else let x' = x * 10 + digit_val c in if 2 ^ 63 < x' then None else leadingInt x' s)"

fun leadingFraction :: "nat \<Rightarrow> nat \<Rightarrow> bool \<Rightarrow> string \<Rightarrow> nat \<times> nat \<times> string" where
  "leadingFraction x scale overflow [] = (x, scale, [])"
| "leadingFraction x scale overflow (c # s) =
     (if \<not> is_digit c then (x, scale, c # s)
      else if overflow then leadingFraction x scale True s
      else if (2 ^ 63 - 1) div 10 < x then leadingFraction x scale True s
      else let y = x * 10 + digit_val c in
           if 2 ^ 63 < y then leadingFraction x scale True s
           else leadingFraction y (scale * 10) False s)"

definition unitMap :: "(string \<times> nat) list" where
  "unitMap =
     [(''ns'', 1), (''us'', 1000), ([CHR 0xC2, CHR 0xB5, CHR ''s''], 1000),
      ([CHR 0xCE, CHR 0xBC, CHR ''s''], 1000), (''ms'', 1000000), (''s'', 1000000000),
      (''m'', 60000000000), (''h'', 3600000000000)]"

definition unit_char :: "char \<Rightarrow> bool" where
  "unit_char c \<longleftrightarrow> \<not> (c = CHR ''.'' \<or> is_digit c)"

text \<open>One round of the loop: a number, its fraction and its unit; the value and the rest.\<close>

definition duration_part :: "string \<Rightarrow> (nat \<times> string) option" where
  "duration_part s =
     (if unit_char (hd s) then None
      else case leadingInt 0 s of
        None \<Rightarrow> None
      | Some (v, s1) \<Rightarrow>
          (let pre = (length s \<noteq> length s1);
               dot = (s1 \<noteq> [] \<and> hd s1 = CHR ''.'');
               (f, scale, s2) = (if dot then leadingFraction 0 1 False (tl s1) else (0, 1, s1));
               post = (dot \<and> length (tl s1) \<noteq> length s2);
               u = takeWhile unit_char s2;
               s3 = dropWhile unit_char s2
           in if \<not> pre \<and> \<not> post then None
              else if u = [] then None
              else case map_of unitMap u of
                     None \<Rightarrow> None
                   | Some unit \<Rightarrow>
                       if 2 ^ 63 div unit < v then None
                       else let v1 = v * unit;
                                v2 = (if 0 < f
                                      then v1 + (case fl_mult (fl (f, 1)) (fl (unit, scale)) of (a, b) \<Rightarrow> a div b)
                                      else v1)
                            in if 0 < f \<and> 2 ^ 63 < v2 then None else Some (v2, s3)))"

lemma leadingInt_length: "leadingInt x s = Some (v, r) \<Longrightarrow> length r \<le> length s"
  by (induction x s rule: leadingInt.induct) (auto simp: Let_def split: if_splits)

lemma leadingFraction_length: "leadingFraction x sc ov s = (v, sc', r) \<Longrightarrow> length r \<le> length s"
  by (induction x sc ov s rule: leadingFraction.induct) (auto simp: Let_def split: if_splits)

lemma duration_part_shorter:
  assumes "duration_part s = Some (v, r)"
  shows "length r < length s"
proof -
  from assms obtain x s1 where li: "leadingInt 0 s = Some (x, s1)"
    by (auto simp: duration_part_def split: if_splits option.splits)
  define dot where "dot = (s1 \<noteq> [] \<and> hd s1 = CHR ''.'')"
  obtain f sc s2 where lf: "(if dot then leadingFraction 0 1 False (tl s1) else (0, 1, s1)) = (f, sc, s2)"
    by (metis prod_cases3)
  have "length s2 \<le> length s1"
    using lf leadingFraction_length [of 0 1 False "tl s1" f sc s2]
    by (cases dot) auto
  moreover from assms li lf have "takeWhile unit_char s2 \<noteq> []" and r: "r = dropWhile unit_char s2"
    unfolding duration_part_def
    by (auto simp: Let_def dot_def [symmetric] split: if_splits option.splits prod.splits)
  then have "length r < length s2"
    by (metis (no_types) add_less_same_cancel2 length_0_conv length_append less_add_same_cancel2
        neq0_conv takeWhile_dropWhile_id)
  ultimately show ?thesis using leadingInt_length [OF li] by linarith
qed

function duration_loop :: "nat \<Rightarrow> string \<Rightarrow> nat option" where
  "duration_loop d s =
     (if s = [] then Some d
      else case duration_part s of
             None \<Rightarrow> None
           | Some (v, r) \<Rightarrow>
               let d' = (d + v) mod 2 ^ 64 in if 2 ^ 63 < d' then None else duration_loop d' r)"
  by pat_completeness auto
termination
  by (relation "measure (\<lambda>(d, s). length s)") (auto intro: duration_part_shorter)

declare duration_loop.simps [simp del]

definition ParseDuration :: "string \<Rightarrow> duration option" where
  "ParseDuration s0 =
     (let signed = (s0 \<noteq> [] \<and> (hd s0 = CHR ''-'' \<or> hd s0 = CHR ''+''));
          neg = (signed \<and> hd s0 = CHR ''-'');
          s = (if signed then tl s0 else s0)
      in if s = ''0'' then Some 0
         else if s = [] then None
         else case duration_loop 0 s of
                None \<Rightarrow> None
              | Some d \<Rightarrow> if neg then Some (- int d)
                          else if 2 ^ 63 - 1 < d then None else Some (int d))"

section \<open>Whole numbers of a unit\<close>

lemma leadingInt_dec: "n \<le> 2 ^ 63 \<Longrightarrow> leadingInt 0 (dec n @ r) = leadingInt n r"
proof (induction n arbitrary: r rule: dec.induct)
  case (1 n)
  have digit: "is_digit (digit_char (n mod 10))" "digit_val (digit_char (n mod 10)) = n mod 10"
    using digit_char_val [of "n mod 10"] by simp_all
  show ?case
  proof (cases "n < 10")
    case True
    with digit show ?thesis by (subst dec.simps) simp
  next
    case False
    have "n div 10 \<le> 2 ^ 63 div 10" using 1(2) by (rule div_le_mono)
    then have le: "\<not> 2 ^ 63 div 10 < n div 10" by simp
    have "leadingInt 0 (dec (n div 10) @ digit_char (n mod 10) # r)
            = leadingInt (n div 10) (digit_char (n mod 10) # r)"
      using 1 False by simp
    also have "\<dots> = leadingInt n r" using le digit 1(2) by simp
    finally show ?thesis using False by (subst dec.simps) simp
  qed
qed

lemma digit_not_sign: "is_digit c \<Longrightarrow> c \<noteq> CHR ''-'' \<and> c \<noteq> CHR ''+''"
  by (auto simp: is_digit_def)

lemma unitMap_distinct: "distinct (map fst unitMap)"
  by (simp add: unitMap_def)

lemma unitMap_ok: "list_all (\<lambda>(u, k). u \<noteq> [] \<and> 0 < k \<and> list_all unit_char u) unitMap"
  by (simp add: unitMap_def unit_char_def is_digit_def)

lemma unitMap_chars:
  "(u, k) \<in> set unitMap \<Longrightarrow> u \<noteq> [] \<and> 0 < k \<and> (\<forall>c\<in>set u. unit_char c) \<and> map_of unitMap u = Some k"
  using unitMap_ok unitMap_distinct by (auto simp: list_all_iff)

lemma duration_part_dec:
  assumes u: "(u, k) \<in> set unitMap" and n: "n * k \<le> 2 ^ 63"
  shows "duration_part (dec n @ u) = Some (n * k, [])"
proof -
  note uk = unitMap_chars [OF u]
  have "n \<le> n * k" using uk by simp
  with n have "leadingInt 0 (dec n @ u) = leadingInt n u" by (intro leadingInt_dec) linarith
  moreover have hd_u: "unit_char (hd u)" using uk by simp
  ultimately have li: "leadingInt 0 (dec n @ u) = Some (n, u)"
    using uk by (cases u) (auto simp: unit_char_def)
  have "hd (dec n) \<in> set (dec n)" using dec_nonempty by simp
  then have "\<not> unit_char (hd (dec n @ u))"
    using dec_nonempty [of n] dec_digits [of n] by (simp add: unit_char_def)
  moreover have tw: "takeWhile unit_char u = u" "dropWhile unit_char u = []"
    using uk by (simp_all add: takeWhile_eq_all_conv)
  moreover have "\<not> 2 ^ 63 div k < n"
    using n uk by (simp add: not_less less_eq_div_iff_mult_less_eq)
  moreover have "hd u \<noteq> CHR ''.''" using hd_u by (simp add: unit_char_def)
  ultimately show ?thesis using uk li dec_nonempty [of n]
    by (simp add: duration_part_def tw)
qed

lemma ParseDuration_dec:
  assumes u: "(u, k) \<in> set unitMap" and n: "n * k < 2 ^ 63"
  shows "ParseDuration (dec n @ u) = Some (int n * int k)"
proof -
  have "hd (dec n) \<in> set (dec n)" using dec_nonempty by simp
  then have sign: "hd (dec n @ u) \<noteq> CHR ''-''" "hd (dec n @ u) \<noteq> CHR ''+''"
    using dec_nonempty [of n] dec_digits [of n] digit_not_sign by auto
  have "dec n @ u \<noteq> ''0''"
    using dec_nonempty [of n] unitMap_chars [OF u] by (cases "dec n") auto
  moreover have "duration_loop 0 (dec n @ u) = Some (n * k)"
    using n dec_nonempty [of n]
    by (simp add: duration_loop.simps [of _ "dec n @ u"] duration_part_dec [OF u]
        duration_loop.simps [of _ "[]"])
  ultimately show ?thesis
    using sign n dec_nonempty [of n] by (simp add: ParseDuration_def)
qed

end
