(* ===== verification/Engine.thy ===== *)
theory Engine
  imports Rule Duration Chan
begin

text \<open>
  The rule engine, \<open>internal/ruleengine/engine.go\<close> and \<open>sequence.go\<close>: sliding
  windows for threshold rules, trackers for sequence rules, loading of rules,
  and the dispatch of an event to every rule. The engine is used by one
  goroutine; the only statement of it that can wait is the send of an alert
  (\<open>Inr None\<close>: the send waits, no step is taken).
\<close>

section \<open>State\<close>

record thresholdWindow =
  timestamps :: "go_time list"
  windowSize :: duration
  threshold :: int

record sequenceTracker =
  currentStep :: nat
  stepTimes :: "go_time list"
  window :: duration

text \<open>The map of trackers; \<open>None\<close> is the nil map, which reads as empty.\<close>

record sequenceState =
  trackers :: "(string \<rightharpoonup> sequenceTracker) option"

record RuleEngine =
  rules :: "Rule list"
  alerts :: "Alert chan"
  thresholds :: "string \<rightharpoonup> thresholdWindow"
  sequences :: sequenceState

section \<open>Loading rules\<close>

text \<open>
  The file system under the rules folder: \<open>filepath.WalkDir\<close> visits a node,
  then, when it is a directory, its entries in lexical order. A file whose
  content is \<open>None\<close> cannot be read; a directory that cannot be read is
  visited a second time and has no entries.
\<close>

datatype fs_node =
    File (node_name: string) "string option"
  | Dir (node_name: string) (readable: bool) "fs_node list"

fun is_dir :: "fs_node \<Rightarrow> bool" where
  "is_dir (File name content) = False"
| "is_dir (Dir name r entries) = True"

datatype 'e load_error = ReadError string | YamlError 'e

text \<open>
  \<open>visit\<close> is the callback of \<open>LoadRules\<close>: it ignores the error it is given and
  asks the entry whether it is a directory, which panics when the entry is
  nil (the root does not exist). \<open>unmarshal\<close> is the YAML decoder.
\<close>

definition visit ::
  "(string \<Rightarrow> 'e + Rule) \<Rightarrow> fs_node option \<Rightarrow> Rule list \<Rightarrow> ('e load_error + Rule list) go" where
  "visit unmarshal d rs =
     (case d of
        None \<Rightarrow> Inl NilDereference
      | Some (Dir name r entries) \<Rightarrow> Inr (Inr rs)
      | Some (File filename content) \<Rightarrow>
          if HasSuffix filename ''.yml'' \<or> HasSuffix filename ''.yaml'' then
            (case content of
               None \<Rightarrow> Inr (Inl (ReadError filename))
             | Some ruleData \<Rightarrow>
                 (case unmarshal ruleData of
                    Inl err \<Rightarrow> Inr (Inl (YamlError err))
                  | Inr rule \<Rightarrow> Inr (Inr (rs @ [rule]))))
          else Inr (Inr rs))"

text \<open>\<open>and_then\<close>: the next call, unless the walk has stopped with an error.\<close>

definition and_then :: "('e + 's) go \<Rightarrow> ('s \<Rightarrow> ('e + 's) go) \<Rightarrow> ('e + 's) go" where
  "and_then m f = go_bind m (\<lambda>r. case r of Inl e \<Rightarrow> Inr (Inl e) | Inr s \<Rightarrow> f s)"

fun walkDir :: "(string \<Rightarrow> 'e + Rule) \<Rightarrow> fs_node \<Rightarrow> Rule list \<Rightarrow> ('e load_error + Rule list) go"
  and walkEntries :: "(string \<Rightarrow> 'e + Rule) \<Rightarrow> fs_node list \<Rightarrow> Rule list \<Rightarrow> ('e load_error + Rule list) go"
where
  "walkDir unmarshal (File name content) rs = visit unmarshal (Some (File name content)) rs"
| "walkDir unmarshal (Dir name r entries) rs =
     and_then (visit unmarshal (Some (Dir name r entries)) rs) (\<lambda>rs1.
       if r then walkEntries unmarshal entries rs1
       else visit unmarshal (Some (Dir name r entries)) rs1)"
| "walkEntries unmarshal [] rs = Inr (Inr rs)"
| "walkEntries unmarshal (d # ds) rs =
     and_then (walkDir unmarshal d rs) (\<lambda>rs1. walkEntries unmarshal ds rs1)"

definition LoadRules ::
  "(string \<Rightarrow> 'e + Rule) \<Rightarrow> fs_node option \<Rightarrow> RuleEngine \<Rightarrow> ('e load_error + RuleEngine) go" where
  "LoadRules unmarshal root r =
     go_bind (case root of
                None \<Rightarrow> visit unmarshal None (rules r)
              | Some d \<Rightarrow> walkDir unmarshal d (rules r))
       (\<lambda>res. Inr (map_sum id (\<lambda>rs. r\<lparr>rules := rs\<rparr>) res))"

text \<open>The composite literal of \<open>New\<close> leaves \<open>sequences\<close> at its zero value.\<close>

definition empty_engine :: RuleEngine where
  "empty_engine =
     \<lparr>rules = [], alerts = make_chan 100, thresholds = Map.empty, sequences = \<lparr>trackers = None\<rparr>\<rparr>"

definition New_engine :: "(string \<Rightarrow> 'e + Rule) \<Rightarrow> fs_node option \<Rightarrow> RuleEngine option go" where
  "New_engine unmarshal root =
     go_bind (LoadRules unmarshal root empty_engine) (\<lambda>res.
       Inr (case res of Inl err \<Rightarrow> None | Inr engine \<Rightarrow> Some engine))"

section \<open>Group keys and alerts\<close>

fun group_fields :: "string list \<Rightarrow> Event \<Rightarrow> string list go" where
  "group_fields [] event = Inr []"
| "group_fields (field # rest) event =
     (if field = ''src_container'' then
        (case SrcContainer event of
           None \<Rightarrow> Inl NilDereference
         | Some info \<Rightarrow> go_bind (group_fields rest event) (\<lambda>ks. Inr (Name info # ks)))
      else if field = ''dst_container'' then
        go_bind (group_fields rest event) (\<lambda>ks.
          Inr ((case DstContainer event of None \<Rightarrow> '''' | Some info \<Rightarrow> Name info) # ks))
      else if field = ''src_addr'' then
        go_bind (group_fields rest event) (\<lambda>ks. Inr (EvSrcAddr event # ks))
      else if field = ''dst_addr'' then
        go_bind (group_fields rest event) (\<lambda>ks. Inr (EvDstAddr event # ks))
      else if field = ''src_port'' then
        go_bind (group_fields rest event) (\<lambda>ks. Inr (dec (unat (EvSrcPort event)) # ks))
      else if field = ''dst_port'' then
        go_bind (group_fields rest event) (\<lambda>ks. Inr (dec (unat (EvDstPort event)) # ks))
      else group_fields rest event)"

definition buildGroupKey :: "string \<Rightarrow> string list \<Rightarrow> Event \<Rightarrow> string go" where
  "buildGroupKey ruleName groupBy event =
     go_bind (group_fields groupBy event) (\<lambda>ks. Inr (Join (ruleName # ks) '':''))"

definition emitAlert :: "Alert \<Rightarrow> RuleEngine \<Rightarrow> RuleEngine option go" where
  "emitAlert alert r =
     go_bind (chan_send alert (alerts r)) (\<lambda>sent. Inr (map_option (\<lambda>ch. r\<lparr>alerts := ch\<rparr>) sent))"

definition rule_alert :: "Rule \<Rightarrow> Event \<Rightarrow> Alert" where
  "rule_alert rule event =
     \<lparr>AlTime = EvTime event, RuleName = rName rule, AlSeverity = rSeverity rule,
      AlDescription = rDescription rule,
      AlSrcContainer = SrcContainer event, AlDstContainer = DstContainer event\<rparr>"

section \<open>Threshold rules\<close>

fun drop_old :: "go_time \<Rightarrow> duration \<Rightarrow> go_time list \<Rightarrow> go_time list" where
  "drop_old now w [] = []"
| "drop_old now w (t # ts) = (if w < time_Sub now t then drop_old now w ts else t # ts)"

definition AddEvent :: "go_time \<Rightarrow> thresholdWindow \<Rightarrow> thresholdWindow \<times> int" where
  "AddEvent timestamp tw =
     (let ts = drop_old timestamp (windowSize tw) (timestamps tw @ [timestamp])
      in (tw\<lparr>timestamps := ts\<rparr>, int (length ts)))"

definition rule_window :: "Rule \<Rightarrow> duration" where
  "rule_window rule =
     (case ParseDuration (Window (rDetect rule)) of Some w \<Rightarrow> w | None \<Rightarrow> 10 * time_Second)"

definition handleThreshold :: "Rule \<Rightarrow> Event \<Rightarrow> RuleEngine \<Rightarrow> RuleEngine option go" where
  "handleThreshold rule event r =
     go_bind (buildGroupKey (rName rule) (GroupBy (rDetect rule)) event) (\<lambda>groupKey.
       let th = (case thresholds r groupKey of
                   Some th \<Rightarrow> th
                 | None \<Rightarrow> \<lparr>timestamps = [], windowSize = rule_window rule,
                             threshold = Count (rDetect rule)\<rparr>);
           (th', count) = AddEvent (EvTime event) th;
           r' = r\<lparr>thresholds := (thresholds r)(groupKey \<mapsto> th')\<rparr>
       in if Count (rDetect rule) < count then emitAlert (rule_alert rule event) r'
          else Inr (Some r'))"

section \<open>Sequence rules\<close>

definition advanceStep :: "nat \<Rightarrow> go_time \<Rightarrow> sequenceTracker \<Rightarrow> sequenceTracker go" where
  "advanceStep stepIndex timestamp tracker =
     (if currentStep tracker \<noteq> stepIndex then Inr tracker
      else if currentStep tracker = 0
      then Inr (tracker\<lparr>stepTimes := [timestamp], currentStep := currentStep tracker + 1\<rparr>)
      else case stepTimes tracker of
             [] \<Rightarrow> Inl IndexOutOfRange
           | t0 # _ \<Rightarrow>
               if window tracker < time_Sub timestamp t0
               then Inr (tracker\<lparr>currentStep := 0, stepTimes := []\<rparr>)
               else Inr (tracker\<lparr>stepTimes := stepTimes tracker @ [timestamp],
                                 currentStep := currentStep tracker + 1\<rparr>))"

definition seq_window :: "SequenceConfig \<Rightarrow> duration" where
  "seq_window seq =
     (case ParseDuration (seqWindow seq) of Some w \<Rightarrow> w | None \<Rightarrow> 5 * time_Second)"

text \<open>
  One round of the loop over the steps: the tracker is looked up or stored
  (a store to the nil map panics), advanced in place, and a finished
  sequence emits an alert.
\<close>

definition sequence_round ::
  "Rule \<Rightarrow> SequenceConfig \<Rightarrow> string \<Rightarrow> Event \<Rightarrow> nat \<Rightarrow> MatchBlock \<Rightarrow> RuleEngine \<Rightarrow> RuleEngine option go" where
  "sequence_round rule seq key event stepIdx step r =
     (if \<not> MatchEvent step event then Inr (Some r)
      else
        go_bind
          (case trackers (sequences r) of
             None \<Rightarrow> Inl NilMapWrite
           | Some m \<Rightarrow>
               Inr (case m key of
                      Some tracker \<Rightarrow> (m, tracker)
                    | None \<Rightarrow>
                        (let tracker = \<lparr>currentStep = stepIdx, stepTimes = [EvTime event],
                                        window = seq_window seq\<rparr>
                         in (m(key \<mapsto> tracker), tracker))))
          (\<lambda>(m, tracker).
             go_bind (advanceStep stepIdx (EvTime event) tracker) (\<lambda>tracker'.
               let r' = r\<lparr>sequences := \<lparr>trackers = Some (m(key \<mapsto> tracker'))\<rparr>\<rparr>
               in if length (Steps seq) \<le> currentStep tracker'
                  then emitAlert (rule_alert rule event) r'
                  else Inr (Some r'))))"

fun sequence_loop ::
  "Rule \<Rightarrow> SequenceConfig \<Rightarrow> string \<Rightarrow> Event \<Rightarrow> nat \<Rightarrow> MatchBlock list \<Rightarrow> RuleEngine \<Rightarrow> RuleEngine option go" where
  "sequence_loop rule seq key event stepIdx [] r = Inr (Some r)"
| "sequence_loop rule seq key event stepIdx (step # steps) r =
     go_bind (sequence_round rule seq key event stepIdx step r) (\<lambda>res.
       case res of None \<Rightarrow> Inr None
       | Some r' \<Rightarrow> sequence_loop rule seq key event (Suc stepIdx) steps r')"

definition seq_group :: "SequenceConfig \<Rightarrow> string list" where
  "seq_group seq = (if length (seqGroupBy seq) = 0 then [''src_container''] else seqGroupBy seq)"

definition handleSequence :: "Rule \<Rightarrow> Event \<Rightarrow> RuleEngine \<Rightarrow> RuleEngine option go" where
  "handleSequence rule event r =
     (case rSequence rule of
        None \<Rightarrow> Inr (Some r)
      | Some seq \<Rightarrow>
          go_bind (buildGroupKey (rName rule) (seq_group seq) event) (\<lambda>key.
            sequence_loop rule seq key event 0 (Steps seq) r))"

section \<open>Dispatch\<close>

definition process_rule :: "Event \<Rightarrow> Rule \<Rightarrow> RuleEngine \<Rightarrow> RuleEngine option go" where
  "process_rule event rule r =
     (if rSequence rule \<noteq> None then handleSequence rule event r
      else if \<not> Rule_MatchEvent rule event then Inr (Some r)
      else if Mode (rDetect rule) = ''threshold'' then handleThreshold rule event r
      else emitAlert (rule_alert rule event) r)"

fun process_rules :: "Event \<Rightarrow> Rule list \<Rightarrow> RuleEngine \<Rightarrow> RuleEngine option go" where
  "process_rules event [] r = Inr (Some r)"
| "process_rules event (rule # rs) r =
     go_bind (process_rule event rule r) (\<lambda>res.
       case res of None \<Rightarrow> Inr None | Some r' \<Rightarrow> process_rules event rs r')"

definition ProcessEvent :: "Event \<Rightarrow> RuleEngine \<Rightarrow> RuleEngine option go" where
  "ProcessEvent event r = process_rules event (rules r) r"

end
