(* ===== verification/Detect.thy ===== *)
theory Detect
  imports Engine Helpers
begin

text \<open>
  Properties of loading and dispatch: which rules a folder yields, when group
  keys tell events apart, which alerts an event causes, and that processing
  does not panic on the events the pipeline hands over.
\<close>

section \<open>Loading\<close>

text \<open>The files the walk decodes, in the order it visits them.\<close>

fun rule_files :: "fs_node \<Rightarrow> (string \<times> string option) list" where
  "rule_files (File name content) =
     (if HasSuffix name ''.yml'' \<or> HasSuffix name ''.yaml'' then [(name, content)] else [])"
| "rule_files (Dir name r entries) = (if r then concat (map rule_files entries) else [])"

definition decodes :: "(string \<Rightarrow> 'e + Rule) \<Rightarrow> string \<times> string option \<Rightarrow> Rule \<Rightarrow> bool" where
  "decodes unmarshal f rule \<longleftrightarrow> (\<exists>data. snd f = Some data \<and> unmarshal data = Inr rule)"

lemma and_then_Inr:
  "and_then m f = Inr (Inr s') \<longleftrightarrow> (\<exists>s. m = Inr (Inr s) \<and> f s = Inr (Inr s'))"
  by (cases m) (auto simp: and_then_def split: sum.splits)

lemma visit_file:
  "visit unmarshal (Some (File name content)) rs = Inr (Inr rs') \<longleftrightarrow>
     (\<exists>new. rs' = rs @ new \<and> list_all2 (decodes unmarshal) (rule_files (File name content)) new)"
  by (auto simp: visit_def decodes_def list_all2_Cons1 split: option.splits sum.splits)

lemma walk_rules:
  "walkDir unmarshal d rs = Inr (Inr rs') \<longleftrightarrow>
     (\<exists>new. rs' = rs @ new \<and> list_all2 (decodes unmarshal) (rule_files d) new)"
  "walkEntries unmarshal ds rs = Inr (Inr rs') \<longleftrightarrow>
     (\<exists>new. rs' = rs @ new \<and> list_all2 (decodes unmarshal) (concat (map rule_files ds)) new)"
proof (induction unmarshal d rs and unmarshal ds rs arbitrary: rs' and rs' rule: walkDir_walkEntries.induct)
  case (1 unmarshal name content rs)
  then show ?case by (simp only: walkDir.simps visit_file)
next
  case (2 unmarshal name r entries rs)
  have visit: "visit unmarshal (Some (Dir name r entries)) x = Inr (Inr x)" for x :: "Rule list"
    by (simp add: visit_def)
  show ?case
  proof (cases r)
    case True
    with visit 2 [OF True] show ?thesis by (auto simp: and_then_Inr)
  next
    case False
    with visit show ?thesis by (auto simp: and_then_Inr)
  qed
next
  case (3 unmarshal rs)
  then show ?case by auto
next
  case (4 unmarshal d ds rs)
  show ?case
  proof
    assume "walkEntries unmarshal (d # ds) rs = Inr (Inr rs')"
    then obtain rs1 where "walkDir unmarshal d rs = Inr (Inr rs1)"
        "walkEntries unmarshal ds rs1 = Inr (Inr rs')" by (auto simp: and_then_Inr)
    then obtain a b where "rs1 = rs @ a" "list_all2 (decodes unmarshal) (rule_files d) a"
        "rs' = rs1 @ b" "list_all2 (decodes unmarshal) (concat (map rule_files ds)) b"
      using "4.IH" by blast
    then show "\<exists>new. rs' = rs @ new \<and>
        list_all2 (decodes unmarshal) (concat (map rule_files (d # ds))) new"
      by (intro exI [of _ "a @ b"]) (simp add: list_all2_appendI)
  next
    assume "\<exists>new. rs' = rs @ new \<and> list_all2 (decodes unmarshal) (concat (map rule_files (d # ds))) new"
    then obtain a b where "rs' = rs @ a @ b" "list_all2 (decodes unmarshal) (rule_files d) a"
        "list_all2 (decodes unmarshal) (concat (map rule_files ds)) b"
      by (auto simp: list_all2_append1)
    with 4 show "walkEntries unmarshal (d # ds) rs = Inr (Inr rs')"
      by (auto simp: and_then_Inr)
  qed
qed

lemma walk_no_panic:
  "walkDir unmarshal d rs \<noteq> Inl p" "walkEntries unmarshal ds rs \<noteq> Inl p"
  by (induction unmarshal d rs and unmarshal ds rs rule: walkDir_walkEntries.induct)
    (auto simp: visit_def and_then_def go_simps split: option.splits sum.splits)

lemma New_engine_iff:
  "New_engine unmarshal (Some d) = Inr (Some r) \<longleftrightarrow>
     (\<exists>rs. r = empty_engine\<lparr>rules := rs\<rparr> \<and> list_all2 (decodes unmarshal) (rule_files d) rs)"
proof
  assume "New_engine unmarshal (Some d) = Inr (Some r)"
  then obtain res where res: "walkDir unmarshal d [] = Inr res"
      "(case map_sum id (\<lambda>rs. empty_engine\<lparr>rules := rs\<rparr>) res of Inl err \<Rightarrow> None | Inr engine \<Rightarrow> Some engine)
        = Some r"
    by (auto simp: New_engine_def LoadRules_def go_simps empty_engine_def)
  then obtain rs where "walkDir unmarshal d [] = Inr (Inr rs)" "r = empty_engine\<lparr>rules := rs\<rparr>"
    by (cases res) simp_all
  then show "\<exists>rs. r = empty_engine\<lparr>rules := rs\<rparr> \<and> list_all2 (decodes unmarshal) (rule_files d) rs"
    by (auto simp: walk_rules)
next
  assume "\<exists>rs. r = empty_engine\<lparr>rules := rs\<rparr> \<and> list_all2 (decodes unmarshal) (rule_files d) rs"
  then obtain rs where rs: "r = empty_engine\<lparr>rules := rs\<rparr>" "list_all2 (decodes unmarshal) (rule_files d) rs"
    by blast
  then have "walkDir unmarshal d [] = Inr (Inr rs)" by (simp add: walk_rules)
  with rs show "New_engine unmarshal (Some d) = Inr (Some r)"
    by (simp add: New_engine_def LoadRules_def empty_engine_def)
qed

section \<open>Group keys\<close>

text \<open>The value of one grouping field; unknown fields have none.\<close>

definition field_value :: "Event \<Rightarrow> string \<Rightarrow> string option" where
  "field_value e field =
     (if field = ''src_container'' then map_option Name (SrcContainer e)
      else if field = ''dst_container'' then Some (case DstContainer e of None \<Rightarrow> '''' | Some info \<Rightarrow> Name info)
      else if field = ''src_addr'' then Some (EvSrcAddr e)
      else if field = ''dst_addr'' then Some (EvDstAddr e)
      else if field = ''src_port'' then Some (dec (unat (EvSrcPort e)))
      else if field = ''dst_port'' then Some (dec (unat (EvDstPort e)))
      else None)"

definition known_fields :: "string list" where
  "known_fields = [''src_container'', ''dst_container'', ''src_addr'', ''dst_addr'', ''src_port'', ''dst_port'']"

lemma field_value_known:
  "SrcContainer e \<noteq> None \<Longrightarrow> field_value e f \<noteq> None \<longleftrightarrow> f \<in> set known_fields"
  by (auto simp: field_value_def known_fields_def)

lemma group_fields_eq:
  assumes "SrcContainer e \<noteq> None"
  shows "group_fields fs e = Inr (map (\<lambda>f. the (field_value e f)) (filter (\<lambda>f. f \<in> set known_fields) fs))"
proof (induction fs)
  case (Cons f fs)
  from assms obtain info where "SrcContainer e = Some info" by auto
  with Cons.IH show ?case by (simp add: field_value_def known_fields_def)
qed simp

lemma buildGroupKey_ok:
  "SrcContainer e \<noteq> None \<Longrightarrow> \<exists>k. buildGroupKey n fs e = Inr k"
  by (simp add: buildGroupKey_def group_fields_eq)

lemma group_fields_panic:
  "SrcContainer e = None \<Longrightarrow> ''src_container'' \<in> set fs \<Longrightarrow> group_fields fs e = Inl NilDereference"
proof (induction fs)
  case (Cons f fs)
  show ?case
  proof (cases "f = ''src_container''")
    case False
    with Cons have "group_fields fs e = Inl NilDereference" by simp
    with False show ?thesis by simp
  qed (simp add: Cons.prems)
qed simp

text \<open>
  Keys of the same rule agree exactly when the grouping fields do, as long
  as no value contains the separator.
\<close>

definition colon_free :: "Event \<Rightarrow> bool" where
  "colon_free e \<longleftrightarrow>
     (\<forall>info. SrcContainer e = Some info \<longrightarrow> CHR '':'' \<notin> set (Name info))
     \<and> (\<forall>info. DstContainer e = Some info \<longrightarrow> CHR '':'' \<notin> set (Name info))
     \<and> CHR '':'' \<notin> set (EvSrcAddr e) \<and> CHR '':'' \<notin> set (EvDstAddr e)"

lemma dec_no_colon: "CHR '':'' \<notin> set (dec n)"
  using dec_digits [of n] by (auto simp: is_digit_def)

lemma field_value_no_colon:
  "colon_free e \<Longrightarrow> field_value e f = Some v \<Longrightarrow> CHR '':'' \<notin> set v"
  by (auto simp: field_value_def colon_free_def dec_no_colon split: if_splits option.splits)

lemma Join_Cons: "ss \<noteq> [] \<Longrightarrow> Join (s # ss) sep = s @ sep @ Join ss sep"
  by (cases ss) simp_all

lemma Join_same_head:
  assumes "length ss = length ts" and "\<forall>s\<in>set ss. c \<notin> set s" and "\<forall>t\<in>set ts. c \<notin> set t"
  shows "Join (n # ss) [c] = Join (n # ts) [c] \<longleftrightarrow> ss = ts"
proof (cases "ss = []")
  case False
  with assms(1) have "ts \<noteq> []" by auto
  with False assms show ?thesis by (auto simp: Join_Cons dest: Join_inject [rotated 4])
qed (use assms in simp)

lemma buildGroupKey_eq_iff:
  assumes "SrcContainer e \<noteq> None" "SrcContainer e' \<noteq> None" and "colon_free e" "colon_free e'"
  shows "buildGroupKey n fs e = buildGroupKey n fs e' \<longleftrightarrow> (\<forall>f\<in>set fs. field_value e f = field_value e' f)"
proof -
  define kf where "kf = filter (\<lambda>f. f \<in> set known_fields) fs"
  define vals where "vals x = map (\<lambda>f. the (field_value x f)) kf" for x
  have key: "buildGroupKey n fs x = Inr (Join (n # vals x) '':'')" if "SrcContainer x \<noteq> None" for x
    using that by (simp add: buildGroupKey_def group_fields_eq vals_def kf_def)
  have some: "field_value x f \<noteq> None" if "SrcContainer x \<noteq> None" "f \<in> set kf" for x f
    using that field_value_known [of x f] by (simp add: kf_def)
  have "\<forall>v\<in>set (vals x). CHR '':'' \<notin> set v" if "SrcContainer x \<noteq> None" "colon_free x" for x
  proof
    fix v assume "v \<in> set (vals x)"
    then obtain f where "f \<in> set kf" "v = the (field_value x f)" by (auto simp: vals_def)
    with some [OF that(1)] have "field_value x f = Some v" by (metis option.collapse)
    then show "CHR '':'' \<notin> set v" by (rule field_value_no_colon [OF that(2)])
  qed
  then have "buildGroupKey n fs e = buildGroupKey n fs e' \<longleftrightarrow> vals e = vals e'"
    using assms key by (simp add: Join_same_head vals_def)
  also have "\<dots> \<longleftrightarrow> (\<forall>f\<in>set kf. field_value e f = field_value e' f)"
    unfolding vals_def map_eq_conv
    by (metis option.expand some [OF assms(1)] some [OF assms(2)])
  also have "\<dots> \<longleftrightarrow> (\<forall>f\<in>set fs. field_value e f = field_value e' f)"
    unfolding kf_def set_filter
    using field_value_known [OF assms(1)] field_value_known [OF assms(2)] by (metis (no_types, lifting) mem_Collect_eq)
  finally show ?thesis .
qed

section \<open>Dispatch\<close>

lemma emitAlert_room:
  assumes "\<not> chan_closed (alerts r)" and "length (chan_buf (alerts r)) < chan_cap (alerts r)"
  shows "emitAlert a r = Inr (Some (r\<lparr>alerts := alerts r\<lparr>chan_buf := chan_buf (alerts r) @ [a]\<rparr>\<rparr>))"
  using assms by (simp add: emitAlert_def chan_send_def)

text \<open>What one rule other than a sequence does: at most one alert, and no panic.\<close>

definition engine_ready :: "nat \<Rightarrow> RuleEngine \<Rightarrow> bool" where
  "engine_ready n r \<longleftrightarrow>
     \<not> chan_closed (alerts r) \<and> length (chan_buf (alerts r)) + n \<le> chan_cap (alerts r)"

definition emits :: "Alert list \<Rightarrow> RuleEngine \<Rightarrow> RuleEngine \<Rightarrow> bool" where
  "emits as r r' \<longleftrightarrow>
     rules r' = rules r \<and> sequences r' = sequences r
     \<and> alerts r' = alerts r\<lparr>chan_buf := chan_buf (alerts r) @ as\<rparr>"

lemma emits_trans: "emits as r r1 \<Longrightarrow> emits bs r1 r2 \<Longrightarrow> emits (as @ bs) r r2"
  by (simp add: emits_def)

lemma emits_ready: "emits as r r' \<Longrightarrow> engine_ready (length as + n) r \<Longrightarrow> engine_ready n r'"
  by (simp add: emits_def engine_ready_def)

lemma engine_ready_mono: "engine_ready n r \<Longrightarrow> m \<le> n \<Longrightarrow> engine_ready m r"
  by (simp add: engine_ready_def)

lemma emitAlert_ready:
  "engine_ready (Suc n) r \<Longrightarrow> \<exists>r'. emitAlert a r = Inr (Some r') \<and> emits [a] r r' \<and> thresholds r' = thresholds r"
  by (auto simp: engine_ready_def emits_def emitAlert_room)

lemma handleThreshold_emits:
  assumes "engine_ready (Suc n) r" and "SrcContainer e \<noteq> None"
  shows "\<exists>r' as. handleThreshold rule e r = Inr (Some r') \<and> emits as r r' \<and> set as \<subseteq> {rule_alert rule e}
           \<and> length as \<le> 1"
proof -
  obtain k where k: "buildGroupKey (rName rule) (GroupBy (rDetect rule)) e = Inr k"
    using buildGroupKey_ok [OF assms(2)] by blast
  define th where "th = (case thresholds r k of Some th \<Rightarrow> th
      | None \<Rightarrow> \<lparr>timestamps = [], windowSize = rule_window rule, threshold = Count (rDetect rule)\<rparr>)"
  obtain th' c where add: "AddEvent (EvTime e) th = (th', c)" by (metis surj_pair)
  define r1 where "r1 = r\<lparr>thresholds := (thresholds r)(k \<mapsto> th')\<rparr>"
  have eq: "handleThreshold rule e r =
      (if Count (rDetect rule) < c then emitAlert (rule_alert rule e) r1 else Inr (Some r1))"
    using k add by (simp add: handleThreshold_def th_def [symmetric] r1_def Let_def)
  have "engine_ready (Suc n) r1" using assms(1) by (simp add: r1_def engine_ready_def)
  then obtain r2 where "emitAlert (rule_alert rule e) r1 = Inr (Some r2)" "emits [rule_alert rule e] r1 r2"
    using emitAlert_ready by blast
  moreover have r1: "emits [] r r1" by (simp add: emits_def r1_def)
  ultimately show ?thesis
    using eq emits_trans [OF r1] by (cases "Count (rDetect rule) < c") force+
qed

lemma process_rule_emits:
  assumes "rSequence rule = None" and "engine_ready (Suc n) r" and "SrcContainer e \<noteq> None"
  shows "\<exists>r' as. process_rule e rule r = Inr (Some r') \<and> emits as r r' \<and> length as \<le> 1
           \<and> (as \<noteq> [] \<longrightarrow> as = [rule_alert rule e] \<and> Rule_MatchEvent rule e)
           \<and> (Mode (rDetect rule) \<noteq> ''threshold'' \<longrightarrow> Rule_MatchEvent rule e \<longrightarrow> as = [rule_alert rule e])"
proof (cases "Rule_MatchEvent rule e")
  case False
  with assms show ?thesis
    by (intro exI [of _ r] exI [of _ "[]"]) (simp add: process_rule_def emits_def)
next
  case match: True
  show ?thesis
  proof (cases "Mode (rDetect rule) = ''threshold''")
    case True
    obtain r' as where ok: "handleThreshold rule e r = Inr (Some r')" "emits as r r'"
        "set as \<subseteq> {rule_alert rule e}" "length as \<le> 1"
      using handleThreshold_emits [OF assms(2,3)] by blast
    then have "as \<noteq> [] \<longrightarrow> as = [rule_alert rule e]" by (cases as) auto
    with ok True match assms(1) show ?thesis
      by (intro exI [of _ r'] exI [of _ as]) (simp add: process_rule_def)
  next
    case False
    obtain r' where "emitAlert (rule_alert rule e) r = Inr (Some r')" "emits [rule_alert rule e] r r'"
      using emitAlert_ready [OF assms(2)] by blast
    with False match assms(1) show ?thesis
      by (intro exI [of _ r'] exI [of _ "[rule_alert rule e]"]) (simp add: process_rule_def)
  qed
qed

text \<open>
  An event and rules without sequences: processing completes when the alert
  channel has room for one alert per rule, and every alert comes from a rule
  that matches the event.
\<close>

lemma process_rules_emits:
  assumes "\<forall>rule\<in>set rs. rSequence rule = None" and "SrcContainer e \<noteq> None"
  shows "engine_ready (length rs) r \<Longrightarrow>
    \<exists>r' as. process_rules e rs r = Inr (Some r') \<and> emits as r r' \<and> length as \<le> length rs
      \<and> (\<forall>a\<in>set as. \<exists>rule\<in>set rs. Rule_MatchEvent rule e \<and> a = rule_alert rule e)
      \<and> ((\<forall>rule\<in>set rs. Mode (rDetect rule) \<noteq> ''threshold'') \<longrightarrow>
            as = map (\<lambda>rule. rule_alert rule e) (filter (\<lambda>rule. Rule_MatchEvent rule e) rs))"
  using assms(1)
proof (induction rs arbitrary: r)
  case Nil
  then show ?case by (simp add: emits_def)
next
  case (Cons rule rs)
  from Cons.prems(2) have noseq: "rSequence rule = None" "\<forall>rule\<in>set rs. rSequence rule = None" by simp_all
  obtain r1 as where one: "process_rule e rule r = Inr (Some r1)" "emits as r r1" "length as \<le> 1"
      "as \<noteq> [] \<longrightarrow> as = [rule_alert rule e] \<and> Rule_MatchEvent rule e"
      "Mode (rDetect rule) \<noteq> ''threshold'' \<longrightarrow> Rule_MatchEvent rule e \<longrightarrow> as = [rule_alert rule e]"
    using process_rule_emits [OF noseq(1) _ assms(2), of "length rs" r] Cons.prems(1) by auto
  have "engine_ready (length rs) r1"
    by (rule emits_ready [OF one(2)], rule engine_ready_mono [OF Cons.prems(1)]) (use one(3) in simp)
  from Cons.IH [OF this noseq(2)] obtain r2 bs where rest: "process_rules e rs r1 = Inr (Some r2)"
      "emits bs r1 r2" "length bs \<le> length rs"
      "\<forall>a\<in>set bs. \<exists>rule\<in>set rs. Rule_MatchEvent rule e \<and> a = rule_alert rule e"
      "(\<forall>rule\<in>set rs. Mode (rDetect rule) \<noteq> ''threshold'') \<longrightarrow>
         bs = map (\<lambda>rule. rule_alert rule e) (filter (\<lambda>rule. Rule_MatchEvent rule e) rs)"
    by blast
  have "\<forall>a\<in>set (as @ bs). \<exists>rule'\<in>set (rule # rs). Rule_MatchEvent rule' e \<and> a = rule_alert rule' e"
    using one(4) rest(4) by (cases "as = []") auto
  moreover have "(\<forall>rule\<in>set (rule # rs). Mode (rDetect rule) \<noteq> ''threshold'') \<longrightarrow>
      as @ bs = map (\<lambda>rule. rule_alert rule e) (filter (\<lambda>rule. Rule_MatchEvent rule e) (rule # rs))"
    using one(4,5) rest(5) by (cases "as = []") auto
  moreover have "process_rules e (rule # rs) r = Inr (Some r2)" using one(1) rest(1) by simp
  moreover have "length (as @ bs) \<le> length (rule # rs)" using one(3) rest(3) by simp
  ultimately show ?case using emits_trans [OF one(2) rest(2)] by blast
qed

text \<open>No panic at all, whatever the state of the channel, while it is open.\<close>

lemma emitAlert_no_panic: "\<not> chan_closed (alerts r) \<Longrightarrow> emitAlert a r \<noteq> Inl p"
  by (auto simp: emitAlert_def chan_send_def go_simps)

lemma emitAlert_keeps:
  "emitAlert a r = Inr (Some r') \<Longrightarrow> rules r' = rules r \<and> sequences r' = sequences r
     \<and> chan_closed (alerts r') = chan_closed (alerts r) \<and> chan_cap (alerts r') = chan_cap (alerts r)"
  by (auto simp: emitAlert_def chan_send_def go_simps split: if_splits)

lemma handleThreshold_no_panic:
  assumes "SrcContainer e \<noteq> None" and "\<not> chan_closed (alerts r)"
  shows "handleThreshold rule e r \<noteq> Inl p"
proof -
  obtain k where "buildGroupKey (rName rule) (GroupBy (rDetect rule)) e = Inr k"
    using buildGroupKey_ok [OF assms(1)] by blast
  then show ?thesis
    using assms(2) by (auto simp: handleThreshold_def Let_def emitAlert_no_panic split: prod.splits)
qed

lemma handleThreshold_keeps:
  "handleThreshold rule e r = Inr (Some r') \<Longrightarrow>
   rules r' = rules r \<and> sequences r' = sequences r
     \<and> chan_closed (alerts r') = chan_closed (alerts r) \<and> chan_cap (alerts r') = chan_cap (alerts r)"
  by (auto simp: handleThreshold_def Let_def go_simps case_prod_beta split: if_splits dest!: emitAlert_keeps)

lemma process_rule_no_panic:
  "rSequence rule = None \<Longrightarrow> SrcContainer e \<noteq> None \<Longrightarrow> \<not> chan_closed (alerts r) \<Longrightarrow>
   process_rule e rule r \<noteq> Inl p"
  by (auto simp: process_rule_def handleThreshold_no_panic emitAlert_no_panic)

lemma sequence_round_keeps:
  "sequence_round rule seq key e i step r = Inr (Some r') \<Longrightarrow>
   rules r' = rules r \<and> chan_closed (alerts r') = chan_closed (alerts r)
     \<and> chan_cap (alerts r') = chan_cap (alerts r)"
  by (auto simp: sequence_round_def Let_def go_simps case_prod_beta split: if_splits option.splits
      dest!: emitAlert_keeps)

lemma sequence_loop_keeps:
  "sequence_loop rule seq key e i steps r = Inr (Some r') \<Longrightarrow>
   rules r' = rules r \<and> chan_closed (alerts r') = chan_closed (alerts r)
     \<and> chan_cap (alerts r') = chan_cap (alerts r)"
proof (induction steps arbitrary: i r)
  case (Cons step steps)
  then obtain r1 where "sequence_round rule seq key e i step r = Inr (Some r1)"
      "sequence_loop rule seq key e (Suc i) steps r1 = Inr (Some r')"
    by (auto simp: go_simps split: option.splits)
  with Cons.IH sequence_round_keeps show ?case by metis
qed simp

lemma process_rule_keeps:
  "process_rule e rule r = Inr (Some r') \<Longrightarrow>
   rules r' = rules r \<and> chan_closed (alerts r') = chan_closed (alerts r)
     \<and> chan_cap (alerts r') = chan_cap (alerts r)"
  by (auto simp: process_rule_def handleSequence_def go_simps split: if_splits option.splits
      dest: handleThreshold_keeps emitAlert_keeps sequence_loop_keeps)

end
