(* ===== verification/Calendar.thy ===== *)
theory Calendar
  imports GoLib
begin

text \<open>
  Dates of package \<open>time\<close> and the text of a time stamp, \<open>Time.MarshalJSON\<close>:
  the format \<open>RFC3339Nano\<close> with its two errors. The offset of the local time
  zone from UTC, in seconds, comes from the time zone data of the system and
  is an argument. The lemmas show that the text determines the instant.
\<close>

section \<open>Dates\<close>

text \<open>
  Years are counted from March, so that the leap day comes last. The days
  before the 1st of March of year 0 are split off in cycles of 400 years,
  centuries, cycles of four years and years.
\<close>

definition year_days :: "int \<Rightarrow> int \<times> int" where
  "year_days z =
     (let era = z div 146097; doe = z mod 146097;
          c = min 3 (doe div 36524); r = doe - 36524 * c;
          q = min 24 (r div 1461); r' = r - 1461 * q;
          y = min 3 (r' div 365)
      in (400 * era + 100 * c + 4 * q + y, r' - 365 * y))"

definition civil_of_days :: "int \<Rightarrow> int \<times> int \<times> int" where
  "civil_of_days days =
     (let (y, doy) = year_days (days + 719468);
          mp = (5 * doy + 2) div 153;
          month = (if mp < 10 then mp + 3 else mp - 9)
      in (if month \<le> 2 then y + 1 else y, month, doy - (153 * mp + 2) div 5 + 1))"

text \<open>The number of a date, counted from the 1st of January 1970.\<close>

definition days_of_civil :: "int \<times> int \<times> int \<Rightarrow> int" where
  "days_of_civil date =
     (let (year, month, day) = date;
          y = (if month \<le> 2 then year - 1 else year);
          mp = (if 2 < month then month - 3 else month + 9)
      in 365 * y + y div 4 - y div 100 + y div 400 + (153 * mp + 2) div 5 + day - 1 - 719468)"

lemma div_unique: "0 \<le> l \<Longrightarrow> l < b \<Longrightarrow> (b * k + l) div b = (k :: int)"
  by (simp add: div_pos_pos_trivial)

text \<open>A count split into full periods of \<open>p\<close> days, at most \<open>m\<close> of them; the last may be longer.\<close>

lemma capped_div:
  fixes d p :: int
  assumes c: "c = min m (d div p)" and r: "r = d - p * c"
    and d: "0 \<le> d" "d \<le> p * m + p + e" and "0 < p" "0 \<le> m" "- 1 \<le> e"
  shows "0 \<le> c" and "c \<le> m" and "0 \<le> r" and "r \<le> p + e"
proof -
  have split: "p * (d div p) + d mod p = d" "0 \<le> d mod p" "d mod p < p" using assms(5) by simp_all
  have "0 \<le> d div p" using d(1) assms(5) by (simp add: pos_imp_zdiv_nonneg_iff)
  then show "0 \<le> c" "c \<le> m" using assms(6) by (simp_all add: c)
  show "0 \<le> r" "r \<le> p + e"
  proof (atomize (full), cases "m \<le> d div p")
    case True
    then have "p * m \<le> p * (d div p)" using assms(5) by simp
    with split(1,2) have "p * m \<le> d" by linarith
    with True d(2) show "0 \<le> r \<and> r \<le> p + e" by (simp add: r c)
  next
    case False
    then have "r = d - p * (d div p)" by (simp add: r c)
    with split assms(7) show "0 \<le> r \<and> r \<le> p + e" by linarith
  qed
qed

lemma year_days_ok:
  assumes "year_days z = (y, doy)"
  shows "0 \<le> doy \<and> doy \<le> 365 \<and> z = 365 * y + y div 4 - y div 100 + y div 400 + doy"
proof -
  define era doe where "era = z div 146097" and "doe = z mod 146097"
  define c where "c = min 3 (doe div 36524)"
  define r where "r = doe - 36524 * c"
  define q where "q = min 24 (r div 1461)"
  define r' where "r' = r - 1461 * q"
  define n where "n = min 3 (r' div 365)"
  have z: "z = 146097 * era + doe" and doe: "0 \<le> doe" "doe < 146097"
    by (simp_all add: era_def doe_def)
  have c: "0 \<le> c" "c \<le> 3" and r: "0 \<le> r" "r \<le> 36524"
    using capped_div [OF c_def r_def, where e = 0] doe by simp_all
  have q: "0 \<le> q" "q \<le> 24" and r': "0 \<le> r'" "r' \<le> 1460"
    using capped_div [OF q_def r'_def, where e = "- 1"] r by simp_all
  have n: "0 \<le> n" "n \<le> 3" and doy: "0 \<le> r' - 365 * n" "r' - 365 * n \<le> 365"
    using capped_div [OF n_def refl, where e = 0] r' by simp_all
  have "year_days z = (400 * era + 100 * c + 4 * q + n, r' - 365 * n)"
    by (simp only: year_days_def Let_def era_def doe_def c_def r_def q_def r'_def n_def)
  with assms have eq: "y = 400 * era + 100 * c + 4 * q + n" "doy = r' - 365 * n" by simp_all
  have "y div 4 = 100 * era + 25 * c + q"
    using div_unique [of n 4 "100 * era + 25 * c + q"] n by (simp add: eq distrib_left)
  moreover have "y div 100 = 4 * era + c"
    using div_unique [of "4 * q + n" 100 "4 * era + c"] n q by (simp add: eq distrib_left add.assoc)
  moreover have "y div 400 = era"
    using div_unique [of "100 * c + 4 * q + n" 400 era] n q c by (simp add: eq add.assoc)
  ultimately show ?thesis using doy by (simp add: eq z r_def r'_def)
qed

lemma month_day:
  fixes doy :: int
  assumes "0 \<le> doy" and "doy \<le> 365"
  defines "mp \<equiv> (5 * doy + 2) div 153"
  shows "0 \<le> mp" "mp \<le> 11" "1 \<le> doy - (153 * mp + 2) div 5 + 1" "doy - (153 * mp + 2) div 5 + 1 \<le> 31"
  using assms by linarith+

lemma civil_ok:
  assumes "civil_of_days days = (y, m, d)"
  shows "days_of_civil (y, m, d) = days" and "1 \<le> m" "m \<le> 12" and "1 \<le> d" "d \<le> 31"
proof -
  obtain y0 doy where yd: "year_days (days + 719468) = (y0, doy)" by fastforce
  note ok = year_days_ok [OF yd]
  define mp where "mp = (5 * doy + 2) div 153"
  from ok have mp: "0 \<le> mp" "mp \<le> 11" and d: "1 \<le> doy - (153 * mp + 2) div 5 + 1" "doy - (153 * mp + 2) div 5 + 1 \<le> 31"
    unfolding mp_def by (intro month_day; simp)+
  have eq: "m = (if mp < 10 then mp + 3 else mp - 9)" "y = (if m \<le> 2 then y0 + 1 else y0)"
    "d = doy - (153 * mp + 2) div 5 + 1"
    using assms by (auto simp: civil_of_days_def yd Let_def mp_def)
  show "1 \<le> m" "m \<le> 12" using mp by (auto simp: eq)
  show "1 \<le> d" "d \<le> 31" using d by (simp_all add: eq)
  have "(if m \<le> 2 then y - 1 else y) = y0" "(if 2 < m then m - 3 else m + 9) = mp"
    using mp by (auto simp: eq)
  then show "days_of_civil (y, m, d) = days" using ok by (simp add: days_of_civil_def Let_def eq(3))
qed

section \<open>The text of a time stamp\<close>

text \<open>\<open>appendInt\<close>: decimal digits, zero-padded on the left, with a sign.\<close>

definition pad :: "nat \<Rightarrow> nat \<Rightarrow> string" where
  "pad width n = replicate (width - length (dec n)) (CHR ''0'') @ dec n"

definition appendInt :: "int \<Rightarrow> nat \<Rightarrow> string" where
  "appendInt x width = (if x < 0 then CHR ''-'' # pad width (nat (- x)) else pad width (nat x))"

text \<open>\<open>appendNano\<close> with the layout \<open>.999999999\<close>: no trailing zeros, nothing for a whole second.\<close>

definition trim_zeros :: "string \<Rightarrow> string" where
  "trim_zeros s = rev (dropWhile (\<lambda>c. c = CHR ''0'') (rev s))"

definition appendNano :: "int \<Rightarrow> string" where
  "appendNano ns = (let s = trim_zeros (pad 9 (nat ns)) in if s = '''' then '''' else CHR ''.'' # s)"

text \<open>The zone in minutes: integer division truncates; the sign is written first.\<close>

definition zone_text :: "int \<Rightarrow> string" where
  "zone_text offset =
     (if offset = 0 then ''Z''
      else
        let zone = (if offset < 0 then - (- offset div 60) else offset div 60)
        in (if zone < 0 then ''-'' else ''+'') @ appendInt (\<bar>zone\<bar> div 60) 2 @ '':'' @ appendInt (\<bar>zone\<bar> mod 60) 2)"

definition appendFormatRFC3339 :: "int \<Rightarrow> go_time \<Rightarrow> string" where
  "appendFormatRFC3339 offset t =
     (let local = t + offset * 1000000000;
          sec = local div 1000000000;
          (year, month, day) = civil_of_days (sec div 86400);
          sod = sec mod 86400
      in appendInt year 4 @ ''-'' @ appendInt month 2 @ ''-'' @ appendInt day 2 @ ''T''
         @ appendInt (sod div 3600) 2 @ '':'' @ appendInt (sod mod 3600 div 60) 2 @ '':'' @ appendInt (sod mod 60) 2
         @ appendNano (local mod 1000000000) @ zone_text offset)"

text \<open>
  \<open>appendStrictRFC3339\<close>: the fifth byte must end the year, and the hour of the
  zone must have two digits and be at most 23.
\<close>

definition num2 :: "string \<Rightarrow> nat" where
  "num2 b = 10 * digit_val (b ! 0) + digit_val (b ! 1)"

definition appendStrictRFC3339 :: "int \<Rightarrow> go_time \<Rightarrow> string option" where
  "appendStrictRFC3339 offset t =
     (let b = appendFormatRFC3339 offset t
      in if b ! 4 \<noteq> CHR ''-'' then None
         else if last b \<noteq> CHR ''Z'' \<and>
                 (is_digit (b ! (length b - 6)) \<or> 24 \<le> num2 (drop (length b - 5) b)) then None
         else Some b)"

section \<open>Reading it back\<close>

definition num_of :: "string \<Rightarrow> nat" where
  "num_of s = foldl (\<lambda>n c. 10 * n + digit_val c) 0 s"

lemma foldl_num: "foldl (\<lambda>n c. 10 * n + digit_val c) k s = k * 10 ^ length s + num_of s"
proof (induction s arbitrary: k)
  case (Cons c s)
  from Cons [of "digit_val c"] Cons [of "10 * k + digit_val c"] show ?case
    by (simp add: num_of_def algebra_simps)
qed (simp add: num_of_def)

lemma num_of_append: "num_of (a @ b) = num_of a * 10 ^ length b + num_of b"
  using foldl_num [of "num_of a" b] by (simp add: num_of_def)

lemma num_of_zeros: "num_of (replicate k (CHR ''0'')) = 0"
proof (induction k)
  case (Suc k)
  have "num_of (CHR ''0'' # replicate k (CHR ''0'')) = num_of ([CHR ''0''] @ replicate k (CHR ''0''))" by simp
  with Suc show ?case by (simp only: num_of_append replicate_Suc) (simp add: num_of_def digit_val_def)
qed (simp add: num_of_def)

lemma num_of_dec: "num_of (dec n) = n"
proof (induction n rule: dec.induct)
  case (1 n)
  show ?case
  proof (cases "n < 10")
    case True
    then show ?thesis by (subst dec.simps) (simp add: num_of_def digit_char_val)
  next
    case False
    with 1 have "num_of (dec (n div 10) @ [digit_char (n mod 10)]) = n"
      by (subst num_of_append) (simp add: num_of_def [of "[_]"] digit_char_val)
    with False show ?thesis by (subst dec.simps) simp
  qed
qed

lemma num_of_pad: "num_of (pad w n) = n"
  by (simp add: pad_def num_of_append num_of_zeros num_of_dec)

lemma dec_length: "n < 10 ^ w \<Longrightarrow> 0 < w \<Longrightarrow> length (dec n) \<le> w"
proof (induction n arbitrary: w rule: dec.induct)
  case (1 n)
  show ?case
  proof (cases "n < 10")
    case True
    with 1 show ?thesis by (subst dec.simps) simp
  next
    case False
    from False 1 obtain v where w: "w = Suc v" "0 < v"
      by (cases w) (auto, metis less_irrefl gr0I power_0 mult_1_right)
    with 1 False have "length (dec (n div 10)) \<le> v" by (intro "1.IH") (auto simp: div_less_iff_less_mult mult.commute)
    with False w show ?thesis by (subst dec.simps) simp
  qed
qed

lemma length_pad: "n < 10 ^ w \<Longrightarrow> 0 < w \<Longrightarrow> length (pad w n) = w"
  using dec_length [of n w] by (simp add: pad_def)

lemma length_pad_ge: "w \<le> length (pad w n)"
  by (simp add: pad_def)

lemma pad_digits: "c \<in> set (pad w n) \<Longrightarrow> is_digit c"
  using dec_digits [of n] by (auto simp: pad_def is_digit_def)

lemma pad_nth_digit: "i < length (pad w n) \<Longrightarrow> is_digit (pad w n ! i)"
  by (rule pad_digits [OF nth_mem])

lemma dec_long: "10 ^ w \<le> n \<Longrightarrow> w < length (dec n)"
proof (rule ccontr)
  assume big: "10 ^ w \<le> n" and "\<not> w < length (dec n)"
  have "num_of s < 10 ^ length s" if "\<forall>c\<in>set s. is_digit c" for s
    using that
  proof (induction s rule: rev_induct)
    case (snoc c s)
    then have "num_of s < 10 ^ length s" "digit_val c < 10" by (auto simp: is_digit_def digit_val_def)
    then show ?case by (simp add: num_of_append) (simp add: num_of_def [of "[_]"])
  qed (simp add: num_of_def)
  from this [OF dec_digits, of n] have "n < 10 ^ length (dec n)" by (simp add: num_of_dec)
  also have "\<dots> \<le> 10 ^ w" using \<open>\<not> w < length (dec n)\<close> by (intro power_increasing) simp_all
  finally show False using big by simp
qed

text \<open>The instant that a text of this format denotes.\<close>

definition read_frac :: "string \<Rightarrow> int \<times> string" where
  "read_frac b =
     (case b of
        c # b' \<Rightarrow>
          if c = CHR ''.'' then
            (let ds = takeWhile is_digit b'
             in (int (num_of ds * 10 ^ (9 - length ds)), drop (length ds) b'))
          else (0, b)
      | [] \<Rightarrow> (0, b))"

definition read_zone :: "string \<Rightarrow> int" where
  "read_zone b =
     (if b = ''Z'' then 0
      else (let minutes = 60 * int (num_of (take 2 (tl b))) + int (num_of (take 2 (drop 4 b)))
            in 60 * (if hd b = CHR ''-'' then - minutes else minutes)))"

definition instant_of :: "string \<Rightarrow> go_time" where
  "instant_of b =
     (let year = int (num_of (take 4 b)); b = drop 5 b;
          month = int (num_of (take 2 b)); b = drop 3 b;
          day = int (num_of (take 2 b)); b = drop 3 b;
          hour = int (num_of (take 2 b)); b = drop 3 b;
          minute = int (num_of (take 2 b)); b = drop 3 b;
          sec = int (num_of (take 2 b)); b = drop 2 b;
          (ns, b) = read_frac b
      in (days_of_civil (year, month, day) * 86400 + hour * 3600 + minute * 60 + sec - read_zone b) * 1000000000 + ns)"

lemma trim_zeros_split: "\<exists>k. s = trim_zeros s @ replicate k (CHR ''0'')"
proof -
  have "rev s = takeWhile (\<lambda>c. c = CHR ''0'') (rev s) @ dropWhile (\<lambda>c. c = CHR ''0'') (rev s)" by simp
  then have "s = trim_zeros s @ rev (takeWhile (\<lambda>c. c = CHR ''0'') (rev s))"
    unfolding trim_zeros_def by (metis rev_append rev_rev_ident)
  moreover have "rev (takeWhile (\<lambda>c. c = CHR ''0'') (rev s)) =
      replicate (length (takeWhile (\<lambda>c. c = CHR ''0'') (rev s))) (CHR ''0'')"
    by (rule replicate_eqI) (auto dest: set_takeWhileD)
  ultimately show ?thesis by metis
qed

lemma read_frac_nano:
  assumes "0 \<le> ns" and "ns < 1000000000" and z: "z \<noteq> []" "\<not> is_digit (hd z)" "hd z \<noteq> CHR ''.''"
  shows "read_frac (appendNano ns @ z) = (ns, z)"
proof -
  let ?p = "pad 9 (nat ns)" and ?t = "trim_zeros (pad 9 (nat ns))"
  obtain k where k: "?p = ?t @ replicate k (CHR ''0'')" using trim_zeros_split by blast
  have len: "length ?p = 9" using assms(1,2) by (intro length_pad) simp_all
  from arg_cong [OF k, of length] len have kt: "k = 9 - length ?t" by simp
  from arg_cong [OF k, of num_of] have num: "num_of ?t * 10 ^ k = nat ns"
    by (simp add: num_of_pad num_of_append num_of_zeros)
  obtain c z' where zc: "z = c # z'" "\<not> is_digit c" "c \<noteq> CHR ''.''" using z by (cases z) auto
  show ?thesis
  proof (cases "?t = []")
    case True
    with num assms(1) zc show ?thesis by (simp add: appendNano_def Let_def read_frac_def num_of_def)
  next
    case False
    have "c \<in> set ?t \<Longrightarrow> is_digit c" for c
      using k pad_digits [of c 9 "nat ns"] by (metis Un_iff set_append)
    then have "takeWhile is_digit (?t @ z) = ?t" using zc by (subst takeWhile_append2) auto
    moreover from num kt assms(1) have "int (num_of ?t * 10 ^ (9 - length ?t)) = ns" by (simp del: of_nat_mult)
    ultimately show ?thesis using False
      by (simp add: appendNano_def Let_def read_frac_def del: of_nat_mult of_nat_power)
  qed
qed

lemma appendInt_pad: "0 \<le> x \<Longrightarrow> appendInt x w = pad w (nat x)"
  by (simp add: appendInt_def)

lemma not_digit: "\<not> is_digit (CHR ''-'')" "\<not> is_digit (CHR ''+'')" "\<not> is_digit (CHR ''Z'')" "\<not> is_digit (CHR '':'')"
  by (simp_all add: is_digit_def)

text \<open>The check of the fifth byte admits exactly the years 0 to 9999.\<close>

lemma year_check: "(appendInt y 4 @ CHR ''-'' # rest) ! 4 = CHR ''-'' \<longleftrightarrow> 0 \<le> y \<and> y \<le> 9999"
proof (cases "y < 0")
  case True
  then have "(appendInt y 4 @ CHR ''-'' # rest) ! 4 = (pad 4 (nat (- y)) @ CHR ''-'' # rest) ! 3"
    by (simp add: appendInt_def)
  also have "\<dots> = pad 4 (nat (- y)) ! 3" using length_pad_ge [of 4 "nat (- y)"] by (simp add: nth_append)
  finally show ?thesis
    using pad_nth_digit [of 3 4 "nat (- y)"] length_pad_ge [of 4 "nat (- y)"] True not_digit(1) by auto
next
  case False
  show ?thesis
  proof (cases "y \<le> 9999")
    case True
    then have "length (pad 4 (nat y)) = 4" by (intro length_pad) simp_all
    with True False show ?thesis by (simp add: appendInt_def nth_append)
  next
    case big: False
    then have "4 < length (dec (nat y))" by (intro dec_long) simp
    then have "4 < length (pad 4 (nat y))" by (simp add: pad_def)
    with pad_nth_digit [OF this] False big not_digit(1) show ?thesis by (auto simp: appendInt_def nth_append)
  qed
qed

text \<open>The check of the zone admits offsets of less than 24 hours.\<close>

definition zone_minutes :: "int \<Rightarrow> int" where
  "zone_minutes offset = (if offset < 0 then - (- offset div 60) else offset div 60)"

lemma zone_text_parts:
  "offset \<noteq> 0 \<Longrightarrow> zone_text offset =
     (if zone_minutes offset < 0 then CHR ''-'' else CHR ''+'')
       # pad 2 (nat (\<bar>zone_minutes offset\<bar> div 60)) @ CHR '':'' # pad 2 (nat (\<bar>zone_minutes offset\<bar> mod 60))"
  by (simp add: zone_text_def zone_minutes_def Let_def appendInt_pad)

lemma zone_check:
  assumes "offset \<noteq> 0" and b_def: "b = a @ zone_text offset"
  shows "\<not> (is_digit (b ! (length b - 6)) \<or> 24 \<le> num2 (drop (length b - 5) b)) \<longleftrightarrow> \<bar>zone_minutes offset\<bar> < 24 * 60"
    and "last b \<noteq> CHR ''Z''"
proof -
  let ?h = "nat (\<bar>zone_minutes offset\<bar> div 60)" and ?m = "nat (\<bar>zone_minutes offset\<bar> mod 60)"
  define sg where "sg = (if zone_minutes offset < 0 then CHR ''-'' else CHR ''+'')"
  have b: "b = a @ sg # pad 2 ?h @ CHR '':'' # pad 2 ?m"
    by (simp add: b_def zone_text_parts [OF assms(1)] sg_def)
  have m: "length (pad 2 ?m) = 2" by (intro length_pad) (simp_all add: nat_less_iff)
  then obtain m1 m2 where m12: "pad 2 ?m = [m1, m2]" by (auto simp: length_Suc_conv numeral_2_eq_2)
  then have "is_digit m2" using pad_digits [of m2 2 ?m] by simp
  then show "last b \<noteq> CHR ''Z''" using not_digit(3) by (auto simp: b m12)
  show "\<not> (is_digit (b ! (length b - 6)) \<or> 24 \<le> num2 (drop (length b - 5) b)) \<longleftrightarrow> \<bar>zone_minutes offset\<bar> < 24 * 60"
  proof (cases "?h < 100")
    case True
    then have "length (pad 2 ?h) = 2" by (intro length_pad) simp_all
    then obtain h1 h2 where h: "pad 2 ?h = [h1, h2]" by (auto simp: length_Suc_conv numeral_2_eq_2)
    from num_of_pad [of 2 ?h] have "10 * digit_val h1 + digit_val h2 = ?h" by (simp add: h num_of_def)
    moreover have "b ! (length b - 6) = sg" "drop (length b - 5) b = [h1, h2, CHR '':'', m1, m2]"
      by (simp_all add: b h m12)
    ultimately have "\<not> (is_digit (b ! (length b - 6)) \<or> 24 \<le> num2 (drop (length b - 5) b)) \<longleftrightarrow> ?h < 24"
      using not_digit(1,2) by (auto simp: num2_def sg_def)
    moreover have "?h < 24 \<longleftrightarrow> \<bar>zone_minutes offset\<bar> < 24 * 60"
      using div_less_iff_less_mult [of 60 "nat \<bar>zone_minutes offset\<bar>" 24]
      by (simp add: nat_div_distrib) linarith
    ultimately show ?thesis by simp
  next
    case False
    then have "2 < length (dec ?h)" by (intro dec_long) simp
    then have "3 \<le> length (pad 2 ?h)" by (simp add: pad_def)
    then obtain k where k: "length (pad 2 ?h) = Suc (Suc (Suc k))"
      by (metis le_Suc_ex numeral_3_eq_3 add_Suc add_0)
    have "b ! (length a + Suc k) = pad 2 ?h ! k" by (simp only: b nth_append_length_plus) (simp add: nth_append k)
    moreover have "length b - 6 = length a + Suc k" by (simp add: b m12 k)
    ultimately have "is_digit (b ! (length b - 6))" using pad_nth_digit [of k 2 ?h] k by simp
    moreover have "\<not> \<bar>zone_minutes offset\<bar> < 24 * 60" using False by linarith
    ultimately show ?thesis by blast
  qed
qed

text \<open>When a time has a text, and that the text tells the instant.\<close>

definition local_year :: "int \<Rightarrow> go_time \<Rightarrow> int" where
  "local_year offset t = fst (civil_of_days ((t + offset * 1000000000) div 1000000000 div 86400))"

lemma strict_iff:
  "appendStrictRFC3339 offset t \<noteq> None \<longleftrightarrow>
     0 \<le> local_year offset t \<and> local_year offset t \<le> 9999 \<and> \<bar>zone_minutes offset\<bar> < 24 * 60"
proof -
  let ?b = "appendFormatRFC3339 offset t" and ?y = "local_year offset t"
  obtain rest where r1: "?b = appendInt ?y 4 @ CHR ''-'' # rest"
    by (auto simp: appendFormatRFC3339_def local_year_def Let_def case_prod_beta)
  obtain a where r2: "?b = a @ zone_text offset"
    by (simp add: appendFormatRFC3339_def Let_def case_prod_beta)
  have year: "?b ! 4 \<noteq> CHR ''-'' \<longleftrightarrow> \<not> (0 \<le> ?y \<and> ?y \<le> 9999)"
    using year_check [of ?y rest] by (simp add: r1)
  have "last ?b \<noteq> CHR ''Z'' \<and> (is_digit (?b ! (length ?b - 6)) \<or> 24 \<le> num2 (drop (length ?b - 5) ?b))
      \<longleftrightarrow> \<not> \<bar>zone_minutes offset\<bar> < 24 * 60"
  proof (cases "offset = 0")
    case True
    then show ?thesis using r2 by (simp add: zone_text_def zone_minutes_def)
  next
    case False
    from zone_check [OF False r2] show ?thesis by blast
  qed
  with year show ?thesis by (auto simp: appendStrictRFC3339_def Let_def)
qed

lemma read_zone_text:
  assumes "\<bar>zone_minutes offset\<bar> < 24 * 60" and "60 dvd offset"
  shows "read_zone (zone_text offset) = offset \<and> zone_text offset \<noteq> []
      \<and> \<not> is_digit (hd (zone_text offset)) \<and> hd (zone_text offset) \<noteq> CHR ''.''"
proof (cases "offset = 0")
  case True
  then show ?thesis
    by (simp add: zone_text_def read_zone_def not_digit)
next
  case False
  let ?z = "zone_minutes offset"
  from assms(2) obtain k where "offset = 60 * k" by blast
  then have "- offset div 60 = - k" "offset div 60 = k"
    using nonzero_mult_div_cancel_left [of 60 "- k"] by simp_all
  then have z: "?z = k" by (simp add: zone_minutes_def)
  have len: "length (pad 2 (nat (\<bar>?z\<bar> div 60))) = 2" "length (pad 2 (nat (\<bar>?z\<bar> mod 60))) = 2"
    using assms(1) by (intro length_pad; simp; linarith)+
  have "60 * int (nat (\<bar>?z\<bar> div 60)) + int (nat (\<bar>?z\<bar> mod 60)) = \<bar>?z\<bar>"
    by (simp add: pos_imp_zdiv_nonneg_iff)
  moreover obtain h m where hm: "pad 2 (nat (\<bar>?z\<bar> div 60)) = h" "pad 2 (nat (\<bar>?z\<bar> mod 60)) = m"
      "num_of h = nat (\<bar>?z\<bar> div 60)" "num_of m = nat (\<bar>?z\<bar> mod 60)" "length h = 2" "length m = 2"
    using len num_of_pad by blast
  ultimately have "read_zone ((if ?z < 0 then CHR ''-'' else CHR ''+'') # h @ CHR '':'' # m) = 60 * ?z"
    by (simp add: read_zone_def Let_def)
  moreover have "zone_text offset = (if ?z < 0 then CHR ''-'' else CHR ''+'') # h @ CHR '':'' # m"
    by (simp only: zone_text_parts [OF False] hm)
  moreover have "60 * ?z = offset" using z \<open>offset = 60 * k\<close> by simp
  ultimately show ?thesis using not_digit(1,2) by simp
qed

lemma pad_field: "0 \<le> x \<Longrightarrow> x < 100 \<Longrightarrow> length (appendInt x 2) = 2 \<and> num_of (appendInt x 2) = nat x"
  by (simp add: appendInt_pad num_of_pad length_pad)

lemma instant_of_parts:
  assumes "length Y = 4" "length M = 2" "length D = 2" "length h = 2" "length m = 2" "length s = 2"
    and "read_frac f = (ns, z)"
  shows "instant_of (Y @ CHR ''-'' # M @ CHR ''-'' # D @ CHR ''T'' # h @ CHR '':'' # m @ CHR '':'' # s @ f) =
     (days_of_civil (int (num_of Y), int (num_of M), int (num_of D)) * 86400
        + int (num_of h) * 3600 + int (num_of m) * 60 + int (num_of s) - read_zone z) * 1000000000 + ns"
  using assms by (simp add: instant_of_def Let_def)

lemma instant_of_text:
  assumes "appendStrictRFC3339 offset t = Some b" and "60 dvd offset"
  shows "instant_of b = t"
proof -
  define l where "l = t + offset * 1000000000"
  define sec where "sec = l div 1000000000"
  define ns where "ns = l mod 1000000000"
  define sod where "sod = sec mod 86400"
  define hh mm ss where "hh = sod div 3600" and "mm = sod mod 3600 div 60" and "ss = sod mod 60"
  obtain y m d where civil: "civil_of_days (sec div 86400) = (y, m, d)" by (metis prod_cases3)
  then have "local_year offset t = y" by (simp only: local_year_def l_def [symmetric] sec_def [symmetric] fst_conv)
  then have ok: "0 \<le> y" "y \<le> 9999" "\<bar>zone_minutes offset\<bar> < 24 * 60"
    using assms(1) strict_iff [of offset t] by simp_all
  have zone: "read_zone (zone_text offset) = offset" "zone_text offset \<noteq> []"
      "\<not> is_digit (hd (zone_text offset))" "hd (zone_text offset) \<noteq> CHR ''.''"
    using read_zone_text [OF ok(3) assms(2)] by blast+
  have frac: "read_frac (appendNano ns @ zone_text offset) = (ns, zone_text offset)"
    by (rule read_frac_nano) (use zone in \<open>simp_all add: ns_def\<close>)
  have sod: "0 \<le> sod" "sod < 86400" by (simp_all add: sod_def)
  then have hms: "0 \<le> hh" "hh < 100" "0 \<le> mm" "mm < 100" "0 \<le> ss" "ss < 100"
    unfolding hh_def mm_def ss_def by linarith+
  have "sod mod 3600 mod 60 = ss" by (simp add: ss_def mod_mod_cancel)
  then have sum: "hh * 3600 + mm * 60 + ss = sod"
    using div_mult_mod_eq [of sod 3600] div_mult_mod_eq [of "sod mod 3600" 60] by (simp only: hh_def mm_def)
  have "b = appendFormatRFC3339 offset t"
    using assms(1) by (simp add: appendStrictRFC3339_def Let_def split: if_splits)
  also have "\<dots> = appendInt y 4 @ CHR ''-'' # appendInt m 2 @ CHR ''-'' # appendInt d 2 @ CHR ''T''
      # appendInt hh 2 @ CHR '':'' # appendInt mm 2 @ CHR '':'' # appendInt ss 2 @ appendNano ns @ zone_text offset"
    unfolding appendFormatRFC3339_def Let_def l_def [symmetric] sec_def [symmetric] ns_def [symmetric]
      sod_def [symmetric] hh_def [symmetric] mm_def [symmetric] ss_def [symmetric] civil by simp
  finally have b: "b = \<dots>" .
  have year: "length (appendInt y 4) = 4" "num_of (appendInt y 4) = nat y"
    using ok by (simp_all add: appendInt_pad num_of_pad length_pad)
  have md: "m \<le> 12" "1 \<le> m" "1 \<le> d" "d \<le> 31" and days: "days_of_civil (y, m, d) = sec div 86400"
    using civil_ok [OF civil] by simp_all
  have "instant_of b = (sec div 86400 * 86400 + hh * 3600 + mm * 60 + ss - offset) * 1000000000 + ns"
    unfolding b using ok(1) hms md year
    by (subst instant_of_parts [OF year(1) _ _ _ _ _ frac]) (simp_all add: pad_field days zone)
  also have "\<dots> = (sec div 86400 * 86400 + (hh * 3600 + mm * 60 + ss) - offset) * 1000000000 + ns" by simp
  also have "\<dots> = (sec - offset) * 1000000000 + ns" by (simp only: sum) (simp add: sod_def)
  also have "\<dots> = t" using div_mult_mod_eq [of l 1000000000] by (simp add: sec_def ns_def l_def algebra_simps)
  finally show ?thesis .
qed

end
