(* ===== verification/Json.thy ===== *)
theory Json
  imports Calendar Glob
begin

text \<open>
  The text that \<open>encoding/json\<close> writes for the values of this program: strings
  with their escapes, numbers, null and objects. A reader of the format is
  defined beside it; reading a text back gives the value, with invalid UTF-8
  replaced, and the text has no control characters.
\<close>

section \<open>Strings\<close>

lemma decode_rune_shorter: "(r, n) = decode_rune (c # s) \<Longrightarrow> length (drop n (c # s)) < length (c # s)"
  using decode_rune_width [of "c # s"] by (cases "decode_rune (c # s)") simp

declare decode_rune.simps(2) [simp del]

definition hex_digit :: "nat \<Rightarrow> char" where
  "hex_digit n = ''0123456789abcdef'' ! n"

text \<open>
  The cases of \<open>appendString\<close> for a byte below 128. The set \<open>htmlSafeSet\<close> holds
  the printable characters and DEL, without the quote, the backslash and the
  three characters that HTML gives a meaning.
\<close>

definition escape_byte :: "char \<Rightarrow> string" where
  "escape_byte c =
     (if c = CHR 0x5C \<or> c = CHR 0x22 then [CHR 0x5C, c]
      else if c = CHR 0x08 then [CHR 0x5C, CHR ''b'']
      else if c = CHR 0x0C then [CHR 0x5C, CHR ''f'']
      else if c = CHR 0x0A then [CHR 0x5C, CHR ''n'']
      else if c = CHR 0x0D then [CHR 0x5C, CHR ''r'']
      else if c = CHR 0x09 then [CHR 0x5C, CHR ''t'']
      else if byte_of c < 32 \<or> c = CHR ''<'' \<or> c = CHR ''>'' \<or> c = CHR ''&''
      then [CHR 0x5C, CHR ''u'', CHR ''0'', CHR ''0'', hex_digit (byte_of c div 16), hex_digit (byte_of c mod 16)]
      else [c])"

function escape :: "string \<Rightarrow> string" where
  "escape [] = []"
| "escape (c # s) =
     (if byte_of c < 128 then escape_byte c @ escape s
      else
        let (r, n) = decode_rune (c # s); rest = escape (drop n (c # s))
        in if r = RuneError \<and> n = 1 then CHR 0x5C # ''ufffd'' @ rest
           else if r = 8232 \<or> r = 8233 then CHR 0x5C # ''u202'' @ hex_digit (r mod 16) # rest
           else take n (c # s) @ rest)"
  by pat_completeness auto
termination
  by (relation "measure length") (simp_all only: wf_measure in_measure decode_rune_shorter, simp)

declare escape.simps(2) [simp del]

definition appendString :: "string \<Rightarrow> string" where
  "appendString s = CHR 0x22 # escape s @ [CHR 0x22]"

text \<open>The string with every byte that is not part of a UTF-8 sequence replaced by U+FFFD.\<close>

function utf8_clean :: "string \<Rightarrow> string" where
  "utf8_clean [] = []"
| "utf8_clean (c # s) =
     (let (r, n) = decode_rune (c # s); rest = utf8_clean (drop n (c # s))
      in if r = RuneError \<and> n = 1 then [CHR 0xEF, CHR 0xBF, CHR 0xBD] @ rest else take n (c # s) @ rest)"
  by pat_completeness auto
termination
  by (relation "measure length") (simp_all only: wf_measure in_measure decode_rune_shorter)

declare utf8_clean.simps(2) [simp del]

section \<open>Values\<close>

datatype json =
    JNull
  | JNum nat
  | JStr string
  | JObj "(string \<times> json) list"

fun json_text :: "json \<Rightarrow> string" and members_text :: "(string \<times> json) list \<Rightarrow> string" where
  "json_text JNull = ''null''"
| "json_text (JNum n) = dec n"
| "json_text (JStr s) = appendString s"
| "json_text (JObj ms) = CHR ''{'' # members_text ms @ [CHR ''}'']"
| "members_text [] = []"
| "members_text ((k, v) # ms) =
     appendString k @ CHR '':'' # json_text v @ (if ms = [] then [] else CHR '','' # members_text ms)"

section \<open>Reading\<close>

definition hex_val :: "char \<Rightarrow> nat option" where
  "hex_val c =
     (if is_digit c then Some (digit_val c)
      else if 97 \<le> byte_of c \<and> byte_of c \<le> 102 then Some (byte_of c - 87)
      else if 65 \<le> byte_of c \<and> byte_of c \<le> 70 then Some (byte_of c - 55)
      else None)"

definition hex4 :: "char \<Rightarrow> char \<Rightarrow> char \<Rightarrow> char \<Rightarrow> nat option" where
  "hex4 a b c d =
     (case (hex_val a, hex_val b, hex_val c, hex_val d) of
        (Some i, Some j, Some k, Some l) \<Rightarrow> Some (((i * 16 + j) * 16 + k) * 16 + l)
      | _ \<Rightarrow> None)"

text \<open>UTF-8 of a code point below 65536.\<close>

definition utf8_encode :: "nat \<Rightarrow> string" where
  "utf8_encode n =
     (if n < 128 then [char_of n]
      else if n < 2048 then [char_of (192 + n div 64), char_of (128 + n mod 64)]
      else [char_of (224 + n div 4096), char_of (128 + n div 64 mod 64), char_of (128 + n mod 64)])"

definition simple_escape :: "char \<Rightarrow> char option" where
  "simple_escape e =
     (if e = CHR 0x22 \<or> e = CHR 0x5C \<or> e = CHR ''/'' then Some e
      else if e = CHR ''b'' then Some (CHR 0x08)
      else if e = CHR ''f'' then Some (CHR 0x0C)
      else if e = CHR ''n'' then Some (CHR 0x0A)
      else if e = CHR ''r'' then Some (CHR 0x0D)
      else if e = CHR ''t'' then Some (CHR 0x09)
      else None)"

fun unescape :: "string \<Rightarrow> (string \<times> string) option" where
  "unescape [] = None"
| "unescape (c # s) =
     (if c = CHR 0x22 then Some ([], s)
      else if c = CHR 0x5C then
        (case s of
           [] \<Rightarrow> None
         | e # s1 \<Rightarrow>
             if e = CHR ''u'' then
               (case s1 of
                  h1 # h2 # h3 # h4 # s2 \<Rightarrow>
                    (case hex4 h1 h2 h3 h4 of
                       None \<Rightarrow> None
                     | Some n \<Rightarrow> map_option (\<lambda>(t, r). (utf8_encode n @ t, r)) (unescape s2))
                | _ \<Rightarrow> None)
             else
               (case simple_escape e of
                  None \<Rightarrow> None
                | Some x \<Rightarrow> map_option (\<lambda>(t, r). (x # t, r)) (unescape s1)))
      else if byte_of c < 32 then None
      else map_option (\<lambda>(t, r). (c # t, r)) (unescape s))"

function parse_value :: "string \<Rightarrow> (json \<times> string) option"
  and parse_members :: "string \<Rightarrow> ((string \<times> json) list \<times> string) option" where
  "parse_value s =
     (case s of
        [] \<Rightarrow> None
      | c # s' \<Rightarrow>
          if c = CHR 0x22 then map_option (\<lambda>(t, r). (JStr t, r)) (unescape s')
          else if c = CHR ''{'' then
            (if s' \<noteq> [] \<and> hd s' = CHR ''}'' then Some (JObj [], tl s')
             else map_option (\<lambda>(ms, r). (JObj ms, r)) (parse_members s'))
          else if is_digit c then
            (let ds = takeWhile is_digit s in Some (JNum (num_of ds), drop (length ds) s))
          else if take 4 s = ''null'' then Some (JNull, drop 4 s)
          else None)"
| "parse_members s =
     (case s of
        [] \<Rightarrow> None
      | c # s' \<Rightarrow>
          if c \<noteq> CHR 0x22 then None
          else
            (case unescape s' of
               Some (k, d # r1) \<Rightarrow>
                 if d = CHR '':'' \<and> length r1 < length s then
                   (case parse_value r1 of
                      Some (v, e # r2) \<Rightarrow>
                        if e = CHR ''}'' then Some ([(k, v)], r2)
                        else if e = CHR '','' \<and> length r2 < length s then
                          map_option (\<lambda>(ms, r). ((k, v) # ms, r)) (parse_members r2)
                        else None
                    | _ \<Rightarrow> None)
                 else None
             | _ \<Rightarrow> None))"
  by pat_completeness auto
termination
  by (relation "measure (case_sum length length)") auto

declare parse_value.simps [simp del] parse_members.simps [simp del]

section \<open>Round trip of strings\<close>

lemma hex_val_digit: "k < 16 \<Longrightarrow> hex_val (hex_digit k) = Some k"
proof -
  assume "k < 16"
  then have "k \<in> set [0..<16]" by simp
  then show ?thesis by (auto simp: upt_rec hex_digit_def hex_val_def is_digit_def digit_val_def)
qed

lemma hex4_low: "n < 256 \<Longrightarrow> hex4 (CHR ''0'') (CHR ''0'') (hex_digit (n div 16)) (hex_digit (n mod 16)) = Some n"
  by (simp add: hex4_def hex_val_digit) (simp add: hex_val_def is_digit_def digit_val_def)

lemma utf8_encode_byte: "byte_of c < 128 \<Longrightarrow> utf8_encode (byte_of c) = [c]"
  by (simp add: utf8_encode_def)

lemma unescape_plain:
  "c \<noteq> CHR 0x22 \<Longrightarrow> c \<noteq> CHR 0x5C \<Longrightarrow> 32 \<le> byte_of c \<Longrightarrow>
   unescape (c # s) = map_option (\<lambda>(t, r). (c # t, r)) (unescape s)"
  by simp

lemma unescape_byte:
  assumes "byte_of c < 128"
  shows "unescape (escape_byte c @ s) = map_option (\<lambda>(t, r). (c # t, r)) (unescape s)"
proof (cases "escape_byte c = [c]")
  case True
  then have "c \<noteq> CHR 0x22 \<and> c \<noteq> CHR 0x5C \<and> 32 \<le> byte_of c"
    by (auto simp: escape_byte_def split: if_splits)
  with True show ?thesis by (simp add: unescape_plain del: unescape.simps)
next
  case False
  have "unescape (CHR 0x5C # CHR ''u'' # CHR ''0'' # CHR ''0'' # hex_digit (byte_of c div 16) # hex_digit (byte_of c mod 16) # s)
      = map_option (\<lambda>(t, r). (c # t, r)) (unescape s)"
    using assms by (simp add: hex4_low utf8_encode_byte)
  with False show ?thesis
    by (simp add: escape_byte_def simple_escape_def del: unescape.simps) (simp add: simple_escape_def)
qed

text \<open>The sequence of a line or paragraph separator is determined.\<close>

lemma separator_bytes:
  fixes b x y :: nat
  assumes "224 \<le> b" "128 \<le> x" "x \<le> 191" "128 \<le> y" "y \<le> 191"
    and "((b - 224) * 64 + (x - 128)) * 64 + (y - 128) = 8232 + j" "j \<le> 1"
  shows "b = 226" "x = 128" "y = 168 + j"
proof -
  define p q r where "p = b - 224" and "q = x - 128" and "r = y - 128"
  have eq: "p * 4096 + q * 64 + r = 8232 + j" "q < 64" "r < 64"
    using assms by (simp_all add: p_def q_def r_def)
  then have p: "p = 2" using assms(7) by linarith
  with eq assms(7) have q: "q = 0" by linarith
  from eq p q have r: "r = 40 + j" by simp
  show "b = 226" "x = 128" "y = 168 + j"
    using p q r assms(1,2,4) by (simp_all add: p_def q_def r_def)
qed

lemma char_eqI: "byte_of c = n \<Longrightarrow> c = char_of n"
  by (metis char_of_char)

text \<open>The bytes of a sequence that decodes to a rune above 127.\<close>

lemma rune_cases:
  assumes "decode_rune (c # s) = (r, n)" and "128 \<le> byte_of c" and "\<not> (r = RuneError \<and> n = 1)"
  obtains (two) c1 t where "s = c1 # t" "n = 2" "r = rune2 c c1" "byte_of c \<le> 223" "cont_in 128 191 c1"
    | (three) c1 c2 t where "s = c1 # c2 # t" "n = 3" "r = rune3 c c1 c2"
      "224 \<le> byte_of c" "cont_in 128 191 c1" "cont_in 128 191 c2"
    | (four) c1 c2 c3 t where "s = c1 # c2 # c3 # t" "n = 4" "r = rune4 c c1 c2 c3"
      "240 \<le> byte_of c" "byte_of c = 240 \<longrightarrow> 144 \<le> byte_of c1"
      "cont_in 128 191 c1" "cont_in 128 191 c2" "cont_in 128 191 c3"
  using assms(1) [unfolded decode_rune.simps(2) Let_def] assms(2,3)
  by (auto simp: cont_in_def split: if_splits list.splits)

lemma rune_bytes:
  assumes "decode_rune (c # s) = (r, n)" and "128 \<le> byte_of c" and "\<not> (r = RuneError \<and> n = 1)"
  shows "\<forall>d\<in>set (take n (c # s)). 128 \<le> byte_of d"
  by (rule rune_cases [OF assms]) (use assms(2) in \<open>auto simp: cont_in_def\<close>)

lemma rune_separator:
  assumes dec: "decode_rune (c # s) = (8232 + j, n)" and j: "j \<le> 1" and c: "128 \<le> byte_of c"
  shows "take n (c # s) = utf8_encode (8232 + j)"
proof -
  have "\<not> (8232 + j = RuneError \<and> n = 1)" using j by (simp add: RuneError_def)
  from dec c this show ?thesis
  proof (cases rule: rune_cases)
    case (two c1 t)
    have "x * 64 + y < 8232" if "x \<le> 31" "y \<le> 63" for x y :: nat using that by linarith
    then have "rune2 c c1 < 8232" unfolding rune2_def by this (use two in \<open>simp_all add: cont_in_def le_diff_conv\<close>)
    with two(3) show ?thesis by simp
  next
    case (three c1 c2 t)
    have "128 \<le> byte_of c1" "byte_of c1 \<le> 191" "128 \<le> byte_of c2" "byte_of c2 \<le> 191"
      using three(5,6) by (simp_all only: cont_in_def)
    from separator_bytes [OF three(4) this three(3) [symmetric, unfolded rune3_def] j]
    have "byte_of c = 226" "byte_of c1 = 128" "byte_of c2 = 168 + j" .
    then have "c = char_of (226 :: nat)" "c1 = char_of (128 :: nat)" "c2 = char_of (168 + j)"
      by - (rule char_eqI, assumption)+
    moreover have "utf8_encode (8232 + j) = [char_of (226 :: nat), char_of (128 :: nat), char_of (168 + j)]"
      using j by (cases j) (simp_all add: utf8_encode_def)
    ultimately show ?thesis by (simp add: three)
  next
    case (four c1 c2 c3 t)
    have "16 \<le> (byte_of c - 240) * 64 + (byte_of c1 - 128)" using four(4,5) by (cases "byte_of c = 240") auto
    moreover have "8234 \<le> (k * 64 + u) * 64 + v" if "16 \<le> k" for k u v :: nat using that by simp
    ultimately have "8234 \<le> 8232 + j" unfolding four(3) rune4_def by blast
    with j show ?thesis by simp
  qed
qed

lemma unescape_high:
  "\<forall>d\<in>set u. 128 \<le> byte_of d \<Longrightarrow> unescape (u @ s) = map_option (\<lambda>(t, r). (u @ t, r)) (unescape s)"
proof (induction u)
  case Nil
  show ?case by (cases "unescape s") auto
next
  case (Cons d u)
  then have "unescape (d # u @ s) = map_option (\<lambda>(t, r). (d # t, r)) (unescape (u @ s))"
    by (intro unescape_plain) auto
  with Cons show ?case by (cases "unescape s") auto
qed

lemma unescape_replacement:
  "unescape (CHR 0x5C # ''ufffd'' @ s) = map_option (\<lambda>(t, r). ([CHR 0xEF, CHR 0xBF, CHR 0xBD] @ t, r)) (unescape s)"
proof -
  have "char_of (239 :: nat) = CHR 0xEF" "char_of (191 :: nat) = CHR 0xBF" "char_of (189 :: nat) = CHR 0xBD"
    by (rule char_eqI [symmetric], simp)+
  then show ?thesis by (simp add: hex4_def hex_val_def is_digit_def digit_val_def utf8_encode_def)
qed

lemma unescape_separator:
  "j \<le> 1 \<Longrightarrow> unescape (CHR 0x5C # ''u202'' @ hex_digit ((8232 + j) mod 16) # s)
     = map_option (\<lambda>(t, r). (utf8_encode (8232 + j) @ t, r)) (unescape s)"
  by (cases j) (simp_all add: hex4_def hex_val_def hex_digit_def is_digit_def digit_val_def)

lemma decode_rune_ascii: "byte_of c < 128 \<Longrightarrow> decode_rune (c # s) = (byte_of c, 1)"
  by (simp add: decode_rune.simps(2))

lemma utf8_clean_ascii: "byte_of c < 128 \<Longrightarrow> utf8_clean (c # s) = c # utf8_clean s"
  by (simp add: utf8_clean.simps(2) decode_rune_ascii RuneError_def)

lemma unescape_escape: "unescape (escape s @ CHR 0x22 # rest) = Some (utf8_clean s, rest)"
proof (induction s rule: escape.induct)
  case 1
  show ?case by simp
next
  case (2 c s)
  show ?case
  proof (cases "byte_of c < 128")
    case True
    with 2 show ?thesis
      by (simp add: escape.simps(2) unescape_byte utf8_clean_ascii del: unescape.simps)
  next
    case high: False
    obtain r n where dec: "decode_rune (c # s) = (r, n)" by fastforce
    from 2(2) [OF high refl, of r n] dec
    have IH: "unescape (escape (drop n (c # s)) @ CHR 0x22 # rest) = Some (utf8_clean (drop n (c # s)), rest)" by simp
    consider (bad) "r = RuneError" "n = 1" | (sep) "r = 8232 \<or> r = 8233" "\<not> (r = RuneError \<and> n = 1)"
      | (good) "\<not> (r = RuneError \<and> n = 1)" "\<not> (r = 8232 \<or> r = 8233)" by blast
    then show ?thesis
    proof cases
      case bad
      with high dec IH unescape_replacement [of "escape (drop n (c # s)) @ CHR 0x22 # rest"] show ?thesis
        by (simp add: escape.simps(2) utf8_clean.simps(2) del: unescape.simps)
    next
      case sep
      then obtain j where j: "r = 8232 + j" "j \<le> 1" by (auto intro: that [of 0] that [of 1])
      with high dec IH sep unescape_separator [of j "escape (drop n (c # s)) @ CHR 0x22 # rest"]
        rune_separator [of c s j n] show ?thesis
        by (auto simp: escape.simps(2) utf8_clean.simps(2) Let_def simp del: unescape.simps)
    next
      case good
      from rune_bytes [OF dec _ good(1)] high have "\<forall>d\<in>set (take n (c # s)). 128 \<le> byte_of d" by simp
      from unescape_high [OF this, of "escape (drop n (c # s)) @ CHR 0x22 # rest"] high dec IH good show ?thesis
        by (auto simp: escape.simps(2) utf8_clean.simps(2) Let_def simp del: unescape.simps)
    qed
  qed
qed

section \<open>Round trip of values\<close>

text \<open>A value with the strings that a reader of its text finds.\<close>

fun clean_json :: "json \<Rightarrow> json" and clean_members :: "(string \<times> json) list \<Rightarrow> (string \<times> json) list" where
  "clean_json JNull = JNull"
| "clean_json (JNum n) = JNum n"
| "clean_json (JStr s) = JStr (utf8_clean s)"
| "clean_json (JObj ms) = JObj (clean_members ms)"
| "clean_members [] = []"
| "clean_members ((k, v) # ms) = (utf8_clean k, clean_json v) # clean_members ms"

text \<open>What follows a value must not look like a further digit of it.\<close>

definition ends_value :: "string \<Rightarrow> bool" where
  "ends_value rest \<longleftrightarrow> rest = [] \<or> \<not> is_digit (hd rest)"

lemma json_text_nonempty: "json_text j \<noteq> []"
  by (cases j) (simp_all add: dec_nonempty appendString_def)

lemma parse_digits:
  assumes "ends_value rest"
  shows "parse_value (dec n @ rest) = Some (JNum n, rest)"
proof -
  obtain c s where cs: "dec n @ rest = c # s" "c \<in> set (dec n)"
    using dec_nonempty [of n] by (cases "dec n") auto
  have "takeWhile is_digit (dec n @ rest) = dec n"
    using dec_digits [of n] assms by (cases rest) (simp_all add: ends_value_def)
  moreover have "drop (length (dec n)) (dec n @ rest) = rest" by simp
  ultimately have tw: "takeWhile is_digit (c # s) = dec n" "drop (length (dec n)) (c # s) = rest"
    by (simp_all only: cs(1))
  have c: "is_digit c" using dec_digits cs(2) by blast
  then have "c \<noteq> CHR 0x22" "c \<noteq> CHR ''{''" by (auto simp: is_digit_def)
  with c show ?thesis
    unfolding cs(1) by (subst parse_value.simps) (simp only: list.case if_True if_False Let_def tw num_of_dec)
qed

lemma parse_json_text:
  "ends_value rest \<Longrightarrow> parse_value (json_text j @ rest) = Some (clean_json j, rest)"
  "ms \<noteq> [] \<Longrightarrow> parse_members (members_text ms @ CHR ''}'' # rest) = Some (clean_members ms, rest)"
proof (induction j and ms arbitrary: rest and rest rule: json_text_members_text.induct)
  case 1
  show ?case by (subst parse_value.simps) (simp add: is_digit_def)
next
  case (2 n)
  then show ?case by (simp add: parse_digits)
next
  case (3 s)
  show ?case by (subst parse_value.simps) (simp add: appendString_def unescape_escape del: unescape.simps)
next
  case (4 ms)
  show ?case
  proof (cases ms)
    case Nil
    then show ?thesis by (subst parse_value.simps) simp
  next
    case (Cons m ms')
    obtain k v where m: "m = (k, v)" by fastforce
    from 4(1) [of rest] Cons show ?thesis
      by (subst parse_value.simps) (simp add: m appendString_def)
  qed
next
  case 5
  then show ?case by simp
next
  case (6 k v ms)
  let ?tail = "(if ms = [] then [] else CHR '','' # members_text ms) @ CHR ''}'' # rest"
  have "ends_value ?tail" by (simp add: ends_value_def is_digit_def)
  from "6.IH"(1) [OF this] have v: "parse_value (json_text v @ ?tail) = Some (clean_json v, ?tail)" .
  have whole: "members_text ((k, v) # ms) @ CHR ''}'' # rest
      = CHR 0x22 # escape k @ CHR 0x22 # CHR '':'' # json_text v @ ?tail"
    by (simp add: appendString_def)
  show ?case
    unfolding whole using v "6.IH"(2) [of rest]
    by (subst parse_members.simps) (simp add: unescape_escape del: unescape.simps)
qed

text \<open>The whole text, and that it fits on one line.\<close>

definition parse_json :: "string \<Rightarrow> json option" where
  "parse_json s = (case parse_value s of Some (j, []) \<Rightarrow> Some j | _ \<Rightarrow> None)"

lemma parse_json_line: "parse_json (json_text j) = Some (clean_json j)"
  using parse_json_text(1) [of "[]" j] by (simp add: parse_json_def ends_value_def)

text \<open>
  Free of the control characters below the space, which are escaped; DEL and
  the control characters from U+0080 on stand for themselves.
\<close>

definition no_C0 :: "string \<Rightarrow> bool" where
  "no_C0 s \<longleftrightarrow> (\<forall>c\<in>set s. 32 \<le> byte_of c)"

lemma no_C0_simps [simp]:
  "no_C0 []" "no_C0 (c # s) \<longleftrightarrow> 32 \<le> byte_of c \<and> no_C0 s"
  "no_C0 (s @ t) \<longleftrightarrow> no_C0 s \<and> no_C0 t"
  by (auto simp: no_C0_def)

lemma no_C0_hex: "k < 16 \<Longrightarrow> 32 \<le> byte_of (hex_digit k)"
proof -
  assume "k < 16"
  then have "k \<in> set [0..<16]" by simp
  then show ?thesis by (auto simp: upt_rec hex_digit_def)
qed

lemma no_C0_escape_byte: "byte_of c < 128 \<Longrightarrow> no_C0 (escape_byte c)"
  by (auto simp: escape_byte_def no_C0_hex)

lemma no_C0_escape: "no_C0 (escape s)"
proof (induction s rule: escape.induct)
  case (2 c s)
  show ?case
  proof (cases "byte_of c < 128")
    case True
    with 2 show ?thesis by (simp add: escape.simps(2) no_C0_escape_byte)
  next
    case high: False
    obtain r n where dec: "decode_rune (c # s) = (r, n)" by fastforce
    have IH: "no_C0 (escape (drop n (c # s)))" using 2(2) [OF high refl, of r n] dec by simp
    have "no_C0 (take n (c # s))" if "\<not> (r = RuneError \<and> n = 1)"
      using rune_bytes [OF dec _ that] high by (auto simp: no_C0_def)
    with IH dec high show ?thesis by (auto simp: escape.simps(2) Let_def no_C0_hex)
  qed
qed simp

lemma no_C0_text: "no_C0 (json_text j)" "no_C0 (members_text ms)"
proof (induction j and ms rule: json_text_members_text.induct)
  case (2 n)
  show ?case using dec_digits [of n] by (auto simp: no_C0_def is_digit_def)
qed (simp_all add: appendString_def no_C0_escape)

end
