(* ===== verification/Encode.thy ===== *)
theory Encode
  imports Core Json
begin

text \<open>
  The JSON form of the records of \<open>internal/core\<close>, as the tags of their fields
  ask for it: the members in the order of the fields, a field tagged
  \<open>omitempty\<close> only when it is not the zero value. A reader of the form gives
  the record back, with the strings that JSON can carry.
\<close>

section \<open>Writing\<close>

definition omit_str :: "string \<Rightarrow> string \<Rightarrow> (string \<times> json) list" where
  "omit_str k s = (if s = '''' then [] else [(k, JStr s)])"

definition omit_num :: "string \<Rightarrow> 'w :: len word \<Rightarrow> (string \<times> json) list" where
  "omit_num k w = (if w = 0 then [] else [(k, JNum (unat w))])"

definition omit_ptr :: "string \<Rightarrow> ('a \<Rightarrow> json) \<Rightarrow> 'a option \<Rightarrow> (string \<times> json) list" where
  "omit_ptr k f p = (case p of None \<Rightarrow> [] | Some x \<Rightarrow> [(k, f x)])"

definition ptr_json :: "('a \<Rightarrow> json) \<Rightarrow> 'a option \<Rightarrow> json" where
  "ptr_json f p = (case p of None \<Rightarrow> JNull | Some x \<Rightarrow> f x)"

definition container_json :: "ContainerInfo \<Rightarrow> json" where
  "container_json c = JObj [(''id'', JStr (ID c)), (''name'', JStr (Name c)), (''image'', JStr (Image c))]"

text \<open>The text of the time is an argument: \<open>Time.MarshalJSON\<close> fails for some times.\<close>

definition event_json :: "string \<Rightarrow> Event \<Rightarrow> json" where
  "event_json ts e =
     JObj ([(''event_type'', JStr (EvType e)), (''timestamp'', JStr ts)]
       @ omit_ptr ''src_container'' container_json (SrcContainer e)
       @ omit_str ''src_process_name'' (SrcProcessName e)
       @ omit_num ''src_pid'' (SrcPID e)
       @ omit_num ''src_cgroup_id'' (SrcCgroupID e)
       @ omit_str ''src_addr'' (EvSrcAddr e)
       @ omit_num ''src_port'' (EvSrcPort e)
       @ omit_ptr ''dst_container'' container_json (DstContainer e)
       @ omit_str ''dst_process_name'' (DstProcessName e)
       @ omit_num ''dst_pid'' (DstPID e)
       @ omit_num ''dst_cgroup_id'' (DstCgroupID e)
       @ omit_str ''dst_addr'' (EvDstAddr e)
       @ omit_num ''dst_port'' (EvDstPort e)
       @ omit_str ''file_path'' (FilePath e)
       @ omit_str ''file_op'' (FileOp e)
       @ omit_str ''exec_path'' (ExecPath e)
       @ omit_num ''parent_pid'' (ParentPID e)
       @ omit_str ''parent_process_name'' (ParentProcessName e))"

definition alert_json :: "string \<Rightarrow> Alert \<Rightarrow> json" where
  "alert_json ts a =
     JObj [(''timestamp'', JStr ts), (''rule_name'', JStr (RuleName a)), (''severity'', JStr (AlSeverity a)),
       (''description'', JStr (AlDescription a)),
       (''src_container'', ptr_json container_json (AlSrcContainer a)),
       (''dst_container'', ptr_json container_json (AlDstContainer a))]"

section \<open>Reading\<close>

text \<open>
  A missing member, or null, stands for the zero value. A number must fit the
  type of its field.
\<close>

definition read_str :: "json option \<Rightarrow> string option" where
  "read_str j = (case j of None \<Rightarrow> Some '''' | Some (JStr s) \<Rightarrow> Some s | _ \<Rightarrow> None)"

definition read_num :: "json option \<Rightarrow> 'w :: len word option" where
  "read_num j =
     (case j of
        None \<Rightarrow> Some 0
      | Some (JNum n) \<Rightarrow> if n < 2 ^ LENGTH('w) then Some (of_nat n) else None
      | _ \<Rightarrow> None)"

definition read_ptr :: "(json \<Rightarrow> 'a option) \<Rightarrow> json option \<Rightarrow> 'a option option" where
  "read_ptr f j =
     (case j of None \<Rightarrow> Some None | Some JNull \<Rightarrow> Some None | Some v \<Rightarrow> map_option Some (f v))"

fun members :: "json \<Rightarrow> string \<rightharpoonup> json" where
  "members (JObj ms) = map_of ms"
| "members j = Map.empty"

definition read_container :: "json \<Rightarrow> ContainerInfo option" where
  "read_container j =
     Option.bind (read_str (members j ''id'')) (\<lambda>i.
     Option.bind (read_str (members j ''name'')) (\<lambda>n.
     Option.bind (read_str (members j ''image'')) (\<lambda>m.
     Some \<lparr>ID = i, Name = n, Image = m\<rparr>)))"

definition read_event :: "json \<Rightarrow> Event option" where
  "read_event j =
     Option.bind (read_str (members j ''event_type'')) (\<lambda>ty.
     Option.bind (read_str (members j ''timestamp'')) (\<lambda>ts.
     Option.bind (read_ptr read_container (members j ''src_container'')) (\<lambda>sc.
     Option.bind (read_str (members j ''src_process_name'')) (\<lambda>sp.
     Option.bind (read_num (members j ''src_pid'')) (\<lambda>si.
     Option.bind (read_num (members j ''src_cgroup_id'')) (\<lambda>sg.
     Option.bind (read_str (members j ''src_addr'')) (\<lambda>sa.
     Option.bind (read_num (members j ''src_port'')) (\<lambda>so.
     Option.bind (read_ptr read_container (members j ''dst_container'')) (\<lambda>dc.
     Option.bind (read_str (members j ''dst_process_name'')) (\<lambda>dp.
     Option.bind (read_num (members j ''dst_pid'')) (\<lambda>di.
     Option.bind (read_num (members j ''dst_cgroup_id'')) (\<lambda>dg.
     Option.bind (read_str (members j ''dst_addr'')) (\<lambda>da.
     Option.bind (read_num (members j ''dst_port'')) (\<lambda>do.
     Option.bind (read_str (members j ''file_path'')) (\<lambda>fp.
     Option.bind (read_str (members j ''file_op'')) (\<lambda>fo.
     Option.bind (read_str (members j ''exec_path'')) (\<lambda>ep.
     Option.bind (read_num (members j ''parent_pid'')) (\<lambda>pi.
     Option.bind (read_str (members j ''parent_process_name'')) (\<lambda>pn.
     Some \<lparr>EvType = ty, EvTime = instant_of ts,
       SrcContainer = sc, SrcProcessName = sp, SrcPID = si, SrcCgroupID = sg, EvSrcAddr = sa, EvSrcPort = so,
       DstContainer = dc, DstProcessName = dp, DstPID = di, DstCgroupID = dg, EvDstAddr = da, EvDstPort = do,
       FilePath = fp, FileOp = fo, ExecPath = ep, ParentPID = pi, ParentProcessName = pn\<rparr>)))))))))))))))))))"

definition read_alert :: "json \<Rightarrow> Alert option" where
  "read_alert j =
     Option.bind (read_str (members j ''timestamp'')) (\<lambda>ts.
     Option.bind (read_str (members j ''rule_name'')) (\<lambda>rn.
     Option.bind (read_str (members j ''severity'')) (\<lambda>sv.
     Option.bind (read_str (members j ''description'')) (\<lambda>ds.
     Option.bind (read_ptr read_container (members j ''src_container'')) (\<lambda>sc.
     Option.bind (read_ptr read_container (members j ''dst_container'')) (\<lambda>dc.
     Some \<lparr>AlTime = instant_of ts, RuleName = rn, AlSeverity = sv, AlDescription = ds,
       AlSrcContainer = sc, AlDstContainer = dc\<rparr>))))))"

text \<open>The records with every string as a reader of UTF-8 sees it.\<close>

definition clean_container :: "ContainerInfo \<Rightarrow> ContainerInfo" where
  "clean_container c = \<lparr>ID = utf8_clean (ID c), Name = utf8_clean (Name c), Image = utf8_clean (Image c)\<rparr>"

definition clean_event :: "Event \<Rightarrow> Event" where
  "clean_event e =
     e\<lparr>EvType := utf8_clean (EvType e), SrcContainer := map_option clean_container (SrcContainer e),
       SrcProcessName := utf8_clean (SrcProcessName e), EvSrcAddr := utf8_clean (EvSrcAddr e),
       DstContainer := map_option clean_container (DstContainer e),
       DstProcessName := utf8_clean (DstProcessName e), EvDstAddr := utf8_clean (EvDstAddr e),
       FilePath := utf8_clean (FilePath e), FileOp := utf8_clean (FileOp e),
       ExecPath := utf8_clean (ExecPath e), ParentProcessName := utf8_clean (ParentProcessName e)\<rparr>"

definition clean_alert :: "Alert \<Rightarrow> Alert" where
  "clean_alert a =
     a\<lparr>RuleName := utf8_clean (RuleName a), AlSeverity := utf8_clean (AlSeverity a),
       AlDescription := utf8_clean (AlDescription a),
       AlSrcContainer := map_option clean_container (AlSrcContainer a),
       AlDstContainer := map_option clean_container (AlDstContainer a)\<rparr>"

section \<open>Round trip\<close>

text \<open>The names of the members and the text of a time are plain ASCII.\<close>

lemma utf8_clean_id: "ascii s \<Longrightarrow> utf8_clean s = s"
  by (induction s) (simp_all add: ascii_def utf8_clean_ascii)

lemma utf8_clean_empty [simp]: "utf8_clean s = '''' \<longleftrightarrow> s = ''''"
proof (cases s)
  case (Cons c t)
  obtain r n where dec: "decode_rune (c # t) = (r, n)" by fastforce
  with decode_rune_width [of "c # t"] have "0 < n" by simp
  with Cons dec show ?thesis by (simp add: utf8_clean.simps(2) Let_def)
qed simp

lemma clean_members_append [simp]: "clean_members (xs @ ys) = clean_members xs @ clean_members ys"
  by (induction xs) auto

lemma clean_omit:
  "ascii k \<Longrightarrow> clean_members (omit_str k s) = omit_str k (utf8_clean s)"
  "ascii k \<Longrightarrow> clean_members (omit_num k w) = omit_num k w"
  "ascii k \<Longrightarrow> clean_members (omit_ptr k container_json p) = omit_ptr k container_json (map_option clean_container p)"
  by (simp_all add: omit_str_def omit_num_def omit_ptr_def utf8_clean_id container_json_def clean_container_def
      ascii_def split: option.splits)

lemma clean_ptr: "clean_json (ptr_json container_json p) = ptr_json container_json (map_option clean_container p)"
  by (cases p) (simp_all add: ptr_json_def container_json_def clean_container_def utf8_clean_id ascii_def)

lemma clean_event_json: "ascii ts \<Longrightarrow> clean_json (event_json ts e) = event_json ts (clean_event e)"
  by (simp add: event_json_def clean_omit utf8_clean_id clean_event_def ascii_def)

lemma clean_alert_json: "ascii ts \<Longrightarrow> clean_json (alert_json ts a) = alert_json ts (clean_alert a)"
  by (simp add: alert_json_def clean_ptr utf8_clean_id clean_alert_def ascii_def)

section \<open>Times\<close>

text \<open>
  The text of a time is made of digits and a few signs, so the encoder passes
  it through as it is.
\<close>

definition time_char :: "char \<Rightarrow> bool" where
  "time_char c \<longleftrightarrow> is_digit c \<or> c \<in> set ''-+:.TZ''"

lemma time_char_plain: "time_char c \<Longrightarrow> byte_of c < 128 \<and> escape_byte c = [c]"
proof -
  assume "time_char c"
  then consider (digit) "48 \<le> byte_of c" "byte_of c \<le> 57" | "c = CHR ''-''" | "c = CHR ''+''" | "c = CHR '':''"
    | "c = CHR ''.''" | "c = CHR ''T''" | "c = CHR ''Z''"
    by (auto simp: time_char_def is_digit_def)
  then show ?thesis
  proof cases
    case digit
    then have "c \<noteq> x" if "byte_of x < 48 \<or> 57 < byte_of x" for x using that by auto
    with digit show ?thesis by (simp add: escape_byte_def)
  qed (simp_all add: escape_byte_def)
qed

lemma plain_text: "list_all time_char s \<Longrightarrow> ascii s \<and> escape s = s"
  by (induction s) (simp_all add: ascii_def escape.simps(2) time_char_plain)

lemma time_char_appendInt: "list_all time_char (appendInt x w)"
  using pad_digits by (auto simp: appendInt_def list_all_iff time_char_def)

lemma time_char_appendNano: "list_all time_char (appendNano ns)"
proof -
  have "set (trim_zeros s) \<subseteq> set s" for s by (auto simp: trim_zeros_def dest: set_dropWhileD)
  then show ?thesis
    using pad_digits [of _ 9 "nat ns"] by (auto simp: appendNano_def Let_def list_all_iff time_char_def)
qed

lemma time_char_zone: "list_all time_char (zone_text offset)"
  by (simp add: zone_text_def Let_def time_char_appendInt) (simp add: time_char_def)

lemma time_text_plain:
  assumes "appendStrictRFC3339 offset t = Some ts"
  shows "ascii ts" and "escape ts = ts"
proof -
  have "ts = appendFormatRFC3339 offset t"
    using assms by (simp add: appendStrictRFC3339_def Let_def split: if_splits)
  then have "list_all time_char ts"
    by (simp add: appendFormatRFC3339_def Let_def case_prod_beta time_char_appendInt time_char_appendNano time_char_zone)
      (simp add: time_char_def)
  then show "ascii ts" and "escape ts = ts" using plain_text by blast+
qed

text \<open>The years of the times that fit 64 bits of nanoseconds since 1970 have four digits.\<close>

lemma civil_year_range:
  assumes "0 \<le> days" and "days \<le> 2932532"
  shows "0 \<le> fst (civil_of_days days)" and "fst (civil_of_days days) \<le> 9999"
proof -
  obtain y doy where yd: "year_days (days + 719468) = (y, doy)" by fastforce
  from year_days_ok [OF yd] have b: "0 \<le> doy" "doy \<le> 365"
    "days + 719468 = 365 * y + y div 4 - y div 100 + y div 400 + doy" by blast+
  have "0 \<le> y" "y \<le> 9998" using b assms by linarith+
  moreover have "fst (civil_of_days days) = y \<or> fst (civil_of_days days) = y + 1"
    by (simp add: civil_of_days_def yd Let_def)
  ultimately show "0 \<le> fst (civil_of_days days)" and "fst (civil_of_days days) \<le> 9999" by linarith+
qed

lemma time_text_exists:
  assumes "0 \<le> t" and "t < 2 ^ 64" and "0 \<le> t + offset * 1000000000" and "\<bar>offset\<bar> < 86400"
  shows "appendStrictRFC3339 offset t \<noteq> None"
proof -
  define l where "l = t + offset * 1000000000"
  have l: "0 \<le> l" "l < 18533145000000000000" using assms by (simp_all add: l_def)
  define days where "days = l div 1000000000 div 86400"
  have "0 \<le> days" "days \<le> 2932532" using l unfolding days_def by linarith+
  from civil_year_range [OF this] have "0 \<le> local_year offset t" "local_year offset t \<le> 9999"
    by (simp_all only: local_year_def l_def [symmetric] days_def [symmetric])
  moreover have "\<bar>zone_minutes offset\<bar> < 24 * 60" 
    using assms(4) unfolding zone_minutes_def by (cases "offset < 0"; simp only: if_True if_False; linarith)
  ultimately show ?thesis by (simp only: strict_iff)
qed

section \<open>Members\<close>

text \<open>A reader looks members up by name; an omitted one is not there.\<close>

lemma map_of_omit:
  "map_of (omit_str k s) x = (if s \<noteq> '''' \<and> x = k then Some (JStr s) else None)"
  "map_of (omit_num k w) x = (if w \<noteq> 0 \<and> x = k then Some (JNum (unat w)) else None)"
  "map_of (omit_ptr k f p) x = (if p \<noteq> None \<and> x = k then Some (f (the p)) else None)"
  by (auto simp: omit_str_def omit_num_def omit_ptr_def split: option.splits)

lemma read_simps [simp]:
  "read_str None = Some ''''" "read_str (Some (JStr s)) = Some s"
  "read_num None = Some (0 :: 'w :: len word)" "read_num (Some (JNum (unat w))) = Some (w :: 'w word)"
  "read_ptr f None = Some None" "read_ptr f (Some JNull) = Some None"
  "read_ptr f (Some (JObj ms)) = map_option Some (f (JObj ms))"
  by (simp_all add: read_str_def read_num_def read_ptr_def)

lemma read_container_json: "read_container (container_json c) = Some c"
  by (simp add: read_container_def container_json_def)

lemma read_ptr_container: "read_ptr read_container (Some (container_json c)) = Some (Some c)"
  using read_container_json [of c] by (simp add: container_json_def)

lemma read_omitted:
  "read_str (if s \<noteq> '''' then Some (JStr s) else None) = Some s"
  "read_num (if w \<noteq> 0 then Some (JNum (unat w)) else None) = Some w"
  "read_ptr read_container (if p \<noteq> None then Some (container_json (the p)) else None) = Some p"
  by (auto simp: read_ptr_container)

lemma event_members:
  "members (event_json ts e) ''event_type'' = Some (JStr (EvType e))"
  "members (event_json ts e) ''timestamp'' = Some (JStr ts)"
  "members (event_json ts e) ''src_container'' = (if SrcContainer e \<noteq> None then Some (container_json (the (SrcContainer e))) else None)"
  "members (event_json ts e) ''src_process_name'' = (if SrcProcessName e \<noteq> '''' then Some (JStr (SrcProcessName e)) else None)"
  "members (event_json ts e) ''src_pid'' = (if SrcPID e \<noteq> 0 then Some (JNum (unat (SrcPID e))) else None)"
  "members (event_json ts e) ''src_cgroup_id'' = (if SrcCgroupID e \<noteq> 0 then Some (JNum (unat (SrcCgroupID e))) else None)"
  "members (event_json ts e) ''src_addr'' = (if EvSrcAddr e \<noteq> '''' then Some (JStr (EvSrcAddr e)) else None)"
  "members (event_json ts e) ''src_port'' = (if EvSrcPort e \<noteq> 0 then Some (JNum (unat (EvSrcPort e))) else None)"
  "members (event_json ts e) ''dst_container'' = (if DstContainer e \<noteq> None then Some (container_json (the (DstContainer e))) else None)"
  "members (event_json ts e) ''dst_process_name'' = (if DstProcessName e \<noteq> '''' then Some (JStr (DstProcessName e)) else None)"
  "members (event_json ts e) ''dst_pid'' = (if DstPID e \<noteq> 0 then Some (JNum (unat (DstPID e))) else None)"
  "members (event_json ts e) ''dst_cgroup_id'' = (if DstCgroupID e \<noteq> 0 then Some (JNum (unat (DstCgroupID e))) else None)"
  "members (event_json ts e) ''dst_addr'' = (if EvDstAddr e \<noteq> '''' then Some (JStr (EvDstAddr e)) else None)"
  "members (event_json ts e) ''dst_port'' = (if EvDstPort e \<noteq> 0 then Some (JNum (unat (EvDstPort e))) else None)"
  "members (event_json ts e) ''file_path'' = (if FilePath e \<noteq> '''' then Some (JStr (FilePath e)) else None)"
  "members (event_json ts e) ''file_op'' = (if FileOp e \<noteq> '''' then Some (JStr (FileOp e)) else None)"
  "members (event_json ts e) ''exec_path'' = (if ExecPath e \<noteq> '''' then Some (JStr (ExecPath e)) else None)"
  "members (event_json ts e) ''parent_pid'' = (if ParentPID e \<noteq> 0 then Some (JNum (unat (ParentPID e))) else None)"
  "members (event_json ts e) ''parent_process_name'' = (if ParentProcessName e \<noteq> '''' then Some (JStr (ParentProcessName e)) else None)"
  unfolding event_json_def members.simps map_of_append
  by (simp_all add: map_add_def map_of_omit)

lemma read_event_json: "read_event (event_json ts e) = Some (e\<lparr>EvTime := instant_of ts\<rparr>)"
  unfolding read_event_def event_members read_omitted by simp

lemma read_alert_json: "read_alert (alert_json ts a) = Some (a\<lparr>AlTime := instant_of ts\<rparr>)"
proof -
  have "read_ptr read_container (Some (ptr_json container_json p)) = Some p" for p
    by (cases p) (simp_all add: ptr_json_def read_ptr_container)
  then show ?thesis by (simp add: read_alert_def alert_json_def)
qed

end
