(* ===== verification/Output.thy ===== *)
theory Output
  imports Encode
begin

text \<open>
  Package \<open>internal/output\<close>: the goroutine that prints events and alerts, one
  line of JSON for each. The choice of the select statement is the input of a
  round; the zone of the times is a parameter, the offset from UTC in seconds
  at an instant.
\<close>

record StructuredOutput =
  OutType :: string
  OutEvent :: "Event option"
  OutAlert :: "Alert option"

text \<open>
  \<open>json.Marshal\<close> of this type; \<open>None\<close> is the error of a time that has no text.
\<close>

definition json_Marshal :: "(go_time \<Rightarrow> int) \<Rightarrow> StructuredOutput \<Rightarrow> string option" where
  "json_Marshal zone v =
     Option.bind
       (case OutEvent v of
          None \<Rightarrow> Some []
        | Some e \<Rightarrow> map_option (\<lambda>ts. [(''event'', event_json ts e)]) (appendStrictRFC3339 (zone (EvTime e)) (EvTime e)))
       (\<lambda>event.
     Option.bind
       (case OutAlert v of
          None \<Rightarrow> Some []
        | Some a \<Rightarrow> map_option (\<lambda>ts. [(''alert'', alert_json ts a)]) (appendStrictRFC3339 (zone (AlTime a)) (AlTime a)))
       (\<lambda>alert.
     Some (json_text (JObj ((''type'', JStr (OutType v)) # event @ alert)))))"

text \<open>The two values that the loop marshals.\<close>

definition event_output :: "Event \<Rightarrow> StructuredOutput" where
  "event_output e = \<lparr>OutType = ''event'', OutEvent = Some e, OutAlert = None\<rparr>"

definition alert_output :: "Alert \<Rightarrow> StructuredOutput" where
  "alert_output a = \<lparr>OutType = ''alert'', OutEvent = None, OutAlert = Some a\<rparr>"

text \<open>
  The local variables of \<open>OutputLoop\<close>: whether each channel variable is still
  non-nil; the lines printed; whether the loop has returned.
\<close>

record output_state =
  eventVar :: bool
  alertVar :: bool
  printed :: "string list"
  returned :: bool

definition output_start :: output_state where
  "output_start = \<lparr>eventVar = True, alertVar = True, printed = [], returned = False\<rparr>"

text \<open>What a select received: a value, or \<open>None\<close> from a closed channel.\<close>

datatype select_case = EventCase "Event option" | AlertCase "Alert option"

fun selectable :: "select_case \<Rightarrow> output_state \<Rightarrow> bool" where
  "selectable (EventCase v) s = (\<not> returned s \<and> eventVar s)"
| "selectable (AlertCase v) s = (\<not> returned s \<and> alertVar s)"

text \<open>The test at the foot of the loop, which \<open>continue\<close> skips.\<close>

definition loop_foot :: "output_state \<Rightarrow> output_state" where
  "loop_foot s = (if \<not> eventVar s \<and> \<not> alertVar s then s\<lparr>returned := True\<rparr> else s)"

definition print_line :: "(go_time \<Rightarrow> int) \<Rightarrow> StructuredOutput \<Rightarrow> output_state \<Rightarrow> output_state" where
  "print_line zone v s =
     (case json_Marshal zone v of
        None \<Rightarrow> s
      | Some line \<Rightarrow> loop_foot (s\<lparr>printed := printed s @ [line]\<rparr>))"

fun output_round :: "(go_time \<Rightarrow> int) \<Rightarrow> select_case \<Rightarrow> output_state \<Rightarrow> output_state option" where
  "output_round zone (EventCase v) s =
     (if \<not> selectable (EventCase v) s then None
      else Some (case v of
                   None \<Rightarrow> s\<lparr>eventVar := False\<rparr>
                 | Some event \<Rightarrow>
                     print_line zone (event_output event) s))"
| "output_round zone (AlertCase v) s =
     (if \<not> selectable (AlertCase v) s then None
      else Some (case v of
                   None \<Rightarrow> s\<lparr>alertVar := False\<rparr>
                 | Some alert \<Rightarrow>
                     print_line zone (alert_output alert) s))"

fun OutputLoop :: "(go_time \<Rightarrow> int) \<Rightarrow> select_case list \<Rightarrow> output_state \<Rightarrow> output_state option" where
  "OutputLoop zone [] s = Some s"
| "OutputLoop zone (c # cs) s =
     (case output_round zone c s of None \<Rightarrow> None | Some s' \<Rightarrow> OutputLoop zone cs s')"

section \<open>Properties\<close>

fun case_lines :: "(go_time \<Rightarrow> int) \<Rightarrow> select_case \<Rightarrow> string list" where
  "case_lines zone (EventCase (Some e)) =
     (case json_Marshal zone (event_output e) of None \<Rightarrow> [] | Some l \<Rightarrow> [l])"
| "case_lines zone (AlertCase (Some a)) =
     (case json_Marshal zone (alert_output a) of None \<Rightarrow> [] | Some l \<Rightarrow> [l])"
| "case_lines zone c = []"

lemma output_round_Some:
  assumes "output_round zone c s = Some s'"
  shows "printed s' = printed s @ case_lines zone c" and "returned s' = returned s"
    and "eventVar s' = (eventVar s \<and> c \<noteq> EventCase None)" and "alertVar s' = (alertVar s \<and> c \<noteq> AlertCase None)"
proof -
  have "printed s' = printed s @ case_lines zone c \<and> returned s' = returned s
      \<and> eventVar s' = (eventVar s \<and> c \<noteq> EventCase None) \<and> alertVar s' = (alertVar s \<and> c \<noteq> AlertCase None)"
    using assms
    by (cases c)
      (auto simp: print_line_def loop_foot_def split: option.splits if_splits)
  then show "printed s' = printed s @ case_lines zone c" and "returned s' = returned s"
    and "eventVar s' = (eventVar s \<and> c \<noteq> EventCase None)" and "alertVar s' = (alertVar s \<and> c \<noteq> AlertCase None)"
    by blast+
qed

text \<open>
  Whatever the select statement receives: the lines are printed in the order
  of reception, and the loop does not return.
\<close>

lemma OutputLoop_Some:
  "OutputLoop zone cs s = Some s' \<Longrightarrow>
     printed s' = printed s @ concat (map (case_lines zone) cs) \<and> returned s' = returned s
     \<and> (eventVar s' \<longleftrightarrow> eventVar s \<and> EventCase None \<notin> set cs)
     \<and> (alertVar s' \<longleftrightarrow> alertVar s \<and> AlertCase None \<notin> set cs)"
proof (induction cs arbitrary: s)
  case (Cons c cs)
  then obtain s1 where "output_round zone c s = Some s1" "OutputLoop zone cs s1 = Some s'"
    by (auto split: option.splits)
  with Cons.IH [of s1] output_round_Some [of zone c s s1] show ?case by auto
qed simp

text \<open>Once both channels have been closed and drained, no case of the select is ready.\<close>

lemma OutputLoop_stuck:
  assumes "OutputLoop zone cs output_start = Some s" and "EventCase None \<in> set cs" "AlertCase None \<in> set cs"
  shows "\<not> returned s" and "output_round zone c s = None"
proof -
  from OutputLoop_Some [OF assms(1)] assms(2,3)
  have "\<not> eventVar s" "\<not> alertVar s" "\<not> returned s" by (simp_all add: output_start_def)
  then show "\<not> returned s" and "output_round zone c s = None" by (cases c; simp)+
qed

end
