(* ===== verification/Pipeline.thy ===== *)
theory Pipeline
  imports Samples Correlator Resolver Detect Output
begin

text \<open>
  \<open>cmd/main.go\<close>: the goroutines and the channels between them. A state holds
  the components, the channels and, for every goroutine, the statement it is
  about to execute; an actor's step is one statement that touches shared
  state. \<open>Inr None\<close>: the statement has to wait. The process has ended when
  the main loop has called \<open>os.Exit\<close>; then no actor steps. A critical section
  under a mutex is one step.
\<close>

section \<open>State\<close>

record pipe_config =
  filterPrefixArg :: string
  bootTime :: go_time
  localZone :: "go_time \<Rightarrow> int"

datatype main_pc = MainRead | MainGot MonitorEvent | MainSend Event | MainExit
datatype fanin_pc = FiRecv | FiSend Event | FiDone
datatype fanout_pc = FoRecv | FoGot Event | FoSrc Event ContainerInfo | FoOut Event | FoEng Event | FoDone
datatype engine_pc = EgRecv | EgRules Event "Rule list" | EgDone
datatype shutdown_pc = ShWait | ShRun nat | ShDone
datatype docker_pc = DkSelect | DkUpdate "(string \<times> string) list" | DkDone

text \<open>
  The two last fields are logs that no statement reads: the events that the
  output goroutine and the engine goroutine have received.
\<close>

record pipeline =
  ring :: "bytes list"
  ringClosed :: bool
  corr :: Correlator
  resolver :: Resolver
  eventsCh :: "Event chan"
  outputCh :: "Event chan"
  engineCh :: "Event chan"
  engine :: RuleEngine
  outp :: output_state
  ctxDone :: bool
  mainPC :: main_pc
  faninPC :: fanin_pc
  fanoutPC :: fanout_pc
  enginePC :: engine_pc
  shutPC :: shutdown_pc
  dockerPC :: docker_pc
  outSeen :: "Event list"
  engSeen :: "Event list"

definition pipeline_start :: "RuleEngine \<Rightarrow> Resolver \<Rightarrow> pipeline" where
  "pipeline_start eng res =
     \<lparr>ring = [], ringClosed = False, corr = New (time_Second * 5), resolver = res,
      eventsCh = make_chan 1024, outputCh = make_chan 1024, engineCh = make_chan 1024,
      engine = eng, outp = output_start, ctxDone = False,
      mainPC = MainRead, faninPC = FiRecv, fanoutPC = FoRecv, enginePC = EgRecv, shutPC = ShWait, dockerPC = DkSelect,
      outSeen = [], engSeen = []\<rparr>"

text \<open>
  The set-up in \<open>main\<close>: \<open>None\<close> when it exits with an error. \<open>attached\<close> tells
  whether the eBPF objects were loaded and all four probes attached, \<open>opened\<close>
  whether the reader of the ring buffer was opened; this happens last, when
  the goroutines run already.
\<close>

definition main_setup ::
  "(string \<Rightarrow> 'y + Rule) \<Rightarrow> fs_node option \<Rightarrow> bool \<Rightarrow> 'e option \<Rightarrow> 'e resolver_env \<Rightarrow> bool
     \<Rightarrow> pipeline option go" where
  "main_setup unmarshal rulesFolder attached client_err env opened =
     go_bind (New_engine unmarshal rulesFolder) (\<lambda>eng.
       case eng of
         None \<Rightarrow> Inr None
       | Some eng \<Rightarrow>
           if \<not> attached then Inr None
           else go_bind (New_resolver client_err env) (\<lambda>res.
                  case res of
                    Inl err \<Rightarrow> Inr None
                  | Inr res \<Rightarrow>
                      if \<not> opened then Inr None else Inr (Some (pipeline_start eng res))))"

text \<open>A successful set-up starts the goroutines on the components it created.\<close>

lemma main_setup_Some:
  "main_setup unmarshal root attached client_err env opened = Inr (Some s) \<longleftrightarrow>
     (\<exists>eng res. New_engine unmarshal root = Inr (Some eng) \<and> attached
        \<and> New_resolver client_err env = Inr (Inr res) \<and> opened \<and> s = pipeline_start eng res)"
  by (cases "New_engine unmarshal root"; cases "New_resolver client_err env")
    (auto simp: main_setup_def split: option.splits sum.splits)

section \<open>The goroutines\<close>

text \<open>The two event literals of the main loop.\<close>

definition file_event :: "go_time \<Rightarrow> MonitorEvent \<Rightarrow> Event" where
  "file_event boot event =
     zero_Event\<lparr>EvType := ''file_open'', EvTime := KTimeToTime boot (Timestamp event),
       SrcPID := Pid event, SrcCgroupID := CgroupId event,
       SrcProcessName := NullTermStr (Comm event),
       FilePath := NullTermStr (Filepath event), FileOp := OpenFlagsToOp (Flags event)\<rparr>"

definition exec_event :: "go_time \<Rightarrow> MonitorEvent \<Rightarrow> Event" where
  "exec_event boot event =
     zero_Event\<lparr>EvType := ''exec'', EvTime := KTimeToTime boot (Timestamp event),
       SrcPID := Pid event, SrcCgroupID := CgroupId event,
       SrcProcessName := NullTermStr (Comm event),
       ExecPath := NullTermStr (Filepath event),
       ParentPID := Ppid event, ParentProcessName := NullTermStr (ParentComm event)\<rparr>"

text \<open>
  The switch on the event type, after which the loop reads again or sends its
  event. The sample has been taken from the ring before: while an accept waits
  for the correlator's channel, the shutdown may close it.
\<close>

definition dispatch :: "pipe_config \<Rightarrow> MonitorEvent \<Rightarrow> pipeline \<Rightarrow> pipeline option go" where
  "dispatch cfg event s =
     (if EventType event = EVENT_NET_CONNECT then
        Inr (Some (s\<lparr>corr := HandleConnect (bootTime cfg) (SrcAddr event) (SrcPort event)
          (DstAddr event) (DstPort event) (CgroupId event) (Pid event) (Comm event)
          (Timestamp event) (corr s), mainPC := MainRead\<rparr>))
      else if EventType event = EVENT_NET_ACCEPT then
        go_bind (HandleAccept (SrcAddr event) (SrcPort event) (DstAddr event) (DstPort event)
                   (CgroupId event) (Pid event) (Comm event) (corr s))
          (\<lambda>res. Inr (map_option (\<lambda>c. s\<lparr>corr := c, mainPC := MainRead\<rparr>) res))
      else if EventType event = EVENT_FILE_OPEN then
        Inr (Some (s\<lparr>mainPC := MainSend (file_event (bootTime cfg) event)\<rparr>))
      else if EventType event = EVENT_EXEC then
        Inr (Some (s\<lparr>mainPC := MainSend (exec_event (bootTime cfg) event)\<rparr>))
      else Inr (Some (s\<lparr>mainPC := MainRead\<rparr>)))"

definition main_step :: "pipe_config \<Rightarrow> pipeline \<Rightarrow> pipeline option go" where
  "main_step cfg s =
     (case mainPC s of
        MainRead \<Rightarrow>
          if ringClosed s then Inr (Some (s\<lparr>mainPC := MainExit\<rparr>))
          else (case ring s of
                  [] \<Rightarrow> Inr None
                | raw # rest \<Rightarrow>
                    (case ParseEvent raw of
                       None \<Rightarrow> Inr (Some (s\<lparr>ring := rest\<rparr>))
                     | Some event \<Rightarrow> Inr (Some (s\<lparr>ring := rest, mainPC := MainGot event\<rparr>))))
      | MainGot event \<Rightarrow> dispatch cfg event s
      | MainSend e \<Rightarrow>
          go_bind (chan_send e (eventsCh s)) (\<lambda>sent.
            Inr (map_option (\<lambda>ch. s\<lparr>eventsCh := ch, mainPC := MainRead\<rparr>) sent))
      | MainExit \<Rightarrow> Inr None)"

text \<open>The fan-in goroutine: it closes \<open>eventsCh\<close> when the correlator's channel ends.\<close>

definition fanin_step :: "pipeline \<Rightarrow> pipeline option go" where
  "fanin_step s =
     (case faninPC s of
        FiRecv \<Rightarrow>
          (case outch (corr s) of
             None \<Rightarrow> Inr None
           | Some ch \<Rightarrow>
               (case chan_recv ch of
                  None \<Rightarrow> Inr None
                | Some (Some e, ch') \<Rightarrow>
                    Inr (Some (s\<lparr>corr := (corr s)\<lparr>outch := Some ch'\<rparr>, faninPC := FiSend e\<rparr>))
                | Some (None, ch') \<Rightarrow>
                    go_bind (chan_close (eventsCh s)) (\<lambda>ch.
                      Inr (Some (s\<lparr>eventsCh := ch, faninPC := FiDone\<rparr>)))))
      | FiSend e \<Rightarrow>
          go_bind (chan_send e (eventsCh s)) (\<lambda>sent.
            Inr (map_option (\<lambda>ch. s\<lparr>eventsCh := ch, faninPC := FiRecv\<rparr>) sent))
      | FiDone \<Rightarrow> Inr None)"

text \<open>The fan-out goroutine: resolve, filter, enrich, send to both consumers.\<close>

definition filtered :: "string \<Rightarrow> ContainerInfo \<Rightarrow> ContainerInfo option \<Rightarrow> bool" where
  "filtered pfx srcInfo dstInfo \<longleftrightarrow>
     pfx \<noteq> '''' \<and> \<not> HasPrefix (Name srcInfo) pfx
     \<and> (case dstInfo of None \<Rightarrow> False | Some info \<Rightarrow> \<not> HasPrefix (Name info) pfx)"

definition fanout_step :: "pipe_config \<Rightarrow> pipeline \<Rightarrow> pipeline option go" where
  "fanout_step cfg s =
     (case fanoutPC s of
        FoRecv \<Rightarrow>
          (case chan_recv (eventsCh s) of
             None \<Rightarrow> Inr None
           | Some (Some e, ch) \<Rightarrow> Inr (Some (s\<lparr>eventsCh := ch, fanoutPC := FoGot e\<rparr>))
           | Some (None, ch) \<Rightarrow> Inr (Some (s\<lparr>fanoutPC := FoDone\<rparr>)))
      | FoGot e \<Rightarrow>
          (case Resolve (resolver s) (SrcCgroupID e) of
             None \<Rightarrow> Inr (Some (s\<lparr>fanoutPC := FoRecv\<rparr>))
           | Some srcInfo \<Rightarrow> Inr (Some (s\<lparr>fanoutPC := FoSrc e srcInfo\<rparr>)))
      | FoSrc e srcInfo \<Rightarrow>
          (let dstInfo = (if DstCgroupID e \<noteq> 0 then Resolve (resolver s) (DstCgroupID e) else None)
           in Inr (Some (s\<lparr>fanoutPC :=
                (if filtered (filterPrefixArg cfg) srcInfo dstInfo then FoRecv
                 else FoOut (e\<lparr>SrcContainer := Some srcInfo, DstContainer := dstInfo\<rparr>))\<rparr>)))
      | FoOut e \<Rightarrow>
          go_bind (chan_send e (outputCh s)) (\<lambda>sent.
            Inr (map_option (\<lambda>ch. s\<lparr>outputCh := ch, fanoutPC := FoEng e\<rparr>) sent))
      | FoEng e \<Rightarrow>
          go_bind (chan_send e (engineCh s)) (\<lambda>sent.
            Inr (map_option (\<lambda>ch. s\<lparr>engineCh := ch, fanoutPC := FoRecv\<rparr>) sent))
      | FoDone \<Rightarrow> Inr None)"

text \<open>\<open>ProcessLoop\<close>, one rule of the loop in \<open>ProcessEvent\<close> at a time.\<close>

definition engine_gstep :: "pipeline \<Rightarrow> pipeline option go" where
  "engine_gstep s =
     (case enginePC s of
        EgRecv \<Rightarrow>
          (case chan_recv (engineCh s) of
             None \<Rightarrow> Inr None
           | Some (Some e, ch) \<Rightarrow>
               Inr (Some (s\<lparr>engineCh := ch, enginePC := EgRules e (rules (engine s)),
                            engSeen := engSeen s @ [e]\<rparr>))
           | Some (None, ch) \<Rightarrow> Inr (Some (s\<lparr>enginePC := EgDone\<rparr>)))
      | EgRules e [] \<Rightarrow> Inr (Some (s\<lparr>enginePC := EgRecv\<rparr>))
      | EgRules e (rule # rs) \<Rightarrow>
          go_bind (process_rule e rule (engine s)) (\<lambda>res.
            Inr (map_option (\<lambda>eng. s\<lparr>engine := eng, enginePC := EgRules e rs\<rparr>) res))
      | EgDone \<Rightarrow> Inr None)"

text \<open>The output goroutine takes from one of its two channels.\<close>

definition output_event_step :: "pipe_config \<Rightarrow> pipeline \<Rightarrow> pipeline option" where
  "output_event_step cfg s =
     (case chan_recv (outputCh s) of
        None \<Rightarrow> None
      | Some (v, ch) \<Rightarrow>
          map_option (\<lambda>out. s\<lparr>outputCh := ch, outp := out,
                              outSeen := outSeen s @ (case v of None \<Rightarrow> [] | Some e \<Rightarrow> [e])\<rparr>)
            (output_round (localZone cfg) (EventCase v) (outp s)))"

definition output_alert_step :: "pipe_config \<Rightarrow> pipeline \<Rightarrow> pipeline option" where
  "output_alert_step cfg s =
     (case chan_recv (alerts (engine s)) of
        None \<Rightarrow> None
      | Some (v, ch) \<Rightarrow>
          map_option (\<lambda>out. s\<lparr>engine := (engine s)\<lparr>alerts := ch\<rparr>, outp := out\<rparr>)
            (output_round (localZone cfg) (AlertCase v) (outp s)))"

text \<open>The five statements of the shutdown goroutine after the signal.\<close>

definition shutdown_step :: "pipeline \<Rightarrow> pipeline option go" where
  "shutdown_step s =
     (case shutPC s of
        ShRun n \<Rightarrow>
          if n = 0 then Inr (Some (s\<lparr>ringClosed := True, shutPC := ShRun 1\<rparr>))
          else if n = 1 then
            go_bind (Close (corr s)) (\<lambda>c. Inr (Some (s\<lparr>corr := c, shutPC := ShRun 2\<rparr>)))
          else if n = 2 then Inr (Some (s\<lparr>ctxDone := True, shutPC := ShRun 3\<rparr>))
          else if n = 3 then
            go_bind (chan_close (engineCh s)) (\<lambda>ch. Inr (Some (s\<lparr>engineCh := ch, shutPC := ShRun 4\<rparr>)))
          else
            go_bind (chan_close (outputCh s)) (\<lambda>ch. Inr (Some (s\<lparr>outputCh := ch, shutPC := ShDone\<rparr>)))
      | _ \<Rightarrow> Inr None)"

text \<open>
  \<open>MonitorEventsLoop\<close>: a message of the daemon, and one container at a time of
  the \<open>updateInfo\<close> that it causes, whose error is dropped. Every container is
  inspected, and its entry written, in a step of its own.
\<close>

definition docker_step :: "string docker_msg \<Rightarrow> pipeline \<Rightarrow> pipeline option go" where
  "docker_step msg s =
     (if dockerPC s \<noteq> DkSelect then Inr None
      else case msg of
        DockerEvent action env \<Rightarrow>
          if action = ''start''
          then (case ContainerList env of
                  Inl err \<Rightarrow> Inr (Some s)
                | Inr containers \<Rightarrow> Inr (Some (s\<lparr>dockerPC := DkUpdate containers\<rparr>)))
          else Inr (Some s)
      | DockerError err \<Rightarrow> Inr (Some (s\<lparr>dockerPC := DkDone\<rparr>))
      | CtxDone \<Rightarrow> Inr (if ctxDone s then Some (s\<lparr>dockerPC := DkDone\<rparr>) else None))"

definition update_step :: "string resolver_env \<Rightarrow> pipeline \<Rightarrow> pipeline option go" where
  "update_step env s =
     (case dockerPC s of
        DkUpdate [] \<Rightarrow> Inr (Some (s\<lparr>dockerPC := DkSelect\<rparr>))
      | DkUpdate (c # cs) \<Rightarrow>
          go_bind (update_one env c) (\<lambda>res.
            Inr (Some (case res of
              Inl err \<Rightarrow> s\<lparr>dockerPC := DkSelect\<rparr>
            | Inr (cgroupID, info) \<Rightarrow>
                s\<lparr>resolver := (resolver s)\<lparr>cache := (cache (resolver s))(cgroupID \<mapsto> info)\<rparr>,
                  dockerPC := DkUpdate cs\<rparr>)))
      | _ \<Rightarrow> Inr None)"

text \<open>The monitor of the daemon changes nothing but the cache and its own program counter.\<close>

lemma docker_frame:
  "docker_step msg s = Inr (Some s') \<Longrightarrow> \<exists>r pc. s' = s\<lparr>resolver := r, dockerPC := pc\<rparr>"
  "update_step env s = Inr (Some s') \<Longrightarrow> \<exists>r pc. s' = s\<lparr>resolver := r, dockerPC := pc\<rparr>"
proof -
  have same1: "\<exists>r pc. s\<lparr>dockerPC := pc'\<rparr> = s\<lparr>resolver := r, dockerPC := pc\<rparr>" for pc'
    by (intro exI [of _ "resolver s"] exI [of _ pc']) simp
  have same2: "\<exists>r pc. t = t\<lparr>resolver := r, dockerPC := pc\<rparr>" for t :: pipeline
    by (intro exI [of _ "resolver t"] exI [of _ "dockerPC t"]) simp
  have same3: "\<exists>r pc. s\<lparr>resolver := r', dockerPC := pc'\<rparr> = s\<lparr>resolver := r, dockerPC := pc\<rparr>" for r' pc'
    by blast
  note same = same1 same2 same3
  show "docker_step msg s = Inr (Some s') \<Longrightarrow> \<exists>r pc. s' = s\<lparr>resolver := r, dockerPC := pc\<rparr>"
    by (auto simp: docker_step_def same split: if_splits docker_msg.splits sum.splits)
  show "update_step env s = Inr (Some s') \<Longrightarrow> \<exists>r pc. s' = s\<lparr>resolver := r, dockerPC := pc\<rparr>"
    by (auto simp: update_step_def same go_bind_def
        split: docker_pc.split_asm list.split_asm sum.split_asm prod.split_asm)
qed

section \<open>Interleavings\<close>

text \<open>
  Who takes the next step, with what comes from outside: a sample from the
  kernel, the time of a cleanup tick, a message of the Docker daemon, what it
  and the system answer while a container is inspected, the signal. The errors
  of the Docker client are texts here.
\<close>

datatype actor =
    Kernel bytes
  | MainLoop
  | FanIn
  | FanOut
  | EngineLoop
  | OutputEvent
  | OutputAlert
  | CleanupTick go_time
  | Docker "string docker_msg"
  | DockerUpdate "string resolver_env"
  | Signal
  | Shutdown

fun actor_step :: "pipe_config \<Rightarrow> actor \<Rightarrow> pipeline \<Rightarrow> pipeline option go" where
  "actor_step cfg (Kernel raw) s = Inr (Some (s\<lparr>ring := ring s @ [raw]\<rparr>))"
| "actor_step cfg MainLoop s = main_step cfg s"
| "actor_step cfg FanIn s = fanin_step s"
| "actor_step cfg FanOut s = fanout_step cfg s"
| "actor_step cfg EngineLoop s = engine_gstep s"
| "actor_step cfg OutputEvent s = Inr (output_event_step cfg s)"
| "actor_step cfg OutputAlert s = Inr (output_alert_step cfg s)"
| "actor_step cfg (CleanupTick now) s = Inr (Some (s\<lparr>corr := Cleanup_tick now (corr s)\<rparr>))"
| "actor_step cfg (Docker msg) s = docker_step msg s"
| "actor_step cfg (DockerUpdate env) s = update_step env s"
| "actor_step cfg Signal s = Inr (if shutPC s = ShWait then Some (s\<lparr>shutPC := ShRun 0\<rparr>) else None)"
| "actor_step cfg Shutdown s = shutdown_step s"

definition pipe_step :: "pipe_config \<Rightarrow> actor \<Rightarrow> pipeline \<Rightarrow> pipeline option go" where
  "pipe_step cfg a s = (if mainPC s = MainExit then Inr None else actor_step cfg a s)"

text \<open>States the program reaches from its start, by any interleaving.\<close>

inductive reachable :: "pipe_config \<Rightarrow> RuleEngine \<Rightarrow> Resolver \<Rightarrow> pipeline \<Rightarrow> bool"
  for cfg :: pipe_config and eng :: RuleEngine and res :: Resolver where
  start: "reachable cfg eng res (pipeline_start eng res)"
| step: "reachable cfg eng res s \<Longrightarrow> pipe_step cfg a s = Inr (Some s') \<Longrightarrow> reachable cfg eng res s'"

lemma reachable_run:
  "run (pipe_step cfg) as s = Inr (Some s') \<Longrightarrow> reachable cfg eng res s \<Longrightarrow> reachable cfg eng res s'"
proof (induction as arbitrary: s)
  case (Cons a as)
  then obtain s1 where "pipe_step cfg a s = Inr (Some s1)" "run (pipe_step cfg) as s1 = Inr (Some s')"
    by (auto simp: run_Cons_Some simp del: run.simps)
  with Cons show ?case by (blast intro: reachable.step)
qed simp

text \<open>
  An update that meets the same daemon and system all along, with no other
  goroutine in between, is one round of \<open>MonitorEventsLoop\<close>.
\<close>

lemma update_run:
  assumes "update_loop env cs (resolver s) = Inr (r, err)" and "dockerPC s = DkUpdate cs" and "mainPC s \<noteq> MainExit"
  shows "\<exists>n. run (pipe_step cfg) (replicate n (DockerUpdate env)) s = Inr (Some (s\<lparr>resolver := r, dockerPC := DkSelect\<rparr>))"
  using assms
proof (induction cs arbitrary: s)
  case Nil
  then show ?case by (intro exI [of _ 1]) (simp add: pipe_step_def update_step_def)
next
  case (Cons c cs)
  from Cons.prems(1) obtain res where res: "update_one env c = Inr res" by (auto simp: go_simps)
  show ?case
  proof (cases res)
    case (Inl e)
    with Cons.prems res show ?thesis by (intro exI [of _ 1]) (simp add: pipe_step_def update_step_def)
  next
    case (Inr entry)
    obtain k info where entry: "entry = (k, info)" by (cases entry)
    let ?s = "s\<lparr>resolver := (resolver s)\<lparr>cache := (cache (resolver s))(k \<mapsto> info)\<rparr>, dockerPC := DkUpdate cs\<rparr>"
    have "pipe_step cfg (DockerUpdate env) s = Inr (Some ?s)"
      using Cons.prems(2,3) res Inr entry by (simp add: pipe_step_def update_step_def)
    moreover obtain n where "run (pipe_step cfg) (replicate n (DockerUpdate env)) ?s
        = Inr (Some (?s\<lparr>resolver := r, dockerPC := DkSelect\<rparr>))"
      using Cons.IH [of ?s] Cons.prems(1,3) res Inr entry by auto
    ultimately show ?thesis by (intro exI [of _ "Suc n"]) simp
  qed
qed

lemma docker_round:
  assumes "monitor_round (DockerEvent action env) (resolver s) = Inr (r, True)" and "dockerPC s = DkSelect" and "mainPC s \<noteq> MainExit"
  shows "\<exists>n. run (pipe_step cfg) (Docker (DockerEvent action env) # replicate n (DockerUpdate env)) s
    = Inr (Some (s\<lparr>resolver := r\<rparr>))"
proof (cases "action = ''start''")
  case False
  with assms show ?thesis by (intro exI [of _ 0]) (simp add: pipe_step_def docker_step_def)
next
  case True
  with assms(1) obtain err where up: "updateInfo env (resolver s) = Inr (r, err)" by (auto simp: go_simps)
  show ?thesis
  proof (cases "ContainerList env")
    case (Inl e)
    with True assms(2,3) up show ?thesis
      by (intro exI [of _ 0]) (simp add: pipe_step_def docker_step_def updateInfo_def)
  next
    case (Inr cs)
    let ?s = "s\<lparr>dockerPC := DkUpdate cs\<rparr>"
    have one: "pipe_step cfg (Docker (DockerEvent action env)) s = Inr (Some ?s)"
      using True Inr assms(2,3) by (simp add: pipe_step_def docker_step_def)
    have "update_loop env cs (resolver ?s) = Inr (r, err)" using up Inr by (simp add: updateInfo_def)
    from update_run [OF this, of cfg] assms(2,3) obtain n where
      "run (pipe_step cfg) (replicate n (DockerUpdate env)) ?s = Inr (Some (?s\<lparr>resolver := r, dockerPC := DkSelect\<rparr>))"
      by auto
    with one assms(2) show ?thesis by (intro exI [of _ n]) (cases s; simp)
  qed
qed

end
