(* ===== verification/PipelineInv.thy ===== *)
theory PipelineInv
  imports Pipeline
begin

text \<open>
  Invariants of every interleaving of the goroutines of \<open>cmd/main.go\<close>: what
  the two consumers receive, which channels are closed at which stage of the
  shutdown, and that nothing panics before the signal.
\<close>

section \<open>What the consumers receive\<close>

definition delivered_ok :: "pipe_config \<Rightarrow> Event \<Rightarrow> bool" where
  "delivered_ok cfg e \<longleftrightarrow>
     (\<exists>src. SrcContainer e = Some src \<and> \<not> filtered (filterPrefixArg cfg) src (DstContainer e))"

fun fanout_events :: "fanout_pc \<Rightarrow> Event list" where
  "fanout_events (FoOut e) = [e]"
| "fanout_events (FoEng e) = [e]"
| "fanout_events pc = []"

fun half_sent :: "fanout_pc \<Rightarrow> Event list" where
  "half_sent (FoEng e) = [e]"
| "half_sent pc = []"

fun engine_events :: "engine_pc \<Rightarrow> Event list" where
  "engine_events (EgRules e rs) = [e]"
| "engine_events pc = []"

definition deliveries_ok :: "pipe_config \<Rightarrow> pipeline \<Rightarrow> bool" where
  "deliveries_ok cfg s \<longleftrightarrow>
     list_all (delivered_ok cfg)
       (outSeen s @ chan_buf (outputCh s) @ engSeen s @ chan_buf (engineCh s)
        @ fanout_events (fanoutPC s) @ engine_events (enginePC s))"

definition same_stream :: "pipeline \<Rightarrow> bool" where
  "same_stream s \<longleftrightarrow>
     outSeen s @ chan_buf (outputCh s) = engSeen s @ chan_buf (engineCh s) @ half_sent (fanoutPC s)"

text \<open>The parts of the state that an actor other than fan-out and the consumers leaves alone.\<close>

definition same_delivery :: "pipeline \<Rightarrow> pipeline \<Rightarrow> bool" where
  "same_delivery s s' \<longleftrightarrow>
     outSeen s' = outSeen s \<and> chan_buf (outputCh s') = chan_buf (outputCh s)
     \<and> engSeen s' = engSeen s \<and> chan_buf (engineCh s') = chan_buf (engineCh s)
     \<and> fanoutPC s' = fanoutPC s \<and> enginePC s' = enginePC s"

lemma same_delivery_keeps:
  "same_delivery s s' \<Longrightarrow> deliveries_ok cfg s' = deliveries_ok cfg s"
  "same_delivery s s' \<Longrightarrow> same_stream s' = same_stream s"
  by (simp_all add: same_delivery_def deliveries_ok_def same_stream_def)

lemma chan_send_buf:
  "chan_send x c = Inr (Some c') \<Longrightarrow> chan_buf c' = chan_buf c @ [x]"
  by (auto simp: chan_send_def split: if_splits)

lemma chan_recv_buf:
  "chan_recv c = Some (Some x, c') \<Longrightarrow> chan_buf c = x # chan_buf c'"
  "chan_recv c = Some (None, c') \<Longrightarrow> chan_buf c' = chan_buf c"
  by (auto simp: chan_recv_def split: list.splits if_splits)

lemma dispatch_same: "dispatch cfg ev s = Inr (Some s') \<Longrightarrow> same_delivery s s'"
  by (auto simp: dispatch_def same_delivery_def go_simps split: if_splits)

lemma main_step_same: "main_step cfg s = Inr (Some s') \<Longrightarrow> same_delivery s s'"
  by (auto simp: main_step_def go_simps split: main_pc.splits if_splits list.splits option.splits
      dest!: dispatch_same) (auto simp: same_delivery_def)

lemma fanin_step_same: "fanin_step s = Inr (Some s') \<Longrightarrow> same_delivery s s'"
  by (auto simp: fanin_step_def same_delivery_def go_simps
      split: fanin_pc.splits option.splits prod.splits)

lemma shutdown_step_same: "shutdown_step s = Inr (Some s') \<Longrightarrow> same_delivery s s'"
  by (auto simp: shutdown_step_def same_delivery_def go_simps chan_close_def
      split: shutdown_pc.splits if_splits)

lemma docker_same:
  "docker_step msg s = Inr (Some s') \<Longrightarrow> same_delivery s s'"
  "update_step env s = Inr (Some s') \<Longrightarrow> same_delivery s s'"
  by (auto simp: same_delivery_def dest!: docker_frame)

lemma output_alert_step_same: "output_alert_step cfg s = Some s' \<Longrightarrow> same_delivery s s'"
  by (auto simp: output_alert_step_def same_delivery_def split: option.splits prod.splits)

lemma fanout_step_delivers:
  assumes "fanout_step cfg s = Inr (Some s')"
  shows "deliveries_ok cfg s \<Longrightarrow> deliveries_ok cfg s'" and "same_stream s \<Longrightarrow> same_stream s'"
  using assms
  by (cases "fanoutPC s"; auto simp: fanout_step_def deliveries_ok_def same_stream_def delivered_ok_def
      go_simps Let_def split: option.splits if_splits dest!: chan_send_buf chan_recv_buf)+

lemma engine_gstep_delivers:
  assumes "engine_gstep s = Inr (Some s')"
  shows "deliveries_ok cfg s \<Longrightarrow> deliveries_ok cfg s'" and "same_stream s \<Longrightarrow> same_stream s'"
  using assms
  by (cases "enginePC s"; auto simp: engine_gstep_def deliveries_ok_def same_stream_def
      go_simps split: option.splits list.splits dest!: chan_recv_buf)+

lemma output_event_step_delivers:
  assumes "output_event_step cfg s = Some s'"
  shows "deliveries_ok cfg s \<Longrightarrow> deliveries_ok cfg s'" and "same_stream s \<Longrightarrow> same_stream s'"
  using assms
  by (auto simp: output_event_step_def deliveries_ok_def same_stream_def
      split: option.splits prod.splits dest!: chan_recv_buf)

lemma pipe_step_delivers:
  assumes "pipe_step cfg a s = Inr (Some s')"
  shows "deliveries_ok cfg s \<Longrightarrow> deliveries_ok cfg s'" and "same_stream s \<Longrightarrow> same_stream s'"
proof -
  from assms have step: "actor_step cfg a s = Inr (Some s')" by (simp add: pipe_step_def split: if_splits)
  have "(deliveries_ok cfg s \<longrightarrow> deliveries_ok cfg s') \<and> (same_stream s \<longrightarrow> same_stream s')"
  proof (cases a)
    case FanOut
    with step fanout_step_delivers show ?thesis by auto
  next
    case EngineLoop
    with step engine_gstep_delivers show ?thesis by auto
  next
    case OutputEvent
    with step output_event_step_delivers show ?thesis by auto
  next
    case Signal
    with step have "same_delivery s s'" by (auto simp: same_delivery_def split: if_splits)
    then show ?thesis by (simp add: same_delivery_keeps)
  qed (use step in \<open>auto dest: main_step_same fanin_step_same shutdown_step_same docker_same
        output_alert_step_same simp: same_delivery_keeps simp: same_delivery_def deliveries_ok_def same_stream_def\<close>)
  then show "deliveries_ok cfg s \<Longrightarrow> deliveries_ok cfg s'" and "same_stream s \<Longrightarrow> same_stream s'" by blast+
qed

lemma reachable_delivers:
  assumes "reachable cfg eng res s"
  shows "deliveries_ok cfg s" and "same_stream s"
proof -
  have "deliveries_ok cfg s \<and> same_stream s"
    using assms
  proof induction
    case start
    then show ?case
      by (simp add: deliveries_ok_def same_stream_def pipeline_start_def make_chan_def)
  next
    case (step s a s')
    then show ?case using pipe_step_delivers by blast
  qed
  then show "deliveries_ok cfg s" and "same_stream s" by blast+
qed

section \<open>Stages of the shutdown\<close>

text \<open>How many of the statements of the shutdown goroutine have been executed, the receive first.\<close>

fun stage :: "shutdown_pc \<Rightarrow> nat" where
  "stage ShWait = 0"
| "stage (ShRun n) = Suc n"
| "stage ShDone = 6"

definition corr_closed :: "pipeline \<Rightarrow> bool" where
  "corr_closed s \<longleftrightarrow> (\<exists>ch. outch (corr s) = Some ch \<and> chan_closed ch)"

definition closing_ok :: "pipeline \<Rightarrow> bool" where
  "closing_ok s \<longleftrightarrow>
     outch (corr s) \<noteq> None
     \<and> (\<forall>n. shutPC s = ShRun n \<longrightarrow> n \<le> 4)
     \<and> (ringClosed s \<longleftrightarrow> 2 \<le> stage (shutPC s))
     \<and> (corr_closed s \<longleftrightarrow> 3 \<le> stage (shutPC s))
     \<and> (ctxDone s \<longleftrightarrow> 4 \<le> stage (shutPC s))
     \<and> (chan_closed (engineCh s) \<longleftrightarrow> 5 \<le> stage (shutPC s))
     \<and> (chan_closed (outputCh s) \<longleftrightarrow> 6 \<le> stage (shutPC s))
     \<and> (chan_closed (eventsCh s) \<longleftrightarrow> faninPC s = FiDone)
     \<and> (faninPC s = FiDone \<longrightarrow> 3 \<le> stage (shutPC s))
     \<and> \<not> chan_closed (alerts (engine s))"

text \<open>All that matters for it; most steps leave this alone.\<close>

definition closing_view ::
  "pipeline \<Rightarrow> (bool \<times> bool \<times> shutdown_pc \<times> bool \<times> bool) \<times> bool \<times> bool \<times> bool \<times> bool \<times> bool" where
  "closing_view s =
     ((outch (corr s) = None, corr_closed s, shutPC s, ringClosed s, ctxDone s),
      chan_closed (engineCh s), chan_closed (outputCh s), chan_closed (eventsCh s),
      faninPC s = FiDone, chan_closed (alerts (engine s)))"

lemma closing_view_keeps: "closing_view s' = closing_view s \<Longrightarrow> closing_ok s \<Longrightarrow> closing_ok s'"
  by (simp add: closing_view_def closing_ok_def)

lemma chan_send_closed: "chan_send x c = Inr (Some c') \<Longrightarrow> chan_closed c' = chan_closed c \<and> \<not> chan_closed c"
  by (auto simp: chan_send_def split: if_splits)

lemma chan_recv_closed: "chan_recv c = Some (v, c') \<Longrightarrow> chan_closed c' = chan_closed c \<and> (v = None \<longrightarrow> chan_closed c)"
  by (auto simp: chan_recv_def split: list.splits if_splits)

lemma HandleAccept_outch:
  "HandleAccept la lp ra rp cg pid cm c = Inr (Some c') \<Longrightarrow>
   (outch c' = None) = (outch c = None)
   \<and> (\<exists>ch. outch c' = Some ch \<and> chan_closed ch) = (\<exists>ch. outch c = Some ch \<and> chan_closed ch)"
  by (auto simp: HandleAccept_def Let_def go_simps split: option.splits dest: chan_send_closed)

lemma dispatch_closing: "dispatch cfg ev s = Inr (Some s') \<Longrightarrow> closing_view s' = closing_view s"
  by (auto simp: dispatch_def closing_view_def corr_closed_def go_simps HandleConnect_def Let_def
      split: if_splits dest!: HandleAccept_outch)

lemma main_step_closing:
  assumes "main_step cfg s = Inr (Some s')"
  shows "closing_view s' = closing_view s"
proof (cases "mainPC s")
  case MainRead
  show ?thesis
  proof (cases "ringClosed s \<or> ring s = []")
    case True
    with assms MainRead show ?thesis
      by (auto simp: main_step_def closing_view_def corr_closed_def split: if_splits)
  next
    case False
    then obtain raw rest where "ring s = raw # rest" by (cases "ring s") auto
    with False MainRead assms show ?thesis
      by (cases "ParseEvent raw") (auto simp: main_step_def closing_view_def corr_closed_def)
  qed
next
  case (MainGot event)
  with assms show ?thesis by (simp add: main_step_def dispatch_closing)
next
  case (MainSend e)
  with assms obtain ch where "chan_send e (eventsCh s) = Inr (Some ch)"
      "s' = s\<lparr>eventsCh := ch, mainPC := MainRead\<rparr>" by (auto simp: main_step_def go_simps)
  then show ?thesis using chan_send_closed [of e "eventsCh s" ch]
    by (simp add: closing_view_def corr_closed_def)
next
  case MainExit
  with assms show ?thesis by (simp add: main_step_def)
qed

lemma fanin_step_closing:
  assumes step: "fanin_step s = Inr (Some s')" and ok: "closing_ok s"
  shows "closing_ok s'"
proof (cases "faninPC s")
  case FiRecv
  from ok obtain ch where ch: "outch (corr s) = Some ch" by (auto simp: closing_ok_def)
  show ?thesis
  proof (cases "chan_recv ch")
    case None
    with step FiRecv ch show ?thesis by (simp add: fanin_step_def)
  next
    case (Some r)
    obtain v ch' where r: "r = (v, ch')" by (cases r)
    note recv = chan_recv_closed [of ch v ch']
    show ?thesis
    proof (cases v)
      case None
      with Some r recv have "corr_closed s" by (simp add: corr_closed_def ch)
      with ok have "3 \<le> stage (shutPC s)" by (simp add: closing_ok_def)
      moreover from step FiRecv ch Some r None
      have "s' = s\<lparr>eventsCh := (eventsCh s)\<lparr>chan_closed := True\<rparr>, faninPC := FiDone\<rparr>"
        by (auto simp: fanin_step_def go_simps chan_close_def split: if_splits)
      ultimately show ?thesis using ok by (simp add: closing_ok_def corr_closed_def)
    next
      case (Some e)
      with \<open>chan_recv ch = Some r\<close> r step FiRecv ch
      have "s' = s\<lparr>corr := (corr s)\<lparr>outch := Some ch'\<rparr>, faninPC := FiSend e\<rparr>"
        by (simp add: fanin_step_def)
      moreover have "chan_closed ch' = chan_closed ch" using recv \<open>chan_recv ch = Some r\<close> r by simp
      ultimately have "closing_view s' = closing_view s"
        using FiRecv ch by (simp add: closing_view_def corr_closed_def)
      then show ?thesis using ok by (rule closing_view_keeps)
    qed
  qed
next
  case (FiSend e)
  with step obtain ch where "chan_send e (eventsCh s) = Inr (Some ch)"
      "s' = s\<lparr>eventsCh := ch, faninPC := FiRecv\<rparr>" by (auto simp: fanin_step_def go_simps)
  then have "closing_view s' = closing_view s" using chan_send_closed [of e "eventsCh s" ch] FiSend
    by (simp add: closing_view_def corr_closed_def)
  then show ?thesis using ok by (rule closing_view_keeps)
next
  case FiDone
  with step show ?thesis by (simp add: fanin_step_def)
qed

lemma fanout_step_closing: "fanout_step cfg s = Inr (Some s') \<Longrightarrow> closing_view s' = closing_view s"
  by (cases "fanoutPC s")
    (auto simp: fanout_step_def closing_view_def corr_closed_def go_simps Let_def
      split: option.splits prod.splits dest!: chan_send_closed chan_recv_closed)

lemma engine_gstep_closing: "engine_gstep s = Inr (Some s') \<Longrightarrow> closing_view s' = closing_view s"
  by (cases "enginePC s")
    (auto simp: engine_gstep_def closing_view_def corr_closed_def go_simps
      split: option.splits prod.splits list.splits dest!: chan_recv_closed process_rule_keeps)

lemma output_step_closing:
  "output_event_step cfg s = Some s' \<Longrightarrow> closing_view s' = closing_view s"
  "output_alert_step cfg s = Some s' \<Longrightarrow> closing_view s' = closing_view s"
  by (auto simp: output_event_step_def output_alert_step_def closing_view_def corr_closed_def
      split: option.splits prod.splits dest!: chan_recv_closed)

lemma docker_closing:
  "docker_step msg s = Inr (Some s') \<Longrightarrow> closing_view s' = closing_view s"
  "update_step env s = Inr (Some s') \<Longrightarrow> closing_view s' = closing_view s"
  by (auto simp: closing_view_def corr_closed_def dest!: docker_frame)

lemma shutdown_step_closing:
  assumes step: "shutdown_step s = Inr (Some s')" and ok: "closing_ok s"
  shows "closing_ok s'"
proof -
  from step obtain n where n: "shutPC s = ShRun n"
    by (auto simp: shutdown_step_def split: shutdown_pc.splits)
  with ok have "n \<le> 4" by (simp add: closing_ok_def)
  then consider "n = 0" | "n = 1" | "n = 2" | "n = 3" | "n = 4" by linarith
  then show ?thesis
  proof cases
    case 1
    with step n have "s' = s\<lparr>ringClosed := True, shutPC := ShRun 1\<rparr>" by (simp add: shutdown_step_def)
    with ok n 1 show ?thesis by (simp add: closing_ok_def corr_closed_def)
  next
    case 2
    from ok obtain ch where ch: "outch (corr s) = Some ch" by (auto simp: closing_ok_def)
    with step n 2 have "s' = s\<lparr>corr := (corr s)\<lparr>outch := Some (ch\<lparr>chan_closed := True\<rparr>)\<rparr>, shutPC := ShRun 2\<rparr>"
      by (auto simp: shutdown_step_def Close_def chan_close_def go_simps split: if_splits)
    with ok n 2 show ?thesis by (simp add: closing_ok_def corr_closed_def)
  next
    case 3
    with step n have "s' = s\<lparr>ctxDone := True, shutPC := ShRun 3\<rparr>" by (simp add: shutdown_step_def)
    with ok n 3 show ?thesis by (simp add: closing_ok_def corr_closed_def)
  next
    case 4
    with step n have "s' = s\<lparr>engineCh := (engineCh s)\<lparr>chan_closed := True\<rparr>, shutPC := ShRun 4\<rparr>"
      by (auto simp: shutdown_step_def chan_close_def go_simps split: if_splits)
    with ok n 4 show ?thesis by (simp add: closing_ok_def corr_closed_def)
  next
    case 5
    with step n have "s' = s\<lparr>outputCh := (outputCh s)\<lparr>chan_closed := True\<rparr>, shutPC := ShDone\<rparr>"
      by (auto simp: shutdown_step_def chan_close_def go_simps split: if_splits)
    with ok n 5 show ?thesis by (simp add: closing_ok_def corr_closed_def)
  qed
qed

lemma pipe_step_closing:
  assumes "pipe_step cfg a s = Inr (Some s')" and "closing_ok s"
  shows "closing_ok s'"
proof -
  from assms have step: "actor_step cfg a s = Inr (Some s')" by (simp add: pipe_step_def split: if_splits)
  show ?thesis
  proof (cases a)
    case Signal
    with step have "shutPC s = ShWait" "s' = s\<lparr>shutPC := ShRun 0\<rparr>" by (simp_all split: if_splits)
    with assms(2) show ?thesis by (simp add: closing_ok_def corr_closed_def)
  next
    case Kernel
    with step have "closing_view s' = closing_view s" by (auto simp: closing_view_def corr_closed_def)
    then show ?thesis using assms(2) by (rule closing_view_keeps)
  next
    case CleanupTick
    with step have "closing_view s' = closing_view s"
      by (auto simp: closing_view_def corr_closed_def Cleanup_tick_def)
    then show ?thesis using assms(2) by (rule closing_view_keeps)
  qed (use step assms(2) in \<open>auto intro: fanin_step_closing shutdown_step_closing
      closing_view_keeps [OF main_step_closing] closing_view_keeps [OF fanout_step_closing]
      closing_view_keeps [OF engine_gstep_closing] closing_view_keeps [OF docker_closing(1)] closing_view_keeps [OF docker_closing(2)]
      closing_view_keeps [OF output_step_closing(1)] closing_view_keeps [OF output_step_closing(2)]\<close>)
qed

lemma start_closing:
  "\<not> chan_closed (alerts eng) \<Longrightarrow> closing_ok (pipeline_start eng res)"
  by (simp add: closing_ok_def corr_closed_def pipeline_start_def New_def make_chan_def)

lemma reachable_closing:
  assumes "reachable cfg eng res s" and "\<not> chan_closed (alerts eng)"
  shows "closing_ok s"
  using assms by induction (auto intro: start_closing pipe_step_closing)

section \<open>No panic before the signal\<close>

text \<open>The engine goroutine works through the rules the engine was loaded with.\<close>

definition rules_ok :: "RuleEngine \<Rightarrow> pipeline \<Rightarrow> bool" where
  "rules_ok eng s \<longleftrightarrow>
     rules (engine s) = rules eng
     \<and> (\<forall>e rs. enginePC s = EgRules e rs \<longrightarrow> set rs \<subseteq> set (rules eng))"

lemma dispatch_engine:
  "dispatch cfg ev s = Inr (Some s') \<Longrightarrow> engine s' = engine s \<and> enginePC s' = enginePC s"
  by (auto simp: dispatch_def go_simps split: if_splits)

lemma main_step_engine:
  "main_step cfg s = Inr (Some s') \<Longrightarrow> engine s' = engine s \<and> enginePC s' = enginePC s"
  by (auto simp: main_step_def go_simps split: main_pc.splits if_splits list.splits option.splits
      dest!: dispatch_engine)

lemma other_step_engine:
  "fanin_step s = Inr (Some s') \<Longrightarrow> engine s' = engine s \<and> enginePC s' = enginePC s"
  "fanout_step cfg s = Inr (Some s') \<Longrightarrow> engine s' = engine s \<and> enginePC s' = enginePC s"
  "shutdown_step s = Inr (Some s') \<Longrightarrow> engine s' = engine s \<and> enginePC s' = enginePC s"
  "output_event_step cfg s = Some s' \<Longrightarrow> engine s' = engine s \<and> enginePC s' = enginePC s"
  "output_alert_step cfg s = Some s' \<Longrightarrow> rules (engine s') = rules (engine s) \<and> enginePC s' = enginePC s"
  by (auto simp: fanin_step_def fanout_step_def shutdown_step_def output_event_step_def
      output_alert_step_def go_simps Let_def
      split: fanin_pc.splits fanout_pc.splits shutdown_pc.splits option.splits prod.splits if_splits)

lemma docker_engine:
  "docker_step msg s = Inr (Some s') \<Longrightarrow> engine s' = engine s \<and> enginePC s' = enginePC s"
  "update_step env s = Inr (Some s') \<Longrightarrow> engine s' = engine s \<and> enginePC s' = enginePC s"
  by (auto dest!: docker_frame)

lemma engine_gstep_rules:
  assumes "engine_gstep s = Inr (Some s')" and "rules_ok eng s"
  shows "rules_ok eng s'"
proof (cases "enginePC s")
  case (EgRules e rs)
  with assms show ?thesis
    by (cases rs) (auto simp: engine_gstep_def rules_ok_def go_simps dest!: process_rule_keeps)
qed (use assms in \<open>auto simp: engine_gstep_def rules_ok_def split: option.splits\<close>)

lemma pipe_step_rules:
  assumes "pipe_step cfg a s = Inr (Some s')" and ok: "rules_ok eng s"
  shows "rules_ok eng s'"
proof -
  from assms have step: "actor_step cfg a s = Inr (Some s')" by (simp add: pipe_step_def split: if_splits)
  show ?thesis
  proof (cases "a = EngineLoop")
    case True
    with step ok engine_gstep_rules show ?thesis by auto
  next
    case False
    with step have "rules (engine s') = rules (engine s) \<and> enginePC s' = enginePC s"
      by (cases a) (auto dest: main_step_engine other_step_engine docker_engine split: if_splits)
    with ok show ?thesis by (simp add: rules_ok_def)
  qed
qed

lemma reachable_rules: "reachable cfg eng res s \<Longrightarrow> rules_ok eng s"
proof (induction rule: reachable.induct)
  case start
  then show ?case by (simp add: rules_ok_def pipeline_start_def)
qed (blast intro: pipe_step_rules)

lemma chan_send_no_panic: "\<not> chan_closed c \<Longrightarrow> chan_send x c \<noteq> Inl p"
  by (simp add: chan_send_def)

lemma HandleAccept_no_panic:
  "outch c = Some ch \<Longrightarrow> \<not> chan_closed ch \<Longrightarrow> HandleAccept la lp ra rp cg pid cm c \<noteq> Inl p"
  by (auto simp: HandleAccept_def Let_def go_simps chan_send_def split: option.splits)

fun docker_ok :: "actor \<Rightarrow> bool" where
  "docker_ok (DockerUpdate env) \<longleftrightarrow> env_ok env"
| "docker_ok a \<longleftrightarrow> True"

lemma main_step_no_panic:
  assumes ok: "closing_ok s" and "shutPC s = ShWait"
  shows "main_step cfg s \<noteq> Inl p"
proof -
  from assms obtain ch where ch: "outch (corr s) = Some ch" "\<not> chan_closed ch"
      and ev: "\<not> chan_closed (eventsCh s)"
    by (auto simp: closing_ok_def corr_closed_def)
  have "dispatch cfg event s \<noteq> Inl p" for event
    using ch by (simp add: dispatch_def go_simps HandleAccept_no_panic)
  then show ?thesis
    using ev by (auto simp: main_step_def go_simps chan_send_no_panic split: main_pc.splits list.splits option.splits)
qed

lemma fanin_step_no_panic:
  assumes ok: "closing_ok s" and "shutPC s = ShWait"
  shows "fanin_step s \<noteq> Inl p"
proof -
  from assms obtain ch where ch: "outch (corr s) = Some ch" "\<not> chan_closed ch"
      and ev: "\<not> chan_closed (eventsCh s)"
    by (auto simp: closing_ok_def corr_closed_def)
  then show ?thesis
    by (auto simp: fanin_step_def go_simps chan_send_no_panic chan_close_def
        split: fanin_pc.splits option.splits)
qed

lemma fanout_step_no_panic:
  assumes "closing_ok s" and "shutPC s = ShWait"
  shows "fanout_step cfg s \<noteq> Inl p"
proof -
  from assms have "\<not> chan_closed (outputCh s)" "\<not> chan_closed (engineCh s)" by (simp_all add: closing_ok_def)
  then show ?thesis
    by (auto simp: fanout_step_def go_simps chan_send_no_panic Let_def split: fanout_pc.splits option.splits)
qed

lemma engine_gstep_no_panic:
  assumes "closing_ok s" and del: "deliveries_ok cfg s" and rules: "rules_ok eng s"
    and noseq: "\<forall>rule\<in>set (rules eng). rSequence rule = None"
  shows "engine_gstep s \<noteq> Inl p"
proof (cases "enginePC s")
  case (EgRules e rs)
  from del EgRules have "SrcContainer e \<noteq> None" by (auto simp: deliveries_ok_def delivered_ok_def)
  moreover from assms(1) have "\<not> chan_closed (alerts (engine s))" by (simp add: closing_ok_def)
  moreover from rules EgRules noseq have "\<forall>rule\<in>set rs. rSequence rule = None" by (auto simp: rules_ok_def)
  ultimately show ?thesis
    using EgRules by (cases rs) (auto simp: engine_gstep_def go_simps process_rule_no_panic)
qed (auto simp: engine_gstep_def split: option.splits)

lemma no_panic_before_signal:
  assumes reach: "reachable cfg eng res s" and "shutPC s = ShWait"
    and "\<not> chan_closed (alerts eng)" and noseq: "\<forall>rule\<in>set (rules eng). rSequence rule = None"
    and docker: "docker_ok a"
  shows "pipe_step cfg a s \<noteq> Inl p"
proof -
  note ok = reachable_closing [OF reach assms(3)]
  note del = reachable_delivers(1) [OF reach]
  note rules = reachable_rules [OF reach]
  have "actor_step cfg a s \<noteq> Inl p"
  proof (cases a)
    case Docker
    then show ?thesis by (simp add: docker_step_def split: docker_msg.split sum.split)
  next
    case (DockerUpdate env)
    with docker show ?thesis
      by (auto simp: update_step_def go_simps update_one_no_panic split: docker_pc.split list.split)
  next
    case Shutdown
    with assms(2) show ?thesis by (simp add: shutdown_step_def)
  qed (use main_step_no_panic [OF ok assms(2)] fanin_step_no_panic [OF ok assms(2)]
      fanout_step_no_panic [OF ok assms(2)] engine_gstep_no_panic [OF ok del rules noseq] in auto)
  then show ?thesis by (simp add: pipe_step_def)
qed

section \<open>Panics after it\<close>

text \<open>
  A sample read just before the signal: the correlator's channel is closed,
  the fan-in goroutine closes \<open>eventsCh\<close>, and the main loop sends on it; or the
  main loop itself sends the event of an accept on the correlator's channel.
\<close>

lemma shutdown_race:
  assumes "ParseEvent raw = Some ev" and "EventType ev = EVENT_EXEC"
  shows "run (pipe_step cfg) [Kernel raw, MainLoop, MainLoop, Signal, Shutdown, Shutdown, FanIn, MainLoop]
           (pipeline_start eng res) = Inl SendOnClosedChannel"
  using assms
  by (simp add: pipe_step_def pipeline_start_def main_step_def dispatch_def shutdown_step_def Close_def
      New_def make_chan_def chan_close_def fanin_step_def chan_recv_def chan_send_def
      EVENT_NET_CONNECT_def EVENT_NET_ACCEPT_def EVENT_FILE_OPEN_def EVENT_EXEC_def)

lemma accept_race:
  assumes "ParseEvent raw1 = Some e1" "EventType e1 = EVENT_NET_CONNECT"
    and "ParseEvent raw2 = Some e2" "EventType e2 = EVENT_NET_ACCEPT"
    and "SrcAddr e2 = DstAddr e1" "SrcPort e2 = DstPort e1" "DstAddr e2 = SrcAddr e1" "DstPort e2 = SrcPort e1"
  shows "run (pipe_step cfg) [Kernel raw1, MainLoop, MainLoop, Kernel raw2, MainLoop, Signal, Shutdown, Shutdown, MainLoop]
           (pipeline_start eng res) = Inl SendOnClosedChannel"
  using assms
  by (simp add: pipe_step_def pipeline_start_def main_step_def dispatch_def shutdown_step_def Close_def
      New_def make_chan_def chan_close_def HandleConnect_def HandleAccept_def Let_def chan_send_def
      EVENT_NET_CONNECT_def EVENT_NET_ACCEPT_def)

text \<open>The engine that the set-up creates has an open channel of alerts.\<close>

lemma New_engine_open: "New_engine unmarshal root = Inr (Some eng) \<Longrightarrow> \<not> chan_closed (alerts eng)"
proof (cases root)
  case None
  assume "New_engine unmarshal root = Inr (Some eng)"
  with None show ?thesis by (simp add: New_engine_def LoadRules_def visit_def)
next
  case (Some d)
  assume "New_engine unmarshal root = Inr (Some eng)"
  with Some show ?thesis by (auto simp: New_engine_iff empty_engine_def make_chan_def)
qed

section \<open>The end of the process\<close>

text \<open>
  After the signal the closed ring ends the main loop, whatever is still
  queued; then no goroutine continues.
\<close>

lemma exit_after_signal:
  assumes "reachable cfg eng res s" and "\<not> chan_closed (alerts eng)" and "shutPC s \<noteq> ShWait" and "mainPC s = MainRead"
  shows "\<exists>as s'. as \<in> {[MainLoop], [Shutdown, MainLoop]} \<and> run (pipe_step cfg) as s = Inr (Some s')
    \<and> mainPC s' = MainExit \<and> outp s' = outp s \<and> ring s' = ring s \<and> (\<forall>a. pipe_step cfg a s' = Inr None)"
proof (cases "ringClosed s")
  case True
  with assms(4) show ?thesis
    by (intro exI [of _ "[MainLoop]"]) (simp add: pipe_step_def main_step_def)
next
  case False
  with reachable_closing [OF assms(1,2)] have "stage (shutPC s) < 2" by (simp add: closing_ok_def)
  with assms(3) have "shutPC s = ShRun 0" by (cases "shutPC s") auto
  with assms(4) show ?thesis
    by (intro exI [of _ "[Shutdown, MainLoop]"]) (simp add: pipe_step_def main_step_def shutdown_step_def)
qed

end
