(* ===== verification/EndToEnd.thy ===== *)
theory EndToEnd
  imports PipelineInv
begin

text \<open>
  From a kernel probe to the consumers: the samples of the two sides of a
  connection become one event of the correlator, and an execution reaches
  the output and the rule engine with its container.
\<close>

section \<open>Connections\<close>

text \<open>A pipeline whose main loop is about to read from an empty, open ring.\<close>

definition ready_to_read :: "pipeline \<Rightarrow> bool" where
  "ready_to_read s \<longleftrightarrow> mainPC s = MainRead \<and> \<not> ringClosed s \<and> ring s = []"

lemma read_sample:
  assumes "ready_to_read s" and "ParseEvent raw = Some ev"
  shows "run (pipe_step cfg) [Kernel raw, MainLoop, MainLoop] s = dispatch cfg ev (s\<lparr>mainPC := MainGot ev\<rparr>)"
proof -
  have ring: "s\<lparr>ring := [], mainPC := pc\<rparr> = s\<lparr>mainPC := pc\<rparr>" for pc
    using assms(1) by (simp add: ready_to_read_def)
  have "run (pipe_step cfg) [Kernel raw, MainLoop, MainLoop] s =
      go_bind (dispatch cfg ev (s\<lparr>ring := [], mainPC := MainGot ev\<rparr>)) (case_option (Inr None) (run (pipe_step cfg) []))"
    using assms by (simp add: ready_to_read_def pipe_step_def main_step_def)
  then show ?thesis
    unfolding ring by (cases "dispatch cfg ev (s\<lparr>mainPC := MainGot ev\<rparr>)") (auto split: option.split)
qed

text \<open>
  The correlator pairs the two samples of a connection: the accepting side
  reports the same endpoints with local and remote exchanged.
\<close>

lemma connect_then_accept:
  assumes "outch c = Some ch" and "\<not> chan_closed ch" and "length (chan_buf ch) < chan_cap ch"
  shows "HandleAccept ra rp la lp cg2 pid2 cm2 (HandleConnect boot la lp ra rp cg1 pid1 cm1 ts c)
    = Inr (Some (c\<lparr>pending := (pending c)(connect_key la lp ra rp := None),
        outch := Some (ch\<lparr>chan_buf := chan_buf ch @
          [connection_event \<lparr>peTimestamp = KTimeToTime boot ts, peSrcCgroupID = cg1, peSrcPID = pid1,
             peSrcProcessName = NullTermStr cm1\<rparr> ra rp la lp cg2 pid2 cm2]\<rparr>)\<rparr>))"
  using assms
  by (simp add: HandleConnect_def HandleAccept_def key_eq chan_send_def Let_def)

lemma connection_samples:
  assumes s: "ready_to_read s" and ch: "outch (corr s) = Some ch" "\<not> chan_closed ch"
      "length (chan_buf ch) < chan_cap ch"
    and p1: "ParseEvent raw1 = Some e1" "EventType e1 = EVENT_NET_CONNECT"
    and p2: "ParseEvent raw2 = Some e2" "EventType e2 = EVENT_NET_ACCEPT"
    and mirror: "SrcAddr e2 = DstAddr e1" "SrcPort e2 = DstPort e1" "DstAddr e2 = SrcAddr e1" "DstPort e2 = SrcPort e1"
  shows "run (pipe_step cfg) [Kernel raw1, MainLoop, MainLoop, Kernel raw2, MainLoop, MainLoop] s
     = Inr (Some (s\<lparr>corr := (corr s)\<lparr>
          pending := (pending (corr s))(connect_key (SrcAddr e1) (SrcPort e1) (DstAddr e1) (DstPort e1) := None),
          outch := Some (ch\<lparr>chan_buf := chan_buf ch @
          [connection_event \<lparr>peTimestamp = KTimeToTime (bootTime cfg) (Timestamp e1),
             peSrcCgroupID = CgroupId e1, peSrcPID = Pid e1, peSrcProcessName = NullTermStr (Comm e1)\<rparr>
             (DstAddr e1) (DstPort e1) (SrcAddr e1) (SrcPort e1) (CgroupId e2) (Pid e2) (Comm e2)]\<rparr>)\<rparr>\<rparr>))"
proof -
  let ?s1 = "s\<lparr>corr := HandleConnect (bootTime cfg) (SrcAddr e1) (SrcPort e1) (DstAddr e1) (DstPort e1)
               (CgroupId e1) (Pid e1) (Comm e1) (Timestamp e1) (corr s)\<rparr>"
  have same: "t\<lparr>corr := c, mainPC := MainRead\<rparr> = t\<lparr>corr := c\<rparr>" if "mainPC t = MainRead" for c and t :: pipeline
    using that by simp
  note read = same [OF s [unfolded ready_to_read_def, THEN conjunct1]]
  have one: "run (pipe_step cfg) [Kernel raw1, MainLoop, MainLoop] s = Inr (Some ?s1)"
    using read_sample [OF s p1(1), of cfg] p1(2) by (simp add: dispatch_def read del: run.simps)
  have "ready_to_read ?s1" using s by (simp add: ready_to_read_def)
  note two = read_sample [OF this p2(1), of cfg]
  note acc = connect_then_accept [OF ch, of "DstAddr e1" "DstPort e1" "SrcAddr e1" "SrcPort e1"
      "CgroupId e2" "Pid e2" "Comm e2" "bootTime cfg" "CgroupId e1" "Pid e1" "Comm e1" "Timestamp e1"]
  have "run (pipe_step cfg) ([Kernel raw1, MainLoop, MainLoop] @ [Kernel raw2, MainLoop, MainLoop]) s
      = run (pipe_step cfg) [Kernel raw2, MainLoop, MainLoop] ?s1"
    by (simp only: run_append one go_bind_simps option.case)
  also have "\<dots> = dispatch cfg e2 (?s1\<lparr>mainPC := MainGot e2\<rparr>)" by (rule two)
  finally show ?thesis
    using acc p2(2) mirror
    by (simp add: dispatch_def read EVENT_NET_CONNECT_def EVENT_NET_ACCEPT_def del: run.simps)
qed

section \<open>Process and file events\<close>

text \<open>
  From a sample to both consumers, through the fan-out with its resolver: the
  event has been printed, and the engine is about to try its rules on it.
\<close>

definition consumed :: "pipe_config \<Rightarrow> RuleEngine \<Rightarrow> Event \<Rightarrow> pipeline \<Rightarrow> bool" where
  "consumed cfg eng e s \<longleftrightarrow>
     outSeen s = [e] \<and> engSeen s = [e]
     \<and> outp s = print_line (localZone cfg) (event_output e) output_start
     \<and> engine s = eng \<and> enginePC s = EgRules e (rules eng) \<and> mainPC s = MainRead"

lemma deliver_sent:
  assumes e: "e = exec_event (bootTime cfg) ev \<or> e = file_event (bootTime cfg) ev"
    and cache: "cache res (CgroupId ev) = Some info"
  shows "\<exists>s'. run (pipe_step cfg) [MainLoop, FanOut, FanOut, FanOut, FanOut, FanOut, OutputEvent, EngineLoop]
            ((pipeline_start eng res)\<lparr>mainPC := MainSend e\<rparr>) = Inr (Some s')
          \<and> consumed cfg eng (e\<lparr>SrcContainer := Some info, DstContainer := None\<rparr>) s'"
proof -
  from e have "SrcCgroupID e = CgroupId ev" and "DstCgroupID e = 0"
    by (auto simp: exec_event_def file_event_def zero_Event_def)
  then show ?thesis
    using cache
    by (simp add: pipe_step_def pipeline_start_def main_step_def fanout_step_def chan_send_def chan_recv_def
        make_chan_def Resolve_def filtered_def output_event_step_def output_start_def engine_gstep_def consumed_def)
qed

definition delivery :: "actor list" where
  "delivery = [MainLoop, MainLoop, MainLoop, FanOut, FanOut, FanOut, FanOut, FanOut, OutputEvent, EngineLoop]"

lemma sample_delivered:
  assumes raw: "ParseEvent raw = Some ev" and cache: "cache res (CgroupId ev) = Some info"
    and ty: "EventType ev = EVENT_EXEC \<and> e = exec_event (bootTime cfg) ev
           \<or> EventType ev = EVENT_FILE_OPEN \<and> e = file_event (bootTime cfg) ev"
  shows "\<exists>s'. run (pipe_step cfg) (Kernel raw # delivery) (pipeline_start eng res) = Inr (Some s')
          \<and> consumed cfg eng (e\<lparr>SrcContainer := Some info, DstContainer := None\<rparr>) s'"
proof -
  let ?s = "pipeline_start eng res"
  let ?rest = "[MainLoop, FanOut, FanOut, FanOut, FanOut, FanOut, OutputEvent, EngineLoop]"
  have "ready_to_read ?s" by (simp add: ready_to_read_def pipeline_start_def)
  moreover have "dispatch cfg ev (?s\<lparr>mainPC := MainGot ev\<rparr>) = Inr (Some (?s\<lparr>mainPC := MainSend e\<rparr>))"
    using ty by (elim disjE conjE) (simp_all add: dispatch_def event_type_defs)
  ultimately have one: "run (pipe_step cfg) [Kernel raw, MainLoop, MainLoop] ?s = Inr (Some (?s\<lparr>mainPC := MainSend e\<rparr>))"
    by (simp only: read_sample [OF _ raw])
  obtain s' where s': "run (pipe_step cfg) ?rest (?s\<lparr>mainPC := MainSend e\<rparr>) = Inr (Some s')"
      "consumed cfg eng (e\<lparr>SrcContainer := Some info, DstContainer := None\<rparr>) s'"
    using deliver_sent [of e cfg ev res info eng] ty cache by (auto simp del: run.simps)
  have "run (pipe_step cfg) ([Kernel raw, MainLoop, MainLoop] @ ?rest) ?s = Inr (Some s')"
    by (simp only: run_append one go_bind_simps option.case s'(1))
  then show ?thesis using s'(2) by (auto simp: delivery_def simp del: run.simps)
qed

lemma exec_delivered:
  assumes env: "bpf_env_ok env comm ustr" "bpf_get_current_cgroup_id env \<noteq> 0"
      "bpf_ringbuf_reserve env (sizeof struct_event) = Some stale"
    and cache: "cache res (bpf_get_current_cgroup_id env) = Some info"
  shows "\<exists>raw s' e. handle_execve env ctx [] = (0, [raw])
     \<and> run (pipe_step cfg) (Kernel raw # delivery) (pipeline_start eng res) = Inr (Some s')
     \<and> consumed cfg eng e s'
     \<and> EvType e = ''exec'' \<and> SrcContainer e = Some info \<and> DstContainer e = None
     \<and> EvTime e = KTimeToTime (bootTime cfg) (bpf_ktime_get_ns env)
     \<and> SrcCgroupID e = bpf_get_current_cgroup_id env
     \<and> SrcProcessName e = go_string comm \<and> ExecPath e = go_string (ustr (ctx_arg ctx 0))"
proof -
  obtain raw ev where raw: "handle_execve env ctx [] = (0, [raw])" "ParseEvent raw = Some ev"
      "common_view env comm EVENT_EXEC ev" "NullTermStr (Filepath ev) = go_string (ustr (ctx_arg ctx 0))"
    using handle_execve_sample [OF env, of ctx "[]"] by auto
  let ?e = "exec_event (bootTime cfg) ev"
  obtain s' where "run (pipe_step cfg) (Kernel raw # delivery) (pipeline_start eng res) = Inr (Some s')"
      "consumed cfg eng (?e\<lparr>SrcContainer := Some info, DstContainer := None\<rparr>) s'"
    using sample_delivered [OF raw(2), of res info ?e cfg eng] cache raw(3)
    by (auto simp: common_view_def simp del: run.simps)
  with raw show ?thesis
    by (intro exI [of _ raw] exI [of _ s'] exI [of _ "?e\<lparr>SrcContainer := Some info, DstContainer := None\<rparr>"])
      (auto simp: exec_event_def common_view_def simp del: run.simps)
qed

lemma open_delivered:
  assumes env: "bpf_env_ok env comm ustr" "bpf_get_current_cgroup_id env \<noteq> 0"
      "bpf_ringbuf_reserve env (sizeof struct_event) = Some stale"
    and cache: "cache res (bpf_get_current_cgroup_id env) = Some info"
  shows "\<exists>raw s' e. handle_openat env ctx [] = (0, [raw])
     \<and> run (pipe_step cfg) (Kernel raw # delivery) (pipeline_start eng res) = Inr (Some s')
     \<and> consumed cfg eng e s'
     \<and> EvType e = ''file_open'' \<and> SrcContainer e = Some info \<and> DstContainer e = None
     \<and> EvTime e = KTimeToTime (bootTime cfg) (bpf_ktime_get_ns env)
     \<and> SrcCgroupID e = bpf_get_current_cgroup_id env
     \<and> SrcProcessName e = go_string comm \<and> FilePath e = go_string (ustr (ctx_arg ctx 1))
     \<and> (FileOp e = ''write'' \<longleftrightarrow> (\<exists>i\<in>{0, 1, 6}. bit (ctx_arg ctx 2) i))"
proof -
  obtain raw ev where raw: "handle_openat env ctx [] = (0, [raw])" "ParseEvent raw = Some ev"
      "common_view env comm EVENT_FILE_OPEN ev" "NullTermStr (Filepath ev) = go_string (ustr (ctx_arg ctx 1))"
      "Flags ev = ucast (ctx_arg ctx 2)"
    using handle_openat_sample [OF env, of ctx "[]"] by auto
  let ?e = "file_event (bootTime cfg) ev"
  obtain s' where "run (pipe_step cfg) (Kernel raw # delivery) (pipeline_start eng res) = Inr (Some s')"
      "consumed cfg eng (?e\<lparr>SrcContainer := Some info, DstContainer := None\<rparr>) s'"
    using sample_delivered [OF raw(2), of res info ?e cfg eng] cache raw(3)
    by (auto simp: common_view_def simp del: run.simps)
  moreover have "FileOp ?e = ''write'' \<longleftrightarrow> (\<exists>i\<in>{0, 1, 6}. bit (ctx_arg ctx 2) i)"
    by (auto simp: file_event_def OpenFlagsToOp_write_iff raw(5) bit_ucast_iff)
  ultimately show ?thesis using raw
    by (intro exI [of _ raw] exI [of _ s'] exI [of _ "?e\<lparr>SrcContainer := Some info, DstContainer := None\<rparr>"])
      (auto simp: file_event_def common_view_def simp del: run.simps)
qed

section \<open>From both ends of a connection to the consumers\<close>

text \<open>
  The fan-in takes the event of the correlator, and the fan-out names the
  containers of both sides.
\<close>

definition forwarding :: "actor list" where
  "forwarding = [FanIn, FanIn, FanOut, FanOut, FanOut, FanOut, FanOut, OutputEvent, EngineLoop]"

lemma deliver_queued:
  assumes c: "outch c = Some ((make_chan 1024)\<lparr>chan_buf := [e]\<rparr>)"
    and src: "cache res (SrcCgroupID e) = Some info1"
    and dst: "DstCgroupID e \<noteq> 0" "cache res (DstCgroupID e) = Some info2"
    and keep: "\<not> filtered (filterPrefixArg cfg) info1 (Some info2)"
  shows "\<exists>s'. run (pipe_step cfg) forwarding ((pipeline_start eng res)\<lparr>corr := c\<rparr>) = Inr (Some s')
          \<and> consumed cfg eng (e\<lparr>SrcContainer := Some info1, DstContainer := Some info2\<rparr>) s'"
  using assms
  by (simp add: forwarding_def pipe_step_def pipeline_start_def fanin_step_def fanout_step_def chan_send_def chan_recv_def
        make_chan_def Resolve_def output_event_step_def output_start_def engine_gstep_def consumed_def)


lemma connection_delivered:
  assumes env1: "bpf_env_ok env1 comm1 ustr1" "sk1 \<noteq> 0" "sock_family env1 sk1 = AF_INET"
      "bpf_ringbuf_reserve env1 (sizeof struct_event) = Some stale1"
    and env2: "bpf_env_ok env2 comm2 ustr2" "sk2 \<noteq> 0" "sock_family env2 sk2 = AF_INET"
      "bpf_ringbuf_reserve env2 (sizeof struct_event) = Some stale2"
    and ends: "sock_endpoints env1 sk1 = (la, lp, ra, rp)" "sock_endpoints env2 sk2 = (ra, rp, la, lp)"
    and cache: "cache res (bpf_get_current_cgroup_id env1) = Some info1" "bpf_get_current_cgroup_id env2 \<noteq> 0"
      "cache res (bpf_get_current_cgroup_id env2) = Some info2"
    and keep: "\<not> filtered (filterPrefixArg cfg) info1 (Some info2)"
  shows "\<exists>raw1 raw2 s' e. tcp_connect env1 sk1 [] = (0, [raw1]) \<and> inet_csk_accept env2 sk2 [] = (0, [raw2])
     \<and> run (pipe_step cfg) ([Kernel raw1, MainLoop, MainLoop, Kernel raw2, MainLoop, MainLoop] @ forwarding) (pipeline_start eng res)
         = Inr (Some s')
     \<and> consumed cfg eng e s'
     \<and> EvType e = ''connection'' \<and> SrcContainer e = Some info1 \<and> DstContainer e = Some info2
     \<and> EvTime e = KTimeToTime (bootTime cfg) (bpf_ktime_get_ns env1)
     \<and> SrcProcessName e = go_string comm1 \<and> DstProcessName e = go_string comm2
     \<and> EvSrcAddr e = BytesToIPv4 la \<and> EvSrcPort e = lp \<and> EvDstAddr e = BytesToIPv4 ra \<and> EvDstPort e = rp
     \<and> FilePath e = '''' \<and> FileOp e = '''' \<and> ExecPath e = '''' \<and> ParentProcessName e = ''''"
proof -
  let ?s = "pipeline_start eng res"
  obtain raw1 e1 where c: "tcp_connect env1 sk1 [] = (0, [raw1])" "ParseEvent raw1 = Some e1"
      "common_view env1 comm1 EVENT_NET_CONNECT e1"
      "(SrcAddr e1, SrcPort e1, DstAddr e1, DstPort e1) = (la, lp, ra, rp)"
    using tcp_connect_sample [OF env1, of "[]"] ends(1) by auto
  obtain raw2 e2 where a: "inet_csk_accept env2 sk2 [] = (0, [raw2])" "ParseEvent raw2 = Some e2"
      "common_view env2 comm2 EVENT_NET_ACCEPT e2"
      "(SrcAddr e2, SrcPort e2, DstAddr e2, DstPort e2) = (ra, rp, la, lp)"
    using inet_csk_accept_sample [OF env2, of "[]"] ends(2) by auto
  let ?e = "connection_event \<lparr>peTimestamp = KTimeToTime (bootTime cfg) (Timestamp e1),
             peSrcCgroupID = CgroupId e1, peSrcPID = Pid e1, peSrcProcessName = NullTermStr (Comm e1)\<rparr>
             ra rp la lp (CgroupId e2) (Pid e2) (Comm e2)"
  let ?e' = "?e\<lparr>SrcContainer := Some info1, DstContainer := Some info2\<rparr>"
  have "ready_to_read ?s" "outch (corr ?s) = Some (make_chan 1024)"
    by (simp_all add: ready_to_read_def pipeline_start_def New_def)
  from connection_samples [OF this _ _ c(2) _ a(2), of cfg] c(3,4) a(3,4)
  obtain c' where one: "run (pipe_step cfg) [Kernel raw1, MainLoop, MainLoop, Kernel raw2, MainLoop, MainLoop] ?s = Inr (Some (?s\<lparr>corr := c'\<rparr>))"
      and c': "outch c' = Some ((make_chan 1024)\<lparr>chan_buf := [?e]\<rparr>)"
    by (auto simp: common_view_def make_chan_def simp del: run.simps)
  have "cache res (SrcCgroupID ?e) = Some info1" "DstCgroupID ?e \<noteq> 0" "cache res (DstCgroupID ?e) = Some info2"
    using c(3) a(3) cache by (simp_all add: connection_event_def common_view_def)
  from deliver_queued [OF c' this keep]
  obtain s' where two: "run (pipe_step cfg) forwarding (?s\<lparr>corr := c'\<rparr>) = Inr (Some s')" "consumed cfg eng ?e' s'" by blast
  have "run (pipe_step cfg) ([Kernel raw1, MainLoop, MainLoop, Kernel raw2, MainLoop, MainLoop] @ forwarding) ?s = Inr (Some s')"
    by (simp only: run_append one go_bind_simps option.case two(1))
  with c a two(2) show ?thesis
    by (intro exI [of _ raw1] exI [of _ raw2] exI [of _ s'] exI [of _ ?e'])
      (auto simp: common_view_def connection_event_def zero_Event_def simp del: run.simps)
qed

end
