(* ===== verification/Drain.thy ===== *)
theory Drain
  imports EndToEnd
begin

text \<open>
  Flow through the pipeline of \<open>cmd/main.go\<close>: no channel ever holds more than
  its capacity, and before the signal the goroutines can neither block each
  other for ever nor run for ever on the samples they have been given.
\<close>

section \<open>Bounded channels\<close>

definition sized :: "nat \<Rightarrow> 'a chan \<Rightarrow> bool" where
  "sized n c \<longleftrightarrow> chan_cap c = n \<and> chan_wf c"

lemma sized_ops:
  "chan_send x c = Inr (Some c') \<Longrightarrow> sized n c \<Longrightarrow> sized n c'"
  "chan_recv c = Some (v, c') \<Longrightarrow> sized n c \<Longrightarrow> sized n c'"
  "chan_close c = Inr c' \<Longrightarrow> sized n c \<Longrightarrow> sized n c'"
  by (auto simp: chan_send_def chan_recv_def chan_close_def sized_def chan_wf_def
      split: if_splits list.splits)

lemma sized_make [simp]: "sized n (make_chan n)"
  by (simp add: sized_def) (simp add: make_chan_def)

lemma sized_alerts:
  "emitAlert a r = Inr (Some r') \<Longrightarrow> sized n (alerts r) \<Longrightarrow> sized n (alerts r')"
  by (auto simp: emitAlert_def go_simps dest: sized_ops(1))

lemma sized_sequence_loop:
  "sequence_loop rule seq key e i steps r = Inr (Some r') \<Longrightarrow> sized n (alerts r) \<Longrightarrow> sized n (alerts r')"
proof (induction steps arbitrary: i r)
  case (Cons step steps)
  then obtain r1 where r1: "sequence_round rule seq key e i step r = Inr (Some r1)"
      "sequence_loop rule seq key e (Suc i) steps r1 = Inr (Some r')"
    by (auto simp: go_simps split: option.splits)
  have "sized n (alerts r1)"
    using r1(1) Cons.prems(2)
    by (auto simp: sequence_round_def Let_def go_simps case_prod_beta split: if_splits option.splits
        dest!: sized_alerts [where n = n])
  with Cons.IH r1(2) show ?case by blast
qed simp

lemma sized_process_rule:
  assumes "process_rule e rule r = Inr (Some r')" and "sized n (alerts r)"
  shows "sized n (alerts r')"
  using assms
  by (auto simp: process_rule_def handleSequence_def handleThreshold_def Let_def go_simps case_prod_beta
      split: if_splits option.splits dest!: sized_alerts [where n = n] dest: sized_sequence_loop [where n = n])

definition flow_ok :: "pipeline \<Rightarrow> bool" where
  "flow_ok s \<longleftrightarrow>
     sized 1024 (eventsCh s) \<and> sized 1024 (outputCh s) \<and> sized 1024 (engineCh s)
     \<and> sized 100 (alerts (engine s)) \<and> (\<forall>ch. outch (corr s) = Some ch \<longrightarrow> sized 1024 ch)"

lemma dispatch_flow:
  assumes "dispatch cfg ev s = Inr (Some s')" and "flow_ok s"
  shows "flow_ok s'"
  using assms
  by (auto simp: dispatch_def flow_ok_def HandleConnect_def HandleAccept_def Let_def go_simps
      split: if_splits option.splits dest: sized_ops(1))

lemma main_step_flow:
  assumes "main_step cfg s = Inr (Some s')" and "flow_ok s"
  shows "flow_ok s'"
proof (cases "mainPC s")
  case MainRead
  have "flow_ok (s\<lparr>ring := rest\<rparr>)" for rest using assms(2) by (simp add: flow_ok_def)
  with MainRead assms show ?thesis
    by (auto simp: main_step_def split: if_splits list.splits option.splits) (auto simp: flow_ok_def)
next
  case MainGot
  with assms show ?thesis by (auto simp: main_step_def dest!: dispatch_flow)
next
  case MainSend
  with assms show ?thesis by (auto simp: main_step_def flow_ok_def go_simps dest: sized_ops(1))
next
  case MainExit
  with assms show ?thesis by (simp add: main_step_def)
qed

lemma goroutine_flow:
  "fanin_step s = Inr (Some s') \<Longrightarrow> flow_ok s \<Longrightarrow> flow_ok s'"
  "fanout_step cfg s = Inr (Some s') \<Longrightarrow> flow_ok s \<Longrightarrow> flow_ok s'"
  "engine_gstep s = Inr (Some s') \<Longrightarrow> flow_ok s \<Longrightarrow> flow_ok s'"
  "output_event_step cfg s = Some s' \<Longrightarrow> flow_ok s \<Longrightarrow> flow_ok s'"
  "output_alert_step cfg s = Some s' \<Longrightarrow> flow_ok s \<Longrightarrow> flow_ok s'"
  "shutdown_step s = Inr (Some s') \<Longrightarrow> flow_ok s \<Longrightarrow> flow_ok s'"
  "docker_step msg s = Inr (Some s') \<Longrightarrow> flow_ok s \<Longrightarrow> flow_ok s'"
  "update_step env s = Inr (Some s') \<Longrightarrow> flow_ok s \<Longrightarrow> flow_ok s'"
  by (auto simp: fanin_step_def fanout_step_def engine_gstep_def output_event_step_def output_alert_step_def
      shutdown_step_def Close_def flow_ok_def go_simps Let_def
      split: fanin_pc.splits fanout_pc.splits engine_pc.splits list.splits shutdown_pc.splits option.splits
        prod.splits if_splits
      dest: sized_ops sized_process_rule dest!: docker_frame)

lemma pipe_step_flow:
  assumes "pipe_step cfg a s = Inr (Some s')" and "flow_ok s"
  shows "flow_ok s'"
proof -
  from assms(1) have "actor_step cfg a s = Inr (Some s')" by (simp add: pipe_step_def split: if_splits)
  with assms(2) show ?thesis
    by (cases a) (auto dest: main_step_flow goroutine_flow simp: flow_ok_def Cleanup_tick_def split: if_splits)
qed

lemma reachable_flow:
  assumes "reachable cfg eng res s" and "sized 100 (alerts eng)"
  shows "flow_ok s"
  using assms
proof induction
  case start
  then show ?case by (simp add: flow_ok_def pipeline_start_def New_def)
qed (blast intro: pipe_step_flow)

section \<open>Who still listens\<close>

text \<open>A goroutine has left its loop only after the channel it reads from was closed.\<close>

definition only_after :: "bool \<Rightarrow> bool \<Rightarrow> bool" where
  "only_after left closed \<longleftrightarrow> (left \<longrightarrow> closed)"

lemma only_after_simps [simp]:
  "only_after False closed" "only_after left True" "only_after left False \<longleftrightarrow> \<not> left" "only_after True closed \<longleftrightarrow> closed"
  by (simp_all add: only_after_def)

definition loops_ok :: "pipeline \<Rightarrow> bool" where
  "loops_ok s \<longleftrightarrow>
     only_after (mainPC s = MainExit) (ringClosed s)
     \<and> only_after (fanoutPC s = FoDone) (chan_closed (eventsCh s))
     \<and> only_after (enginePC s = EgDone) (chan_closed (engineCh s))
     \<and> only_after (\<not> eventVar (outp s)) (chan_closed (outputCh s))
     \<and> only_after (\<not> alertVar (outp s)) (chan_closed (alerts (engine s)))
     \<and> \<not> returned (outp s)"

lemma output_round_loops:
  assumes "output_round zone c o1 = Some o2" and "\<not> returned o1"
  shows "\<not> returned o2"
    and "eventVar o2 \<longleftrightarrow> eventVar o1 \<and> c \<noteq> EventCase None"
    and "alertVar o2 \<longleftrightarrow> alertVar o1 \<and> c \<noteq> AlertCase None"
  using assms by (cases c; auto simp: print_line_def loop_foot_def split: if_splits option.splits)+

lemma dispatch_loops:
  assumes "dispatch cfg ev s = Inr (Some s')" and "mainPC s = MainGot ev" and "loops_ok s"
  shows "loops_ok s'"
  using assms by (auto simp: dispatch_def loops_ok_def go_simps split: if_splits)

lemma main_step_loops:
  assumes "main_step cfg s = Inr (Some s')" and "loops_ok s"
  shows "loops_ok s'"
proof (cases "mainPC s")
  case MainRead
  have "loops_ok (s\<lparr>ring := rest\<rparr>)" for rest using assms(2) by (simp add: loops_ok_def)
  with MainRead assms show ?thesis
    by (auto simp: main_step_def split: if_splits list.splits option.splits) (auto simp: loops_ok_def)
next
  case MainGot
  with assms show ?thesis by (auto simp: main_step_def dest!: dispatch_loops)
next
  case MainSend
  with assms show ?thesis by (auto simp: main_step_def loops_ok_def go_simps dest: chan_send_closed)
next
  case MainExit
  with assms show ?thesis by (simp add: main_step_def)
qed

lemma fanin_step_loops: "fanin_step s = Inr (Some s') \<Longrightarrow> loops_ok s \<Longrightarrow> loops_ok s'"
  by (cases "faninPC s")
    (auto simp: fanin_step_def loops_ok_def go_simps chan_close_def split: option.splits prod.splits if_splits
      dest!: chan_send_closed chan_recv_closed)

lemma fanout_step_loops: "fanout_step cfg s = Inr (Some s') \<Longrightarrow> loops_ok s \<Longrightarrow> loops_ok s'"
  by (cases "fanoutPC s")
    (auto simp: fanout_step_def loops_ok_def go_simps Let_def split: option.splits prod.splits if_splits
      dest!: chan_send_closed chan_recv_closed)

lemma engine_gstep_loops: "engine_gstep s = Inr (Some s') \<Longrightarrow> loops_ok s \<Longrightarrow> loops_ok s'"
  by (cases "enginePC s")
    (auto simp: engine_gstep_def loops_ok_def go_simps split: option.splits prod.splits list.splits
      dest!: chan_recv_closed process_rule_keeps)

lemma shutdown_step_loops: "shutdown_step s = Inr (Some s') \<Longrightarrow> loops_ok s \<Longrightarrow> loops_ok s'"
  by (auto simp: shutdown_step_def loops_ok_def go_simps chan_close_def split: shutdown_pc.splits if_splits)

lemma docker_loops:
  "docker_step msg s = Inr (Some s') \<Longrightarrow> loops_ok s \<Longrightarrow> loops_ok s'"
  "update_step env s = Inr (Some s') \<Longrightarrow> loops_ok s \<Longrightarrow> loops_ok s'"
  by (auto simp: loops_ok_def dest!: docker_frame)

lemma output_event_loops:
  assumes "output_event_step cfg s = Some s'" and "loops_ok s"
  shows "loops_ok s'"
proof -
  from assms(1) obtain v ch out where recv: "chan_recv (outputCh s) = Some (v, ch)"
    and round: "output_round (localZone cfg) (EventCase v) (outp s) = Some out"
    and s': "outputCh s' = ch" "outp s' = out" "mainPC s' = mainPC s" "ringClosed s' = ringClosed s"
      "fanoutPC s' = fanoutPC s" "eventsCh s' = eventsCh s" "enginePC s' = enginePC s"
      "engineCh s' = engineCh s" "engine s' = engine s"
    by (auto simp: output_event_step_def split: option.splits simp del: output_round.simps)
  from assms(2) have "\<not> returned (outp s)" by (simp add: loops_ok_def)
  with output_round_loops [OF round] chan_recv_closed [OF recv] assms(2) show ?thesis
    by (cases v) (simp_all add: loops_ok_def s')
qed

lemma output_alert_loops:
  assumes "output_alert_step cfg s = Some s'" and "loops_ok s"
  shows "loops_ok s'"
proof -
  from assms(1) obtain v ch out where recv: "chan_recv (alerts (engine s)) = Some (v, ch)"
    and round: "output_round (localZone cfg) (AlertCase v) (outp s) = Some out"
    and s': "alerts (engine s') = ch" "outp s' = out" "mainPC s' = mainPC s" "ringClosed s' = ringClosed s"
      "fanoutPC s' = fanoutPC s" "eventsCh s' = eventsCh s" "enginePC s' = enginePC s"
      "engineCh s' = engineCh s" "outputCh s' = outputCh s"
    by (auto simp: output_alert_step_def split: option.splits simp del: output_round.simps)
  from assms(2) have "\<not> returned (outp s)" by (simp add: loops_ok_def)
  with output_round_loops [OF round] chan_recv_closed [OF recv] assms(2) show ?thesis
    by (cases v) (simp_all add: loops_ok_def s')
qed

lemmas goroutine_loops = main_step_loops fanin_step_loops fanout_step_loops engine_gstep_loops
  shutdown_step_loops docker_loops output_event_loops output_alert_loops

lemma pipe_step_loops:
  assumes "pipe_step cfg a s = Inr (Some s')" and "loops_ok s"
  shows "loops_ok s'"
proof -
  from assms(1) have "actor_step cfg a s = Inr (Some s')" by (simp add: pipe_step_def split: if_splits)
  with assms(2) show ?thesis
    by (cases a) (auto dest: goroutine_loops simp: loops_ok_def split: if_splits)
qed

lemma reachable_loops: "reachable cfg eng res s \<Longrightarrow> loops_ok s"
proof (induction rule: reachable.induct)
  case start
  then show ?case by (simp add: loops_ok_def pipeline_start_def output_start_def)
qed (blast intro: pipe_step_loops)

section \<open>Work\<close>

text \<open>The goroutines that work on samples; the others react to the outside world.\<close>

fun internal :: "actor \<Rightarrow> bool" where
  "internal MainLoop \<longleftrightarrow> True"
| "internal FanIn \<longleftrightarrow> True"
| "internal FanOut \<longleftrightarrow> True"
| "internal EngineLoop \<longleftrightarrow> True"
| "internal OutputEvent \<longleftrightarrow> True"
| "internal OutputAlert \<longleftrightarrow> True"
| "internal a \<longleftrightarrow> False"

definition corr_queue :: "pipeline \<Rightarrow> Event list" where
  "corr_queue s = (case outch (corr s) of None \<Rightarrow> [] | Some ch \<Rightarrow> chan_buf ch)"

definition idle :: "pipeline \<Rightarrow> bool" where
  "idle s \<longleftrightarrow>
     ring s = [] \<and> mainPC s = MainRead \<and> corr_queue s = [] \<and> faninPC s = FiRecv
     \<and> chan_buf (eventsCh s) = [] \<and> fanoutPC s = FoRecv \<and> chan_buf (outputCh s) = []
     \<and> chan_buf (engineCh s) = [] \<and> enginePC s = EgRecv \<and> chan_buf (alerts (engine s)) = []"

text \<open>
  An upper bound for the statements that \<open>n\<close> rules can still cause: every
  stage counts one more than what it hands on, an alert counts one.
\<close>

fun main_work :: "nat \<Rightarrow> main_pc \<Rightarrow> nat" where
  "main_work n (MainGot ev) = 2 * n + 11"
| "main_work n (MainSend e) = 2 * n + 9"
| "main_work n pc = 0"

fun fanin_work :: "nat \<Rightarrow> fanin_pc \<Rightarrow> nat" where
  "fanin_work n (FiSend e) = 2 * n + 9"
| "fanin_work n pc = 0"

fun fanout_work :: "nat \<Rightarrow> fanout_pc \<Rightarrow> nat" where
  "fanout_work n (FoGot e) = 2 * n + 7"
| "fanout_work n (FoSrc e i) = 2 * n + 6"
| "fanout_work n (FoOut e) = 2 * n + 5"
| "fanout_work n (FoEng e) = 2 * n + 3"
| "fanout_work n pc = 0"

fun engine_work :: "engine_pc \<Rightarrow> nat" where
  "engine_work (EgRules e rs) = 2 * length rs + 1"
| "engine_work pc = 0"

definition work :: "nat \<Rightarrow> pipeline \<Rightarrow> nat" where
  "work n s =
     length (ring s) * (2 * n + 12) + main_work n (mainPC s)
     + length (corr_queue s) * (2 * n + 10) + fanin_work n (faninPC s)
     + length (chan_buf (eventsCh s)) * (2 * n + 8) + fanout_work n (fanoutPC s)
     + length (chan_buf (outputCh s))
     + length (chan_buf (engineCh s)) * (2 * n + 2) + engine_work (enginePC s)
     + length (chan_buf (alerts (engine s)))"

definition running :: "pipe_config \<Rightarrow> RuleEngine \<Rightarrow> pipeline \<Rightarrow> bool" where
  "running cfg eng s \<longleftrightarrow>
     shutPC s = ShWait \<and> closing_ok s \<and> deliveries_ok cfg s \<and> rules_ok eng s \<and> flow_ok s \<and> loops_ok s
     \<and> (\<forall>rule\<in>set (rules eng). rSequence rule = None)"

lemma running_open:
  assumes "running cfg eng s"
  obtains ch where "outch (corr s) = Some ch" "\<not> chan_closed ch" "sized 1024 ch"
    "\<not> ringClosed s" "\<not> chan_closed (eventsCh s)" "\<not> chan_closed (outputCh s)"
    "\<not> chan_closed (engineCh s)" "\<not> chan_closed (alerts (engine s))"
    "mainPC s \<noteq> MainExit" "faninPC s \<noteq> FiDone" "fanoutPC s \<noteq> FoDone" "enginePC s \<noteq> EgDone"
    "eventVar (outp s)" "alertVar (outp s)" "\<not> returned (outp s)"
  using assms
  by (auto simp: running_def closing_ok_def loops_ok_def flow_ok_def corr_closed_def)

lemma internal_keeps_shutPC:
  assumes "pipe_step cfg a s = Inr (Some s')" and "internal a"
  shows "shutPC s' = shutPC s"
proof -
  from assms(1) have step: "actor_step cfg a s = Inr (Some s')" by (simp add: pipe_step_def split: if_splits)
  show ?thesis
  proof (cases a)
    case FanIn
    with step show ?thesis
      by (auto simp: fanin_step_def go_simps split: fanin_pc.splits option.splits)
  qed (use step assms(2) in \<open>auto simp: closing_view_def dest!: main_step_closing fanout_step_closing
        engine_gstep_closing output_step_closing\<close>)
qed

lemma running_step:
  assumes "running cfg eng s" and "pipe_step cfg a s = Inr (Some s')" and "internal a"
  shows "running cfg eng s'"
  using assms internal_keeps_shutPC [OF assms(2,3)] pipe_step_closing [OF assms(2)] pipe_step_delivers(1) [OF assms(2)]
    pipe_step_rules [OF assms(2)] pipe_step_flow [OF assms(2)] pipe_step_loops [OF assms(2)]
  by (simp add: running_def)

section \<open>Every statement is progress\<close>

lemma HandleAccept_queue:
  assumes "HandleAccept la lp ra rp cg pid cm c = Inr (Some c')" and "outch c = Some ch"
  shows "\<exists>ch'. outch c' = Some ch' \<and> length (chan_buf ch') \<le> Suc (length (chan_buf ch))"
  using assms
  by (auto simp: HandleAccept_def Let_def go_simps split: option.splits dest: chan_send_buf)

lemma dispatch_work:
  assumes step: "dispatch cfg ev s = Inr (Some s')" and main: "mainPC s = MainGot ev" and ch: "outch (corr s) = Some ch"
  shows "work n s' < work n s"
proof (cases "EventType ev = EVENT_NET_ACCEPT")
  case True
  with step obtain c where "HandleAccept (SrcAddr ev) (SrcPort ev) (DstAddr ev) (DstPort ev)
      (CgroupId ev) (Pid ev) (Comm ev) (corr s) = Inr (Some c)" and s': "s' = s\<lparr>corr := c, mainPC := MainRead\<rparr>"
    by (auto simp: dispatch_def event_type_defs go_simps)
  then obtain ch' where "outch c = Some ch'" "length (chan_buf ch') \<le> Suc (length (chan_buf ch))"
    using HandleAccept_queue [OF _ ch] by blast
  then have "length (chan_buf ch') * (2 * n + 10) \<le> Suc (length (chan_buf ch)) * (2 * n + 10)"
    by (intro mult_right_mono) simp_all
  with \<open>outch c = Some ch'\<close> s' ch main show ?thesis by (simp add: work_def corr_queue_def)
next
  case False
  with step main show ?thesis
    by (auto simp: dispatch_def work_def corr_queue_def HandleConnect_def Let_def split: if_splits)
qed

lemma main_step_work:
  assumes run: "running cfg eng s" and step: "main_step cfg s = Inr (Some s')"
  shows "work n s' < work n s"
proof (cases "mainPC s")
  case MainRead
  obtain ch where ch: "outch (corr s) = Some ch" "\<not> ringClosed s" using running_open [OF run] by metis
  with step MainRead obtain raw rest where ring: "ring s = raw # rest"
    by (auto simp: main_step_def split: list.splits)
  with step MainRead ch show ?thesis
    by (auto simp: main_step_def work_def corr_queue_def split: option.splits)
next
  case (MainGot ev)
  obtain ch where "outch (corr s) = Some ch" using running_open [OF run] by metis
  with step MainGot show ?thesis by (auto simp: main_step_def intro: dispatch_work)
next
  case (MainSend e)
  with step show ?thesis by (auto simp: main_step_def go_simps work_def corr_queue_def dest!: chan_send_buf)
next
  case MainExit
  with step show ?thesis by (simp add: main_step_def)
qed

lemma fanin_step_work:
  assumes run: "running cfg eng s" and step: "fanin_step s = Inr (Some s')"
  shows "work n s' < work n s"
proof -
  obtain ch where ch: "outch (corr s) = Some ch" "\<not> chan_closed ch" using running_open [OF run] by metis
  with step show ?thesis
    by (cases "faninPC s"; auto simp: fanin_step_def go_simps chan_recv_def work_def corr_queue_def
        split: list.splits dest!: chan_send_buf)
qed

lemma fanout_step_work:
  assumes run: "running cfg eng s" and step: "fanout_step cfg s = Inr (Some s')"
  shows "work n s' < work n s"
proof -
  have "\<not> chan_closed (eventsCh s)" using running_open [OF run] by metis
  with step show ?thesis
    by (cases "fanoutPC s"; auto simp: fanout_step_def go_simps chan_recv_def work_def corr_queue_def Let_def
        split: list.splits option.splits dest!: chan_send_buf)
qed

lemma output_step_work:
  assumes run: "running cfg eng s"
  shows "output_event_step cfg s = Some s' \<Longrightarrow> work n s' < work n s"
    and "output_alert_step cfg s = Some s' \<Longrightarrow> work n s' < work n s"
proof -
  have "\<not> chan_closed (outputCh s)" "\<not> chan_closed (alerts (engine s))" using running_open [OF run] by metis+
  then show "output_event_step cfg s = Some s' \<Longrightarrow> work n s' < work n s"
    and "output_alert_step cfg s = Some s' \<Longrightarrow> work n s' < work n s"
    by (auto simp: output_event_step_def output_alert_step_def chan_recv_def work_def corr_queue_def
        split: list.splits simp del: output_round.simps)
qed

lemma process_rule_alerts:
  assumes "rSequence rule = None" and "process_rule e rule r = Inr (Some r')"
  shows "length (chan_buf (alerts r')) \<le> Suc (length (chan_buf (alerts r)))"
  using assms
  by (auto simp: process_rule_def handleThreshold_def emitAlert_def Let_def go_simps case_prod_beta
      split: if_splits dest!: chan_send_buf)

lemma engine_gstep_work:
  assumes run: "running cfg eng s" and step: "engine_gstep s = Inr (Some s')"
  shows "work (length (rules eng)) s' < work (length (rules eng)) s"
proof (cases "enginePC s")
  case EgRecv
  moreover have "\<not> chan_closed (engineCh s)" using running_open [OF run] by metis
  moreover have "rules (engine s) = rules eng" using run by (simp add: running_def rules_ok_def)
  ultimately show ?thesis
    using step by (auto simp: engine_gstep_def chan_recv_def work_def corr_queue_def split: list.splits)
next
  case (EgRules e rs)
  show ?thesis
  proof (cases rs)
    case Nil
    with EgRules step show ?thesis by (auto simp: engine_gstep_def work_def corr_queue_def)
  next
    case (Cons rule rs')
    with EgRules step obtain r where r: "process_rule e rule (engine s) = Inr (Some r)"
      and s': "s' = s\<lparr>engine := r, enginePC := EgRules e rs'\<rparr>"
      by (auto simp: engine_gstep_def go_simps)
    have "rSequence rule = None" using run EgRules Cons by (auto simp: running_def rules_ok_def)
    from process_rule_alerts [OF this r] EgRules Cons s' show ?thesis
      by (simp add: work_def corr_queue_def)
  qed
next
  case EgDone
  with step show ?thesis by (simp add: engine_gstep_def)
qed

lemma internal_step_work:
  assumes "running cfg eng s" and "pipe_step cfg a s = Inr (Some s')" and "internal a"
  shows "work (length (rules eng)) s' < work (length (rules eng)) s"
proof -
  from assms(2) have step: "actor_step cfg a s = Inr (Some s')" by (simp add: pipe_step_def split: if_splits)
  show ?thesis
    by (cases a) (use step assms(1,3) in \<open>auto intro: main_step_work fanin_step_work fanout_step_work
        engine_gstep_work output_step_work\<close>)
qed

section \<open>No deadlock\<close>

text \<open>
  A goroutine that waits does so for one further down: the output always
  reads, the engine waits only for the output, the fan-out for the two
  consumers, the fan-in and the main loop for the fan-out.
\<close>

definition can_step :: "pipe_config \<Rightarrow> actor \<Rightarrow> pipeline \<Rightarrow> bool" where
  "can_step cfg a s \<longleftrightarrow> (\<exists>s'. pipe_step cfg a s = Inr (Some s'))"

lemma can_stepI: "mainPC s \<noteq> MainExit \<Longrightarrow> actor_step cfg a s = Inr (Some s') \<Longrightarrow> can_step cfg a s"
  by (simp add: can_step_def pipe_step_def)

lemma send_empty: "\<not> chan_closed c \<Longrightarrow> sized (Suc n) c \<Longrightarrow> chan_buf c = [] \<Longrightarrow>
    chan_send x c = Inr (Some (c\<lparr>chan_buf := [x]\<rparr>))"
  by (simp add: chan_send_def sized_def)

lemmas send_empty_1024 = send_empty [of _ 1023, simplified]

lemma output_event_live:
  assumes run: "running cfg eng s" and "chan_buf (outputCh s) \<noteq> []"
  shows "can_step cfg OutputEvent s"
proof -
  obtain e es where "chan_buf (outputCh s) = e # es" using assms(2) by (cases "chan_buf (outputCh s)") auto
  moreover have "mainPC s \<noteq> MainExit" "eventVar (outp s)" "\<not> returned (outp s)"
    using running_open [OF run] by metis+
  ultimately show ?thesis by (auto intro!: can_stepI simp: output_event_step_def chan_recv_def)
qed

lemma output_alert_live:
  assumes run: "running cfg eng s" and "chan_buf (alerts (engine s)) \<noteq> []"
  shows "can_step cfg OutputAlert s"
proof -
  obtain a as where "chan_buf (alerts (engine s)) = a # as"
    using assms(2) by (cases "chan_buf (alerts (engine s))") auto
  moreover have "mainPC s \<noteq> MainExit" "alertVar (outp s)" "\<not> returned (outp s)"
    using running_open [OF run] by metis+
  ultimately show ?thesis by (auto intro!: can_stepI simp: output_alert_step_def chan_recv_def)
qed

lemma engine_live:
  assumes run: "running cfg eng s" and "enginePC s \<noteq> EgRecv \<or> chan_buf (engineCh s) \<noteq> []"
    and "chan_buf (alerts (engine s)) = []"
  shows "can_step cfg EngineLoop s"
proof (cases "enginePC s")
  case EgRecv
  then obtain e es where "chan_buf (engineCh s) = e # es" using assms(2) by (cases "chan_buf (engineCh s)") auto
  moreover have "mainPC s \<noteq> MainExit" using running_open [OF run] by metis
  ultimately show ?thesis using EgRecv by (auto intro!: can_stepI simp: engine_gstep_def chan_recv_def)
next
  case (EgRules e rs)
  have main: "mainPC s \<noteq> MainExit" "\<not> chan_closed (alerts (engine s))" using running_open [OF run] by metis+
  show ?thesis
  proof (cases rs)
    case Nil
    with EgRules main show ?thesis by (auto intro!: can_stepI simp: engine_gstep_def)
  next
    case (Cons rule rs')
    have "engine_ready 1 (engine s)"
      using run main(2) assms(3) by (simp add: engine_ready_def running_def flow_ok_def sized_def)
    moreover have "rSequence rule = None" using run EgRules Cons by (auto simp: running_def rules_ok_def)
    moreover have "SrcContainer e \<noteq> None"
      using run EgRules by (auto simp: running_def deliveries_ok_def delivered_ok_def)
    ultimately obtain r where "process_rule e rule (engine s) = Inr (Some r)"
      using process_rule_emits [of rule 0 "engine s" e] by auto
    with EgRules Cons main show ?thesis by (auto intro!: can_stepI simp: engine_gstep_def)
  qed
next
  case EgDone
  with running_open [OF run] show ?thesis by metis
qed

lemma fanout_live:
  assumes run: "running cfg eng s" and "fanoutPC s \<noteq> FoRecv \<or> chan_buf (eventsCh s) \<noteq> []"
    and "chan_buf (outputCh s) = []" and "chan_buf (engineCh s) = []"
  shows "can_step cfg FanOut s"
proof -
  have "mainPC s \<noteq> MainExit" "fanoutPC s \<noteq> FoDone" "\<not> chan_closed (outputCh s)" "\<not> chan_closed (engineCh s)"
    using running_open [OF run] by metis+
  moreover have "sized 1024 (outputCh s)" "sized 1024 (engineCh s)" using run by (simp_all add: running_def flow_ok_def)
  ultimately show ?thesis
    using assms(2-4)
    by (cases "fanoutPC s"; cases "chan_buf (eventsCh s)")
      (auto simp: can_step_def pipe_step_def fanout_step_def chan_recv_def send_empty_1024 Let_def split: option.split)
qed

lemma fanin_live:
  assumes run: "running cfg eng s" and "faninPC s \<noteq> FiRecv \<or> corr_queue s \<noteq> []"
    and "chan_buf (eventsCh s) = []"
  shows "can_step cfg FanIn s"
proof -
  obtain ch where "outch (corr s) = Some ch" "mainPC s \<noteq> MainExit" "faninPC s \<noteq> FiDone" "\<not> chan_closed (eventsCh s)"
    using running_open [OF run] by metis
  moreover have "sized 1024 (eventsCh s)" using run by (simp add: running_def flow_ok_def)
  ultimately show ?thesis
    using assms(2,3)
    by (cases "faninPC s"; cases "corr_queue s")
      (auto intro!: can_stepI simp: fanin_step_def chan_recv_def send_empty_1024 corr_queue_def)
qed

lemma dispatch_live:
  assumes "outch (corr s) = Some ch" and "\<not> chan_closed ch" and "sized 1024 ch" and "chan_buf ch = []"
  shows "\<exists>s'. dispatch cfg ev s = Inr (Some s')"
  using assms
  by (auto simp: dispatch_def HandleAccept_def Let_def send_empty_1024 split: option.split)

lemma main_live:
  assumes run: "running cfg eng s" and "mainPC s \<noteq> MainRead \<or> ring s \<noteq> []"
    and "chan_buf (eventsCh s) = []" and "corr_queue s = []"
  shows "can_step cfg MainLoop s"
proof -
  obtain ch where ch: "outch (corr s) = Some ch" "\<not> chan_closed ch" "sized 1024 ch"
      and main: "mainPC s \<noteq> MainExit" "\<not> ringClosed s" "\<not> chan_closed (eventsCh s)"
    using running_open [OF run] by metis
  have sized: "sized 1024 (eventsCh s)" using run by (simp add: running_def flow_ok_def)
  show ?thesis
  proof (cases "mainPC s")
    case MainRead
    with assms(2) obtain raw rest where ring: "ring s = raw # rest" by (cases "ring s") auto
    with MainRead main show ?thesis
      by (cases "ParseEvent raw") (auto simp: can_step_def pipe_step_def main_step_def)
  next
    case (MainGot ev)
    obtain s' where "dispatch cfg ev s = Inr (Some s')"
      using dispatch_live [OF ch] assms(4) ch(1) by (auto simp: corr_queue_def)
    with MainGot main show ?thesis by (intro can_stepI [of _ _ _ s']) (simp_all add: main_step_def)
  next
    case (MainSend e)
    with main sized assms(3) show ?thesis by (auto intro!: can_stepI simp: main_step_def send_empty_1024)
  qed (use main in simp)
qed

lemma running_progress:
  assumes "running cfg eng s" and "\<not> idle s"
  shows "\<exists>a s'. internal a \<and> pipe_step cfg a s = Inr (Some s')"
proof -
  have "\<exists>a. internal a \<and> can_step cfg a s"
  proof (rule ccontr)
    assume "\<nexists>a. internal a \<and> can_step cfg a s"
    then have stuck: "\<not> can_step cfg a s" if "internal a" for a using that by blast
    have out: "chan_buf (outputCh s) = []" using output_event_live [OF assms(1)] stuck by force
    have alt: "chan_buf (alerts (engine s)) = []" using output_alert_live [OF assms(1)] stuck by force
    have eng: "enginePC s = EgRecv" "chan_buf (engineCh s) = []"
      using engine_live [OF assms(1) _ alt] stuck by force+
    have fo: "fanoutPC s = FoRecv" "chan_buf (eventsCh s) = []"
      using fanout_live [OF assms(1) _ out eng(2)] stuck by force+
    have fi: "faninPC s = FiRecv" "corr_queue s = []" using fanin_live [OF assms(1) _ fo(2)] stuck by force+
    have "mainPC s = MainRead" "ring s = []" using main_live [OF assms(1) _ fo(2) fi(2)] stuck by force+
    with out alt eng fo fi assms(2) show False by (simp add: idle_def)
  qed
  then show ?thesis by (auto simp: can_step_def)
qed

interpretation pd: draining "pipe_step cfg" internal "running cfg eng" "work (length (rules eng))" idle
  for cfg eng
  by unfold_locales (blast intro: running_step internal_step_work running_progress)+

section \<open>From the set-up\<close>

lemma setup_reachable:
  assumes "main_setup unmarshal root attached client_err env opened = Inr (Some s0)"
    and "run (pipe_step cfg) as s0 = Inr (Some s)"
  obtains res where "reachable cfg (engine s0) res s" "sized 100 (alerts (engine s0))"
    "\<not> chan_closed (alerts (engine s0))"
proof -
  obtain eng res where new: "New_engine unmarshal root = Inr (Some eng)" and s0: "s0 = pipeline_start eng res"
    using assms(1) by (auto simp: main_setup_Some)
  have eng: "engine s0 = eng" by (simp add: s0 pipeline_start_def)
  have "reachable cfg eng res s"
    using reachable_run [OF assms(2)] by (simp add: s0 reachable.start)
  moreover have "sized 100 (alerts eng)"
    using new by (cases root) (auto simp: New_engine_iff empty_engine_def New_engine_def [of _ None]
        LoadRules_def visit_def)
  ultimately show thesis using that New_engine_open [OF new] by (simp add: eng)
qed

text \<open>The engine of a new program has no alerts and no windows.\<close>

lemma setup_fresh:
  assumes "main_setup unmarshal root attached client_err env opened = Inr (Some s0)"
  shows "chan_buf (alerts (engine s0)) = []" and "thresholds (engine s0) = Map.empty"
proof -
  obtain eng res where new: "New_engine unmarshal root = Inr (Some eng)" and s0: "s0 = pipeline_start eng res"
    using assms by (auto simp: main_setup_Some)
  then have "root \<noteq> None" by (cases root) (auto simp: New_engine_def LoadRules_def visit_def go_simps empty_engine_def)
  with new obtain rs where "eng = empty_engine\<lparr>rules := rs\<rparr>" by (auto simp: New_engine_iff)
  then show "chan_buf (alerts (engine s0)) = []" and "thresholds (engine s0) = Map.empty"
    by (simp_all add: s0 pipeline_start_def empty_engine_def make_chan_def)
qed

lemma setup_running:
  assumes "main_setup unmarshal root attached client_err env opened = Inr (Some s0)"
    and "run (pipe_step cfg) as s0 = Inr (Some s)" and "shutPC s = ShWait"
    and "\<forall>rule\<in>set (rules (engine s0)). rSequence rule = None"
  shows "running cfg (engine s0) s"
proof -
  obtain res where reach: "reachable cfg (engine s0) res s" "sized 100 (alerts (engine s0))"
      "\<not> chan_closed (alerts (engine s0))"
    using setup_reachable [OF assms(1,2)] by blast
  then show ?thesis
    using assms(3,4) reachable_closing reachable_delivers(1) reachable_rules reachable_flow reachable_loops
    by (auto simp: running_def)
qed

lemma setup_no_panic:
  assumes "main_setup unmarshal root attached client_err env opened = Inr (Some s0)"
    and "run (pipe_step cfg) as s0 = Inr (Some s)" and "shutPC s = ShWait"
    and "\<forall>rule\<in>set (rules (engine s0)). rSequence rule = None" and "docker_ok a"
  shows "pipe_step cfg a s \<noteq> Inl p"
proof -
  obtain res where "reachable cfg (engine s0) res s" "\<not> chan_closed (alerts (engine s0))"
    using setup_reachable [OF assms(1,2)] by blast
  then show ?thesis by (rule no_panic_before_signal [OF _ assms(3) _ assms(4,5)])
qed

end
