(* ===== verification/GlobSpec.thy ===== *)
theory GlobSpec
  imports Glob
begin

text \<open>
  The meaning of the patterns that rules use, and the proof that the matcher
  of \<open>path.Match\<close>, which commits to the leftmost place of every chunk, computes
  it: on patterns without classes and escapes it never reports an error and
  agrees with the definition by backtracking.
\<close>

section \<open>Glob matching without classes and escapes\<close>

text \<open>
  The meaning of a pattern of literals, \<open>?\<close> and \<open>*\<close>: a question mark stands
  for one character and a star for any run of characters, neither for a slash.
\<close>

definition char_ok :: "char \<Rightarrow> char \<Rightarrow> bool" where
  "char_ok c d \<longleftrightarrow> (if c = CHR ''?'' then d \<noteq> CHR ''/'' else c = d)"

fun glob :: "string \<Rightarrow> string \<Rightarrow> bool" where
  "glob [] s = (s = [])"
| "glob (c # p) s =
     (if c = CHR ''*'' then glob p s \<or> (case s of [] \<Rightarrow> False | d # s' \<Rightarrow> d \<noteq> CHR ''/'' \<and> glob (c # p) s')
      else case s of [] \<Rightarrow> False | d # s' \<Rightarrow> char_ok c d \<and> glob p s')"

declare glob.simps(2) [simp del]

lemma glob_rules [simp]:
  "c \<noteq> CHR ''*'' \<Longrightarrow> glob (c # p) [] = False"
  "c \<noteq> CHR ''*'' \<Longrightarrow> glob (c # p) (d # s) = (char_ok c d \<and> glob p s)"
  "glob (CHR ''*'' # p) [] = glob p []"
  "glob (CHR ''*'' # p) (d # s) = (glob p (d # s) \<or> d \<noteq> CHR ''/'' \<and> glob (CHR ''*'' # p) s)"
  by (subst glob.simps, simp)+

definition plain :: "string \<Rightarrow> bool" where
  "plain p \<longleftrightarrow> CHR ''['' \<notin> set p \<and> CHR 0x5C \<notin> set p"

text \<open>A chunk, without stars, at the front of a name.\<close>

fun chunk_ok :: "string \<Rightarrow> string \<Rightarrow> bool" where
  "chunk_ok [] s = True"
| "chunk_ok (c # q) s = (case s of [] \<Rightarrow> False | d # s' \<Rightarrow> char_ok c d \<and> chunk_ok q s')"

lemma chunk_ok_nth: "chunk_ok q s \<longleftrightarrow> length q \<le> length s \<and> (\<forall>i<length q. char_ok (q ! i) (s ! i))"
  by (induction q s rule: chunk_ok.induct) (auto simp: nth_Cons' All_less_Suc2 split: list.splits)

lemma glob_chunk:
  "CHR ''*'' \<notin> set q \<Longrightarrow> glob (q @ r) s \<longleftrightarrow> chunk_ok q s \<and> glob r (drop (length q) s)"
proof (induction q arbitrary: s)
  case (Cons c q)
  then have "c \<noteq> CHR ''*''" and ih: "glob (q @ r) t \<longleftrightarrow> chunk_ok q t \<and> glob r (drop (length q) t)" for t
    by auto
  then show ?case by (cases s) (simp_all add: ih)
qed simp

lemma glob_star:
  "glob (CHR ''*'' # p) s \<longleftrightarrow> (\<exists>k\<le>length s. CHR ''/'' \<notin> set (take k s) \<and> glob p (drop k s))"
proof (induction s)
  case (Cons d s)
  have "(\<exists>k\<le>length (d # s). CHR ''/'' \<notin> set (take k (d # s)) \<and> glob p (drop k (d # s)))
     \<longleftrightarrow> glob p (d # s) \<or> d \<noteq> CHR ''/'' \<and> (\<exists>k\<le>length s. CHR ''/'' \<notin> set (take k s) \<and> glob p (drop k s))"
    (is "?l \<longleftrightarrow> ?r")
  proof
    assume ?l
    then obtain k where k: "k \<le> length (d # s)" "CHR ''/'' \<notin> set (take k (d # s))" "glob p (drop k (d # s))"
      by blast
    then show ?r by (cases k) auto
  next
    assume ?r
    then show ?l
    proof
      assume "glob p (d # s)"
      then show ?l by (intro exI [of _ 0]) simp
    next
      assume "d \<noteq> CHR ''/'' \<and> (\<exists>k\<le>length s. CHR ''/'' \<notin> set (take k s) \<and> glob p (drop k s))"
      then obtain k where "k \<le> length s" "CHR ''/'' \<notin> set (take k s)" "glob p (drop k s)" "d \<noteq> CHR ''/''"
        by blast
      then show ?l by (intro exI [of _ "Suc k"]) simp
    qed
  qed
  with Cons.IH show ?case by simp
qed simp

lemma glob_star_star: "glob (CHR ''*'' # CHR ''*'' # p) s = glob (CHR ''*'' # p) s"
  by (induction s) auto

lemma glob_stars: "glob (replicate (Suc n) CHR ''*'' @ p) s = glob (CHR ''*'' # p) s"
  by (induction n) (simp_all add: glob_star_star del: glob_rules)

lemma glob_only_star: "glob ''*'' s \<longleftrightarrow> CHR ''/'' \<notin> set s"
  by (induction s) auto

section \<open>The greedy choice\<close>

text \<open>
  When a chunk occurs at the front and again further on, with no slash before
  the second occurrence, then there is no slash before its end either: the
  first slash of the chunk would lie, in the first occurrence, before it.
\<close>

lemma no_slash_between:
  assumes q0: "chunk_ok q s" and qk: "chunk_ok q (drop k s)" and k: "0 < k" "k \<le> length s"
    and free: "CHR ''/'' \<notin> set (take k s)"
  shows "CHR ''/'' \<notin> set (take (k + length q) s)"
proof -
  have before: "s ! i \<noteq> CHR ''/''" if "i < k" for i
    using free k that by (metis in_set_conv_nth length_take min.absorb2 nth_take)
  have at0: "char_ok (q ! i) (s ! i)" if "i < length q" for i
    using q0 that by (simp add: chunk_ok_nth)
  have atk: "char_ok (q ! i) (s ! (k + i))" if "i < length q" for i
    using qk that k by (simp add: chunk_ok_nth)
  have qfree: "q ! i \<noteq> CHR ''/''" if "i < length q" for i
    using that
  proof (induction i rule: less_induct)
    case (less i)
    show ?case
    proof
      assume slash: "q ! i = CHR ''/''"
      then have si: "s ! i = CHR ''/''" using at0 [OF less.prems] by (simp add: char_ok_def)
      with before have "k \<le> i" by (meson not_le)
      with k less have "q ! (i - k) \<noteq> CHR ''/''" and "i - k < length q" by simp_all
      with atk [of "i - k"] \<open>k \<le> i\<close> si show False by (auto simp: char_ok_def split: if_splits)
    qed
  qed
  have "s ! i \<noteq> CHR ''/''" if "i < k + length q" for i
  proof (cases "i < k")
    case False
    with that have "i - k < length q" by simp
    with atk [of "i - k"] qfree [of "i - k"] False show ?thesis by (auto simp: char_ok_def split: if_splits)
  qed (rule before)
  moreover have "k + length q \<le> length s" using qk k by (auto simp: chunk_ok_nth)
  ultimately show ?thesis by (auto simp: in_set_conv_nth)
qed

lemma greedy:
  assumes q0: "chunk_ok q s" and star: "CHR ''*'' \<notin> set q"
    and g: "glob (CHR ''*'' # q @ CHR ''*'' # r) s"
  shows "glob (CHR ''*'' # r) (drop (length q) s)"
proof -
  from g obtain k where k: "k \<le> length s" "CHR ''/'' \<notin> set (take k s)"
      "glob (q @ CHR ''*'' # r) (drop k s)" unfolding glob_star [of "q @ CHR ''*'' # r"] by blast
  then have qk: "chunk_ok q (drop k s)" and rest: "glob (CHR ''*'' # r) (drop (length q) (drop k s))"
    using glob_chunk [OF star, of "CHR ''*'' # r" "drop k s"] by simp_all
  show ?thesis
  proof (cases "k = 0")
    case True
    with rest show ?thesis by simp
  next
    case False
    then have "CHR ''/'' \<notin> set (take (k + length q) s)"
      using no_slash_between [OF q0 qk _ k(1,2)] by simp
    then have free: "CHR ''/'' \<notin> set (take k (drop (length q) s))"
      by (metis add.commute in_set_dropD drop_take add_diff_cancel_left')
    from rest obtain j where j: "j \<le> length (drop (length q) (drop k s))"
        "CHR ''/'' \<notin> set (take j (drop (length q) (drop k s)))"
        "glob r (drop j (drop (length q) (drop k s)))" unfolding glob_star [of r] by blast
    have len: "k + length q \<le> length s" using qk k(1) by (auto simp: chunk_ok_nth)
    let ?u = "drop (length q) s"
    have u: "drop (length q) (drop k s) = drop k ?u" by (simp add: add.commute)
    have "take (k + j) ?u = take k ?u @ take j (drop k ?u)" by (simp add: take_add)
    then have "CHR ''/'' \<notin> set (take (k + j) ?u)" using free j(2) unfolding u by simp
    moreover have "k + j \<le> length ?u" using j(1) len unfolding u by simp
    moreover have "glob r (drop (k + j) ?u)" using j(3) unfolding u by (simp add: ac_simps)
    ultimately show ?thesis unfolding glob_star [of r] by blast
  qed
qed


section \<open>The matcher on plain patterns\<close>

lemma plain_Cons: "plain (c # p) \<longleftrightarrow> c \<noteq> CHR ''['' \<and> c \<noteq> CHR 0x5C \<and> plain p"
  by (auto simp: plain_def)

lemma ascii_drop: "ascii s \<Longrightarrow> ascii (drop n s)"
  by (auto simp: ascii_def dest: in_set_dropD)

lemma match_chunk_failed: "plain q \<Longrightarrow> match_chunk True q s = Some None"
  by (induction q arbitrary: s) (simp_all add: match_chunk.simps(2) plain_Cons)

lemma match_chunk_plain:
  "plain q \<Longrightarrow> ascii s \<Longrightarrow>
   match_chunk False q s = Some (if chunk_ok q s then Some (drop (length q) s) else None)"
proof (induction q arbitrary: s)
  case (Cons c q)
  show ?case
  proof (cases s)
    case Nil
    with Cons.prems show ?thesis by (simp add: match_chunk.simps(2) plain_Cons match_chunk_failed)
  next
    case (Cons d s')
    have "snd (decode_rune (d # s')) = 1" using Cons.prems(2) Cons by (simp add: ascii_Cons Let_def)
    with Cons.prems(1) have "match_chunk False (c # q) (d # s') = match_chunk (\<not> char_ok c d) q s'"
      by (simp add: match_chunk.simps(2) plain_Cons char_ok_def)
    with Cons Cons.prems Cons.IH [of s'] show ?thesis
      by (cases "char_ok c d") (simp_all add: plain_Cons ascii_Cons match_chunk_failed)
  qed
qed simp

lemma scan_loop_plain:
  "plain p \<Longrightarrow> scan_loop False p = (takeWhile (\<lambda>c. c \<noteq> CHR ''*'') p, dropWhile (\<lambda>c. c \<noteq> CHR ''*'') p)"
  by (induction p) (simp_all add: plain_Cons)

lemma scanChunk_plain:
  assumes "plain p"
  shows "scanChunk p =
    (let r = dropWhile (\<lambda>c. c = CHR ''*'') p
     in (p \<noteq> r, takeWhile (\<lambda>c. c \<noteq> CHR ''*'') r, dropWhile (\<lambda>c. c \<noteq> CHR ''*'') r))"
proof -
  have "plain (dropWhile (\<lambda>c. c = CHR ''*'') p)"
    using assms by (auto simp: plain_def dest: set_dropWhileD)
  then show ?thesis by (simp add: scanChunk_def scan_loop_plain Let_def)
qed

text \<open>
  The three parts of a pattern: stars, a chunk without stars, and a rest that
  is empty or begins with a star.
\<close>

lemma scanChunk_parts:
  assumes "plain p" and "scanChunk p = (star, q, rest)"
  shows "CHR ''*'' \<notin> set q" and "plain q" and "plain rest"
    and "rest = [] \<or> (\<exists>r. rest = CHR ''*'' # r)"
    and "glob p s \<longleftrightarrow> (if star then glob (CHR ''*'' # q @ rest) s else glob (q @ rest) s)"
    and "star \<Longrightarrow> q = [] \<Longrightarrow> rest = []"
proof -
  define r where "r = dropWhile (\<lambda>c. c = CHR ''*'') p"
  from assms have parts: "star \<longleftrightarrow> p \<noteq> r" "q = takeWhile (\<lambda>c. c \<noteq> CHR ''*'') r"
      "rest = dropWhile (\<lambda>c. c \<noteq> CHR ''*'') r"
    by (simp_all add: scanChunk_plain r_def Let_def)
  have r: "q @ rest = r" by (simp add: parts)
  have plain_r: "plain r" using assms(1) by (auto simp: r_def plain_def dest: set_dropWhileD)
  show "CHR ''*'' \<notin> set q" using set_takeWhileD by (fastforce simp: parts)
  show "plain q" and "plain rest"
    using plain_r by (auto simp: parts plain_def dest: set_takeWhileD set_dropWhileD)
  show rest: "rest = [] \<or> (\<exists>r. rest = CHR ''*'' # r)"
  proof (cases rest)
    case (Cons a l)
    then have "dropWhile (\<lambda>c. c \<noteq> CHR ''*'') r \<noteq> []" using parts(3) by simp
    from hd_dropWhile [OF this] Cons parts(3) show ?thesis by simp
  qed simp
  define stars where "stars = takeWhile (\<lambda>c. c = CHR ''*'') p"
  have p: "p = stars @ r" by (simp add: stars_def r_def)
  have stars: "stars = replicate (length stars) CHR ''*''"
    by (rule replicate_eqI) (auto simp: stars_def dest: set_takeWhileD)
  show "glob p s \<longleftrightarrow> (if star then glob (CHR ''*'' # q @ rest) s else glob (q @ rest) s)"
  proof (cases star)
    case True
    then have "stars \<noteq> []" using parts(1) p by auto
    then obtain n where "length stars = Suc n" by (cases stars) auto
    with stars have "p = replicate (Suc n) CHR ''*'' @ q @ rest" using p r by simp
    then show ?thesis using True by (simp only: glob_stars if_True)
  qed (simp add: parts(1) r)
  have "r = [] \<or> hd r \<noteq> CHR ''*''" using hd_dropWhile [of "\<lambda>c. c = CHR ''*''" p] by (auto simp: r_def)
  then show "star \<Longrightarrow> q = [] \<Longrightarrow> rest = []" using r rest by auto
qed

text \<open>The first place at which the chunk can be put, slashes not skipped.\<close>

fun try_from :: "string \<Rightarrow> bool \<Rightarrow> string \<Rightarrow> string option" where
  "try_from q lastchunk s =
     (if chunk_ok q s \<and> (lastchunk \<longrightarrow> drop (length q) s = []) then Some (drop (length q) s)
      else case s of [] \<Rightarrow> None | d # s' \<Rightarrow> if d = CHR ''/'' then None else try_from q lastchunk s')"

declare try_from.simps [simp del]

lemma star_skip_plain:
  "plain q \<Longrightarrow> ascii s \<Longrightarrow>
   star_skip q lastchunk s =
     Some (case s of [] \<Rightarrow> None | d # s' \<Rightarrow> if d = CHR ''/'' then None else try_from q lastchunk s')"
proof (induction s)
  case (Cons d s)
  define more where "more = (case s of [] \<Rightarrow> None
      | d # s' \<Rightarrow> if d = CHR ''/'' then None else try_from q lastchunk s')"
  from Cons have ih: "star_skip q lastchunk s = Some more" and s: "ascii s"
    by (simp_all add: ascii_Cons more_def)
  have "try_from q lastchunk s = (if chunk_ok q s \<and> (lastchunk \<longrightarrow> drop (length q) s = [])
      then Some (drop (length q) s) else more)"
    unfolding more_def by (rule try_from.simps)
  then show ?case using match_chunk_plain [OF Cons.prems(1) s] ih by auto
qed simp

lemma try_from_last:
  "CHR ''*'' \<notin> set q \<Longrightarrow> try_from q True s = (if glob (CHR ''*'' # q) s then Some [] else None)"
proof (induction s)
  case Nil
  then show ?case using glob_chunk [of q "[]" "[]"] by (subst try_from.simps) auto
next
  case (Cons d s)
  then show ?case using glob_chunk [of q "[]" "d # s"] by (subst try_from.simps) auto
qed

lemma try_from_more:
  assumes "CHR ''*'' \<notin> set q"
  shows "glob (CHR ''*'' # q @ CHR ''*'' # r) s \<longleftrightarrow>
     (case try_from q False s of None \<Rightarrow> False | Some t \<Rightarrow> glob (CHR ''*'' # r) t)"
proof (induction s)
  case Nil
  show ?case using glob_chunk [OF assms, of "CHR ''*'' # r" "[]"] by (subst try_from.simps) auto
next
  case (Cons d s)
  show ?case
  proof (cases "chunk_ok q (d # s)")
    case True
    have "glob (CHR ''*'' # r) (drop (length q) (d # s))" if "glob (CHR ''*'' # q @ CHR ''*'' # r) (d # s)"
      by (rule greedy [OF True assms that])
    moreover have "glob (CHR ''*'' # q @ CHR ''*'' # r) (d # s)"
      if "glob (CHR ''*'' # r) (drop (length q) (d # s))"
      using that True glob_chunk [OF assms, of "CHR ''*'' # r" "d # s"] by simp
    ultimately show ?thesis using True by (subst try_from.simps) auto
  next
    case False
    then show ?thesis
      using Cons.IH glob_chunk [OF assms, of "CHR ''*'' # r" "d # s"] by (subst try_from.simps) auto
  qed
qed

lemma try_from_suffix: "try_from q l s = Some t \<Longrightarrow> ascii s \<Longrightarrow> ascii t"
proof (induction s)
  case Nil
  then show ?case by (subst (asm) try_from.simps) (auto split: if_splits)
next
  case (Cons d s)
  then show ?case
    by (subst (asm) try_from.simps) (auto split: if_splits simp: ascii_Cons intro: ascii_drop)
qed

lemma check_rest_plain: "plain p \<Longrightarrow> check_rest p"
proof (induction p rule: check_rest.induct)
  case (1 p)
  obtain star q rest where sc: "scanChunk p = (star, q, rest)" by (metis prod_cases3)
  note parts = scanChunk_parts [OF "1.prems" sc]
  have "match_chunk False q [] \<noteq> None" using match_chunk_plain [OF parts(2), of "[]"] by (simp add: ascii_def)
  with 1 sc parts(3) show ?case by (subst check_rest.simps) auto
qed

lemma path_Match_plain:
  "plain p \<Longrightarrow> ascii s \<Longrightarrow> path_Match p s = Some (glob p s)"
proof (induction "length p" arbitrary: p s rule: less_induct)
  case less
  show ?case
  proof (cases "p = []")
    case True
    then show ?thesis by (simp add: path_Match.simps)
  next
    case False
    obtain star q rest where sc: "scanChunk p = (star, q, rest)" by (metis prod_cases3)
    note parts = scanChunk_parts [OF less.prems(1) sc]
    have ih: "path_Match rest t = Some (glob rest t)" if "ascii t" for t
      using less.hyps [OF scanChunk_shorter [OF False sc] parts(3) that] .
    note mc = match_chunk_plain [OF parts(2) less.prems(2)]
    have fails: "check_rest rest" by (rule check_rest_plain [OF parts(3)])
    show ?thesis
    proof (cases star)
      case nostar: False
      have "glob p s \<longleftrightarrow> chunk_ok q s \<and> glob rest (drop (length q) s)"
        using parts(5) nostar glob_chunk [OF parts(1)] by simp
      with False nostar sc mc fails ih [OF ascii_drop [OF less.prems(2)]] show ?thesis
        by (subst path_Match.simps) auto
    next
      case star: True
      show ?thesis
      proof (cases "q = []")
        case True
        with parts(5,6) star have "glob p s \<longleftrightarrow> CHR ''/'' \<notin> set s" by (simp add: glob_only_star)
        with False star True sc show ?thesis by (subst path_Match.simps) simp
      next
        case q: False
        define found where "found = try_from q (rest = []) s"
        define more where "more = (case s of [] \<Rightarrow> None
            | d # s' \<Rightarrow> if d = CHR ''/'' then None else try_from q (rest = []) s')"
        have found: "found = (if chunk_ok q s \<and> (rest = [] \<longrightarrow> drop (length q) s = [])
            then Some (drop (length q) s) else more)"
          unfolding more_def found_def by (rule try_from.simps)
        have skip: "star_skip q (rest = []) s = Some more"
          unfolding more_def by (rule star_skip_plain [OF parts(2) less.prems(2)])
        have "path_Match p s = (case found of None \<Rightarrow> Some False | Some t \<Rightarrow> path_Match rest t)"
          unfolding found using False star q sc mc fails skip
          by (subst path_Match.simps) (cases more; auto)
        also have "\<dots> = (case found of None \<Rightarrow> Some False | Some t \<Rightarrow> Some (glob rest t))"
          using ih try_from_suffix [OF _ less.prems(2)] by (auto simp: found_def split: option.splits)
        also have "\<dots> = Some (glob p s)"
        proof (cases "rest = []")
          case True
          with parts(5) star try_from_last [OF parts(1), of s] show ?thesis by (simp add: found_def)
        next
          case False
          with parts(4) obtain r where "rest = CHR ''*'' # r" by blast
          with parts(5) star try_from_more [OF parts(1), of r s] show ?thesis
            by (auto simp: found_def split: option.splits)
        qed
        finally show ?thesis .
      qed
    qed
  qed
qed

end
