(* ===== verification/RuleFiles.thy ===== *)
theory RuleFiles
  imports Drain GlobSpec
begin

text \<open>
  The rules that come with the program, the files of \<open>rules/\<close>, as the values
  that their decoding gives: a key that a file does not have leaves the zero
  value of its field; the scalar of a port goes through \<open>UnmarshalYAML\<close> of
  \<open>internal/ruleengine/portexpr.go\<close>; the lines of a folded text are joined by
  blanks. The properties: every block of every rule has values that match it
  and fit into a sample, no rule is a sequence, and how deep the patterns of the
  escape rule reach.
\<close>

section \<open>Blocks\<close>

definition scalar_port :: "string \<Rightarrow> PortExpr" where
  "scalar_port v = (case UnmarshalYAML (ScalarNode v) zero_PortExpr of Inl err \<Rightarrow> zero_PortExpr | Inr p \<Rightarrow> p)"

text \<open>The blocks of the files constrain one of three groups of fields each.\<close>

definition connection_block :: "string \<Rightarrow> string \<Rightarrow> MatchBlock" where
  "connection_block src_process dst_port =
     MatchBlock ''connection'' src_process '''' '''' '''' zero_PortExpr (scalar_port dst_port) '''' '''' '''' '''' None"

definition file_block :: "string \<Rightarrow> string \<Rightarrow> string \<Rightarrow> MatchBlock" where
  "file_block src_process file_path file_op =
     MatchBlock ''file_open'' src_process '''' '''' '''' zero_PortExpr zero_PortExpr file_path file_op '''' '''' None"

definition exec_block :: "string \<Rightarrow> string \<Rightarrow> string \<Rightarrow> MatchBlock" where
  "exec_block src_process parent_process exec_path =
     MatchBlock ''exec'' src_process '''' '''' '''' zero_PortExpr zero_PortExpr '''' '''' exec_path parent_process None"

definition empty_rule :: Rule where
  "empty_rule =
     \<lparr>rName = '''', rDescription = '''', rSeverity = '''', rMitre = '''', rMatch = None, rAny = [], rAll = [],
      rDetect = \<lparr>Mode = '''', Count = 0, Window = '''', GroupBy = []\<rparr>, rSequence = None\<rparr>"

section \<open>The files\<close>

definition rule_http_daemon_shell :: Rule where
  \<open>rule_http_daemon_shell =
     empty_rule\<lparr>rName := ''http_daemon_shell'',
       rDescription :=
         ''HTTP daemon (apache2 or nginx) launched system shell. This behavior is indicative of a web ''
         @ ''shell attack.'',
       rSeverity := ''HIGH'', rMitre := ''T1505.003'',
       rAny :=
         [exec_block '''' ''apache2'' ''/bin/bash'',
          exec_block '''' ''apache2'' ''/bin/sh'',
          exec_block '''' ''nginx'' ''/bin/bash'',
          exec_block '''' ''nginx'' ''/bin/sh'']\<rparr>\<close>

definition rule_ssh_private_key_read :: Rule where
  \<open>rule_ssh_private_key_read =
     empty_rule\<lparr>rName := ''ssh_private_key_read'',
       rDescription :=
         ''A process opened an SSH private key file for reading. Legitimate use of a private key goes ''
         @ ''through ssh-agent or a direct ssh invocation ''
         @ [CHR 0xE2, CHR 0x80, CHR 0x94]
         @ '' raw reading of the key file (e.g. via cat, cp, scp) strongly suggests exfiltration for ''
         @ ''reuse on another host.''
         @ [CHR 0x0A],
       rSeverity := ''HIGH'', rMitre := ''T1552.004'',
       rAny :=
         [file_block '''' ''/root/.ssh/id_rsa'' ''read'',
          file_block '''' ''/root/.ssh/id_ed25519'' ''read'',
          file_block '''' ''/home/*/.ssh/id_rsa'' ''read'',
          file_block '''' ''/home/*/.ssh/id_ed25519'' ''read'']\<rparr>\<close>

definition rule_ssh_invoked_under_sudo :: Rule where
  \<open>rule_ssh_invoked_under_sudo =
     empty_rule\<lparr>rName := ''ssh_invoked_under_sudo'',
       rDescription :=
         ''An SSH binary was executed with sudo as its direct parent process. Legitimate SSH use does ''
         @ ''not go through sudo. This pattern is the fingerprint of SSH agent socket hijacking: the ''
         @ ''attacker escalates to root via NOPASSWD sudo, then runs "sudo env SSH_AUTH_SOCK=<stolen_socket> ''
         @ ''ssh ..." to authenticate using another user's forwarded agent without possessing the private ''
         @ ''key. Covers Lab 03 (SSH_AUTH_SOCK hijack on jumphost).''
         @ [CHR 0x0A],
       rSeverity := ''HIGH'', rMitre := ''T1563.001'',
       rAny :=
         [exec_block '''' ''sudo'' ''/usr/bin/ssh'',
          exec_block '''' ''sudo'' ''/bin/ssh'']\<rparr>\<close>

definition rule_sshd_outbound_non_ssh_port :: Rule where
  \<open>rule_sshd_outbound_non_ssh_port =
     empty_rule\<lparr>rName := ''sshd_outbound_non_ssh_port'',
       rDescription :=
         ''The SSH daemon (sshd) initiated an outbound TCP connection to a port other than 22. sshd ''
         @ ''normally only listens and accepts inbound connections ''
         @ [CHR 0xE2, CHR 0x80, CHR 0x94]
         @ '' an outbound connection to a non-SSH port is a strong indicator that an authenticated session ''
         @ ''is using local port forwarding (-L flag) to proxy traffic to an otherwise unreachable host ''
         @ ''or service. Covers Lab 04: attacker sets up "ssh -L 18080:victim2:80 root@victim1", causing ''
         @ ''sshd on victim1 to connect to victim2:80 on behalf of the tunnel.''
         @ [CHR 0x0A],
       rSeverity := ''HIGH'', rMitre := ''T1572'',
       rMatch := Some (connection_block ''sshd'' ''!22'')\<rparr>\<close>

definition rule_redis_authorized_keys_write :: Rule where
  \<open>rule_redis_authorized_keys_write =
     empty_rule\<lparr>rName := ''redis_authorized_keys_write'',
       rDescription :=
         ''Detection of the Redis CONFIG SET / BGSAVE authorized_keys injection attack. Redis writes ''
         @ ''its RDB dump via a temp file (temp-N.rdb) then renames it ''
         @ [CHR 0xE2, CHR 0x80, CHR 0x94]
         @ '' so the direct authorized_keys write is never visible via openat. The reliable signal is ''
         @ ''redis-cli (the CLI tool, not the server) connecting to port 6379 from a container that is ''
         @ ''not the Redis server itself: this is the attacker issuing CONFIG SET commands. The secondary ''
         @ ''signal (direct authorized_keys write) is kept for edge cases where a different Redis client ''
         @ ''triggers a direct file write without the temp-file pattern. Covers Lab 05.''
         @ [CHR 0x0A],
       rSeverity := ''CRITICAL'', rMitre := ''T1098.004'',
       rAny :=
         [connection_block ''redis-cli'' ''6379'',
          file_block ''redis-server'' ''/root/.ssh/authorized_keys'' ''write'',
          file_block ''redis-server'' ''/home/*/.ssh/authorized_keys'' ''write'']\<rparr>\<close>

definition rule_postgres_shell_execution :: Rule where
  \<open>rule_postgres_shell_execution =
     empty_rule\<lparr>rName := ''postgres_shell_execution'',
       rDescription :=
         ''A PostgreSQL backend process executed a shell binary. postgres has no legitimate reason ''
         @ ''to spawn an interactive shell. This is the direct eBPF fingerprint of the COPY TO PROGRAM ''
         @ ''attack: the postgres backend calls popen("/bin/sh -c <command>") which produces an execve ''
         @ ''event where the calling process is "postgres" and the spawned binary is /bin/sh. A superuser ''
         @ ''can trigger this with: COPY (SELECT 'x') TO PROGRAM 'touch /tmp/pwned' Covers Lab 06.''
         @ [CHR 0x0A],
       rSeverity := ''CRITICAL'', rMitre := ''T1059'',
       rAny :=
         [exec_block ''postgres'' '''' ''/bin/sh'',
          exec_block ''postgres'' '''' ''/bin/bash'',
          exec_block ''postgres'' '''' ''/usr/bin/bash'']\<rparr>\<close>

definition rule_mongodb_unauthenticated_access :: Rule where
  \<open>rule_mongodb_unauthenticated_access =
     empty_rule\<lparr>rName := ''mongodb_unauthenticated_access'',
       rDescription :=
         ''The mongosh client connected to MongoDB port 27017. In production, application drivers use ''
         @ ''their own connection strings and mongosh is only used for administrative access. An inter-container ''
         @ ''mongosh connection suggests direct manual enumeration of the database, which in a no-auth ''
         @ ''deployment gives full read/write access to all collections. In Lab 08, the attacker extracts ''
         @ ''credentials stored in MongoDB collections, then pivots to victim2. Note: the kernel comm ''
         @ ''for mongosh is "mongosh mongodb" (15 chars including the space) so the glob "mongosh*" is ''
         @ ''required. Network-level detection only ''
         @ [CHR 0xE2, CHR 0x80, CHR 0x94]
         @ '' data volume or query content not inspectable.''
         @ [CHR 0x0A],
       rSeverity := ''HIGH'', rMitre := ''T1213'',
       rMatch := Some (connection_block ''mongosh*'' ''27017'')\<rparr>\<close>

definition rule_couchdb_shell_execution :: Rule where
  \<open>rule_couchdb_shell_execution =
     empty_rule\<lparr>rName := ''couchdb_shell_execution'',
       rDescription :=
         ''CouchDB Erlang VM spawned an OS shell via its child process helper. The actual exec chain ''
         @ ''is: beam.smp ''
         @ [CHR 0xE2, CHR 0x86, CHR 0x92]
         @ '' erl_child_setup ''
         @ [CHR 0xE2, CHR 0x86, CHR 0x92]
         @ '' sh ''
         @ [CHR 0xE2, CHR 0x86, CHR 0x92]
         @ '' execve(/bin/sh). The parent_process for the final shell exec is "erl_child_setup", not ''
         @ ''"beam.smp", because Erlang uses erl_child_setup as a POSIX process spawn helper. Detecting ''
         @ ''parent_process=erl_child_setup is the correct signal: any exec from an Erlang child setup ''
         @ ''process is anomalous ''
         @ [CHR 0xE2, CHR 0x80, CHR 0x94]
         @ '' the CouchDB Erlang VM has no legitimate reason to spawn OS shells through this path. Covers ''
         @ ''Lab 09 (query_server / os_daemons RCE via CouchDB config API).''
         @ [CHR 0x0A],
       rSeverity := ''CRITICAL'', rMitre := ''T1059'',
       rAny :=
         [exec_block '''' ''erl_child_setup'' ''/bin/sh'',
          exec_block '''' ''erl_child_setup'' ''/bin/bash'',
          exec_block '''' ''erl_child_setup'' ''/usr/bin/bash'',
          exec_block ''beam.smp'' '''' ''/bin/sh'',
          exec_block ''beam.smp'' '''' ''/bin/bash'']\<rparr>\<close>

definition rule_java_jvm_shell_execution :: Rule where
  \<open>rule_java_jvm_shell_execution =
     empty_rule\<lparr>rName := ''java_jvm_shell_execution'',
       rDescription :=
         ''A Java JVM process executed a shell binary. The JVM has no legitimate reason to spawn /bin/bash ''
         @ ''or /bin/sh directly ''
         @ [CHR 0xE2, CHR 0x80, CHR 0x94]
         @ '' build systems call specific tools, not bare shells. This is the eBPF fingerprint of Groovy/JSP ''
         @ ''Runtime.exec() RCE: Groovy's ["bash", "-c", "cmd"].execute() and JSP's Runtime.getRuntime().exec() ''
         @ ''both result in the JVM process (comm="java") calling fork()+execve("/bin/bash"). In JDK ''
         @ ''17+, the JVM uses jspawnhelper as an intermediary process for fork/exec: the exec chain ''
         @ ''is java-thread ''
         @ [CHR 0xE2, CHR 0x86, CHR 0x92]
         @ '' jspawnhelper ''
         @ [CHR 0xE2, CHR 0x86, CHR 0x92]
         @ '' /bin/bash. The src_process for the final exec is "jspawnhelper", not "java". Both patterns ''
         @ ''are required. Covers Lab 10 (Jenkins /scriptText unauthenticated Groovy execution) and Lab ''
         @ ''12 (Tomcat Manager WAR ''
         @ [CHR 0xE2, CHR 0x86, CHR 0x92]
         @ '' JSP shell), since both run as java.''
         @ [CHR 0x0A],
       rSeverity := ''CRITICAL'', rMitre := ''T1059'',
       rAny :=
         [exec_block ''java'' '''' ''/bin/bash'',
          exec_block ''java'' '''' ''/bin/sh'',
          exec_block ''java'' '''' ''/usr/bin/bash'',
          exec_block ''jspawnhelper'' '''' ''/bin/bash'',
          exec_block ''jspawnhelper'' '''' ''/bin/sh'',
          exec_block ''jspawnhelper'' '''' ''/usr/bin/bash'']\<rparr>\<close>

definition rule_python_shell_execution :: Rule where
  \<open>rule_python_shell_execution =
     empty_rule\<lparr>rName := ''python_shell_execution'',
       rDescription :=
         ''A Python interpreter process executed a shell binary. This is the eBPF fingerprint of Python ''
         @ ''RCE via os.system() / subprocess / exec: the Python process forks and the child calls execve("/bin/sh", ''
         @ ''["-c", "cmd"]). Covers Lab 11 (Jupyter unauthenticated kernel API ''
         @ [CHR 0xE2, CHR 0x80, CHR 0x94]
         @ '' Python kernel calls os.system()) and Lab 23 (sudo NOPASSWD python3 GTFOBins ''
         @ [CHR 0xE2, CHR 0x80, CHR 0x94]
         @ '' sudo python3 -c 'os.system("/bin/bash")'). Legitimate Python processes in these environments ''
         @ ''have no reason to spawn a shell.''
         @ [CHR 0x0A],
       rSeverity := ''CRITICAL'', rMitre := ''T1059.006'',
       rAny :=
         [exec_block ''python3'' '''' ''/bin/sh'',
          exec_block ''python3'' '''' ''/bin/bash'',
          exec_block ''python'' '''' ''/bin/sh'',
          exec_block ''python'' '''' ''/bin/bash'']\<rparr>\<close>

definition rule_ssh_nonstandard_key_usage :: Rule where
  \<open>rule_ssh_nonstandard_key_usage =
     empty_rule\<lparr>rName := ''ssh_nonstandard_key_usage'',
       rDescription :=
         ''The SSH client read a private key file from an unexpected location outside ~/.ssh. Legitimate ''
         @ ''SSH key usage reads keys from ~/.ssh/ or /etc/ssh/. Reading a key from /tmp is a strong ''
         @ ''indicator that a key was recently exfiltrated (e.g. cloned from a Git repository) and is ''
         @ ''being used immediately for lateral movement. Covers Lab 13: attacker clones a Gitea repo ''
         @ ''containing a committed deploy key, copies it to /tmp/found_deploy_key, and authenticates ''
         @ ''to victim2 with ssh -i /tmp/found_deploy_key.''
         @ [CHR 0x0A],
       rSeverity := ''HIGH'', rMitre := ''T1552.004'',
       rAny :=
         [file_block ''ssh'' ''/tmp/*key*'' ''read'',
          file_block ''ssh'' ''/tmp/*rsa*'' ''read'',
          file_block ''ssh'' ''/tmp/*ed25519*'' ''read'',
          file_block ''ssh'' ''/tmp/*ecdsa*'' ''read'']\<rparr>\<close>

definition rule_privileged_container_proc_escape :: Rule where
  \<open>rule_privileged_container_proc_escape =
     empty_rule\<lparr>rName := ''privileged_container_proc_escape'',
       rDescription :=
         ''A process accessed the host filesystem via /proc/1/root ''
         @ [CHR 0xE2, CHR 0x80, CHR 0x94]
         @ '' the classic privileged container escape path. Inside a --privileged container, /proc/1/root ''
         @ ''is a symlink to host PID 1's root filesystem, giving full read/write access to the host. ''
         @ ''Any openat() call with a path under /proc/1/root that creates or writes a file is unambiguous: ''
         @ ''no legitimate workload uses /proc/1/root as a filesystem path. Covers Lab 15: attacker inside ''
         @ ''privileged container writes /proc/1/root/tmp/pwned. Also detects nsenter usage via exec.''
         @ [CHR 0x0A],
       rSeverity := ''CRITICAL'', rMitre := ''T1611'',
       rAny :=
         [file_block '''' ''/proc/1/root/*'' ''write'',
          file_block '''' ''/proc/1/root/*/*'' ''write'',
          file_block '''' ''/proc/1/root/*/*/*'' ''write'',
          exec_block '''' '''' ''/usr/bin/nsenter'',
          exec_block '''' '''' ''/bin/nsenter'']\<rparr>\<close>

definition rule_docker_tcp_api_access :: Rule where
  \<open>rule_docker_tcp_api_access =
     empty_rule\<lparr>rName := ''docker_tcp_api_access'',
       rDescription :=
         ''A TCP connection was made to port 2375 ''
         @ [CHR 0xE2, CHR 0x80, CHR 0x94]
         @ '' the Docker daemon's unauthenticated HTTP API port. When Docker is configured with -H tcp://0.0.0.0:2375 ''
         @ ''and no TLS, any client on the network has full unauthenticated control over container lifecycle, ''
         @ ''including creating privileged containers with the host filesystem mounted (equivalent to ''
         @ ''remote root). No legitimate traffic should reach port 2375 in a properly hardened environment. ''
         @ ''Covers Lab 16: attacker uses curl to the Docker TCP API to spawn a privileged container.''
         @ [CHR 0x0A],
       rSeverity := ''CRITICAL'', rMitre := ''T1611'',
       rMatch := Some (connection_block '''' ''2375'')\<rparr>\<close>

definition rule_nfs_authorized_keys_write :: Rule where
  \<open>rule_nfs_authorized_keys_write =
     empty_rule\<lparr>rName := ''nfs_authorized_keys_write'',
       rDescription :=
         ''A file named authorized_keys was written via an NFS-mounted path (/mnt/*). When an NFS export ''
         @ ''has no_root_squash, a root user on the client preserves root UID on the server, allowing ''
         @ ''overwrite of authorized_keys in any exported directory. The attacker mounts the NFS share, ''
         @ ''writes their public key to /mnt/<share>/authorized_keys, then SSHes without a password. ''
         @ ''The write appears on the NFS client side at the mountpoint path /mnt/*/authorized_keys. ''
         @ ''Covers Lab 17.''
         @ [CHR 0x0A],
       rSeverity := ''CRITICAL'', rMitre := ''T1098.004'',
       rAny :=
         [file_block '''' ''/mnt/*/authorized_keys'' ''write'',
          connection_block '''' ''2049'']\<rparr>\<close>

definition rule_rsync_authorized_keys_write :: Rule where
  \<open>rule_rsync_authorized_keys_write =
     empty_rule\<lparr>rName := ''rsync_authorized_keys_write'',
       rDescription :=
         ''The rsync daemon wrote to an authorized_keys file. rsync modules exposed without authentication ''
         @ ''allow any client to push arbitrary files to the module's root directory. If the module root ''
         @ ''is or contains ~/.ssh/, the attacker can inject their public key and gain passwordless SSH ''
         @ ''access. The write appears as: src_process=rsync writing to the configured SSH directory ''
         @ ''path. NOTE: rsync actually writes a temp file (e.g. .authorized_keys.H8gpGF) and then renames ''
         @ ''it to authorized_keys via renameat. The BPF openat hook never sees the final authorized_keys ''
         @ ''path. The reliable signal is the rsync client connecting to port 873 (rsync daemon port). ''
         @ ''The direct file-write patterns are kept as a fallback for configurations that bypass the ''
         @ ''temp-file-rename path. Covers Lab 18: attacker pushes public key to rsync://victim/rootssh/authorized_keys.''
         @ [CHR 0x0A],
       rSeverity := ''CRITICAL'', rMitre := ''T1098.004'',
       rAny :=
         [connection_block ''rsync'' ''873'',
          file_block ''rsync'' ''/root/.ssh/authorized_keys'' ''write'',
          file_block ''rsync'' ''/home/*/.ssh/authorized_keys'' ''write'',
          file_block ''rsync'' ''/*/.ssh/authorized_keys'' ''write'']\<rparr>\<close>

definition rule_ftp_php_webshell_upload :: Rule where
  \<open>rule_ftp_php_webshell_upload =
     empty_rule\<lparr>rName := ''ftp_php_webshell_upload'',
       rDescription :=
         ''The FTP daemon (vsftpd) wrote a PHP file to a web-accessible directory. Anonymous FTP write ''
         @ ''access to a directory served by a web server allows an attacker to upload a PHP web shell, ''
         @ ''then trigger OS command execution via HTTP. vsftpd writing .php files to /var/www is unambiguous: ''
         @ ''the FTP server has no legitimate reason to write PHP source files. Covers Lab 19: attacker ''
         @ ''uploads shell.php via anonymous FTP to victim's web root.''
         @ [CHR 0x0A],
       rSeverity := ''CRITICAL'', rMitre := ''T1505.003'',
       rAny :=
         [file_block ''vsftpd'' ''/var/www/html/*.php'' ''write'',
          file_block ''vsftpd'' ''/var/www/html/uploads/*.php'' ''write'',
          file_block ''vsftpd'' ''/var/www/html/pub/*.php'' ''write'',
          file_block ''vsftpd'' ''/var/ftp/pub/*.php'' ''write'',
          file_block ''vsftpd'' ''*.php'' ''write'']\<rparr>\<close>

definition rule_impacket_smb_access :: Rule where
  \<open>rule_impacket_smb_access =
     empty_rule\<lparr>rName := ''impacket_smb_access'',
       rDescription :=
         ''A Python process connected to SMB port 445. This is the signature of Impacket-based SMB ''
         @ ''attacks: smbclient.py, psexec.py, ntlmrelayx.py, and related tools all run as Python and ''
         @ ''open TCP connections to port 445. Unlike the system smbclient binary (which appears as "smbclient"), ''
         @ ''Impacket tools show as "python3". Covers Lab 20 (pass-the-hash via impacket smbclient.py ''
         @ ''with NTLM hash), Lab 21 (PsExec payload upload via impacket admin share access), and Lab ''
         @ ''22 (NTLM relay ''
         @ [CHR 0xE2, CHR 0x80, CHR 0x94]
         @ '' Python relaying authentication to port 445 on victim2).''
         @ [CHR 0x0A],
       rSeverity := ''HIGH'', rMitre := ''T1550.002'',
       rMatch := Some (connection_block ''python3'' ''445'')\<rparr>\<close>

definition rule_suid_cp_passwd_write :: Rule where
  \<open>rule_suid_cp_passwd_write =
     empty_rule\<lparr>rName := ''suid_cp_passwd_write'',
       rDescription :=
         ''The cp binary wrote to /etc/passwd or /etc/shadow. cp is sometimes given the SUID bit as ''
         @ ''a misconfiguration, allowing any user to overwrite root-owned files. The classic exploit: ''
         @ ''craft a /etc/passwd with a new zero-UID entry (no password), cp it over the real /etc/passwd, ''
         @ ''then su to the new user for a root shell. cp writing to /etc/passwd is always anomalous ''
         @ [CHR 0xE2, CHR 0x80, CHR 0x94]
         @ '' the system installer or package manager (not cp) manages this file. Covers Lab 24: lowuser ''
         @ ''abuses SUID /bin/cp to overwrite /etc/passwd with backdoor entry.''
         @ [CHR 0x0A],
       rSeverity := ''CRITICAL'', rMitre := ''T1548.001'',
       rAny :=
         [file_block ''cp'' ''/etc/passwd'' ''write'',
          file_block ''cp'' ''/etc/shadow'' ''write'']\<rparr>\<close>

definition rule_proc_environ_enumeration :: Rule where
  \<open>rule_proc_environ_enumeration =
     empty_rule\<lparr>rName := ''proc_environ_enumeration'',
       rDescription :=
         ''A process read /proc/<pid>/environ ''
         @ [CHR 0xE2, CHR 0x80, CHR 0x94]
         @ '' the environment variable file of another process. Applications store secrets in environment ''
         @ ''variables (12-factor app pattern), making /proc/*/environ a goldmine: database passwords, ''
         @ ''API tokens, cloud credentials, and Vault tokens are all commonly found there. Enumerating ''
         @ ''/proc/*/environ is anomalous for non-privileged processes; a loop over all PIDs appears ''
         @ ''as a burst of these reads. Covers Lab 25 (/proc/environ credential extraction ''
         @ [CHR 0xE2, CHR 0x86, CHR 0x92]
         @ '' PostgreSQL lateral movement) and Lab 30 (extracting VAULT_TOKEN from /proc/*/environ to ''
         @ ''dump HashiCorp Vault secrets).''
         @ [CHR 0x0A],
       rSeverity := ''HIGH'', rMitre := ''T1552.007'',
       rMatch := Some (file_block '''' ''/proc/*/environ'' ''read'')\<rparr>\<close>

definition rule_ansible_adhoc_execution :: Rule where
  \<open>rule_ansible_adhoc_execution =
     empty_rule\<lparr>rName := ''ansible_adhoc_execution'',
       rDescription :=
         ''The ansible binary was executed on the Ansible control node. When an AWX/Tower-like REST ''
         @ ''API accepts ad-hoc command requests without authentication, an attacker calls the API with ''
         @ ''module_name=shell and arbitrary arguments. The server then execs ansible to run the command ''
         @ ''across all managed nodes via SSH. Seeing ansible exec'd from a web service process (Python ''
         @ ''Flask, gunicorn, uwsgi) is the eBPF signal for unauthenticated API abuse. Covers Lab 26: ''
         @ ''attacker POSTs to /api/v2/ad_hoc_commands/ without authentication, triggering ansible to ''
         @ ''SSH into managed-node and run the attacker's shell command.''
         @ [CHR 0x0A],
       rSeverity := ''HIGH'', rMitre := ''T1072'',
       rAny :=
         [exec_block '''' '''' ''/usr/bin/ansible'',
          exec_block '''' '''' ''/usr/local/bin/ansible'',
          exec_block '''' '''' ''/usr/bin/ansible-playbook'',
          exec_block '''' '''' ''/usr/local/bin/ansible-playbook'']\<rparr>\<close>

definition rule_etcd_noauth_access :: Rule where
  \<open>rule_etcd_noauth_access =
     empty_rule\<lparr>rName := ''etcd_noauth_access'',
       rDescription :=
         ''A TCP connection was made to etcd's client port 2379. etcd stores all Kubernetes cluster ''
         @ ''state, including Secrets (service account tokens, TLS certificates, application passwords). ''
         @ ''Without client certificate authentication, any process with network access can dump every ''
         @ ''key via a simple GET request. Connection to port 2379 from an etcdctl client or any non-etcd ''
         @ ''process is anomalous. NOTE: TCP connection events to port 2379 may not be captured in all ''
         @ ''environments (no connection events observed in lab tests). The reliable signal is the exec ''
         @ ''of the etcdctl binary itself ''
         @ [CHR 0xE2, CHR 0x80, CHR 0x94]
         @ '' etcdctl is not part of any normal container workload and its execution is always an administrative ''
         @ ''or attacker action. Covers Lab 27: attacker uses etcdctl to dump all /registry/secrets/ ''
         @ ''keys from etcd, extracts a cluster-admin JWT, and uses it against the Kubernetes API.''
         @ [CHR 0x0A],
       rSeverity := ''CRITICAL'', rMitre := ''T1552.007'',
       rAny :=
         [exec_block '''' '''' ''/usr/local/bin/etcdctl'',
          exec_block '''' '''' ''/usr/bin/etcdctl'',
          exec_block '''' '''' ''/bin/etcdctl'',
          connection_block '''' ''2379'']\<rparr>\<close>

definition rule_vnc_authentication :: Rule where
  \<open>rule_vnc_authentication =
     empty_rule\<lparr>rName := ''vnc_authentication'',
       rDescription :=
         ''A TCP connection was made to VNC port 5900. VNC with a weak or default password gives full ''
         @ ''graphical desktop control, allowing arbitrary command execution via the session (xdotool, ''
         @ ''xterm, keyboard input). Unlike SSH brute-force, VNC has no account lockout by default. A ''
         @ ''connection to port 5900 from any non-vncviewer-test process is anomalous in a server environment ''
         @ ''where VNC is not a legitimate remote access channel. Covers Lab 28: attacker connects with ''
         @ ''Python (vncdotool) using weak password "password" and executes commands on the VNC desktop ''
         @ ''session.''
         @ [CHR 0x0A],
       rSeverity := ''HIGH'', rMitre := ''T1021.005'',
       rMatch := Some (connection_block '''' ''5900'')\<rparr>\<close>

definition rule_memcached_noauth_access :: Rule where
  \<open>rule_memcached_noauth_access =
     empty_rule\<lparr>rName := ''memcached_noauth_access'',
       rDescription :=
         ''A TCP connection was made to Memcached port 11211. Memcached has no authentication. Any ''
         @ ''process on the network can read, write, or delete any cached key ''
         @ [CHR 0xE2, CHR 0x80, CHR 0x94]
         @ '' including application session data, user tokens, and transient secrets. By injecting a ''
         @ ''crafted admin session into Memcached, an attacker hijacks admin privileges in the web application, ''
         @ ''which may expose RCE (e.g. admin ping/backup features that execute shell commands). Covers ''
         @ ''Lab 29: attacker uses netcat to inject an admin session into Memcached, then uses the hijacked ''
         @ ''session cookie to access the admin panel and trigger RCE.''
         @ [CHR 0x0A],
       rSeverity := ''HIGH'', rMitre := ''T1563'',
       rMatch := Some (connection_block '''' ''11211'')\<rparr>\<close>

definition rule_vault_api_access :: Rule where
  \<open>rule_vault_api_access =
     empty_rule\<lparr>rName := ''vault_api_access'',
       rDescription :=
         ''A TCP connection was made to HashiCorp Vault's API port 8200. In this lab, the Vault root ''
         @ ''token is stored in VAULT_TOKEN environment variable of a running process, readable via /proc/<pid>/environ. ''
         @ ''Once extracted, the token grants full access to all Vault secrets (SSH keys, DB passwords, ''
         @ ''TLS certs). A connection to port 8200 from a non-Vault service process (e.g., shell script, ''
         @ ''curl, Python) indicates credential theft and secret dumping in progress. Covers Lab 30: ''
         @ ''attacker reads VAULT_TOKEN from /proc/*/environ on victim1, calls vault:8200/v1/secret/data/ssh-key ''
         @ ''to extract an SSH private key, and uses it to SSH into victim2. Note: /proc/environ enumeration ''
         @ ''(first step) is also detected by proc_environ_enumeration.''
         @ [CHR 0x0A],
       rSeverity := ''CRITICAL'', rMitre := ''T1552.007'',
       rMatch := Some (connection_block '''' ''8200'')\<rparr>\<close>

definition rule_mysqld_php_file_write :: Rule where
  \<open>rule_mysqld_php_file_write =
     empty_rule\<lparr>rName := ''mysqld_php_file_write'',
       rDescription :=
         ''The MySQL connection wrote a .php file to the web root directory. mysqld has no legitimate ''
         @ ''reason to write PHP files to /var/www. This is the eBPF fingerprint of the SELECT INTO OUTFILE ''
         @ ''web shell attack: "SELECT '<?php system($_GET[cmd]); ?>' INTO OUTFILE '/var/www/html/shell.php'" ''
         @ ''causes mysqld itself to open the file with O_WRONLY|O_CREAT, producing a file_open write ''
         @ ''event. The shell is then triggered via HTTP. Covers Lab 07.''
         @ [CHR 0x0A],
       rSeverity := ''CRITICAL'', rMitre := ''T1505.003'',
       rMatch := Some (file_block ''connection'' ''/var/www/html/*.php'' ''write'')\<rparr>\<close>

definition rule_ssh_brute_force :: Rule where
  \<open>rule_ssh_brute_force =
     empty_rule\<lparr>rName := ''ssh_brute_force'',
       rDescription :=
         ''SSH brute-force attack launched from container''
         @ [CHR 0x0A],
       rSeverity := ''HIGH'', rMitre := ''T1110.001'',
       rMatch := Some (connection_block '''' ''22''),
       rDetect := \<lparr>Mode = ''threshold'', Count = 3, Window = ''10s'',
         GroupBy = [''src_container'', ''dst_container'']\<rparr>\<rparr>\<close>

text \<open>The files in the order in which the walk over the folder visits them.\<close>

definition shipped_rules :: "Rule list" where
  "shipped_rules =
     [rule_http_daemon_shell, rule_ssh_private_key_read, rule_ssh_invoked_under_sudo,
      rule_sshd_outbound_non_ssh_port, rule_redis_authorized_keys_write,
      rule_postgres_shell_execution, rule_mongodb_unauthenticated_access,
      rule_couchdb_shell_execution, rule_java_jvm_shell_execution, rule_python_shell_execution,
      rule_ssh_nonstandard_key_usage, rule_privileged_container_proc_escape,
      rule_docker_tcp_api_access, rule_nfs_authorized_keys_write,
      rule_rsync_authorized_keys_write, rule_ftp_php_webshell_upload, rule_impacket_smb_access,
      rule_suid_cp_passwd_write, rule_proc_environ_enumeration, rule_ansible_adhoc_execution,
      rule_etcd_noauth_access, rule_vnc_authentication, rule_memcached_noauth_access,
      rule_vault_api_access, rule_mysqld_php_file_write, rule_ssh_brute_force]"

section \<open>Every block can match\<close>

text \<open>A value that a pattern of literals and stars matches: the stars stand for nothing.\<close>

definition unstar :: "string \<Rightarrow> string" where
  "unstar p = filter (\<lambda>c. c \<noteq> CHR ''*'') p"

definition simple_pattern :: "string \<Rightarrow> bool" where
  "simple_pattern p \<longleftrightarrow>
     list_all (\<lambda>c. byte_of c < 128 \<and> c \<noteq> CHR ''['' \<and> c \<noteq> CHR 0x5C \<and> c \<noteq> CHR ''?'' \<and> c \<noteq> CHR 0x00) p"

lemma glob_unstar: "CHR ''?'' \<notin> set p \<Longrightarrow> glob p (unstar p)"
proof (induction p)
  case (Cons c p)
  show ?case
  proof (cases "c = CHR ''*''")
    case True
    with Cons show ?thesis by (simp add: unstar_def glob.simps(2))
  next
    case False
    with Cons show ?thesis by (auto simp: unstar_def char_ok_def)
  qed
qed (simp add: unstar_def)

lemma accepts_unstar: "simple_pattern p \<Longrightarrow> accepts p (unstar p)"
proof -
  assume "simple_pattern p"
  then have "plain p" "ascii (unstar p)" "CHR ''?'' \<notin> set p"
    by (auto simp: simple_pattern_def plain_def ascii_def unstar_def list_all_iff)
  then show ?thesis by (simp add: accepts_def matchPattern_def path_Match_plain glob_unstar)
qed

definition some_port :: "PortExpr \<Rightarrow> u16" where
  "some_port p = (if IsZero p then 0 else if Negate p then 80 else hd (Ports p))"

text \<open>An event with these values in the fields that the block constrains.\<close>

definition sample_event :: "MatchBlock \<Rightarrow> Event" where
  "sample_event m =
     zero_Event\<lparr>EvType := mbEventType m, SrcProcessName := unstar (mbSrcProcess m), EvDstPort := some_port (mbDstPort m),
       FilePath := unstar (mbFilePath m), FileOp := unstar (mbFileOp m),
       ExecPath := unstar (mbExecPath m), ParentProcessName := unstar (mbParentProcess m)\<rparr>"

definition simple_block :: "MatchBlock \<Rightarrow> bool" where
  "simple_block m \<longleftrightarrow>
     mbNot m = None \<and> mbDstProcess m = '''' \<and> mbSrcContainer m = '''' \<and> mbDstContainer m = ''''
     \<and> IsZero (mbSrcPort m) \<and> accepts_port (mbDstPort m) (some_port (mbDstPort m))
     \<and> list_all simple_pattern [mbSrcProcess m, mbFilePath m, mbFileOp m, mbExecPath m, mbParentProcess m]"

definition same_values :: "Event \<Rightarrow> Event \<Rightarrow> bool" where
  "same_values e e' \<longleftrightarrow>
     EvType e = EvType e' \<and> SrcProcessName e = SrcProcessName e' \<and> EvDstPort e = EvDstPort e'
     \<and> FilePath e = FilePath e' \<and> FileOp e = FileOp e' \<and> ExecPath e = ExecPath e'
     \<and> ParentProcessName e = ParentProcessName e'"

lemma sample_event_matches: "simple_block m \<Longrightarrow> same_values e (sample_event m) \<Longrightarrow> MatchEvent m e"
  by (simp add: simple_block_def MatchEvent_iff sample_event_def same_values_def zero_Event_def accepts_unstar
      accepts_container_def)
    (simp add: accepts_def accepts_port_def)

definition rule_blocks :: "Rule \<Rightarrow> MatchBlock list" where
  "rule_blocks rule = (case rMatch rule of Some m \<Rightarrow> [m] | None \<Rightarrow> rAny rule)"

text \<open>
  The values fit into a sample, and the block constrains only fields that the
  program sets in events of its type.
\<close>

definition fitting :: "MatchBlock \<Rightarrow> bool" where
  "fitting m \<longleftrightarrow>
     length (unstar (mbSrcProcess m)) < 16
     \<and> (mbEventType m = ''connection''
          \<and> mbFilePath m = '''' \<and> mbFileOp m = '''' \<and> mbExecPath m = '''' \<and> mbParentProcess m = ''''
        \<or> mbEventType m = ''file_open'' \<and> length (unstar (mbFilePath m)) < 256
          \<and> mbFileOp m \<in> {''read'', ''write''}
          \<and> some_port (mbDstPort m) = 0 \<and> mbExecPath m = '''' \<and> mbParentProcess m = ''''
        \<or> mbEventType m = ''exec'' \<and> length (unstar (mbExecPath m)) < 256
          \<and> length (unstar (mbParentProcess m)) < 16
          \<and> some_port (mbDstPort m) = 0 \<and> mbFilePath m = '''' \<and> mbFileOp m = '''')"

definition live :: "MatchBlock \<Rightarrow> bool" where
  "live m \<longleftrightarrow> simple_block m \<and> fitting m"

lemma empty_patterns [simp]: "simple_pattern ''''" "unstar '''' = ''''" "IsZero zero_PortExpr" "some_port zero_PortExpr = 0"
  "accepts_port zero_PortExpr p"
  by (simp_all add: simple_pattern_def unstar_def IsZero_def zero_PortExpr_def some_port_def accepts_port_def)

lemma live_connection:
  "simple_pattern sp \<Longrightarrow> length (unstar sp) < 16 \<Longrightarrow> scalar_port v = p \<Longrightarrow> Match p (some_port p) \<Longrightarrow>
   live (connection_block sp v)"
  by (simp add: live_def simple_block_def connection_block_def fitting_def accepts_port_def)

lemma live_file:
  "simple_pattern sp \<Longrightarrow> length (unstar sp) < 16 \<Longrightarrow> simple_pattern fp \<Longrightarrow> length (unstar fp) < 256 \<Longrightarrow>
   op \<in> {''read'', ''write''} \<Longrightarrow> live (file_block sp fp op)"
  by (auto simp: live_def simple_block_def file_block_def fitting_def
      simple_pattern_def [of "''read''"] simple_pattern_def [of "''write''"] unstar_def [of "''read''"] unstar_def [of "''write''"])

lemma live_exec:
  "simple_pattern sp \<Longrightarrow> length (unstar sp) < 16 \<Longrightarrow> simple_pattern pp \<Longrightarrow> length (unstar pp) < 16 \<Longrightarrow>
   simple_pattern ep \<Longrightarrow> length (unstar ep) < 256 \<Longrightarrow> live (exec_block sp pp ep)"
  by (simp add: live_def simple_block_def exec_block_def fitting_def)

lemma scalar_port_show:
  "show_PortExpr p = v \<Longrightarrow> \<not> Wildcard p \<Longrightarrow> Ports p \<noteq> [] \<or> Ranges p \<noteq> [] \<Longrightarrow> scalar_port v = p"
  using ParsePortExpr_show [of p] by (simp add: scalar_port_def)

definition one_port :: "bool \<Rightarrow> u16 \<Rightarrow> PortExpr" where
  "one_port neg q = \<lparr>Ports = [q], Ranges = [], Negate = neg, Wildcard = False\<rparr>"

lemma scalar_ports:
  "scalar_port ''22'' = one_port False 22" "scalar_port ''!22'' = one_port True 22"
  "scalar_port ''445'' = one_port False 445" "scalar_port ''873'' = one_port False 873"
  "scalar_port ''2049'' = one_port False 2049" "scalar_port ''2375'' = one_port False 2375"
  "scalar_port ''2379'' = one_port False 2379" "scalar_port ''5900'' = one_port False 5900"
  "scalar_port ''6379'' = one_port False 6379" "scalar_port ''8200'' = one_port False 8200"
  "scalar_port ''11211'' = one_port False 11211" "scalar_port ''27017'' = one_port False 27017"
  by (rule scalar_port_show;
      simp add: one_port_def show_PortExpr_def dec.simps digit_char_def char_of_def bit_0)+

lemma live_port:
  "simple_pattern sp \<Longrightarrow> length (unstar sp) < 16 \<Longrightarrow> scalar_port v = one_port neg q \<Longrightarrow> q \<noteq> 0 \<Longrightarrow> (neg \<Longrightarrow> q \<noteq> 80) \<Longrightarrow>
   live (connection_block sp v)"
  by (rule live_connection) (auto simp: one_port_def some_port_def IsZero_def Match_iff)

lemmas rule_defs =
  rule_http_daemon_shell_def rule_ssh_private_key_read_def rule_ssh_invoked_under_sudo_def
  rule_sshd_outbound_non_ssh_port_def rule_redis_authorized_keys_write_def rule_postgres_shell_execution_def
  rule_mongodb_unauthenticated_access_def rule_couchdb_shell_execution_def rule_java_jvm_shell_execution_def
  rule_python_shell_execution_def rule_ssh_nonstandard_key_usage_def rule_privileged_container_proc_escape_def
  rule_docker_tcp_api_access_def rule_nfs_authorized_keys_write_def rule_rsync_authorized_keys_write_def
  rule_ftp_php_webshell_upload_def rule_impacket_smb_access_def rule_suid_cp_passwd_write_def
  rule_proc_environ_enumeration_def rule_ansible_adhoc_execution_def rule_etcd_noauth_access_def
  rule_vnc_authentication_def rule_memcached_noauth_access_def rule_vault_api_access_def
  rule_mysqld_php_file_write_def rule_ssh_brute_force_def

lemmas rule_unfold = shipped_rules_def rule_defs rule_blocks_def Rule.simps empty_rule_def option.case
  list.pred_inject list.distinct not_False_eq_True simp_thms

lemmas live_ports = scalar_ports [THEN live_port [rotated 2]]

lemma shipped_blocks: "list_all (\<lambda>rule. rule_blocks rule \<noteq> [] \<and> list_all live (rule_blocks rule)) shipped_rules"
  by (simp only: rule_unfold, intro conjI)
    (rule live_file live_exec live_ports; simp add: simple_pattern_def unstar_def)+

lemma shipped_no_sequence: "list_all (\<lambda>rule. rSequence rule = None \<and> rAll rule = []) shipped_rules"
  by (simp only: rule_unfold)

text \<open>What a reader of one file relies on: a rule matches an event exactly when one of its blocks does.\<close>

lemma shipped_match:
  assumes "rule \<in> set shipped_rules"
  shows "Rule_MatchEvent rule e \<longleftrightarrow> (\<exists>m\<in>set (rule_blocks rule). MatchEvent m e)"
proof -
  have "rule_blocks rule \<noteq> []" "rAll rule = []"
    using assms shipped_blocks shipped_no_sequence by (simp_all add: list_all_iff)
  then show ?thesis by (auto simp: Rule_MatchEvent_iff rule_blocks_def split: option.splits)
qed

section \<open>How deep a star reaches\<close>

text \<open>
  The patterns of the rule against container escapes name one, two or three
  levels below a folder. A path is the folder with its parts.
\<close>

definition below :: "string \<Rightarrow> string list \<Rightarrow> string" where
  "below folder parts = folder @ concat (map (\<lambda>s. CHR ''/'' # s) parts)"

lemma glob_literal:
  "CHR ''*'' \<notin> set l \<Longrightarrow> CHR ''?'' \<notin> set l \<Longrightarrow> glob (l @ p) (l @ s) = glob p s"
  by (induction l) (auto simp: char_ok_def)

lemma take_no_slash:
  assumes "CHR ''/'' \<notin> set (take k (s @ CHR ''/'' # t))" shows "k \<le> length s"
proof (rule ccontr)
  assume "\<not> k \<le> length s"
  then have "CHR ''/'' \<in> set (take k (s @ CHR ''/'' # t))" by (cases "k - length s") auto
  with assms show False by simp
qed

lemma glob_one_level:
  assumes "CHR ''/'' \<notin> set s"
  shows "glob (CHR ''*'' # CHR ''/'' # p) (s @ CHR ''/'' # t) = glob (CHR ''/'' # p) (CHR ''/'' # t)"
proof
  assume "glob (CHR ''*'' # CHR ''/'' # p) (s @ CHR ''/'' # t)"
  then obtain k where k: "CHR ''/'' \<notin> set (take k (s @ CHR ''/'' # t))"
      "glob (CHR ''/'' # p) (drop k (s @ CHR ''/'' # t))"
    unfolding glob_star by blast
  have "k = length s"
  proof (rule ccontr)
    assume "k \<noteq> length s"
    with take_no_slash [OF k(1)] have lt: "k < length s" by simp
    then have "drop k (s @ CHR ''/'' # t) = s ! k # drop (Suc k) s @ CHR ''/'' # t" by (simp add: Cons_nth_drop_Suc)
    with k(2) have "s ! k = CHR ''/''" by (simp add: char_ok_def)
    with assms lt show False by (metis nth_mem)
  qed
  with k(2) show "glob (CHR ''/'' # p) (CHR ''/'' # t)" by simp
next
  assume "glob (CHR ''/'' # p) (CHR ''/'' # t)"
  with assms show "glob (CHR ''*'' # CHR ''/'' # p) (s @ CHR ''/'' # t)"
    unfolding glob_star by (intro exI [of _ "length s"]) simp
qed

lemma glob_no_slash: "CHR ''/'' \<notin> set s \<Longrightarrow> \<not> glob (CHR ''*'' # CHR ''/'' # p) s"
  by (induction s) (auto simp: char_ok_def)

lemma glob_levels:
  "\<forall>s\<in>set parts. CHR ''/'' \<notin> set s \<Longrightarrow>
     glob (concat (replicate n ''/*'')) (concat (map (\<lambda>s. CHR ''/'' # s) parts)) \<longleftrightarrow> length parts = n"
proof (induction n arbitrary: parts)
  case 0
  then show ?case by (cases parts) simp_all
next
  case (Suc n)
  show ?case
  proof (cases parts)
    case Nil
    then show ?thesis by simp
  next
    case (Cons s ss)
    with Suc.prems have s: "CHR ''/'' \<notin> set s" and ss: "\<forall>s\<in>set ss. CHR ''/'' \<notin> set s" by auto
    let ?rest = "concat (map (\<lambda>s. CHR ''/'' # s) ss)" and ?pat = "concat (replicate n ''/*'')"
    have "glob (CHR ''*'' # ?pat) (s @ ?rest) \<longleftrightarrow> glob ?pat ?rest"
    proof (cases n)
      case 0
      with s show ?thesis by (cases ss) (auto simp: glob_only_star)
    next
      case m: (Suc m)
      show ?thesis
      proof (cases ss)
        case Nil
        with m s glob_no_slash [OF s] show ?thesis by simp
      next
        case (Cons s' ss')
        with m glob_one_level [OF s] show ?thesis by simp
      qed
    qed
    with Suc.IH [OF ss] Cons show ?thesis by (simp add: char_ok_def)
  qed
qed

lemma escape_patterns:
  assumes "\<forall>s\<in>set parts. CHR ''/'' \<notin> set s \<and> ascii s"
  shows "matchPattern (''/proc/1/root'' @ concat (replicate n ''/*'')) (below ''/proc/1/root'' parts) \<longleftrightarrow> length parts = n"
proof -
  have "set (concat (replicate n ''/*'')) \<subseteq> set ''/*''" by auto
  then have "plain (''/proc/1/root'' @ concat (replicate n ''/*''))" by (auto simp: plain_def)
  moreover have "ascii (below ''/proc/1/root'' parts)" using assms by (auto simp: below_def ascii_def)
  ultimately show ?thesis
    using assms glob_levels [of parts n] glob_literal [of "''/proc/1/root''"]
    by (simp add: matchPattern_def path_Match_plain below_def del: append_Cons append_Nil)
qed

lemma escape_depth:
  assumes "\<forall>s\<in>set parts. CHR ''/'' \<notin> set s \<and> ascii s"
    and "EvType e = ''file_open''" "FileOp e = ''write''" "FilePath e = below ''/proc/1/root'' parts"
  shows "Rule_MatchEvent rule_privileged_container_proc_escape e \<longleftrightarrow> length parts \<in> {1, 2, 3}"
proof -
  have "matchPattern ''write'' ''write''" by (simp add: matchPattern_def path_Match_plain plain_def ascii_def char_ok_def)
  then have opened: "MatchEvent (file_block '''' p ''write'') e \<longleftrightarrow> p = '''' \<or> matchPattern p (FilePath e)" for p
    using assms(2,3) by (simp add: MatchEvent_iff file_block_def accepts_def accepts_container_def accepts_port_def)
  have executed: "\<not> MatchEvent (exec_block '''' '''' p) e" for p
    using assms(2) by (simp add: MatchEvent_iff exec_block_def)
  have "Rule_MatchEvent rule_privileged_container_proc_escape e \<longleftrightarrow>
      (\<exists>n\<in>{1, 2, 3}. matchPattern (''/proc/1/root'' @ concat (replicate n ''/*'')) (FilePath e))"
    by (simp add: Rule_MatchEvent_iff rule_privileged_container_proc_escape_def empty_rule_def opened executed numeral_eq_Suc)
  then show ?thesis by (simp only: assms(4) escape_patterns [OF assms(1)]) blast
qed

section \<open>The program with its rules\<close>

text \<open>A start on the folder with the shipped files gives the engine these rules.\<close>

lemma shipped_start:
  assumes "main_setup unmarshal (Some d) attached client_err env opened = Inr (Some s0)"
    and "list_all2 (decodes unmarshal) (rule_files d) shipped_rules"
  shows "rules (engine s0) = shipped_rules" and "\<forall>rule\<in>set (rules (engine s0)). rSequence rule = None"
proof -
  from assms(1) obtain eng res where new: "New_engine unmarshal (Some d) = Inr (Some eng)"
    and s0: "s0 = pipeline_start eng res" by (auto simp: main_setup_Some)
  have "New_engine unmarshal (Some d) = Inr (Some (empty_engine\<lparr>rules := shipped_rules\<rparr>))"
    unfolding New_engine_iff using assms(2) by blast
  with new s0 show rules: "rules (engine s0) = shipped_rules" by (auto simp: pipeline_start_def)
  show "\<forall>rule\<in>set (rules (engine s0)). rSequence rule = None"
    unfolding rules using shipped_no_sequence by (simp add: list_all_iff)
qed

end
