(* ===== verification/OutputText.thy ===== *)
theory OutputText
  imports Output
begin

text \<open>
  What a reader of the standard output gets: the text splits back into the
  lines that were printed, and every line is the JSON form of the event or
  alert it was made from.
\<close>

section \<open>Line formats\<close>

definition newline :: char where "newline = CHR 0x0A"

text \<open>The text that \<open>fmt.Println\<close> leaves for some lines, and the lines of a text.\<close>

definition stdout_text :: "string list \<Rightarrow> string" where
  "stdout_text ls = concat (map (\<lambda>l. l @ [newline]) ls)"

fun lines_of :: "string \<Rightarrow> string list" where
  "lines_of [] = []"
| "lines_of (c # s) =
     (if c = newline then [] # lines_of s
      else (case lines_of s of [] \<Rightarrow> [[c]] | l # ls \<Rightarrow> (c # l) # ls))"

lemma lines_of_line: "newline \<notin> set l \<Longrightarrow> lines_of (l @ newline # s) = l # lines_of s"
  by (induction l) auto

lemma lines_of_stdout: "\<forall>l\<in>set ls. newline \<notin> set l \<Longrightarrow> lines_of (stdout_text ls) = ls"
  by (induction ls) (simp_all add: stdout_text_def lines_of_line)

text \<open>
  The contract of a format with one value on a line: a writer that may fail,
  a reader, what the reader sees of a value, and the values it can decode.
\<close>

locale line_format =
  fixes encode :: "'v \<Rightarrow> string option" and decode :: "string \<Rightarrow> 'r option"
    and seen :: "'v \<Rightarrow> 'r" and ok :: "'v \<Rightarrow> bool"
  assumes one_line: "encode v = Some l \<Longrightarrow> newline \<notin> set l"
    and decode_encode: "encode v = Some l \<Longrightarrow> ok v \<Longrightarrow> decode l = Some (seen v)"
begin

lemma written_lines: "lines_of (stdout_text (List.map_filter encode vs)) = List.map_filter encode vs"
  by (rule lines_of_stdout) (auto simp: map_filter_def one_line)

lemma decode_written:
  "\<forall>v\<in>set vs. ok v \<Longrightarrow>
     map decode (List.map_filter encode vs) = map (Some \<circ> seen) (filter (\<lambda>v. encode v \<noteq> None) vs)"
  by (induction vs) (auto simp: List.map_filter_simps decode_encode split: option.splits)

lemma stream_read_back:
  assumes "\<forall>v\<in>set vs. ok v"
  shows "map decode (lines_of (stdout_text (List.map_filter encode vs)))
    = map (Some \<circ> seen) (filter (\<lambda>v. encode v \<noteq> None) vs)"
  using decode_written [OF assms] by (simp only: written_lines)

end

section \<open>The format of the program\<close>

definition read_output :: "string \<Rightarrow> StructuredOutput option" where
  "read_output line =
     Option.bind (parse_json line) (\<lambda>j.
     Option.bind (read_str (members j ''type'')) (\<lambda>ty.
     Option.bind (read_ptr read_event (members j ''event'')) (\<lambda>e.
     Option.bind (read_ptr read_alert (members j ''alert'')) (\<lambda>a.
     Some \<lparr>OutType = ty, OutEvent = e, OutAlert = a\<rparr>))))"

definition clean_output :: "StructuredOutput \<Rightarrow> StructuredOutput" where
  "clean_output v =
     \<lparr>OutType = utf8_clean (OutType v), OutEvent = map_option clean_event (OutEvent v),
      OutAlert = map_option clean_alert (OutAlert v)\<rparr>"

text \<open>
  RFC 3339 writes the zone in minutes, so the instant can be read back when
  the zone is a whole number of minutes.
\<close>

definition whole_minutes :: "(go_time \<Rightarrow> int) \<Rightarrow> StructuredOutput \<Rightarrow> bool" where
  "whole_minutes zone v \<longleftrightarrow>
     (\<forall>e\<in>set_option (OutEvent v). 60 dvd zone (EvTime e)) \<and> (\<forall>a\<in>set_option (OutAlert v). 60 dvd zone (AlTime a))"

lemma json_Marshal_no_C0: "json_Marshal zone v = Some l \<Longrightarrow> no_C0 l"
  by (auto simp: json_Marshal_def no_C0_text bind_eq_Some_conv simp del: json_text.simps)

lemma clean_times [simp]: "EvTime (clean_event e) = EvTime e" "AlTime (clean_alert a) = AlTime a"
  by (simp_all add: clean_event_def clean_alert_def)

lemma event_is_object: "read_ptr f (Some (event_json ts e)) = map_option Some (f (event_json ts e))"
  by (simp add: event_json_def)

lemma alert_is_object: "read_ptr f (Some (alert_json ts a)) = map_option Some (f (alert_json ts a))"
  by (simp add: alert_json_def)

lemma read_marshalled:
  assumes "json_Marshal zone v = Some l" and "whole_minutes zone v"
  shows "read_output l = Some (clean_output v)"
proof -
  from assms(1) obtain ev al where
    ev: "(case OutEvent v of None \<Rightarrow> Some [] | Some e \<Rightarrow> map_option (\<lambda>ts. [(''event'', event_json ts e)])
        (appendStrictRFC3339 (zone (EvTime e)) (EvTime e))) = Some ev"
    and al: "(case OutAlert v of None \<Rightarrow> Some [] | Some a \<Rightarrow> map_option (\<lambda>ts. [(''alert'', alert_json ts a)])
        (appendStrictRFC3339 (zone (AlTime a)) (AlTime a))) = Some al"
    and l: "l = json_text (JObj ((''type'', JStr (OutType v)) # ev @ al))"
    by (auto simp: json_Marshal_def bind_eq_Some_conv simp del: json_text.simps)
  have ev': "map_of (clean_members ev) ''type'' = None" "map_of (clean_members ev) ''alert'' = None"
      "read_ptr read_event (map_of (clean_members ev) ''event'') = Some (map_option clean_event (OutEvent v))"
    using ev assms(2)
    by (auto simp: whole_minutes_def utf8_clean_id ascii_def clean_event_json [OF time_text_plain(1)]
        event_is_object read_event_json instant_of_text split: option.splits)
  have al': "map_of (clean_members al) ''type'' = None" "map_of (clean_members al) ''event'' = None"
      "read_ptr read_alert (map_of (clean_members al) ''alert'') = Some (map_option clean_alert (OutAlert v))"
    using al assms(2)
    by (auto simp: whole_minutes_def utf8_clean_id ascii_def clean_alert_json [OF time_text_plain(1)]
        alert_is_object read_alert_json instant_of_text split: option.splits)
  have names: "utf8_clean ''type'' = ''type''" by (rule utf8_clean_id) (simp add: ascii_def)
  have "parse_json l = Some (JObj ((''type'', JStr (utf8_clean (OutType v))) # clean_members ev @ clean_members al))"
    unfolding l parse_json_line by (simp add: names)
  then show ?thesis
    using ev' al'
    by (cases "map_of (clean_members ev) ''event''") (simp_all add: read_output_def clean_output_def map_add_def)
qed

interpretation json_lines: line_format "json_Marshal zone" read_output clean_output "whole_minutes zone" for zone
proof
  show "newline \<notin> set l" if "json_Marshal zone v = Some l" for v l
    using json_Marshal_no_C0 [OF that] by (auto simp: no_C0_def newline_def)
qed (rule read_marshalled)

text \<open>Which events and alerts are printed.\<close>

lemma json_Marshal_event: "json_Marshal zone (event_output e) \<noteq> None \<longleftrightarrow> appendStrictRFC3339 (zone (EvTime e)) (EvTime e) \<noteq> None"
  by (cases "appendStrictRFC3339 (zone (EvTime e)) (EvTime e)") (simp_all add: json_Marshal_def event_output_def)

lemma json_Marshal_alert: "json_Marshal zone (alert_output a) \<noteq> None \<longleftrightarrow> appendStrictRFC3339 (zone (AlTime a)) (AlTime a) \<noteq> None"
  by (cases "appendStrictRFC3339 (zone (AlTime a)) (AlTime a)") (simp_all add: json_Marshal_def alert_output_def)

fun case_values :: "select_case \<Rightarrow> StructuredOutput list" where
  "case_values (EventCase (Some e)) = [event_output e]"
| "case_values (AlertCase (Some a)) = [alert_output a]"
| "case_values c = []"

lemma case_lines_values: "case_lines zone c = List.map_filter (json_Marshal zone) (case_values c)"
  by (cases c rule: case_values.cases) (auto simp: List.map_filter_simps split: option.splits)

lemma case_lines_concat:
  "concat (map (case_lines zone) cs) = List.map_filter (json_Marshal zone) (concat (map case_values cs))"
  by (induction cs) (simp_all add: case_lines_values map_filter_def List.map_filter_simps)

end
