(* ===== verification/Printed.thy ===== *)
theory Printed
  imports EndToEnd OutputText
begin

text \<open>
  From the state of the goroutines to the standard output: in every
  interleaving, a reader of the text finds the events that the output
  goroutine received, in that order.
\<close>

section \<open>The output goroutine\<close>

text \<open>
  The values marshalled so far, of which the events are the ones received and
  the printed lines the texts that exist.
\<close>

definition loop_value :: "StructuredOutput \<Rightarrow> bool" where
  "loop_value v \<longleftrightarrow> v \<in> range event_output \<union> range alert_output"

definition output_log :: "(go_time \<Rightarrow> int) \<Rightarrow> pipeline \<Rightarrow> StructuredOutput list \<Rightarrow> bool" where
  "output_log zone s vs \<longleftrightarrow>
     printed (outp s) = List.map_filter (json_Marshal zone) vs
     \<and> List.map_filter OutEvent vs = outSeen s
     \<and> list_all loop_value vs"

lemma map_filter_append: "List.map_filter f (xs @ ys) = List.map_filter f xs @ List.map_filter f ys"
  by (simp add: map_filter_def)

lemma output_values [simp]:
  "OutEvent (event_output e) = Some e" "OutEvent (alert_output a) = None"
  "OutAlert (event_output e) = None" "OutAlert (alert_output a) = Some a"
  by (simp_all add: event_output_def alert_output_def)

lemma case_values_ok:
  "list_all loop_value (case_values c)"
  "List.map_filter OutEvent (case_values (EventCase v)) = (case v of None \<Rightarrow> [] | Some e \<Rightarrow> [e])"
  "List.map_filter OutEvent (case_values (AlertCase w)) = []"
  by (cases c rule: case_values.cases; cases v; cases w; simp add: List.map_filter_simps loop_value_def)+

lemma output_round_log:
  assumes "output_round zone c o1 = Some o2" and "printed o1 = List.map_filter (json_Marshal zone) vs"
  shows "printed o2 = List.map_filter (json_Marshal zone) (vs @ case_values c)"
  using output_round_Some(1) [OF assms(1)] assms(2) by (simp add: case_lines_values map_filter_append)

lemma output_event_step_log:
  assumes "output_event_step cfg s = Some s'" and "output_log (localZone cfg) s vs"
  shows "\<exists>v. output_log (localZone cfg) s' (vs @ case_values (EventCase v))"
proof -
  from assms(1) obtain v ch out where "chan_recv (outputCh s) = Some (v, ch)"
    and round: "output_round (localZone cfg) (EventCase v) (outp s) = Some out"
    and s': "s' = s\<lparr>outputCh := ch, outp := out, outSeen := outSeen s @ (case v of None \<Rightarrow> [] | Some e \<Rightarrow> [e])\<rparr>"
    by (auto simp: output_event_step_def split: option.splits simp del: output_round.simps)
  from output_round_log [OF round] assms(2) have "output_log (localZone cfg) s' (vs @ case_values (EventCase v))"
    by (simp add: output_log_def s' map_filter_append case_values_ok)
  then show ?thesis by blast
qed

lemma output_alert_step_log:
  assumes "output_alert_step cfg s = Some s'" and "output_log (localZone cfg) s vs"
  shows "\<exists>v ch. chan_recv (alerts (engine s)) = Some (v, ch)
    \<and> output_log (localZone cfg) s' (vs @ case_values (AlertCase v))
    \<and> engine s' = (engine s)\<lparr>alerts := ch\<rparr> \<and> engSeen s' = engSeen s \<and> enginePC s' = enginePC s"
proof -
  from assms(1) obtain v ch out where recv: "chan_recv (alerts (engine s)) = Some (v, ch)" and
    round: "output_round (localZone cfg) (AlertCase v) (outp s) = Some out"
    and s': "s' = s\<lparr>engine := (engine s)\<lparr>alerts := ch\<rparr>, outp := out\<rparr>"
    by (auto simp: output_alert_step_def split: option.splits simp del: output_round.simps)
  from output_round_log [OF round] assms(2) have "output_log (localZone cfg) s' (vs @ case_values (AlertCase v))"
    by (simp add: output_log_def s' map_filter_append case_values_ok)
  with recv s' show ?thesis by auto
qed

section \<open>The other goroutines\<close>

text \<open>No other statement prints, or receives for the output goroutine.\<close>

definition same_output :: "pipeline \<Rightarrow> pipeline \<Rightarrow> bool" where
  "same_output s s' \<longleftrightarrow> outp s' = outp s \<and> outSeen s' = outSeen s"

lemma dispatch_quiet: "dispatch cfg ev s = Inr (Some s') \<Longrightarrow> same_output s s'"
  by (auto simp: dispatch_def same_output_def go_simps split: if_splits)

lemma main_step_quiet: "main_step cfg s = Inr (Some s') \<Longrightarrow> same_output s s'"
  by (auto simp: main_step_def go_simps split: main_pc.splits if_splits list.splits option.splits
      dest!: dispatch_quiet) (auto simp: same_output_def)

lemma fanin_step_quiet: "fanin_step s = Inr (Some s') \<Longrightarrow> same_output s s'"
  by (auto simp: fanin_step_def same_output_def go_simps split: fanin_pc.splits option.splits prod.splits)

lemma fanout_step_quiet: "fanout_step cfg s = Inr (Some s') \<Longrightarrow> same_output s s'"
  by (cases "fanoutPC s")
    (auto simp: fanout_step_def same_output_def go_simps Let_def split: option.splits prod.splits if_splits)

lemma engine_gstep_quiet: "engine_gstep s = Inr (Some s') \<Longrightarrow> same_output s s'"
  by (cases "enginePC s")
    (auto simp: engine_gstep_def same_output_def go_simps split: option.splits prod.splits list.splits)

lemma shutdown_step_quiet: "shutdown_step s = Inr (Some s') \<Longrightarrow> same_output s s'"
  by (auto simp: shutdown_step_def same_output_def go_simps split: shutdown_pc.splits if_splits)

lemma docker_quiet:
  "docker_step msg s = Inr (Some s') \<Longrightarrow> same_output s s'"
  "update_step env s = Inr (Some s') \<Longrightarrow> same_output s s'"
  by (auto simp: same_output_def dest!: docker_frame)

lemmas goroutine_quiet = main_step_quiet fanin_step_quiet fanout_step_quiet engine_gstep_quiet
  shutdown_step_quiet docker_quiet

text \<open>A step adds to the values marshalled so far; an alert among them comes from the engine's channel.\<close>

lemma pipe_step_log:
  assumes "pipe_step cfg a s = Inr (Some s')" and "output_log (localZone cfg) s vs"
  shows "\<exists>ws. output_log (localZone cfg) s' (vs @ ws)
    \<and> (\<forall>v\<in>set ws. \<forall>x\<in>set_option (OutAlert v). x \<in> set (chan_buf (alerts (engine s))))"
proof -
  have step: "actor_step cfg a s = Inr (Some s')" using assms(1) by (simp add: pipe_step_def split: if_splits)
  consider "output_event_step cfg s = Some s'" | "output_alert_step cfg s = Some s'" | "same_output s s'"
    using step by (cases a) (auto dest: goroutine_quiet simp: same_output_def split: if_splits)
  then show ?thesis
  proof cases
    case 1
    from output_event_step_log [OF this assms(2)] obtain v where
      "output_log (localZone cfg) s' (vs @ case_values (EventCase v))" ..
    moreover have "\<forall>w\<in>set (case_values (EventCase v)). OutAlert w = None" by (cases v) simp_all
    ultimately show ?thesis by (metis option.set_cases option.distinct(1))
  next
    case 2
    from output_alert_step_log [OF this assms(2)] obtain v ch where
      recv: "chan_recv (alerts (engine s)) = Some (v, ch)"
      and log: "output_log (localZone cfg) s' (vs @ case_values (AlertCase v))" by blast
    have "\<forall>w\<in>set (case_values (AlertCase v)). \<forall>x\<in>set_option (OutAlert w). x \<in> set (chan_buf (alerts (engine s)))"
      using recv by (cases v) (auto dest: chan_recv_buf)
    with log show ?thesis by blast
  next
    case 3
    with assms(2) have "output_log (localZone cfg) s' (vs @ [])" by (simp add: same_output_def output_log_def)
    then show ?thesis by (intro exI [of _ "[]"]) simp
  qed
qed

lemma reachable_log:
  assumes "reachable cfg eng res s"
  shows "\<exists>vs. output_log (localZone cfg) s vs"
  using assms
proof induction
  case start
  have "output_log (localZone cfg) (pipeline_start eng res) []"
    by (simp add: output_log_def pipeline_start_def output_start_def List.map_filter_simps)
  then show ?case by blast
next
  case (step s a s')
  from step.IH obtain vs where "output_log (localZone cfg) s vs" ..
  from pipe_step_log [OF step.hyps(2) this] show ?case by blast
qed

section \<open>The standard output\<close>

text \<open>The events that a reader finds in a text.\<close>

definition stream_events :: "string \<Rightarrow> Event list" where
  "stream_events s = List.map_filter (\<lambda>l. Option.bind (read_output l) OutEvent) (lines_of s)"

definition has_text :: "(go_time \<Rightarrow> int) \<Rightarrow> Event \<Rightarrow> bool" where
  "has_text zone e \<longleftrightarrow> appendStrictRFC3339 (zone (EvTime e)) (EvTime e) \<noteq> None"

lemma event_values:
  assumes "list_all loop_value vs"
  shows "List.map_filter OutEvent (map clean_output (filter (\<lambda>v. json_Marshal zone v \<noteq> None) vs))
    = map clean_event (filter (has_text zone) (List.map_filter OutEvent vs))"
  using assms
proof (induction vs)
  case (Cons v vs)
  have seen: "OutEvent (clean_output v) = map_option clean_event (OutEvent v)" by (simp add: clean_output_def)
  from Cons.prems consider e where "v = event_output e" | a where "v = alert_output a"
    by (auto simp: loop_value_def)
  then show ?case
  proof cases
    case (1 e)
    with seen Cons json_Marshal_event [of zone e] show ?thesis
      by (simp add: List.map_filter_simps has_text_def del: not_None_eq)
  next
    case (2 a)
    with seen Cons show ?thesis by (simp add: List.map_filter_simps)
  qed
qed (simp add: List.map_filter_simps)

lemma map_filter_bind: "map g xs = map Some ys \<Longrightarrow> List.map_filter (\<lambda>x. Option.bind (g x) f) xs = List.map_filter f ys"
  by (induction xs arbitrary: ys) (auto simp: List.map_filter_simps split: option.splits)

lemma printed_events:
  assumes "reachable cfg eng res s" and "\<forall>t. 60 dvd localZone cfg t"
  shows "stream_events (stdout_text (printed (outp s))) = map clean_event (filter (has_text (localZone cfg)) (outSeen s))"
proof -
  obtain vs where vs: "output_log (localZone cfg) s vs" using reachable_log [OF assms(1)] ..
  have "whole_minutes (localZone cfg) v" for v using assms(2) by (simp add: whole_minutes_def)
  then have "map read_output (lines_of (stdout_text (List.map_filter (json_Marshal (localZone cfg)) vs)))
      = map Some (map clean_output (filter (\<lambda>v. json_Marshal (localZone cfg) v \<noteq> None) vs))"
    using json_lines.stream_read_back [of vs "localZone cfg"] by simp
  from map_filter_bind [OF this, of OutEvent] event_values [of vs "localZone cfg"] vs show ?thesis
    by (simp add: stream_events_def output_log_def)
qed

lemma printed_lines:
  assumes "reachable cfg eng res s"
  shows "lines_of (stdout_text (printed (outp s))) = printed (outp s)"
proof -
  obtain vs where "output_log (localZone cfg) s vs" using reachable_log [OF assms] ..
  then show ?thesis by (simp add: output_log_def json_lines.written_lines)
qed

text \<open>A schedule after which the output goroutine has received one event leaves that event in the text.\<close>

lemma one_event_printed:
  assumes "run (pipe_step cfg) as (pipeline_start eng res) = Inr (Some s)" and "outSeen s = [e]"
    and "\<forall>t. 60 dvd localZone cfg t" and "has_text (localZone cfg) e"
  shows "stream_events (stdout_text (printed (outp s))) = [clean_event e]"
  using printed_events [OF reachable_run [OF assms(1) reachable.start] assms(3)] assms(2,4) by simp

text \<open>The times that the kernel clock gives have a text, on a machine booted after 1970 and before 2262.\<close>

lemma kernel_time_has_text:
  assumes "86400 * 10 ^ 9 \<le> boot" "boot < 2 ^ 63" "unat k < 2 ^ 63" "\<forall>t. \<bar>zone t\<bar> < 86400"
    and "EvTime e = KTimeToTime boot k"
  shows "has_text zone e"
proof -
  have t: "EvTime e = boot + int (unat k)" using assms(3,5) by (simp add: KTimeToTime_small)
  have k: "int (unat k) < 2 ^ 63" using assms(3) by (metis of_nat_less_iff of_nat_numeral of_nat_power)
  have "\<bar>zone (EvTime e)\<bar> < 86400" using assms(4) by blast
  moreover have "0 \<le> b + n \<and> b + n < 2 ^ 64 \<and> 0 \<le> b + n + z * 1000000000"
    if "86400 * 10 ^ 9 \<le> b" "b < 2 ^ 63" "0 \<le> n" "n < 2 ^ 63" "\<bar>z\<bar> < 86400" for b n z :: int
    using that by simp
  ultimately have "0 \<le> EvTime e" "EvTime e < 2 ^ 64" "0 \<le> EvTime e + zone (EvTime e) * 1000000000"
    using assms(1,2) k by (simp_all only: t of_nat_0_le_iff)
  from time_text_exists [OF this] assms(4) show ?thesis by (simp add: has_text_def)
qed

end
