(* ===== verification/AlertOrigin.thy ===== *)
theory AlertOrigin
  imports Printed
begin

text \<open>
  Where alerts come from: in every interleaving, an alert that the program
  prints was raised by one of its rules for an event that the engine received.
\<close>

section \<open>One rule\<close>

text \<open>What has to hold of an event for which a rule raises an alert.\<close>

definition may_alert :: "Rule \<Rightarrow> Event \<Rightarrow> bool" where
  "may_alert rule e \<longleftrightarrow>
     (case rSequence rule of
        None \<Rightarrow> Rule_MatchEvent rule e
      | Some seq \<Rightarrow> (\<exists>step\<in>set (Steps seq). MatchEvent step e))"

definition raises :: "Rule \<Rightarrow> Event \<Rightarrow> RuleEngine \<Rightarrow> RuleEngine \<Rightarrow> bool" where
  "raises rule e r r' \<longleftrightarrow>
     (\<exists>n. chan_buf (alerts r') = chan_buf (alerts r) @ replicate n (rule_alert rule e))"

lemma raises_none: "alerts r' = alerts r \<Longrightarrow> raises rule e r r'"
  unfolding raises_def by (intro exI [of _ 0]) simp

lemma raises_trans: "raises rule e r r1 \<Longrightarrow> raises rule e r1 r2 \<Longrightarrow> raises rule e r r2"
  unfolding raises_def by (metis append.assoc replicate_add)

lemma emitAlert_raises:
  "emitAlert (rule_alert rule e) r1 = Inr (Some r') \<Longrightarrow> alerts r1 = alerts r \<Longrightarrow> raises rule e r r'"
  unfolding raises_def
  by (intro exI [of _ 1]) (auto simp: emitAlert_def go_simps dest!: chan_send_buf)

lemma handleThreshold_raises: "handleThreshold rule e r = Inr (Some r') \<Longrightarrow> raises rule e r r'"
  by (auto simp: handleThreshold_def Let_def go_simps case_prod_beta split: if_splits
      intro: raises_none elim: emitAlert_raises)

lemma sequence_round_raises:
  "sequence_round rule seq key e i step r = Inr (Some r') \<Longrightarrow> raises rule e r r' \<and> (MatchEvent step e \<or> r' = r)"
  by (auto simp: sequence_round_def Let_def go_simps case_prod_beta split: if_splits option.splits
      intro: raises_none elim: emitAlert_raises)

lemma sequence_loop_raises:
  "sequence_loop rule seq key e i steps r = Inr (Some r') \<Longrightarrow>
     raises rule e r r' \<and> ((\<exists>step\<in>set steps. MatchEvent step e) \<or> r' = r)"
proof (induction steps arbitrary: i r)
  case Nil
  then show ?case by (simp add: raises_none)
next
  case (Cons step steps)
  from Cons.prems obtain r1 where r1: "sequence_round rule seq key e i step r = Inr (Some r1)"
    "sequence_loop rule seq key e (Suc i) steps r1 = Inr (Some r')"
    by (auto simp: go_simps split: option.splits)
  from sequence_round_raises [OF r1(1)] Cons.IH [OF r1(2)] show ?case by (auto intro: raises_trans)
qed

lemma process_rule_raises:
  assumes "process_rule e rule r = Inr (Some r')"
  shows "raises rule e r r' \<and> (may_alert rule e \<or> alerts r' = alerts r)"
proof (cases "rSequence rule")
  case None
  with assms show ?thesis
    by (auto simp: process_rule_def may_alert_def split: if_splits
        intro: raises_none handleThreshold_raises emitAlert_raises [OF _ refl])
next
  case (Some seq)
  with assms obtain key where "sequence_loop rule seq key e 0 (Steps seq) r = Inr (Some r')"
    by (auto simp: process_rule_def handleSequence_def go_simps)
  from sequence_loop_raises [OF this] Some show ?thesis by (auto simp: may_alert_def)
qed

section \<open>The goroutines\<close>

definition origin :: "Rule list \<Rightarrow> Event list \<Rightarrow> Alert \<Rightarrow> bool" where
  "origin rs seen a \<longleftrightarrow>
     (\<exists>rule\<in>set rs. \<exists>e\<in>set seen. may_alert rule e \<and> a = rule_alert rule e)"

lemma originI: "rule \<in> set rs \<Longrightarrow> e \<in> set seen \<Longrightarrow> may_alert rule e \<Longrightarrow> origin rs seen (rule_alert rule e)"
  by (auto simp: origin_def)

lemma origin_more: "set seen \<subseteq> set seen' \<Longrightarrow> origin rs seen a \<Longrightarrow> origin rs seen' a"
  by (auto simp: origin_def)

text \<open>The engine goroutine works on an event it received, with rules it was given.\<close>

fun at_work :: "Rule list \<Rightarrow> Event list \<Rightarrow> engine_pc \<Rightarrow> bool" where
  "at_work rs seen (EgRules e todo) \<longleftrightarrow> e \<in> set seen \<and> set todo \<subseteq> set rs"
| "at_work rs seen pc \<longleftrightarrow> True"

definition engine_origin :: "Rule list \<Rightarrow> pipeline \<Rightarrow> bool" where
  "engine_origin rs s \<longleftrightarrow>
     rules (engine s) = rs \<and> list_all (origin rs (engSeen s)) (chan_buf (alerts (engine s)))
     \<and> at_work rs (engSeen s) (enginePC s)"

definition same_engine :: "pipeline \<Rightarrow> pipeline \<Rightarrow> bool" where
  "same_engine s s' \<longleftrightarrow> engine s' = engine s \<and> engSeen s' = engSeen s \<and> enginePC s' = enginePC s"

lemma same_engine_origin: "same_engine s s' \<Longrightarrow> engine_origin rs s \<Longrightarrow> engine_origin rs s'"
  by (simp add: same_engine_def engine_origin_def)

lemma dispatch_same_engine: "dispatch cfg ev s = Inr (Some s') \<Longrightarrow> same_engine s s'"
  by (auto simp: dispatch_def same_engine_def go_simps split: if_splits)

lemma main_step_same_engine: "main_step cfg s = Inr (Some s') \<Longrightarrow> same_engine s s'"
  by (auto simp: main_step_def go_simps split: main_pc.splits if_splits list.splits option.splits
      dest!: dispatch_same_engine) (auto simp: same_engine_def)

lemma fanin_step_same_engine: "fanin_step s = Inr (Some s') \<Longrightarrow> same_engine s s'"
  by (auto simp: fanin_step_def same_engine_def go_simps split: fanin_pc.splits option.splits prod.splits)

lemma fanout_step_same_engine: "fanout_step cfg s = Inr (Some s') \<Longrightarrow> same_engine s s'"
  by (cases "fanoutPC s")
    (auto simp: fanout_step_def same_engine_def go_simps Let_def split: option.splits prod.splits if_splits)

lemma shutdown_step_same_engine: "shutdown_step s = Inr (Some s') \<Longrightarrow> same_engine s s'"
  by (auto simp: shutdown_step_def same_engine_def go_simps split: shutdown_pc.splits if_splits)

lemma docker_same_engine:
  "docker_step msg s = Inr (Some s') \<Longrightarrow> same_engine s s'"
  "update_step env s = Inr (Some s') \<Longrightarrow> same_engine s s'"
  by (auto simp: same_engine_def dest!: docker_frame)

lemma output_event_step_same_engine: "output_event_step cfg s = Some s' \<Longrightarrow> same_engine s s'"
  by (auto simp: output_event_step_def same_engine_def split: option.splits prod.splits simp del: output_round.simps)

lemmas goroutine_same_engine = main_step_same_engine fanin_step_same_engine fanout_step_same_engine
  shutdown_step_same_engine docker_same_engine output_event_step_same_engine

lemma output_alert_step_origin: "output_alert_step cfg s = Some s' \<Longrightarrow> engine_origin rs s \<Longrightarrow> engine_origin rs s'"
  by (auto simp: output_alert_step_def engine_origin_def chan_recv_def
      split: option.splits list.splits if_splits simp del: output_round.simps)

lemma engine_gstep_origin:
  assumes "engine_gstep s = Inr (Some s')" and "engine_origin rs s"
  shows "engine_origin rs s' \<and> set (engSeen s) \<subseteq> set (engSeen s')"
proof (cases "enginePC s")
  case EgRecv
  have "list_all (origin rs (engSeen s @ [e])) as" if "list_all (origin rs (engSeen s)) as" for e as
    using that by (auto simp: list_all_iff intro: origin_more [of "engSeen s"])
  with EgRecv assms show ?thesis
    by (auto simp: engine_gstep_def engine_origin_def split: option.splits prod.splits)
next
  case (EgRules e todo)
  show ?thesis
  proof (cases todo)
    case Nil
    with EgRules assms show ?thesis by (auto simp: engine_gstep_def engine_origin_def)
  next
    case (Cons rule todo')
    with EgRules assms(1) obtain r where r: "process_rule e rule (engine s) = Inr (Some r)"
      and s': "s' = s\<lparr>engine := r, enginePC := EgRules e todo'\<rparr>"
      by (auto simp: engine_gstep_def go_simps)
    from process_rule_keeps [OF r] process_rule_raises [OF r] EgRules Cons assms(2) show ?thesis
      by (auto simp: s' engine_origin_def raises_def list_all_iff intro: originI)
  qed
next
  case EgDone
  with assms show ?thesis by (simp add: engine_gstep_def)
qed

lemma output_alert_step_seen: "output_alert_step cfg s = Some s' \<Longrightarrow> engSeen s' = engSeen s"
  by (auto simp: output_alert_step_def split: option.splits simp del: output_round.simps)

lemma pipe_step_origin:
  assumes "pipe_step cfg a s = Inr (Some s')" and "engine_origin rs s"
  shows "engine_origin rs s' \<and> set (engSeen s) \<subseteq> set (engSeen s')"
proof -
  have step: "actor_step cfg a s = Inr (Some s')" using assms(1) by (simp add: pipe_step_def split: if_splits)
  consider "engine_gstep s = Inr (Some s')" | "output_alert_step cfg s = Some s'" | "same_engine s s'"
    using step by (cases a) (auto dest: goroutine_same_engine simp: same_engine_def split: if_splits)
  then show ?thesis
  proof cases
    case 1
    from engine_gstep_origin [OF this assms(2)] show ?thesis .
  next
    case 2
    from output_alert_step_origin [OF this assms(2)] output_alert_step_seen [OF this] show ?thesis by simp
  next
    case 3
    from same_engine_origin [OF this assms(2)] 3 show ?thesis by (simp add: same_engine_def)
  qed
qed

section \<open>What is printed\<close>

text \<open>The values that the output goroutine has marshalled, with the origin of their alerts.\<close>

definition sound_log :: "(go_time \<Rightarrow> int) \<Rightarrow> Rule list \<Rightarrow> pipeline \<Rightarrow> StructuredOutput list \<Rightarrow> bool" where
  "sound_log zone rs s vs \<longleftrightarrow>
     output_log zone s vs \<and> engine_origin rs s
     \<and> (\<forall>v\<in>set vs. \<forall>a\<in>set_option (OutAlert v). origin rs (engSeen s) a)"

lemma pipe_step_sound:
  assumes "pipe_step cfg a s = Inr (Some s')" and "sound_log (localZone cfg) rs s vs"
  shows "\<exists>vs. sound_log (localZone cfg) rs s' vs"
proof -
  from assms(2) have log: "output_log (localZone cfg) s vs" and orig: "engine_origin rs s"
    and old: "\<forall>v\<in>set vs. \<forall>a\<in>set_option (OutAlert v). origin rs (engSeen s) a"
    by (simp_all add: sound_log_def)
  from pipe_step_log [OF assms(1) log] obtain ws where ws: "output_log (localZone cfg) s' (vs @ ws)"
    "\<forall>v\<in>set ws. \<forall>x\<in>set_option (OutAlert v). x \<in> set (chan_buf (alerts (engine s)))" by blast
  have "origin rs (engSeen s) x" if "v \<in> set (vs @ ws)" "x \<in> set_option (OutAlert v)" for v x
    using that old ws(2) orig by (auto simp: engine_origin_def list_all_iff)
  with ws(1) pipe_step_origin [OF assms(1) orig] have "sound_log (localZone cfg) rs s' (vs @ ws)"
    by (auto simp: sound_log_def intro: origin_more [of "engSeen s"])
  then show ?thesis ..
qed

lemma reachable_sound:
  assumes "reachable cfg eng res s" and "chan_buf (alerts eng) = []"
  shows "\<exists>vs. sound_log (localZone cfg) (rules eng) s vs"
  using assms(1)
proof induction
  case start
  have "sound_log (localZone cfg) (rules eng) (pipeline_start eng res) []"
    using assms(2)
    by (simp add: sound_log_def output_log_def engine_origin_def pipeline_start_def output_start_def
        List.map_filter_simps)
  then show ?case ..
next
  case (step s a s')
  from step.IH obtain vs where "sound_log (localZone cfg) (rules eng) s vs" ..
  from pipe_step_sound [OF step.hyps(2) this] show ?case .
qed

definition stream_alerts :: "string \<Rightarrow> Alert list" where
  "stream_alerts s = List.map_filter (\<lambda>l. Option.bind (read_output l) OutAlert) (lines_of s)"

lemma printed_alerts:
  assumes "reachable cfg eng res s" and "\<forall>t. 60 dvd localZone cfg t" and "chan_buf (alerts eng) = []"
    and "a \<in> set (stream_alerts (stdout_text (printed (outp s))))"
  shows "\<exists>rule\<in>set (rules eng). \<exists>e\<in>set (engSeen s). may_alert rule e \<and> a = clean_alert (rule_alert rule e)"
proof -
  obtain vs where vs: "sound_log (localZone cfg) (rules eng) s vs" using reachable_sound [OF assms(1,3)] ..
  have "whole_minutes (localZone cfg) v" for v using assms(2) by (simp add: whole_minutes_def)
  then have "map read_output (lines_of (stdout_text (List.map_filter (json_Marshal (localZone cfg)) vs)))
      = map Some (map clean_output (filter (\<lambda>v. json_Marshal (localZone cfg) v \<noteq> None) vs))"
    using json_lines.stream_read_back [of vs "localZone cfg"] by simp
  from map_filter_bind [OF this, of OutAlert] vs
  have "a \<in> set (List.map_filter OutAlert (map clean_output (filter (\<lambda>v. json_Marshal (localZone cfg) v \<noteq> None) vs)))"
    using assms(4) by (simp add: stream_alerts_def sound_log_def output_log_def)
  then obtain v where "v \<in> set vs" "OutAlert (clean_output v) = Some a" by (auto simp: map_filter_def)
  then obtain b where "b \<in> set_option (OutAlert v)" "a = clean_alert b" by (auto simp: clean_output_def)
  with vs \<open>v \<in> set vs\<close> show ?thesis by (fastforce simp: sound_log_def origin_def)
qed

section \<open>From a probe to an alert\<close>

text \<open>
  The engine tries its first rule on the event, and the output goroutine
  prints the alert.
\<close>

definition alerting :: "actor list" where
  "alerting = [EngineLoop, OutputAlert]"

lemma print_line_open:
  assumes "eventVar o1" "alertVar o1" "\<not> returned o1"
  shows "print_line zone v o1 = o1\<lparr>printed := printed o1 @ List.map_filter (json_Marshal zone) [v]\<rparr>"
  using assms by (auto simp: print_line_def loop_foot_def List.map_filter_simps split: option.splits)

lemma alert_follows:
  assumes s: "consumed cfg eng e s"
    and rule: "rules eng = rule # rs" "rSequence rule = None" "Mode (rDetect rule) \<noteq> ''threshold''" "Rule_MatchEvent rule e"
    and ready: "chan_buf (alerts eng) = []" "engine_ready 1 eng"
  shows "\<exists>s'. run (pipe_step cfg) alerting s = Inr (Some s')
    \<and> printed (outp s') = List.map_filter (json_Marshal (localZone cfg)) [event_output e, alert_output (rule_alert rule e)]"
proof -
  let ?out = "print_line (localZone cfg) (event_output e) output_start"
  let ?s1 = "s\<lparr>engine := eng\<lparr>alerts := (alerts eng)\<lparr>chan_buf := [rule_alert rule e]\<rparr>\<rparr>, enginePC := EgRules e rs\<rparr>"
  have out: "eventVar ?out" "alertVar ?out" "\<not> returned ?out"
      "printed ?out = List.map_filter (json_Marshal (localZone cfg)) [event_output e]"
    by (simp_all add: print_line_open output_start_def)
  have send: "chan_send (rule_alert rule e) (alerts eng) = Inr (Some ((alerts eng)\<lparr>chan_buf := [rule_alert rule e]\<rparr>))"
    using ready by (simp add: chan_send_def engine_ready_def)
  have "process_rule e rule eng = Inr (Some (eng\<lparr>alerts := (alerts eng)\<lparr>chan_buf := [rule_alert rule e]\<rparr>\<rparr>))"
    using rule by (simp add: process_rule_def emitAlert_def send)
  then have one: "pipe_step cfg EngineLoop s = Inr (Some ?s1)"
    using s rule(1) by (simp add: consumed_def pipe_step_def engine_gstep_def)
  have two: "\<exists>s'. pipe_step cfg OutputAlert ?s1 = Inr (Some s')
      \<and> outp s' = print_line (localZone cfg) (alert_output (rule_alert rule e)) ?out"
    using s out(2,3) by (simp add: consumed_def pipe_step_def output_alert_step_def chan_recv_def)
  from one two show ?thesis
    by (auto simp: alerting_def print_line_open [OF out(1-3)] out(4) List.map_filter_simps split: option.splits)
qed

text \<open>What a reader finds in the two lines.\<close>

lemma stream_two:
  assumes "\<forall>t. 60 dvd zone t" and "has_text zone e" and "AlTime a = EvTime e"
  shows "stream_events (stdout_text (List.map_filter (json_Marshal zone) [event_output e, alert_output a])) = [clean_event e]"
    and "stream_alerts (stdout_text (List.map_filter (json_Marshal zone) [event_output e, alert_output a])) = [clean_alert a]"
proof -
  have "json_Marshal zone (event_output e) \<noteq> None" "json_Marshal zone (alert_output a) \<noteq> None"
    using assms(2,3) unfolding json_Marshal_event json_Marshal_alert has_text_def by simp_all
  moreover have "\<forall>v\<in>set [event_output e, alert_output a]. whole_minutes zone v"
    using assms(1) by (simp add: whole_minutes_def)
  ultimately have eq: "map read_output (lines_of (stdout_text (List.map_filter (json_Marshal zone) [event_output e, alert_output a])))
      = map Some [clean_output (event_output e), clean_output (alert_output a)]"
    using json_lines.stream_read_back [of "[event_output e, alert_output a]" zone] by simp
  show "stream_events (stdout_text (List.map_filter (json_Marshal zone) [event_output e, alert_output a])) = [clean_event e]"
    using map_filter_bind [OF eq, of OutEvent]
    by (simp add: stream_events_def List.map_filter_simps clean_output_def)
  show "stream_alerts (stdout_text (List.map_filter (json_Marshal zone) [event_output e, alert_output a])) = [clean_alert a]"
    using map_filter_bind [OF eq, of OutAlert]
    by (simp add: stream_alerts_def List.map_filter_simps clean_output_def)
qed

text \<open>A schedule that delivers one event, with a first rule for it: one event and one alert in the text.\<close>

lemma alert_in_text:
  assumes s1: "run (pipe_step cfg) as (pipeline_start eng res) = Inr (Some s1)" "consumed cfg eng e s1"
    and rule: "rules eng = rule # rs" "rSequence rule = None" "Mode (rDetect rule) \<noteq> ''threshold''" "Rule_MatchEvent rule e"
    and ready: "chan_buf (alerts eng) = []" "engine_ready 1 eng"
    and zone: "\<forall>t. 60 dvd localZone cfg t \<and> \<bar>localZone cfg t\<bar> < 86400"
    and clock: "86400 * 10 ^ 9 \<le> bootTime cfg" "bootTime cfg < 2 ^ 63" "unat k < 2 ^ 63"
    and time: "EvTime e = KTimeToTime (bootTime cfg) k"
  shows "\<exists>s. run (pipe_step cfg) (as @ alerting) (pipeline_start eng res) = Inr (Some s)
     \<and> stream_events (stdout_text (printed (outp s))) = [clean_event e]
     \<and> stream_alerts (stdout_text (printed (outp s))) = [clean_alert (rule_alert rule e)]
     \<and> EvTime e = bootTime cfg + int (unat k)"
proof -
  obtain s where s: "run (pipe_step cfg) alerting s1 = Inr (Some s)"
      "printed (outp s) = List.map_filter (json_Marshal (localZone cfg)) [event_output e, alert_output (rule_alert rule e)]"
    using alert_follows [OF s1(2) rule ready] by blast
  have "run (pipe_step cfg) (as @ alerting) (pipeline_start eng res) = Inr (Some s)"
    by (simp only: run_append s1(1) go_bind_simps option.case s(1))
  moreover have "has_text (localZone cfg) e"
    using kernel_time_has_text [OF clock _ time] zone by blast
  moreover have "AlTime (rule_alert rule e) = EvTime e" by (simp add: rule_alert_def)
  ultimately show ?thesis
    using stream_two [of "localZone cfg" e "rule_alert rule e"] zone clock(3) time
    by (intro exI [of _ s]) (simp add: s(2) KTimeToTime_small del: run.simps)
qed

text \<open>An execution in a known container.\<close>

lemma exec_alerted:
  assumes env: "bpf_env_ok env comm ustr" "bpf_get_current_cgroup_id env \<noteq> 0"
      "bpf_ringbuf_reserve env (sizeof struct_event) = Some stale"
    and cache: "cache res (bpf_get_current_cgroup_id env) = Some info"
    and rule: "rules eng = rule # rs" "rSequence rule = None" "Mode (rDetect rule) \<noteq> ''threshold''"
      "\<forall>e. EvType e = ''exec'' \<and> SrcContainer e = Some info \<and> ExecPath e = go_string (ustr (ctx_arg ctx 0))
         \<longrightarrow> Rule_MatchEvent rule e"
    and ready: "chan_buf (alerts eng) = []" "engine_ready 1 eng"
    and zone: "\<forall>t. 60 dvd localZone cfg t \<and> \<bar>localZone cfg t\<bar> < 86400"
    and clock: "86400 * 10 ^ 9 \<le> bootTime cfg" "bootTime cfg < 2 ^ 63" "unat (bpf_ktime_get_ns env) < 2 ^ 63"
  shows "\<exists>raw s e. handle_execve env ctx [] = (0, [raw])
     \<and> run (pipe_step cfg) (Kernel raw # delivery @ alerting) (pipeline_start eng res) = Inr (Some s)
     \<and> stream_events (stdout_text (printed (outp s))) = [clean_event e]
     \<and> stream_alerts (stdout_text (printed (outp s))) = [clean_alert (rule_alert rule e)]
     \<and> EvType e = ''exec'' \<and> SrcContainer e = Some info
     \<and> EvTime e = bootTime cfg + int (unat (bpf_ktime_get_ns env))
     \<and> SrcProcessName e = go_string comm \<and> ExecPath e = go_string (ustr (ctx_arg ctx 0))"
proof -
  obtain raw s1 e where raw: "handle_execve env ctx [] = (0, [raw])"
    and s1: "run (pipe_step cfg) (Kernel raw # delivery) (pipeline_start eng res) = Inr (Some s1)" "consumed cfg eng e s1"
    and e: "EvType e = ''exec''" "SrcContainer e = Some info"
      "EvTime e = KTimeToTime (bootTime cfg) (bpf_ktime_get_ns env)"
      "SrcProcessName e = go_string comm" "ExecPath e = go_string (ustr (ctx_arg ctx 0))"
    using exec_delivered [OF env cache, of ctx cfg eng] by blast
  have "Rule_MatchEvent rule e" using rule(4) e(1,2,5) by blast
  from alert_in_text [OF s1 rule(1-3) this ready zone clock e(3)] raw e show ?thesis by (auto simp del: run.simps)
qed

text \<open>A connection between two known containers.\<close>

lemma connection_alerted:
  assumes env1: "bpf_env_ok env1 comm1 ustr1" "sk1 \<noteq> 0" "sock_family env1 sk1 = AF_INET"
      "bpf_ringbuf_reserve env1 (sizeof struct_event) = Some stale1"
    and env2: "bpf_env_ok env2 comm2 ustr2" "sk2 \<noteq> 0" "sock_family env2 sk2 = AF_INET"
      "bpf_ringbuf_reserve env2 (sizeof struct_event) = Some stale2"
    and ends: "sock_endpoints env1 sk1 = (la, lp, ra, rp)" "sock_endpoints env2 sk2 = (ra, rp, la, lp)"
    and cache: "cache res (bpf_get_current_cgroup_id env1) = Some info1" "bpf_get_current_cgroup_id env2 \<noteq> 0"
      "cache res (bpf_get_current_cgroup_id env2) = Some info2"
    and keep: "\<not> filtered (filterPrefixArg cfg) info1 (Some info2)"
    and rule: "rules eng = rule # rs" "rSequence rule = None" "Mode (rDetect rule) \<noteq> ''threshold''"
      "\<forall>e. EvType e = ''connection'' \<and> SrcContainer e = Some info1 \<and> DstContainer e = Some info2
         \<and> EvSrcAddr e = BytesToIPv4 la \<and> EvSrcPort e = lp \<and> EvDstAddr e = BytesToIPv4 ra \<and> EvDstPort e = rp
         \<longrightarrow> Rule_MatchEvent rule e"
    and ready: "chan_buf (alerts eng) = []" "engine_ready 1 eng"
    and zone: "\<forall>t. 60 dvd localZone cfg t \<and> \<bar>localZone cfg t\<bar> < 86400"
    and clock: "86400 * 10 ^ 9 \<le> bootTime cfg" "bootTime cfg < 2 ^ 63" "unat (bpf_ktime_get_ns env1) < 2 ^ 63"
  shows "\<exists>raw1 raw2 s e. tcp_connect env1 sk1 [] = (0, [raw1]) \<and> inet_csk_accept env2 sk2 [] = (0, [raw2])
     \<and> run (pipe_step cfg) (([Kernel raw1, MainLoop, MainLoop, Kernel raw2, MainLoop, MainLoop] @ forwarding) @ alerting) (pipeline_start eng res)
         = Inr (Some s)
     \<and> stream_events (stdout_text (printed (outp s))) = [clean_event e]
     \<and> stream_alerts (stdout_text (printed (outp s))) = [clean_alert (rule_alert rule e)]
     \<and> EvType e = ''connection'' \<and> SrcContainer e = Some info1 \<and> DstContainer e = Some info2
     \<and> EvTime e = bootTime cfg + int (unat (bpf_ktime_get_ns env1))
     \<and> SrcProcessName e = go_string comm1 \<and> DstProcessName e = go_string comm2
     \<and> EvSrcAddr e = BytesToIPv4 la \<and> EvSrcPort e = lp \<and> EvDstAddr e = BytesToIPv4 ra \<and> EvDstPort e = rp"
proof -
  obtain raw1 raw2 s1 e where raw: "tcp_connect env1 sk1 [] = (0, [raw1])" "inet_csk_accept env2 sk2 [] = (0, [raw2])"
    and s1: "run (pipe_step cfg) ([Kernel raw1, MainLoop, MainLoop, Kernel raw2, MainLoop, MainLoop] @ forwarding) (pipeline_start eng res)
         = Inr (Some s1)" "consumed cfg eng e s1"
    and e: "EvType e = ''connection''" "SrcContainer e = Some info1" "DstContainer e = Some info2"
      "SrcProcessName e = go_string comm1" "DstProcessName e = go_string comm2"
      "EvSrcAddr e = BytesToIPv4 la" "EvSrcPort e = lp" "EvDstAddr e = BytesToIPv4 ra" "EvDstPort e = rp"
    and time: "EvTime e = KTimeToTime (bootTime cfg) (bpf_ktime_get_ns env1)"
    using connection_delivered [OF env1 env2 ends cache keep, of eng] by blast
  have "Rule_MatchEvent rule e" using rule(4) e by blast
  from alert_in_text [OF s1 rule(1-3) this ready zone clock time] obtain s where
    "run (pipe_step cfg) (([Kernel raw1, MainLoop, MainLoop, Kernel raw2, MainLoop, MainLoop] @ forwarding) @ alerting) (pipeline_start eng res)
         = Inr (Some s)"
    "stream_events (stdout_text (printed (outp s))) = [clean_event e]"
    "stream_alerts (stdout_text (printed (outp s))) = [clean_alert (rule_alert rule e)]"
    "EvTime e = bootTime cfg + int (unat (bpf_ktime_get_ns env1))" by blast
  with raw e show ?thesis by blast
qed

end
