(* ===== verification/Threshold.thy ===== *)
theory Threshold
  imports Engine Machine
begin

text \<open>
  Threshold detection: what the sliding window counts, stated as the locale
  \<open>event_window\<close> that the window of \<open>engine.go\<close> interprets, and the refinement
  of the engine: the alerts that rules without sequences owe to a history of
  events, of which a threshold rule owes one when more than \<open>Count\<close> matching
  events of the group lie within the window, are exactly the ones emitted.
\<close>

section \<open>The window contract\<close>

text \<open>
  A window that has seen a sorted history of times counts those that are at
  most \<open>width\<close> older than the newest.
\<close>

definition recent :: "duration \<Rightarrow> go_time \<Rightarrow> go_time list \<Rightarrow> go_time list" where
  "recent w now ts = filter (\<lambda>t. time_Sub now t \<le> w) ts"

locale event_window =
  fixes add :: "go_time \<Rightarrow> 'w \<Rightarrow> 'w \<times> int"
    and empty :: "duration \<Rightarrow> 'w \<Rightarrow> bool"
    and seen :: "duration \<Rightarrow> go_time list \<Rightarrow> 'w \<Rightarrow> bool"
  assumes empty_seen: "empty w tw \<Longrightarrow> seen w [] tw"
    and add_seen: "seen w ts tw \<Longrightarrow> sorted (ts @ [t]) \<Longrightarrow> seen w (ts @ [t]) (fst (add t tw))"
    and add_count: "seen w ts tw \<Longrightarrow> sorted (ts @ [t]) \<Longrightarrow>
                      snd (add t tw) = int (length (recent w t (ts @ [t])))"
begin

fun add_all :: "go_time list \<Rightarrow> 'w \<Rightarrow> 'w \<times> int list" where
  "add_all [] tw = (tw, [])"
| "add_all (t # ts) tw =
     (case add t tw of (tw1, n) \<Rightarrow> case add_all ts tw1 of (tw2, ns) \<Rightarrow> (tw2, n # ns))"

lemma add_all_seen:
  "seen w hist tw \<Longrightarrow> sorted (hist @ ts) \<Longrightarrow>
   seen w (hist @ ts) (fst (add_all ts tw))
   \<and> snd (add_all ts tw)
       = map (\<lambda>i. int (length (recent w (ts ! i) (hist @ take (Suc i) ts)))) [0..<length ts]"
proof (induction ts arbitrary: hist tw)
  case (Cons t ts)
  have srt: "sorted (hist @ [t])" using Cons.prems(2) by (auto simp: sorted_append)
  from Cons.IH [OF add_seen [OF Cons.prems(1) srt]] Cons.prems(2)
  have ih: "seen w (hist @ t # ts) (fst (add_all ts (fst (add t tw))))"
      "snd (add_all ts (fst (add t tw)))
       = map (\<lambda>i. int (length (recent w (ts ! i) (hist @ t # take (Suc i) ts)))) [0..<length ts]"
    by simp_all
  have upt: "[0..<length (t # ts)] = 0 # map Suc [0..<length ts]"
    by (simp add: upt_conv_Cons map_Suc_upt del: upt_Suc)
  show ?case
    unfolding upt using ih add_count [OF Cons.prems(1) srt] by (simp add: case_prod_beta comp_def)
qed simp

end

section \<open>The window of the engine\<close>

lemma drop_old_filter:
  "sorted ts \<Longrightarrow> drop_old now w ts = recent w now ts"
proof (induction ts)
  case (Cons t ts)
  have "filter (\<lambda>u. time_Sub now u \<le> w) ts = ts" if "time_Sub now t \<le> w"
  proof (rule filter_True, rule ballI)
    fix u assume "u \<in> set ts"
    with Cons.prems have "t \<le> u" by simp
    then have "time_Sub now u \<le> time_Sub now t" by (rule time_Sub_antimono)
    with that show "time_Sub now u \<le> w" by simp
  qed
  with Cons show ?case by (auto simp: recent_def)
qed (simp add: recent_def)

definition window_seen :: "duration \<Rightarrow> go_time list \<Rightarrow> thresholdWindow \<Rightarrow> bool" where
  "window_seen w ts tw \<longleftrightarrow>
     windowSize tw = w \<and> sorted ts \<and> (ts = [] \<longrightarrow> timestamps tw = [])
     \<and> (ts \<noteq> [] \<longrightarrow> timestamps tw = recent w (last ts) ts)"

lemma recent_recent: "now \<le> now' \<Longrightarrow> recent w now' (recent w now ts) = recent w now' ts"
  unfolding recent_def filter_filter
  by (rule filter_cong) (auto intro: order_trans [OF time_Sub_mono])

lemma recent_append: "recent w now (ts @ ts') = recent w now ts @ recent w now ts'"
  by (simp add: recent_def)

lemma window_seen_AddEvent:
  assumes seen: "window_seen w ts tw" and srt: "sorted (ts @ [t])"
  shows "timestamps (fst (AddEvent t tw)) = recent w t (ts @ [t])"
    and "snd (AddEvent t tw) = int (length (recent w t (ts @ [t])))"
    and "windowSize (fst (AddEvent t tw)) = w"
proof -
  have sub: "set (timestamps tw) \<subseteq> set ts" and srt': "sorted (timestamps tw)"
    using seen by (auto simp: window_seen_def recent_def sorted_wrt_filter)
  have "sorted (timestamps tw @ [t])" using srt srt' sub by (auto simp: sorted_append)
  then have "drop_old t w (timestamps tw @ [t]) = recent w t (timestamps tw @ [t])"
    by (rule drop_old_filter)
  also have "\<dots> = recent w t (ts @ [t])"
    using seen srt
    by (cases "ts = []") (auto simp: window_seen_def recent_append sorted_append intro: recent_recent)
  finally have eq: "drop_old t w (timestamps tw @ [t]) = recent w t (ts @ [t])" .
  from seen have "windowSize tw = w" by (simp add: window_seen_def)
  with eq show "timestamps (fst (AddEvent t tw)) = recent w t (ts @ [t])"
    and "snd (AddEvent t tw) = int (length (recent w t (ts @ [t])))"
    and "windowSize (fst (AddEvent t tw)) = w"
    by (simp_all add: AddEvent_def Let_def)
qed

definition window_empty :: "duration \<Rightarrow> thresholdWindow \<Rightarrow> bool" where
  "window_empty w tw \<longleftrightarrow> timestamps tw = [] \<and> windowSize tw = w"

interpretation tw: event_window AddEvent window_empty window_seen
proof unfold_locales
  fix w ts t tw
  show "window_empty w tw \<Longrightarrow> window_seen w [] tw" by (simp add: window_empty_def window_seen_def)
  assume "window_seen w ts tw" "sorted (ts @ [t])"
  note win = window_seen_AddEvent [OF this] \<open>sorted (ts @ [t])\<close>
  then show "window_seen w (ts @ [t]) (fst (AddEvent t tw))"
    and "snd (AddEvent t tw) = int (length (recent w t (ts @ [t])))"
    by (simp_all add: window_seen_def)
qed

section \<open>The alerts that rules owe\<close>

text \<open>
  Operations on an engine: an event is processed, or the output goroutine
  takes an alert. The second component of the state collects what it took.
\<close>

datatype engine_op = Process Event | TakeAlert

fun engine_step :: "engine_op \<Rightarrow> RuleEngine \<times> Alert list \<Rightarrow> (RuleEngine \<times> Alert list) option go" where
  "engine_step (Process e) (r, taken) =
     go_bind (ProcessEvent e r) (\<lambda>res. Inr (map_option (\<lambda>r'. (r', taken)) res))"
| "engine_step TakeAlert (r, taken) =
     Inr (map_option (\<lambda>(a, ch). (r\<lparr>alerts := ch\<rparr>, taken @ [a])) (recv_step (alerts r)))"

fun processed :: "engine_op list \<Rightarrow> Event list" where
  "processed [] = []"
| "processed (Process e # h) = processed h @ [e]"
| "processed (TakeAlert # h) = processed h"

text \<open>The times of the events that match the rule and belong to a group.\<close>

definition group_of :: "Rule \<Rightarrow> Event \<Rightarrow> string" where
  "group_of rule e =
     (case buildGroupKey (rName rule) (GroupBy (rDetect rule)) e of Inr k \<Rightarrow> k | Inl p \<Rightarrow> '''')"

definition group_times :: "Rule \<Rightarrow> string \<Rightarrow> Event list \<Rightarrow> go_time list" where
  "group_times rule k evs = map EvTime (filter (\<lambda>e. Rule_MatchEvent rule e \<and> group_of rule e = k) evs)"

text \<open>
  A matching event is over the threshold when it is the \<open>Count + 1\<close>st or a
  later one of its group within the window.
\<close>

definition over_threshold :: "Rule \<Rightarrow> Event list \<Rightarrow> Event \<Rightarrow> bool" where
  "over_threshold rule evs e \<longleftrightarrow>
     Rule_MatchEvent rule e
     \<and> Count (rDetect rule)
         < int (length (recent (rule_window rule) (EvTime e)
                         (group_times rule (group_of rule e) (evs @ [e]))))"

definition threshold_rule :: "Rule \<Rightarrow> bool" where
  "threshold_rule rule \<longleftrightarrow> rSequence rule = None \<and> Mode (rDetect rule) = ''threshold''"

text \<open>
  What a list of rules without sequences owes to an event that comes after a
  history, and to a whole history: the alerts of the rules that fire, in the
  order of the events and then of the rules.
\<close>

definition fires :: "Rule \<Rightarrow> Event list \<Rightarrow> Event \<Rightarrow> bool" where
  "fires rule evs e \<longleftrightarrow> (if threshold_rule rule then over_threshold rule evs e else Rule_MatchEvent rule e)"

definition alerts_for :: "Rule list \<Rightarrow> Event list \<Rightarrow> Event \<Rightarrow> Alert list" where
  "alerts_for rs evs e = map (\<lambda>rule. rule_alert rule e) (filter (\<lambda>rule. fires rule evs e) rs)"

definition owed_alerts :: "Rule list \<Rightarrow> Event list \<Rightarrow> Alert list" where
  "owed_alerts rs evs = concat (map (\<lambda>i. alerts_for rs (take i evs) (evs ! i)) [0..<length evs])"

lemma owed_alerts_Nil [simp]: "owed_alerts rs [] = []"
  by (simp add: owed_alerts_def)

lemma owed_alerts_snoc [simp]: "owed_alerts rs (evs @ [e]) = owed_alerts rs evs @ alerts_for rs evs e"
proof -
  have prefix: "map (\<lambda>i. alerts_for rs (take i (evs @ [e])) ((evs @ [e]) ! i)) [0..<length evs]
      = map (\<lambda>i. alerts_for rs (take i evs) (evs ! i)) [0..<length evs]"
    by (rule map_cong) (simp_all add: nth_append)
  have "take (length evs) (evs @ [e]) = evs" by simp
  then show ?thesis by (simp add: owed_alerts_def prefix del: take_append map_eq_conv)
qed

lemma alerts_for_simps [simp]:
  "alerts_for [] evs e = []"
  "alerts_for (rs @ rs') evs e = alerts_for rs evs e @ alerts_for rs' evs e"
  by (simp_all add: alerts_for_def)

lemma alerts_for_one: "alerts_for [rule] evs e = (if fires rule evs e then [rule_alert rule e] else [])"
  by (simp add: alerts_for_def)

text \<open>
  Threshold rules share the map of windows; they do not disturb each other
  when no two of them can build the same key.
\<close>

definition owns :: "Rule \<Rightarrow> string \<Rightarrow> bool" where
  "owns rule k \<longleftrightarrow> (\<exists>e. buildGroupKey (rName rule) (GroupBy (rDetect rule)) e = Inr k)"

definition unshared :: "Rule \<Rightarrow> Rule \<Rightarrow> bool" where
  "unshared rule rule' \<longleftrightarrow>
     (threshold_rule rule \<and> threshold_rule rule' \<longrightarrow> (\<forall>k. \<not> (owns rule k \<and> owns rule' k)))"

definition independent :: "Rule list \<Rightarrow> bool" where
  "independent rs \<longleftrightarrow> (\<forall>rule\<in>set rs. rSequence rule = None) \<and> sorted_wrt unshared rs"

definition groups_sorted :: "Rule list \<Rightarrow> Event list \<Rightarrow> bool" where
  "groups_sorted rs evs \<longleftrightarrow>
     (\<forall>rule\<in>set rs. threshold_rule rule \<longrightarrow> (\<forall>k. sorted (group_times rule k evs)))"

lemma group_times_append:
  "group_times rule k (evs @ [e]) =
     group_times rule k evs @ (if Rule_MatchEvent rule e \<and> group_of rule e = k then [EvTime e] else [])"
  by (simp add: group_times_def)

lemma groups_sorted_butlast: "groups_sorted rs (evs @ [e]) \<Longrightarrow> groups_sorted rs evs"
  by (auto simp: groups_sorted_def group_times_append sorted_append)

lemma independent_append:
  "independent (rs @ rs') \<Longrightarrow> rule \<in> set rs \<Longrightarrow> rule' \<in> set rs' \<Longrightarrow> unshared rule rule'"
  by (auto simp: independent_def sorted_wrt_append)

text \<open>Names that end before the first colon of a key keep the rules apart.\<close>

lemma takeWhile_Join:
  assumes "CHR '':'' \<notin> set n"
  shows "takeWhile (\<lambda>c. c \<noteq> CHR '':'') (Join (n # ks) '':'') = n"
proof (cases ks)
  case Nil
  with assms show ?thesis by (auto simp: takeWhile_eq_all_conv)
next
  case (Cons k ks')
  with assms show ?thesis by (auto simp: takeWhile_append takeWhile_eq_all_conv)
qed

lemma owns_name: "owns rule k \<Longrightarrow> CHR '':'' \<notin> set (rName rule) \<Longrightarrow> takeWhile (\<lambda>c. c \<noteq> CHR '':'') k = rName rule"
  by (auto simp: owns_def buildGroupKey_def go_simps takeWhile_Join)

lemma independentI:
  assumes "\<forall>rule\<in>set rs. rSequence rule = None \<and> CHR '':'' \<notin> set (rName rule)"
    and "distinct (map rName (filter threshold_rule rs))"
  shows "independent rs"
  using assms
proof (induction rs)
  case (Cons rule rs)
  have "unshared rule rule'" if "rule' \<in> set rs" for rule'
    using Cons.prems that owns_name [of rule] owns_name [of rule'] by (fastforce simp: unshared_def)
  with Cons show ?case by (auto simp: independent_def split: if_splits)
qed (simp add: independent_def)

section \<open>One rule\<close>

definition window_ok :: "Rule \<Rightarrow> go_time list \<Rightarrow> thresholdWindow option \<Rightarrow> bool" where
  "window_ok rule ts w \<longleftrightarrow>
     (case w of None \<Rightarrow> ts = [] | Some tw \<Rightarrow> window_seen (rule_window rule) ts tw)"

text \<open>The windows of some threshold rules have seen the events of a history.\<close>

definition windows_at :: "Event list \<Rightarrow> Rule list \<Rightarrow> RuleEngine \<Rightarrow> bool" where
  "windows_at evs rs r \<longleftrightarrow>
     (\<forall>rule\<in>set rs. threshold_rule rule \<longrightarrow>
        (\<forall>k. owns rule k \<longrightarrow> window_ok rule (group_times rule k evs) (thresholds r k)))"

lemma windows_at_append: "windows_at evs (rs @ rs') r \<longleftrightarrow> windows_at evs rs r \<and> windows_at evs rs' r"
  by (auto simp: windows_at_def)

lemma emitAlert_Some:
  "emitAlert a r = Inr (Some r') \<longleftrightarrow> (\<exists>ch. send_step a (alerts r) = Some ch \<and> r' = r\<lparr>alerts := ch\<rparr>)"
  by (auto simp: emitAlert_def send_step_def go_simps split: sum.splits)

lemma send_step_buf: "send_step a ch = Some ch' \<Longrightarrow> chan_buf ch' = chan_buf ch @ [a]"
  by (auto simp: send_step_def chan_send_def split: sum.splits if_splits)

definition window_for :: "Rule \<Rightarrow> string \<Rightarrow> RuleEngine \<Rightarrow> thresholdWindow" where
  "window_for rule k r =
     (case thresholds r k of
        Some th \<Rightarrow> th
      | None \<Rightarrow> \<lparr>timestamps = [], windowSize = rule_window rule, threshold = Count (rDetect rule)\<rparr>)"

lemma window_for_seen:
  assumes "window_ok rule ts (thresholds r k)"
  shows "window_seen (rule_window rule) ts (window_for rule k r)"
  using assms by (auto simp: window_ok_def window_for_def window_seen_def split: option.splits)

lemma handleThreshold_Some:
  assumes "handleThreshold rule e r = Inr (Some r')"
  obtains tw n r1 where "buildGroupKey (rName rule) (GroupBy (rDetect rule)) e = Inr (group_of rule e)"
    and "AddEvent (EvTime e) (window_for rule (group_of rule e) r) = (tw, n)"
    and "r1 = r\<lparr>thresholds := (thresholds r)(group_of rule e \<mapsto> tw)\<rparr>"
    and "if Count (rDetect rule) < n then emitAlert (rule_alert rule e) r1 = Inr (Some r') else r' = r1"
proof -
  from assms obtain k where k: "buildGroupKey (rName rule) (GroupBy (rDetect rule)) e = Inr k"
    by (auto simp: handleThreshold_def go_simps)
  then have "group_of rule e = k" by (simp add: group_of_def)
  moreover obtain tw n where "AddEvent (EvTime e) (window_for rule k r) = (tw, n)" by (metis surj_pair)
  ultimately show ?thesis
    using that assms k by (simp add: handleThreshold_def window_for_def [symmetric] Let_def split: if_splits)
qed

text \<open>
  A rule that has been tried: its alert follows the others when it fires, its
  windows have seen the event, and the keys of other rules are untouched.
\<close>

definition tried :: "Rule \<Rightarrow> Event list \<Rightarrow> Event \<Rightarrow> RuleEngine \<Rightarrow> RuleEngine \<Rightarrow> bool" where
  "tried rule evs e r r' \<longleftrightarrow>
     rules r' = rules r
     \<and> chan_buf (alerts r') = chan_buf (alerts r) @ alerts_for [rule] evs e
     \<and> windows_at (evs @ [e]) [rule] r'
     \<and> (\<forall>k. \<not> (threshold_rule rule \<and> owns rule k) \<longrightarrow> thresholds r' k = thresholds r k)"

lemma handleThreshold_tried:
  assumes step: "handleThreshold rule e r = Inr (Some r')"
    and rule: "threshold_rule rule" "Rule_MatchEvent rule e"
    and win: "windows_at evs [rule] r" and srt: "groups_sorted [rule] (evs @ [e])"
  shows "tried rule evs e r r'"
proof -
  let ?k = "group_of rule e" and ?w = "rule_window rule"
  let ?ts = "group_times rule ?k evs"
  from step obtain tw n r1 where key: "buildGroupKey (rName rule) (GroupBy (rDetect rule)) e = Inr ?k"
    and add: "AddEvent (EvTime e) (window_for rule ?k r) = (tw, n)"
    and r1: "r1 = r\<lparr>thresholds := (thresholds r)(?k \<mapsto> tw)\<rparr>"
    and emit: "if Count (rDetect rule) < n then emitAlert (rule_alert rule e) r1 = Inr (Some r') else r' = r1"
    by (rule handleThreshold_Some)
  have own: "owns rule ?k" using key by (auto simp: owns_def)
  then have seen: "window_seen ?w ?ts (window_for rule ?k r)"
    using win rule(1) by (auto simp: windows_at_def intro: window_for_seen)
  have "sorted (group_times rule ?k (evs @ [e]))" using srt rule(1) by (simp add: groups_sorted_def)
  then have srt': "sorted (?ts @ [EvTime e])" by (simp add: group_times_append rule(2))
  have "window_seen ?w (?ts @ [EvTime e]) tw" using tw.add_seen [OF seen srt'] add by simp
  then have "window_ok rule (group_times rule k (evs @ [e])) (thresholds r1 k)" if "owns rule k" for k
    using that win rule r1 by (cases "k = ?k") (simp_all add: group_times_append windows_at_def window_ok_def)
  then have win1: "windows_at (evs @ [e]) [rule] r1" by (simp add: windows_at_def)
  have "n = int (length (recent ?w (EvTime e) (?ts @ [EvTime e])))"
    using tw.add_count [OF seen srt'] add by simp
  then have over: "fires rule evs e \<longleftrightarrow> Count (rDetect rule) < n"
    by (simp add: fires_def rule over_threshold_def group_times_append)
  show ?thesis
  proof (cases "Count (rDetect rule) < n")
    case True
    with emit obtain ch where ch: "send_step (rule_alert rule e) (alerts r) = Some ch" "r' = r1\<lparr>alerts := ch\<rparr>"
      by (auto simp: emitAlert_Some r1)
    with win1 have "windows_at (evs @ [e]) [rule] r'" by (simp add: windows_at_def)
    with ch True over own rule(1) show ?thesis
      by (auto simp: tried_def r1 alerts_for_one dest: send_step_buf)
  next
    case False
    with emit win1 over own rule(1) show ?thesis by (auto simp: tried_def r1 alerts_for_one)
  qed
qed

lemma process_rule_tried:
  assumes step: "process_rule e rule r = Inr (Some r')" and rule: "rSequence rule = None"
    and win: "windows_at evs [rule] r" and srt: "groups_sorted [rule] (evs @ [e])"
  shows "tried rule evs e r r'"
proof -
  have idle: "windows_at (evs @ [e]) [rule] r2" if "\<not> (threshold_rule rule \<and> Rule_MatchEvent rule e)"
      "thresholds r2 = thresholds r" for r2
    using that win by (auto simp: windows_at_def group_times_append)
  consider "\<not> Rule_MatchEvent rule e" "r' = r"
    | "Rule_MatchEvent rule e" "\<not> threshold_rule rule" "emitAlert (rule_alert rule e) r = Inr (Some r')"
    | "Rule_MatchEvent rule e" "threshold_rule rule" "handleThreshold rule e r = Inr (Some r')"
    using step rule by (auto simp: process_rule_def threshold_rule_def split: if_splits)
  then show ?thesis
  proof cases
    case 1
    with idle show ?thesis by (simp add: tried_def alerts_for_one fires_def over_threshold_def)
  next
    case 2
    then obtain ch where "send_step (rule_alert rule e) (alerts r) = Some ch" "r' = r\<lparr>alerts := ch\<rparr>"
      by (auto simp: emitAlert_Some)
    with 2 idle [of r'] show ?thesis
      by (auto simp: tried_def alerts_for_one fires_def dest: send_step_buf)
  next
    case 3
    from handleThreshold_tried [OF 3(3,2,1) win srt] show ?thesis .
  qed
qed

section \<open>All rules\<close>

text \<open>
  In the middle of an event: the rules that were tried have seen it, the
  others have not, and the alerts of the former follow what was owed before.
\<close>

definition mid_event ::
  "Rule list \<Rightarrow> Event list \<Rightarrow> Event \<Rightarrow> Rule list \<Rightarrow> Rule list \<Rightarrow> RuleEngine \<times> Alert list \<Rightarrow> bool" where
  "mid_event rs evs e past todo s \<longleftrightarrow>
     rs = past @ todo \<and> rules (fst s) = rs
     \<and> snd s @ chan_buf (alerts (fst s)) = owed_alerts rs evs @ alerts_for past evs e
     \<and> windows_at (evs @ [e]) past (fst s) \<and> windows_at evs todo (fst s)"

lemma windows_at_keep:
  assumes "windows_at evs rs r" and "tried rule evs' e r r'" and "\<forall>rule'\<in>set rs. unshared rule' rule \<or> unshared rule rule'"
  shows "windows_at evs rs r'"
  using assms by (fastforce simp: windows_at_def tried_def unshared_def)

lemma mid_event_rule:
  assumes mid: "mid_event rs evs e past (rule # todo) (r, taken)"
    and rs: "independent rs" "groups_sorted rs (evs @ [e])"
    and step: "process_rule e rule r = Inr (Some r')"
  shows "mid_event rs evs e (past @ [rule]) todo (r', taken)"
proof -
  have eq: "rs = past @ rule # todo" using mid by (simp add: mid_event_def)
  have tr: "tried rule evs e r r'"
  proof (rule process_rule_tried [OF step])
    show "rSequence rule = None" using rs(1) eq by (simp add: independent_def)
    show "windows_at evs [rule] r" using mid by (simp add: mid_event_def windows_at_def)
    show "groups_sorted [rule] (evs @ [e])" using rs(2) eq by (simp add: groups_sorted_def)
  qed
  have apart: "unshared x rule" if "x \<in> set past" for x
    using independent_append [of past "rule # todo" x rule] rs(1) eq that by simp
  have apart': "unshared rule x" if "x \<in> set todo" for x
    using independent_append [of "past @ [rule]" todo rule x] rs(1) eq that by simp
  have "windows_at (evs @ [e]) past r'"
    using mid apart by (intro windows_at_keep [OF _ tr]) (auto simp: mid_event_def)
  moreover have "windows_at evs todo r'"
    using mid apart' by (intro windows_at_keep [OF _ tr]) (auto simp: mid_event_def windows_at_def)
  ultimately show ?thesis
    using mid tr by (simp add: mid_event_def tried_def windows_at_append)
qed

lemma process_rules_mid:
  "mid_event rs evs e past todo (r, taken) \<Longrightarrow> independent rs \<Longrightarrow> groups_sorted rs (evs @ [e]) \<Longrightarrow>
   process_rules e todo r = Inr (Some r') \<Longrightarrow> mid_event rs evs e rs [] (r', taken)"
proof (induction todo arbitrary: past r)
  case Nil
  then have "past = rs" by (simp add: mid_event_def)
  with Nil show ?case by simp
next
  case (Cons rule todo)
  from Cons.prems(4) obtain r1 where r1: "process_rule e rule r = Inr (Some r1)" "process_rules e todo r1 = Inr (Some r')"
    by (auto simp: go_simps split: option.splits)
  from Cons.IH [OF mid_event_rule [OF Cons.prems(1-3) r1(1)] Cons.prems(2,3) r1(2)] show ?case .
qed

text \<open>Between two events.\<close>

definition engine_at :: "Rule list \<Rightarrow> Event list \<Rightarrow> RuleEngine \<times> Alert list \<Rightarrow> bool" where
  "engine_at rs evs s \<longleftrightarrow>
     rules (fst s) = rs \<and> snd s @ chan_buf (alerts (fst s)) = owed_alerts rs evs \<and> windows_at evs rs (fst s)"

lemma engine_at_mid:
  "engine_at rs evs s \<Longrightarrow> mid_event rs evs e [] rs s"
  "mid_event rs evs e rs [] s \<Longrightarrow> engine_at rs (evs @ [e]) s"
  by (simp_all add: engine_at_def mid_event_def windows_at_def)

lemma engine_at_step:
  assumes rs: "independent rs" "groups_sorted rs (processed (op # h))"
    and at: "engine_at rs (processed h) s" and step: "engine_step op s = Inr (Some s')"
  shows "engine_at rs (processed (op # h)) s'"
proof -
  obtain r taken where s: "s = (r, taken)" by (cases s)
  show ?thesis
  proof (cases op)
    case (Process e)
    with step s obtain r' where s': "s' = (r', taken)" and r': "process_rules e (rules r) r = Inr (Some r')"
      by (auto simp: go_simps ProcessEvent_def)
    moreover have "rules r = rs" using at s by (simp add: engine_at_def)
    moreover have "mid_event rs (processed h) e [] rs (r, taken)" using engine_at_mid(1) [OF at] s by simp
    ultimately show ?thesis
      using process_rules_mid [of rs "processed h" e "[]" rs r taken r'] rs Process
      by (simp add: engine_at_mid(2))
  next
    case TakeAlert
    with step s obtain a ch where "recv_step (alerts r) = Some (a, ch)"
        "s' = (r\<lparr>alerts := ch\<rparr>, taken @ [a])" by auto
    with TakeAlert at s show ?thesis
      by (auto simp: engine_at_def windows_at_def dest: ch.recv_contents)
  qed
qed

lemma groups_sorted_tl: "groups_sorted rs (processed (op # h)) \<Longrightarrow> groups_sorted rs (processed h)"
  by (cases op) (auto dest: groups_sorted_butlast)

lemma engine_at_start:
  assumes "rules r = rs" and "chan_buf (alerts r) = []" and "thresholds r = Map.empty"
  shows "engine_at rs [] (r, [])"
  using assms by (simp add: engine_at_def windows_at_def window_ok_def group_times_def)

interpretation te: machine engine_step "(empty_engine\<lparr>rules := rs\<rparr>, [])" "\<lambda>h. engine_at rs (processed h)"
    "\<lambda>h. independent rs \<and> groups_sorted rs (processed h)"
  for rs :: "Rule list"
proof unfold_locales
  show "engine_at rs (processed []) (empty_engine\<lparr>rules := rs\<rparr>, [])"
    by (auto simp: empty_engine_def make_chan_def intro: engine_at_start)
qed (auto intro: engine_at_step groups_sorted_tl simp del: processed.simps)

lemma engine_run:
  assumes "independent rs" and "groups_sorted rs (processed (rev ops))"
    and "run engine_step ops (empty_engine\<lparr>rules := rs\<rparr>, []) = Inr (Some (r, taken))"
  shows "taken @ chan_buf (alerts r) = owed_alerts rs (processed (rev ops))"
proof -
  have "engine_at rs (processed (rev ops)) (r, taken)" by (rule te.run_related) (use assms in auto)
  then show ?thesis by (simp add: engine_at_def)
qed

end
