(* ===== verification/Exact.thy ===== *)
theory Exact
  imports Drain AlertOrigin Threshold
begin

text \<open>
  The output is exactly what the rules owe: in every interleaving the alerts
  in the text are, in order, the first of those that the rules owe to the
  events the engine received, and all of them once the pipeline is idle.
\<close>

section \<open>Who steps\<close>

lemma pipe_step_kinds:
  assumes "pipe_step cfg a s = Inr (Some s')"
  obtains (event) "output_event_step cfg s = Some s'" "same_engine s s'"
    | (alert) "output_alert_step cfg s = Some s'"
    | (engine) "engine_gstep s = Inr (Some s')" "same_output s s'"
    | (other) "same_output s s'" "same_engine s s'"
proof -
  have step: "actor_step cfg a s = Inr (Some s')" using assms by (simp add: pipe_step_def split: if_splits)
  have quiet: "same_output s s'" if "a \<noteq> OutputEvent" "a \<noteq> OutputAlert"
    using step that by (cases a) (auto dest: goroutine_quiet simp: same_output_def split: if_splits)
  have same: "same_engine s s'" if "a \<noteq> EngineLoop" "a \<noteq> OutputAlert"
    using step that by (cases a) (auto dest: goroutine_same_engine simp: same_engine_def split: if_splits)
  consider "a = OutputEvent" | "a = OutputAlert" | "a = EngineLoop"
    | "a \<noteq> OutputEvent" "a \<noteq> OutputAlert" "a \<noteq> EngineLoop" by blast
  then show thesis
  proof cases
    case 1
    with step same show thesis by (intro event) simp_all
  next
    case 2
    with step show thesis by (intro alert) simp
  next
    case 3
    with step quiet show thesis by (intro engine) simp_all
  next
    case 4
    with quiet same show thesis by (intro other) simp_all
  qed
qed

lemma same_output_log: "same_output s s' \<Longrightarrow> output_log zone s vs \<Longrightarrow> output_log zone s' vs"
  by (simp add: same_output_def output_log_def)

section \<open>The engine goroutine\<close>

text \<open>Where the engine goroutine stands in the history of the events it received.\<close>

fun at_event :: "Rule list \<Rightarrow> Event list \<Rightarrow> engine_pc \<Rightarrow> RuleEngine \<times> Alert list \<Rightarrow> bool" where
  "at_event rs seen (EgRules e todo) st \<longleftrightarrow> (\<exists>evs past. seen = evs @ [e] \<and> mid_event rs evs e past todo st)"
| "at_event rs seen pc st \<longleftrightarrow> engine_at rs seen st"

definition engine_exact :: "Rule list \<Rightarrow> Alert list \<Rightarrow> pipeline \<Rightarrow> bool" where
  "engine_exact rs taken s \<longleftrightarrow> at_event rs (engSeen s) (enginePC s) (engine s, taken)"

lemma engine_gstep_exact:
  assumes "engine_gstep s = Inr (Some s')" and "engine_exact rs taken s"
    and "independent rs" "groups_sorted rs (engSeen s)"
  shows "engine_exact rs taken s'"
proof (cases "enginePC s")
  case EgRecv
  with assms(2) have at: "engine_at rs (engSeen s) (engine s, taken)" by (simp add: engine_exact_def)
  then have "rules (engine s) = rs" by (simp add: engine_at_def)
  with engine_at_mid(1) [OF at] at EgRecv assms(1) show ?thesis
    by (auto simp: engine_gstep_def engine_exact_def split: option.splits prod.splits intro!: exI [of _ "[]"])
next
  case (EgRules e todo)
  with assms(2) obtain evs past where seen: "engSeen s = evs @ [e]"
      and mid: "mid_event rs evs e past todo (engine s, taken)" by (auto simp: engine_exact_def)
  show ?thesis
  proof (cases todo)
    case Nil
    with mid have "past = rs" by (simp add: mid_event_def)
    with engine_at_mid(2) [of rs evs e "(engine s, taken)"] mid EgRules Nil assms(1) seen show ?thesis
      by (auto simp: engine_gstep_def engine_exact_def)
  next
    case (Cons rule todo')
    with EgRules assms(1) obtain r where r: "process_rule e rule (engine s) = Inr (Some r)"
      and s': "s' = s\<lparr>engine := r, enginePC := EgRules e todo'\<rparr>"
      by (auto simp: engine_gstep_def go_simps)
    from mid_event_rule [OF mid [unfolded Cons] assms(3) _ r] assms(4) seen show ?thesis
      by (auto simp: engine_exact_def s')
  qed
next
  case EgDone
  with assms(1) show ?thesis by (simp add: engine_gstep_def)
qed

text \<open>Taking an alert from the channel moves it to the ones taken.\<close>

lemma at_event_taken:
  assumes "at_event rs seen pc (r, taken)" and "chan_buf (alerts r) = a # rest" and "chan_buf ch = rest"
  shows "at_event rs seen pc (r\<lparr>alerts := ch\<rparr>, taken @ [a])"
  using assms by (cases pc) (auto simp: engine_at_def mid_event_def windows_at_def)

lemma output_alert_step_exact:
  assumes "output_alert_step cfg s = Some s'" and "output_log (localZone cfg) s vs"
    and "engine_exact rs (List.map_filter OutAlert vs) s"
  shows "\<exists>vs. output_log (localZone cfg) s' vs \<and> engine_exact rs (List.map_filter OutAlert vs) s'"
proof -
  obtain v ch where recv: "chan_recv (alerts (engine s)) = Some (v, ch)"
    and log: "output_log (localZone cfg) s' (vs @ case_values (AlertCase v))"
    and s': "engine s' = (engine s)\<lparr>alerts := ch\<rparr>" "engSeen s' = engSeen s" "enginePC s' = enginePC s"
    using output_alert_step_log [OF assms(1,2)] by blast
  show ?thesis
  proof (cases v)
    case None
    with recv have "ch = alerts (engine s)" by (auto simp: chan_recv_def split: list.splits if_splits)
    with None log assms(3) s' show ?thesis by (auto simp: engine_exact_def)
  next
    case (Some a)
    with recv have "chan_buf (alerts (engine s)) = a # chan_buf ch"
      by (auto simp: chan_recv_def split: list.splits if_splits)
    from at_event_taken [OF assms(3) [unfolded engine_exact_def] this refl] log Some s' show ?thesis
      by (auto simp: engine_exact_def map_filter_append List.map_filter_simps)
  qed
qed

section \<open>Every interleaving\<close>

definition exact_log :: "pipe_config \<Rightarrow> Rule list \<Rightarrow> pipeline \<Rightarrow> bool" where
  "exact_log cfg rs s \<longleftrightarrow>
     (\<exists>vs. output_log (localZone cfg) s vs \<and> engine_exact rs (List.map_filter OutAlert vs) s)"

lemma pipe_step_exact:
  assumes "pipe_step cfg a s = Inr (Some s')" and "exact_log cfg rs s"
    and "independent rs" "groups_sorted rs (engSeen s)"
  shows "exact_log cfg rs s'"
proof -
  from assms(2) obtain vs where log: "output_log (localZone cfg) s vs"
    and exact: "engine_exact rs (List.map_filter OutAlert vs) s" by (auto simp: exact_log_def)
  from assms(1) show ?thesis
  proof (cases rule: pipe_step_kinds)
    case event
    from output_event_step_log [OF event(1) log] obtain v where
      "output_log (localZone cfg) s' (vs @ case_values (EventCase v))" ..
    moreover have "List.map_filter OutAlert (case_values (EventCase v)) = []"
      by (cases v) (simp_all add: List.map_filter_simps)
    ultimately show ?thesis
      using exact event(2) unfolding exact_log_def
      by (intro exI [of _ "vs @ case_values (EventCase v)"])
        (simp add: engine_exact_def same_engine_def map_filter_append)
  next
    case alert
    from output_alert_step_exact [OF this log exact] show ?thesis by (simp add: exact_log_def)
  next
    case engine
    from engine_gstep_exact [OF engine(1) exact assms(3,4)] same_output_log [OF engine(2) log] show ?thesis
      by (auto simp: exact_log_def)
  next
    case other
    from same_output_log [OF other(1) log] exact other(2) show ?thesis
      by (auto simp: exact_log_def engine_exact_def same_engine_def)
  qed
qed

lemma engSeen_grows:
  assumes "pipe_step cfg a s = Inr (Some s')"
  shows "engSeen s' = engSeen s \<or> (\<exists>e. engSeen s' = engSeen s @ [e])"
  using assms
proof (cases rule: pipe_step_kinds)
  case engine
  from engine(1) show ?thesis
    by (auto simp: engine_gstep_def go_simps split: engine_pc.splits option.splits prod.splits list.splits)
qed (auto simp: same_engine_def dest: output_alert_step_seen)

lemma reachable_exact:
  assumes "reachable cfg eng res s" and "groups_sorted (rules eng) (engSeen s)"
    and eng: "independent (rules eng)" "chan_buf (alerts eng) = []" "thresholds eng = Map.empty"
  shows "exact_log cfg (rules eng) s"
  using assms(1,2)
proof induction
  case start
  have "engine_exact (rules eng) [] (pipeline_start eng res)"
    using engine_at_start [OF refl eng(2,3)] by (simp add: engine_exact_def pipeline_start_def)
  moreover have "output_log (localZone cfg) (pipeline_start eng res) []"
    by (simp add: output_log_def pipeline_start_def output_start_def List.map_filter_simps)
  ultimately show ?case unfolding exact_log_def by (intro exI [of _ "[]"]) (simp add: List.map_filter_simps)
next
  case (step s a s')
  from engSeen_grows [OF step.hyps(2)] step.prems have "groups_sorted (rules eng) (engSeen s)"
    by (auto dest: groups_sorted_butlast)
  from pipe_step_exact [OF step.hyps(2) step.IH [OF this] eng(1) this] show ?case .
qed

section \<open>The alerts in the text\<close>

definition alert_has_text :: "(go_time \<Rightarrow> int) \<Rightarrow> Alert \<Rightarrow> bool" where
  "alert_has_text zone a \<longleftrightarrow> appendStrictRFC3339 (zone (AlTime a)) (AlTime a) \<noteq> None"

lemma alert_values:
  assumes "list_all loop_value vs"
  shows "List.map_filter OutAlert (map clean_output (filter (\<lambda>v. json_Marshal zone v \<noteq> None) vs))
    = map clean_alert (filter (alert_has_text zone) (List.map_filter OutAlert vs))"
  using assms
proof (induction vs)
  case (Cons v vs)
  have seen: "OutAlert (clean_output v) = map_option clean_alert (OutAlert v)" by (simp add: clean_output_def)
  from Cons.prems consider e where "v = event_output e" | a where "v = alert_output a"
    by (auto simp: loop_value_def)
  then show ?case
  proof cases
    case (1 e)
    with seen Cons show ?thesis by (simp add: List.map_filter_simps)
  next
    case (2 a)
    with seen Cons json_Marshal_alert [of zone a] show ?thesis
      by (simp add: List.map_filter_simps alert_has_text_def del: not_None_eq)
  qed
qed (simp add: List.map_filter_simps)

lemma log_alerts:
  assumes "output_log zone s vs" and "\<forall>t. 60 dvd zone t"
  shows "stream_alerts (stdout_text (printed (outp s)))
    = map clean_alert (filter (alert_has_text zone) (List.map_filter OutAlert vs))"
proof -
  have "whole_minutes zone v" for v using assms(2) by (simp add: whole_minutes_def)
  then have "map read_output (lines_of (stdout_text (List.map_filter (json_Marshal zone) vs)))
      = map Some (map clean_output (filter (\<lambda>v. json_Marshal zone v \<noteq> None) vs))"
    using json_lines.stream_read_back [of vs zone] by simp
  from map_filter_bind [OF this, of OutAlert] alert_values [of vs zone] assms(1) show ?thesis
    by (simp add: stream_alerts_def output_log_def)
qed

lemma at_event_owed:
  assumes "at_event rs seen pc (r, taken)"
  shows "prefix taken (owed_alerts rs seen)"
    and "pc = EgRecv \<Longrightarrow> chan_buf (alerts r) = [] \<Longrightarrow> taken = owed_alerts rs seen"
proof -
  show "prefix taken (owed_alerts rs seen)"
  proof (cases pc)
    case (EgRules e todo)
    with assms obtain evs past where "seen = evs @ [e]" "rs = past @ todo"
        "taken @ chan_buf (alerts r) = owed_alerts rs evs @ alerts_for past evs e"
      by (auto simp: mid_event_def)
    then have "owed_alerts rs seen = taken @ chan_buf (alerts r) @ alerts_for todo evs e" by simp
    then show ?thesis by simp
  qed (use assms in \<open>auto simp: engine_at_def intro: prefixI [OF sym]\<close>)
qed (use assms in \<open>auto simp: engine_at_def\<close>)

lemma exact_alerts:
  assumes "reachable cfg eng res s" and "\<forall>t. 60 dvd localZone cfg t"
    and "independent (rules eng)" "chan_buf (alerts eng) = []" "thresholds eng = Map.empty"
    and "groups_sorted (rules eng) (engSeen s)"
  shows "prefix (stream_alerts (stdout_text (printed (outp s))))
      (map clean_alert (filter (alert_has_text (localZone cfg)) (owed_alerts (rules eng) (engSeen s))))"
    and "idle s \<Longrightarrow> stream_alerts (stdout_text (printed (outp s)))
      = map clean_alert (filter (alert_has_text (localZone cfg)) (owed_alerts (rules eng) (outSeen s)))"
proof -
  obtain vs where log: "output_log (localZone cfg) s vs"
    and at: "at_event (rules eng) (engSeen s) (enginePC s) (engine s, List.map_filter OutAlert vs)"
    using reachable_exact [OF assms(1,6,3-5)] by (auto simp: exact_log_def engine_exact_def)
  note out = log_alerts [OF log assms(2)]
  show "prefix (stream_alerts (stdout_text (printed (outp s))))
      (map clean_alert (filter (alert_has_text (localZone cfg)) (owed_alerts (rules eng) (engSeen s))))"
    unfolding out by (intro map_mono_prefix filter_mono_prefix at_event_owed(1) [OF at])
  assume idle: "idle s"
  then have "outSeen s = engSeen s"
    using reachable_delivers(2) [OF assms(1)] by (simp add: same_stream_def idle_def)
  with at_event_owed(2) [OF at] idle show "stream_alerts (stdout_text (printed (outp s)))
      = map clean_alert (filter (alert_has_text (localZone cfg)) (owed_alerts (rules eng) (outSeen s)))"
    by (simp add: out idle_def)
qed

text \<open>After a start of the program.\<close>

lemma setup_exact_alerts:
  assumes "main_setup unmarshal root attached client_err env opened = Inr (Some s0)"
    and "run (pipe_step cfg) as s0 = Inr (Some s)" and "\<forall>t. 60 dvd localZone cfg t"
    and "independent (rules (engine s0))" "groups_sorted (rules (engine s0)) (engSeen s)"
  shows "prefix (stream_alerts (stdout_text (printed (outp s))))
      (map clean_alert (filter (alert_has_text (localZone cfg)) (owed_alerts (rules (engine s0)) (engSeen s))))"
    and "idle s \<Longrightarrow> stream_alerts (stdout_text (printed (outp s)))
      = map clean_alert (filter (alert_has_text (localZone cfg)) (owed_alerts (rules (engine s0)) (outSeen s)))"
proof -
  obtain res where "reachable cfg (engine s0) res s" using setup_reachable [OF assms(1,2)] by blast
  note exact_alerts [OF this assms(3,4) setup_fresh [OF assms(1)] assms(5)]
  then show "prefix (stream_alerts (stdout_text (printed (outp s))))
      (map clean_alert (filter (alert_has_text (localZone cfg)) (owed_alerts (rules (engine s0)) (engSeen s))))"
    and "idle s \<Longrightarrow> stream_alerts (stdout_text (printed (outp s)))
      = map clean_alert (filter (alert_has_text (localZone cfg)) (owed_alerts (rules (engine s0)) (outSeen s)))"
    by blast+
qed

end
