(* ===== verification/ShippedAlerts.thy ===== *)
theory ShippedAlerts
  imports RuleFiles Exact
begin

text \<open>
  What the rule files of the repository detect: no two of them share a
  window, so the program prints exactly the alerts they owe, and the threshold
  rule counts connections to the SSH port between two containers.
\<close>

section \<open>The rules are independent\<close>

lemma independent_one:
  "\<forall>rule\<in>set rs. rSequence rule = None \<Longrightarrow> length (filter threshold_rule rs) \<le> 1 \<Longrightarrow> independent rs"
proof (induction rs)
  case (Cons rule rs)
  have "unshared rule rule'" if "rule' \<in> set rs" for rule'
  proof -
    have "filter threshold_rule rs = []" if "threshold_rule rule" using Cons.prems(2) that by simp
    with that show ?thesis by (auto simp: unshared_def filter_empty_conv)
  qed
  with Cons show ?case by (auto simp: independent_def split: if_splits)
qed (simp add: independent_def)

lemma shipped_thresholds: "filter threshold_rule shipped_rules = [rule_ssh_brute_force]"
proof -
  have "list_all (\<lambda>rule. \<not> threshold_rule rule) (butlast shipped_rules)"
    by (simp only: rule_unfold threshold_rule_def butlast.simps DetectConfig.simps if_False list.distinct not_Cons_self2)
       simp
  moreover have "shipped_rules = butlast shipped_rules @ [rule_ssh_brute_force]"
    by (simp add: shipped_rules_def)
  moreover have "threshold_rule rule_ssh_brute_force"
    by (simp add: threshold_rule_def rule_ssh_brute_force_def empty_rule_def)
  ultimately show ?thesis
    by (metis (mono_tags, lifting) append_Nil filter.simps filter_append filter_False list_all_iff)
qed

lemma shipped_independent: "independent shipped_rules"
  using shipped_no_sequence by (intro independent_one) (simp_all add: shipped_thresholds list_all_iff)

section \<open>The brute-force rule\<close>

lemma seconds_10: "ParseDuration ''10s'' = Some 10000000000"
proof -
  have "ParseDuration (dec 10 @ ''s'') = Some (int 10 * int 1000000000)"
    by (rule ParseDuration_dec) (simp_all add: unitMap_def)
  moreover have "dec 10 @ ''s'' = ''10s''" by (simp add: dec.simps digit_char_def char_of_def bit_0)
  ultimately show ?thesis by simp
qed

text \<open>A connection to the SSH port; a port of 0 passes the port test of a block.\<close>

definition ssh_connection :: "Event \<Rightarrow> bool" where
  "ssh_connection e \<longleftrightarrow> EvType e = ''connection'' \<and> EvDstPort e \<in> {0, 22}"

definition container_name :: "ContainerInfo option \<Rightarrow> string" where
  "container_name c = (case c of None \<Rightarrow> '''' | Some info \<Rightarrow> Name info)"

definition same_containers :: "Event \<Rightarrow> Event \<Rightarrow> bool" where
  "same_containers e e' \<longleftrightarrow>
     container_name (SrcContainer e) = container_name (SrcContainer e')
     \<and> container_name (DstContainer e) = container_name (DstContainer e')"

lemma ssh_block: "MatchEvent (connection_block '''' ''22'') e \<longleftrightarrow> ssh_connection e"
proof -
  have port: "accepts_port (scalar_port ''22'') q \<longleftrightarrow> q = 0 \<or> q = 22" for q
    unfolding scalar_ports by (auto simp: one_port_def accepts_port_def IsZero_def Match_iff)
  have "accepts_port zero_PortExpr q" for q by (simp add: accepts_port_def zero_PortExpr_def IsZero_def)
  then show ?thesis
    unfolding MatchEvent_iff [of "connection_block '''' ''22''" e]
    by (auto simp: port connection_block_def accepts_def accepts_container_def ssh_connection_def)
qed

lemma brute_force_match: "Rule_MatchEvent rule_ssh_brute_force e \<longleftrightarrow> ssh_connection e"
proof -
  have "rule_blocks rule_ssh_brute_force = [connection_block '''' ''22'']"
    by (simp add: rule_ssh_brute_force_def empty_rule_def rule_blocks_def)
  moreover have "rule_ssh_brute_force \<in> set shipped_rules" by (simp add: shipped_rules_def)
  ultimately show ?thesis using shipped_match [of rule_ssh_brute_force e] by (simp add: ssh_block)
qed

lemma brute_force_rule_simps:
  "rName rule_ssh_brute_force = ''ssh_brute_force''" "Count (rDetect rule_ssh_brute_force) = 3"
  "GroupBy (rDetect rule_ssh_brute_force) = [''src_container'', ''dst_container'']"
  "rule_window rule_ssh_brute_force = 10 * 10 ^ 9" "threshold_rule rule_ssh_brute_force"
  by (simp_all add: rule_ssh_brute_force_def empty_rule_def rule_window_def seconds_10 threshold_rule_def)

lemma brute_force_group:
  assumes "SrcContainer e \<noteq> None" "SrcContainer e' \<noteq> None" "colon_free e" "colon_free e'"
  shows "group_of rule_ssh_brute_force e = group_of rule_ssh_brute_force e' \<longleftrightarrow> same_containers e e'"
proof -
  let ?key = "buildGroupKey ''ssh_brute_force'' [''src_container'', ''dst_container'']"
  have "?key e = ?key e' \<longleftrightarrow> same_containers e e'"
    unfolding buildGroupKey_eq_iff [OF assms] using assms(1,2)
    by (auto simp: field_value_def same_containers_def container_name_def split: option.splits)
  moreover obtain k k' where "?key e = Inr k" "?key e' = Inr k'"
    using buildGroupKey_ok [OF assms(1)] buildGroupKey_ok [OF assms(2)] by blast
  ultimately show ?thesis by (simp add: group_of_def brute_force_rule_simps)
qed

lemma brute_force_fires:
  assumes "\<forall>x\<in>set (evs @ [e]). SrcContainer x \<noteq> None \<and> colon_free x"
  shows "fires rule_ssh_brute_force evs e \<longleftrightarrow> ssh_connection e
    \<and> 3 < length (filter (\<lambda>x. ssh_connection x \<and> same_containers x e
            \<and> time_Sub (EvTime e) (EvTime x) \<le> 10 * 10 ^ 9) (evs @ [e]))"
proof -
  let ?k = "group_of rule_ssh_brute_force e"
  have "length (recent (10 * 10 ^ 9) (EvTime e) (group_times rule_ssh_brute_force ?k (evs @ [e])))
      = length (filter (\<lambda>x. (ssh_connection x \<and> group_of rule_ssh_brute_force x = ?k)
            \<and> time_Sub (EvTime e) (EvTime x) \<le> 10 * 10 ^ 9) (evs @ [e]))"
    by (simp add: recent_def group_times_def brute_force_match filter_map comp_def conj_commute del: filter_append)
  also have "filter (\<lambda>x. (ssh_connection x \<and> group_of rule_ssh_brute_force x = ?k)
            \<and> time_Sub (EvTime e) (EvTime x) \<le> 10 * 10 ^ 9) (evs @ [e])
      = filter (\<lambda>x. ssh_connection x \<and> same_containers x e \<and> time_Sub (EvTime e) (EvTime x) \<le> 10 * 10 ^ 9) (evs @ [e])"
    by (rule filter_cong) (use assms brute_force_group [of _ e] in auto)
  finally show ?thesis
    by (simp add: fires_def over_threshold_def brute_force_rule_simps brute_force_match del: filter_append)
qed

section \<open>The program with its rules\<close>

text \<open>The goroutines can work off what is queued, and the text then holds what the rules owe.\<close>

lemma shipped_drain:
  assumes start: "main_setup unmarshal (Some d) attached client_err env opened = Inr (Some s0)"
    and dec: "list_all2 (decodes unmarshal) (rule_files d) shipped_rules"
    and run: "run (pipe_step cfg) as s0 = Inr (Some s)" "shutPC s = ShWait" and zone: "\<forall>t. 60 dvd localZone cfg t"
  shows "\<exists>bs s'. list_all internal bs \<and> run (pipe_step cfg) bs s = Inr (Some s') \<and> idle s'
    \<and> (groups_sorted shipped_rules (engSeen s') \<longrightarrow> stream_alerts (stdout_text (printed (outp s')))
        = map clean_alert (filter (alert_has_text (localZone cfg)) (owed_alerts shipped_rules (outSeen s'))))"
proof -
  note rules = shipped_start [OF start dec]
  obtain bs s' where bs: "list_all internal bs" "run (pipe_step cfg) bs s = Inr (Some s')" "idle s'"
    using pd.drains [OF setup_running [OF start run rules(2)]] by blast
  have "run (pipe_step cfg) (as @ bs) s0 = Inr (Some s')"
    by (simp only: run_append run(1) go_bind_simps option.case bs(2))
  from setup_exact_alerts(2) [OF start this zone] rules(1) shipped_independent bs show ?thesis
    by (intro exI [of _ bs] exI [of _ s']) (simp del: run.simps)
qed

end
