(* ===== verification/Footprint.thy ===== *)
theory Footprint
  imports Samples
begin

text \<open>
  Which bytes of the kernel's memory the probes of \<open>bpf/monitor.c\<close> look at: a
  socket probe at six members of the socket, the execve probe at the parent of
  the current task, and nothing else reaches a sample.
\<close>

section \<open>Memory\<close>

definition read_memory :: "(u64 \<Rightarrow> u8) \<Rightarrow> u64 \<Rightarrow> nat \<Rightarrow> bytes" where
  "read_memory mem a n = map (\<lambda>i. mem (a + of_nat i)) [0..<n]"

lemma length_read_memory [simp]: "length (read_memory mem a n) = n"
  by (simp add: read_memory_def)

text \<open>Two memories that agree on some bytes of an object.\<close>

definition agree :: "(u64 \<Rightarrow> u8) \<Rightarrow> (u64 \<Rightarrow> u8) \<Rightarrow> u64 \<Rightarrow> nat set \<Rightarrow> bool" where
  "agree mem mem' p offs \<longleftrightarrow> (\<forall>i\<in>offs. mem' (p + of_nat i) = mem (p + of_nat i))"

lemma agree_Un: "agree mem mem' p (a \<union> b) \<longleftrightarrow> agree mem mem' p a \<and> agree mem mem' p b"
  by (auto simp: agree_def)

lemma read_memory_agree:
  "read_memory mem' (p + of_nat off) n = read_memory mem (p + of_nat off) n \<longleftrightarrow> agree mem mem' p {off..<off + n}"
proof -
  have "{off..<off + n} = (\<lambda>i. off + i) ` {..<n}" by (simp add: image_add_atLeastLessThan' atLeast0LessThan [symmetric] add.commute [of off])
  then show ?thesis by (simp add: read_memory_def agree_def atLeast0LessThan add.assoc)
qed

text \<open>The members that \<open>BPF_CORE_READ\<close> is used on.\<close>

lemma core_read_agree:
  assumes "fieldof t fs = (off, n)"
    and "bpf_probe_read_kernel env = read_memory mem" "bpf_probe_read_kernel env' = read_memory mem'"
  shows "core_read env' t fs p = core_read env t fs p \<longleftrightarrow> agree mem mem' p {off..<off + n}"
  using assms by (simp add: core_read_def read_memory_agree)

lemmas member_agree =
  core_read_agree [OF sock_fieldof(1)] core_read_agree [OF sock_fieldof(2)] core_read_agree [OF sock_fieldof(3)]
  core_read_agree [OF sock_fieldof(4)] core_read_agree [OF sock_fieldof(5)]
  core_read_agree [OF task_fieldof(1)] core_read_agree [OF task_fieldof(2)] core_read_agree [OF task_fieldof(3)]

section \<open>Sockets\<close>

lemma le_decode_inject:
  fixes xs ys :: bytes
  assumes "length xs = n" "length ys = n" and "LENGTH('a::len) = 8 * n"
  shows "(le_decode xs :: 'a word) = le_decode ys \<longleftrightarrow> xs = ys"
proof
  assume eq: "(le_decode xs :: 'a word) = le_decode ys"
  show "xs = ys"
  proof (intro nth_equalityI bit_word_eqI)
    fix i k assume "i < length xs" "k < LENGTH(8)"
    with assms have "8 * i + k < LENGTH('a)" "(8 * i + k) div 8 = i" "(8 * i + k) mod 8 = k" by auto
    moreover have "8 * i + k < 8 * length xs" using \<open>i < length xs\<close> \<open>k < LENGTH(8)\<close> by simp
    ultimately have "bit (le_decode zs :: 'a word) (8 * i + k) = bit (zs ! i) k" if "length zs = n" for zs :: bytes
      using that assms(1) by (simp add: le_decode_bit)
    from this [OF assms(1)] this [OF assms(2)] eq show "bit (xs ! i) k = bit (ys ! i) k" by simp
  qed (use assms in simp)
qed simp

lemma bpf_htons_twice: "bpf_htons (bpf_htons w) = w"
  unfolding bpf_htons_def by (rule bit_word_eqI) (auto simp: bit_simps)

lemma bpf_htons_inject: "bpf_htons v = bpf_htons w \<longleftrightarrow> v = w"
  by (metis bpf_htons_twice)

definition sock_bytes :: "nat set" where
  "sock_bytes = {0..<4} \<union> {4..<8} \<union> {12..<14} \<union> {14..<16} \<union> {16..<18}"

lemma sock_bytes_set: "sock_bytes = {0..<8} \<union> {12..<18}"
  by (auto simp: sock_bytes_def)

lemma sock_agree:
  assumes "bpf_probe_read_kernel env = read_memory mem" "bpf_probe_read_kernel env' = read_memory mem'"
  shows "agree mem mem' sk sock_bytes \<longleftrightarrow>
    sock_endpoints env' sk = sock_endpoints env sk \<and> sock_family env' sk = sock_family env sk"
proof -
  have len: "length (core_read e struct_sock [''__sk_common'', f] sk) = snd (fieldof struct_sock [''__sk_common'', f])"
    if "e \<in> {env, env'}" for e f
    using that assms by (auto simp: core_read_def split: prod.split)
  show ?thesis
    using len [of env] len [of env']
    by (simp add: sock_bytes_def agree_Un sock_endpoints_def sock_family_def bpf_htons_inject sock_fieldof
        le_decode_inject [of _ 4] le_decode_inject [of _ 2] member_agree [OF assms] conj_ac)
qed

text \<open>Equal results of a socket probe, on two memories that differ anywhere.\<close>

lemma tcp_connect_footprint:
  assumes ok: "bpf_env_ok env comm ustr" and env: "bpf_probe_read_kernel env = read_memory mem"
    and sk: "sk \<noteq> 0" "sock_family env sk = AF_INET" and rsv: "bpf_ringbuf_reserve env (sizeof struct_event) = Some stale"
  shows "tcp_connect (env\<lparr>bpf_probe_read_kernel := read_memory mem'\<rparr>) sk rb = tcp_connect env sk rb
    \<longleftrightarrow> agree mem mem' sk sock_bytes"
proof -
  let ?env = "env\<lparr>bpf_probe_read_kernel := read_memory mem'\<rparr>"
  have ok': "bpf_env_ok ?env comm ustr" and rsv': "bpf_ringbuf_reserve ?env (sizeof struct_event) = Some stale"
    using ok rsv by (simp_all add: bpf_env_ok_def)
  obtain s e where s: "tcp_connect env sk rb = (0, rb @ [s])" "ParseEvent s = Some e"
      "(SrcAddr e, SrcPort e, DstAddr e, DstPort e) = sock_endpoints env sk"
    using tcp_connect_sample [OF ok sk rsv] by blast
  show ?thesis
  proof
    assume eq: "tcp_connect ?env sk rb = tcp_connect env sk rb"
    with s(1) have "snd (tcp_connect ?env sk rb) \<noteq> rb" by simp
    then have fam: "sock_family ?env sk = AF_INET" using tcp_connect_silent [of sk ?env rb] by fastforce
    from tcp_connect_sample [OF ok' sk(1) fam rsv', of rb] s eq have "sock_endpoints ?env sk = sock_endpoints env sk" by auto
    with fam sk(2) show "agree mem mem' sk sock_bytes" by (simp add: sock_agree [of env mem ?env mem'] env)
  next
    assume "agree mem mem' sk sock_bytes"
    then show "tcp_connect ?env sk rb = tcp_connect env sk rb"
      by (simp add: sock_bytes_def agree_Un tcp_connect_def sock_fields_def fill_common_fields_def env
          member_agree [of env mem ?env mem', THEN iffD2] split: option.split)
  qed
qed

lemma inet_csk_accept_footprint:
  assumes ok: "bpf_env_ok env comm ustr" and env: "bpf_probe_read_kernel env = read_memory mem"
    and sk: "sk \<noteq> 0" "sock_family env sk = AF_INET" and rsv: "bpf_ringbuf_reserve env (sizeof struct_event) = Some stale"
  shows "inet_csk_accept (env\<lparr>bpf_probe_read_kernel := read_memory mem'\<rparr>) sk rb = inet_csk_accept env sk rb
    \<longleftrightarrow> agree mem mem' sk sock_bytes"
proof -
  let ?env = "env\<lparr>bpf_probe_read_kernel := read_memory mem'\<rparr>"
  have ok': "bpf_env_ok ?env comm ustr" and rsv': "bpf_ringbuf_reserve ?env (sizeof struct_event) = Some stale"
    using ok rsv by (simp_all add: bpf_env_ok_def)
  obtain s e where s: "inet_csk_accept env sk rb = (0, rb @ [s])" "ParseEvent s = Some e"
      "(SrcAddr e, SrcPort e, DstAddr e, DstPort e) = sock_endpoints env sk"
    using inet_csk_accept_sample [OF ok sk rsv] by blast
  show ?thesis
  proof
    assume eq: "inet_csk_accept ?env sk rb = inet_csk_accept env sk rb"
    with s(1) have "snd (inet_csk_accept ?env sk rb) \<noteq> rb" by simp
    then have fam: "sock_family ?env sk = AF_INET" using inet_csk_accept_silent [of sk ?env rb] by fastforce
    from inet_csk_accept_sample [OF ok' sk(1) fam rsv', of rb] s eq have "sock_endpoints ?env sk = sock_endpoints env sk" by auto
    with fam sk(2) show "agree mem mem' sk sock_bytes" by (simp add: sock_agree [of env mem ?env mem'] env)
  next
    assume "agree mem mem' sk sock_bytes"
    then show "inet_csk_accept ?env sk rb = inet_csk_accept env sk rb"
      by (simp add: sock_bytes_def agree_Un inet_csk_accept_def sock_fields_def fill_common_fields_def env
          member_agree [of env mem ?env mem', THEN iffD2] split: option.split)
  qed
qed

section \<open>Processes\<close>

text \<open>
  The members of the current task and of its parent that the execve probe
  reads; the probe of \<open>openat\<close> reads no kernel memory.
\<close>

definition task_bytes :: "nat set" where
  "task_bytes = {2784..<2792}"

definition parent_bytes :: "nat set" where
  "parent_bytes = {2772..<2776} \<union> {3312..<3328}"

lemma handle_openat_footprint:
  "handle_openat (env\<lparr>bpf_probe_read_kernel := read\<rparr>) ctx rb = handle_openat env ctx rb"
  by (simp add: handle_openat_def fill_common_fields_def Let_def split: option.split)

lemma handle_execve_footprint:
  assumes env: "bpf_probe_read_kernel env = read_memory mem"
    and task: "agree mem mem' (bpf_get_current_task env) task_bytes"
    and parent: "agree mem mem' (parent_task env) parent_bytes"
  shows "handle_execve (env\<lparr>bpf_probe_read_kernel := read_memory mem'\<rparr>) ctx rb = handle_execve env ctx rb"
proof -
  let ?env = "env\<lparr>bpf_probe_read_kernel := read_memory mem'\<rparr>"
  note members = member_agree [of env mem ?env mem', THEN iffD2]
  have "core_read ?env struct_task_struct [''real_parent''] (bpf_get_current_task env)
      = core_read env struct_task_struct [''real_parent''] (bpf_get_current_task env)"
    using task by (simp add: members env task_bytes_def)
  moreover have "core_read ?env struct_task_struct [''tgid''] (parent_task env)
      = core_read env struct_task_struct [''tgid''] (parent_task env)"
    "core_read ?env struct_task_struct [''comm''] (parent_task env)
      = core_read env struct_task_struct [''comm''] (parent_task env)"
    using parent by (simp_all add: members env parent_bytes_def agree_Un)
  ultimately show ?thesis
    by (simp add: handle_execve_def fill_common_fields_def Let_def flip: parent_task_def split: option.split)
qed

end
