(* ===== verification/LiveRules.thy ===== *)
theory LiveRules
  imports RuleFiles Footprint
begin

text \<open>
  No block of a shipped rule is dead: for each of them there is a kernel whose
  probes submit samples from which the program makes an event that the block
  matches, and a schedule that brings this event to the rule engine.
\<close>

section \<open>Kernels\<close>

text \<open>An object in a memory that is zero elsewhere.\<close>

definition object_at :: "u64 \<Rightarrow> bytes \<Rightarrow> u64 \<Rightarrow> u8" where
  "object_at p obj a = (if unat (a - p) < length obj then obj ! unat (a - p) else 0)"

lemma read_object:
  assumes "off + n \<le> length obj" and "length obj < 2 ^ 64"
  shows "read_memory (object_at p obj) (p + of_nat off) n = take n (drop off obj)"
proof (rule nth_equalityI)
  show "length (read_memory (object_at p obj) (p + of_nat off) n) = length (take n (drop off obj))"
    using assms(1) by (simp add: read_memory_def)
next
  fix i assume "i < length (read_memory (object_at p obj) (p + of_nat off) n)"
  then have i: "i < n" by (simp add: read_memory_def)
  with assms have "unat (of_nat (off + i) :: u64) = off + i" by (simp add: unsigned_of_nat take_bit_nat_eq_self del: of_nat_add)
  with i assms(1) show "read_memory (object_at p obj) (p + of_nat off) n ! i = take n (drop off obj) ! i"
    by (simp add: read_memory_def object_at_def)
qed

definition write_cstr :: "bytes \<Rightarrow> bytes \<Rightarrow> bytes" where
  "write_cstr s dst = s @ 0 # drop (Suc (length s)) dst"

lemma write_cstr_ok: "0 \<notin> set s \<Longrightarrow> length s < length dst \<Longrightarrow> cstr_write dst s (write_cstr s dst)"
  by (simp add: cstr_write_def write_cstr_def)

text \<open>A caller with a name, a path in its memory, and a kernel memory.\<close>

definition probe_env :: "u64 \<Rightarrow> bytes \<Rightarrow> bytes \<Rightarrow> (u64 \<Rightarrow> u8) \<Rightarrow> bpf_env" where
  "probe_env cgroup name path mem =
     \<lparr>bpf_get_current_pid_tgid = 0, bpf_get_current_cgroup_id = cgroup,
      bpf_ktime_get_ns = 0, bpf_get_current_task = 0,
      bpf_get_current_comm = write_cstr name,
      bpf_probe_read_kernel = read_memory mem,
      bpf_probe_read_user_str = (\<lambda>a. write_cstr path),
      bpf_probe_read_kernel_str = (\<lambda>src. write_cstr (take 15 (takeWhile (\<lambda>b. b \<noteq> 0) src))),
      bpf_ringbuf_reserve = (\<lambda>n. Some (replicate n 0))\<rparr>"

lemma probe_env_ok:
  assumes "0 \<notin> set name" "length name < 16" and "0 \<notin> set path" "length path < 256"
  shows "bpf_env_ok (probe_env cgroup name path mem) name (\<lambda>a. path)"
proof -
  have "0 \<notin> set (take 15 (takeWhile (\<lambda>b. b \<noteq> 0) src))" for src :: bytes
    by (auto dest!: in_set_takeD dest: set_takeWhileD)
  then show ?thesis
    using assms by (auto simp: bpf_env_ok_def probe_env_def read_memory_def intro!: write_cstr_ok)
qed

lemma probe_env_simps [simp]:
  "bpf_get_current_cgroup_id (probe_env cgroup name path mem) = cgroup"
  "bpf_ringbuf_reserve (probe_env cgroup name path mem) n = Some (replicate n 0)"
  "bpf_get_current_task (probe_env cgroup name path mem) = 0"
  "bpf_probe_read_kernel (probe_env cgroup name path mem) = read_memory mem"
  by (simp_all add: probe_env_def)

text \<open>A socket with its two ends, and a process with the name of its parent at address 0.\<close>

definition sock_object :: "u32 \<Rightarrow> u16 \<Rightarrow> u32 \<Rightarrow> u16 \<Rightarrow> bytes" where
  "sock_object la lp ra rp =
     le_encode 4 ra @ le_encode 4 la @ replicate 4 0 @ le_encode 2 (bpf_htons rp) @ le_encode 2 lp @ le_encode 2 AF_INET"

lemma sock_object_read:
  assumes "env = probe_env cgroup name path (object_at sk (sock_object la lp ra rp))"
  shows "sock_endpoints env sk = (la, lp, ra, rp)" and "sock_family env sk = AF_INET"
proof -
  have len: "length (sock_object la lp ra rp) = 18" by (simp add: sock_object_def)
  note read = read_object [of _ _ "sock_object la lp ra rp" sk, unfolded len]
  from read [of 0] have read0: "n \<le> 18 \<Longrightarrow>
      read_memory (object_at sk (sock_object la lp ra rp)) sk n = take n (sock_object la lp ra rp)" for n by simp
  show "sock_endpoints env sk = (la, lp, ra, rp)" and "sock_family env sk = AF_INET"
    using read [of 4 4] read [of 12 2] read [of 14 2] read [of 16 2] read0 [of 4]
    by (simp_all add: assms sock_endpoints_def sock_family_def core_read_def sock_fieldof le_decode_encode
        bpf_htons_twice) (simp_all add: sock_object_def le_decode_encode bpf_htons_twice)
qed

text \<open>Strings as bytes without a zero.\<close>

definition string_bytes :: "string \<Rightarrow> bytes" where
  "string_bytes s = map (\<lambda>c. of_nat (byte_of c)) s"

definition c_name :: "string \<Rightarrow> nat \<Rightarrow> bool" where
  "c_name s n \<longleftrightarrow> CHR 0x00 \<notin> set s \<and> length s < n"

lemma byte_word: "unat (of_nat (byte_of c) :: u8) = byte_of c"
  by (simp add: unsigned_of_nat take_bit_nat_eq_self)

lemma go_string_bytes [simp]: "go_string (string_bytes s) = s"
  by (simp add: go_string_def string_bytes_def byte_word comp_def)

lemma string_bytes_ok:
  assumes "c_name s n"
  shows "0 \<notin> set (string_bytes s)" and "length (string_bytes s) < n"
proof -
  have "(of_nat (byte_of c) :: u8) \<noteq> 0" if "c \<noteq> CHR 0x00" for c
  proof
    assume "(of_nat (byte_of c) :: u8) = 0"
    then have "byte_of c = 0" using byte_word [of c] by simp
    then have "c = char_of (0 :: nat)" by (metis char_of_char)
    also have "char_of (0 :: nat) = CHR 0x00" by (simp add: char_of_def)
    finally show False using that by simp
  qed
  with assms show "0 \<notin> set (string_bytes s)"
    unfolding string_bytes_def c_name_def by (metis (no_types, lifting) imageE set_map)
  show "length (string_bytes s) < n" using assms by (simp add: string_bytes_def c_name_def)
qed

section \<open>What the program can observe\<close>

text \<open>A sample that one of the probes submits.\<close>

definition probe_sample :: "bytes \<Rightarrow> bool" where
  "probe_sample raw \<longleftrightarrow>
     (\<exists>env comm ustr. bpf_env_ok env comm ustr
        \<and> ((\<exists>sk. tcp_connect env sk [] = (0, [raw]) \<or> inet_csk_accept env sk [] = (0, [raw]))
           \<or> (\<exists>ctx. handle_openat env ctx [] = (0, [raw]) \<or> handle_execve env ctx [] = (0, [raw]))))"

text \<open>An event that, after a start, a schedule with such samples brings to both consumers.\<close>

definition observed :: "pipe_config \<Rightarrow> RuleEngine \<Rightarrow> Resolver \<Rightarrow> Event \<Rightarrow> bool" where
  "observed cfg eng res e \<longleftrightarrow>
     (\<exists>as s. (\<forall>raw. Kernel raw \<in> set as \<longrightarrow> probe_sample raw)
        \<and> run (pipe_step cfg) as (pipeline_start eng res) = Inr (Some s) \<and> outSeen s = [e] \<and> engSeen s = [e])"

lemma observedI:
  assumes "run (pipe_step cfg) as (pipeline_start eng res) = Inr (Some s)" and "consumed cfg eng e s"
    and "\<And>raw. Kernel raw \<in> set as \<Longrightarrow> probe_sample raw"
  shows "observed cfg eng res e"
  using assms unfolding observed_def consumed_def by blast

lemma exec_observed:
  assumes cache: "cache res c = Some info" "c \<noteq> 0"
    and name: "c_name name 16" and path: "c_name path 256" and parent: "c_name parent 16"
  shows "\<exists>e. observed cfg eng res e
    \<and> same_values e (zero_Event\<lparr>EvType := ''exec'', SrcProcessName := name, ExecPath := path, ParentProcessName := parent\<rparr>)"
proof -
  let ?parent = "string_bytes parent @ replicate (16 - length parent) 0"
  define env where "env = probe_env c (string_bytes name) (string_bytes path) (object_at 3312 ?parent)"
  let ?ctx = "replicate 64 0"
  have ok: "bpf_env_ok env (string_bytes name) (\<lambda>a. string_bytes path)"
    unfolding env_def by (rule probe_env_ok; fact string_bytes_ok [OF name] string_bytes_ok [OF path])
  have cg: "bpf_get_current_cgroup_id env \<noteq> 0" "cache res (bpf_get_current_cgroup_id env) = Some info"
    using cache by (simp_all add: env_def)
  have rsv: "bpf_ringbuf_reserve env (sizeof struct_event) = Some (replicate (sizeof struct_event) 0)" by (simp add: env_def)
  have len: "length ?parent = 16" using parent by (simp add: c_name_def string_bytes_def)
  have zero: "object_at 3312 ?parent (2784 + of_nat i) = 0" if "i < 8" for i
  proof -
    have "i \<in> set [0..<8]" using that by simp
    then have "\<not> unat (2784 + of_nat i - 3312 :: u64) < 16" by (auto simp: upt_rec)
    then show ?thesis by (simp only: object_at_def len if_False)
  qed
  have "read_memory (object_at 3312 ?parent) 2784 8 = replicate 8 0"
    by (rule nth_equalityI) (simp_all add: read_memory_def zero)
  then have "parent_task env = 0"
    by (simp add: parent_task_def core_read_def task_fieldof env_def numeral_eq_Suc)
  moreover have "core_read env struct_task_struct [''comm''] 0 = ?parent"
    using read_object [of 0 16 ?parent 3312] len by (simp add: core_read_def task_fieldof env_def)
  moreover have "takeWhile (\<lambda>b. b \<noteq> 0) ?parent = string_bytes parent"
    using string_bytes_ok(1) [OF parent] by (subst takeWhile_append2) (auto simp: takeWhile_replicate)
  moreover have "take 15 (string_bytes parent) = string_bytes parent"
    using string_bytes_ok(2) [OF parent] by simp
  ultimately obtain raw ev where raw: "handle_execve env ?ctx [] = (0, [raw])" "ParseEvent raw = Some ev"
      "common_view env (string_bytes name) EVENT_EXEC ev" "NullTermStr (Filepath ev) = path"
      "NullTermStr (ParentComm ev) = parent"
    using handle_execve_sample [OF ok cg(1) rsv, of ?ctx "[]"] by auto
  let ?e = "(exec_event (bootTime cfg) ev)\<lparr>SrcContainer := Some info, DstContainer := None\<rparr>"
  obtain s where s: "run (pipe_step cfg) (Kernel raw # delivery) (pipeline_start eng res) = Inr (Some s)"
      "consumed cfg eng ?e s"
    using sample_delivered [OF raw(2), of res info "exec_event (bootTime cfg) ev" cfg eng] cg(2) raw(3)
    by (auto simp: common_view_def simp del: run.simps)
  have "probe_sample raw" using ok raw(1) unfolding probe_sample_def by blast
  then have "observed cfg eng res ?e" by (intro observedI [OF s]) (auto simp: delivery_def)
  moreover have "same_values ?e (zero_Event\<lparr>EvType := ''exec'', SrcProcessName := name, ExecPath := path, ParentProcessName := parent\<rparr>)"
    using raw by (simp add: same_values_def exec_event_def common_view_def zero_Event_def)
  ultimately show ?thesis by blast
qed

lemma file_observed:
  assumes cache: "cache res c = Some info" "c \<noteq> 0"
    and name: "c_name name 16" and path: "c_name path 256" and op: "op \<in> {''read'', ''write''}"
  shows "\<exists>e. observed cfg eng res e
    \<and> same_values e (zero_Event\<lparr>EvType := ''file_open'', SrcProcessName := name, FilePath := path, FileOp := op\<rparr>)"
proof -
  define env where "env = probe_env c (string_bytes name) (string_bytes path) (\<lambda>a. 0)"
  define ctx :: bytes where "ctx = replicate 32 0 @ (if op = ''write'' then 1 else 0) # replicate 31 0"
  have ok: "bpf_env_ok env (string_bytes name) (\<lambda>a. string_bytes path)"
    unfolding env_def by (rule probe_env_ok; fact string_bytes_ok [OF name] string_bytes_ok [OF path])
  have cg: "bpf_get_current_cgroup_id env \<noteq> 0" "cache res (bpf_get_current_cgroup_id env) = Some info"
    using cache by (simp_all add: env_def)
  have rsv: "bpf_ringbuf_reserve env (sizeof struct_event) = Some (replicate (sizeof struct_event) 0)" by (simp add: env_def)
  have "ctx_arg ctx 2 = (if op = ''write'' then 1 else 0)"
    by (simp add: ctx_arg_def args_fieldof ctx_def load_def numeral_eq_Suc)
  then obtain raw ev where raw: "handle_openat env ctx [] = (0, [raw])" "ParseEvent raw = Some ev"
      "common_view env (string_bytes name) EVENT_FILE_OPEN ev" "NullTermStr (Filepath ev) = path"
      "Flags ev = (if op = ''write'' then 1 else 0)"
    using handle_openat_sample [OF ok cg(1) rsv, of ctx "[]"] by (auto split: if_splits)
  let ?e = "(file_event (bootTime cfg) ev)\<lparr>SrcContainer := Some info, DstContainer := None\<rparr>"
  obtain s where s: "run (pipe_step cfg) (Kernel raw # delivery) (pipeline_start eng res) = Inr (Some s)"
      "consumed cfg eng ?e s"
    using sample_delivered [OF raw(2), of res info "file_event (bootTime cfg) ev" cfg eng] cg(2) raw(3)
    by (auto simp: common_view_def simp del: run.simps)
  have "probe_sample raw" using ok raw(1) unfolding probe_sample_def by blast
  then have "observed cfg eng res ?e" by (intro observedI [OF s]) (auto simp: delivery_def)
  moreover have "OpenFlagsToOp (Flags ev) = op"
    using op raw(5) by (auto simp: OpenFlagsToOp_def)
  then have "same_values ?e (zero_Event\<lparr>EvType := ''file_open'', SrcProcessName := name, FilePath := path, FileOp := op\<rparr>)"
    using raw by (simp add: same_values_def file_event_def common_view_def zero_Event_def)
  ultimately show ?thesis by blast
qed

lemma connection_observed:
  assumes cache: "cache res c = Some info" "c \<noteq> 0" and keep: "HasPrefix (Name info) (filterPrefixArg cfg)"
    and name: "c_name name 16"
  shows "\<exists>e. observed cfg eng res e
    \<and> same_values e (zero_Event\<lparr>EvType := ''connection'', SrcProcessName := name, EvDstPort := port\<rparr>)"
proof -
  define env1 where "env1 = probe_env c (string_bytes name) [] (object_at 4096 (sock_object 2 40000 1 port))"
  define env2 where "env2 = probe_env c [] [] (object_at 8192 (sock_object 1 port 2 40000))"
  note sk1 = sock_object_read [OF env1_def] and sk2 = sock_object_read [OF env2_def]
  have ok: "bpf_env_ok env1 (string_bytes name) (\<lambda>a. [])" "bpf_env_ok env2 [] (\<lambda>a. [])"
    unfolding env1_def env2_def using string_bytes_ok [OF name] by (auto intro: probe_env_ok)
  have rsv: "bpf_ringbuf_reserve env1 (sizeof struct_event) = Some (replicate (sizeof struct_event) 0)"
      "bpf_ringbuf_reserve env2 (sizeof struct_event) = Some (replicate (sizeof struct_event) 0)"
    by (simp_all add: env1_def env2_def)
  have cg: "cache res (bpf_get_current_cgroup_id env1) = Some info" "bpf_get_current_cgroup_id env2 \<noteq> 0"
      "cache res (bpf_get_current_cgroup_id env2) = Some info"
    using cache by (simp_all add: env1_def env2_def)
  have kept: "\<not> filtered (filterPrefixArg cfg) info (Some info)" using keep by (simp add: filtered_def)
  obtain raw1 raw2 s e where raw: "tcp_connect env1 4096 [] = (0, [raw1])" "inet_csk_accept env2 8192 [] = (0, [raw2])"
    and s: "run (pipe_step cfg) ([Kernel raw1, MainLoop, MainLoop, Kernel raw2, MainLoop, MainLoop] @ forwarding)
        (pipeline_start eng res) = Inr (Some s)" "consumed cfg eng e s"
    and e: "EvType e = ''connection''" "SrcProcessName e = go_string (string_bytes name)" "EvDstPort e = port"
      "FilePath e = ''''" "FileOp e = ''''" "ExecPath e = ''''" "ParentProcessName e = ''''"
    using connection_delivered [OF ok(1) _ sk1(2) rsv(1) ok(2) _ sk2(2) rsv(2) sk1(1) sk2(1) cg kept, of eng] by auto
  have "probe_sample raw1" "probe_sample raw2" using ok raw unfolding probe_sample_def by blast+
  then have "observed cfg eng res e" by (intro observedI [OF s]) (auto simp: forwarding_def)
  with e show ?thesis by (intro exI [of _ e]) (simp add: same_values_def zero_Event_def)
qed

section \<open>The shipped rules\<close>

lemma simple_pattern_name: "simple_pattern p \<Longrightarrow> length (unstar p) < n \<Longrightarrow> c_name (unstar p) n"
  by (auto simp: c_name_def simple_pattern_def unstar_def list_all_iff)

lemma live_observed:
  assumes "live m" and "cache res c = Some info" "c \<noteq> 0" "HasPrefix (Name info) (filterPrefixArg cfg)"
  shows "\<exists>e. observed cfg eng res e \<and> MatchEvent m e"
proof -
  from assms(1) have simple: "simple_block m" and fit: "fitting m" by (simp_all add: live_def)
  have names: "c_name (unstar (mbSrcProcess m)) 16"
      "length (unstar (mbFilePath m)) < 256 \<Longrightarrow> c_name (unstar (mbFilePath m)) 256"
      "length (unstar (mbExecPath m)) < 256 \<Longrightarrow> c_name (unstar (mbExecPath m)) 256"
      "length (unstar (mbParentProcess m)) < 16 \<Longrightarrow> c_name (unstar (mbParentProcess m)) 16"
    using simple fit by (simp_all add: simple_block_def fitting_def simple_pattern_name)
  have ops: "unstar ''read'' = ''read''" "unstar ''write'' = ''write''" by (simp_all add: unstar_def)
  from fit have "\<exists>e. observed cfg eng res e \<and> same_values e (sample_event m)"
    unfolding fitting_def
  proof (elim conjE disjE)
    assume "mbEventType m = ''connection''" "mbFilePath m = ''''" "mbFileOp m = ''''" "mbExecPath m = ''''"
      "mbParentProcess m = ''''"
    with connection_observed [OF assms(2-4) names(1), of eng "some_port (mbDstPort m)"] show ?thesis
      by (simp add: sample_event_def same_values_def zero_Event_def)
  next
    assume "mbEventType m = ''file_open''" "length (unstar (mbFilePath m)) < 256" "mbFileOp m \<in> {''read'', ''write''}"
      "some_port (mbDstPort m) = 0" "mbExecPath m = ''''" "mbParentProcess m = ''''"
    with file_observed [OF assms(2,3) names(1,2), of "mbFileOp m" cfg eng] show ?thesis
      by (auto simp: sample_event_def same_values_def zero_Event_def ops)
  next
    assume "mbEventType m = ''exec''" "length (unstar (mbExecPath m)) < 256" "length (unstar (mbParentProcess m)) < 16"
      "some_port (mbDstPort m) = 0" "mbFilePath m = ''''" "mbFileOp m = ''''"
    with exec_observed [OF assms(2,3) names(1,3,4), of cfg eng] show ?thesis
      by (simp add: sample_event_def same_values_def zero_Event_def)
  qed
  with sample_event_matches [OF simple] show ?thesis by blast
qed

lemma shipped_live:
  assumes "rule \<in> set shipped_rules" and "m \<in> set (rule_blocks rule)"
    and "cache res c = Some info" "c \<noteq> 0" "HasPrefix (Name info) (filterPrefixArg cfg)"
  shows "\<exists>e. observed cfg eng res e \<and> MatchEvent m e"
proof -
  have "live m" using assms(1,2) shipped_blocks by (auto simp: list_all_iff)
  from live_observed [OF this assms(3-5)] show ?thesis .
qed

end
