(* ===== verification/Conserve.thy ===== *)
theory Conserve
  imports Exact
begin

text \<open>
  Events are neither lost nor made up between the ring and the consumers: in
  every interleaving with a fixed set of containers, what the consumers
  receive is what the samples give, once nothing is queued.
\<close>

section \<open>What samples give\<close>

text \<open>
  A decoded sample is an operation of the correlator, an event of its own, or
  neither.
\<close>

definition sample_op :: "MonitorEvent \<Rightarrow> corr_op option" where
  "sample_op ev =
     (if EventType ev = EVENT_NET_CONNECT then
        Some (Connect (SrcAddr ev) (SrcPort ev) (DstAddr ev) (DstPort ev) (CgroupId ev) (Pid ev) (Comm ev) (Timestamp ev))
      else if EventType ev = EVENT_NET_ACCEPT then
        Some (Accept (SrcAddr ev) (SrcPort ev) (DstAddr ev) (DstPort ev) (CgroupId ev) (Pid ev) (Comm ev))
      else None)"

definition direct_event :: "go_time \<Rightarrow> MonitorEvent \<Rightarrow> Event option" where
  "direct_event boot ev =
     (if EventType ev = EVENT_FILE_OPEN then Some (file_event boot ev)
      else if EventType ev = EVENT_EXEC then Some (exec_event boot ev)
      else None)"

definition sample_ops :: "bytes list \<Rightarrow> corr_op list" where
  "sample_ops raws = List.map_filter sample_op (List.map_filter ParseEvent raws)"

definition direct_events :: "go_time \<Rightarrow> bytes list \<Rightarrow> Event list" where
  "direct_events boot raws = List.map_filter (direct_event boot) (List.map_filter ParseEvent raws)"

text \<open>The fan-out on one event: dropped, or with its containers.\<close>

definition enrich :: "pipe_config \<Rightarrow> Resolver \<Rightarrow> Event \<Rightarrow> Event option" where
  "enrich cfg res e =
     (case Resolve res (SrcCgroupID e) of
        None \<Rightarrow> None
      | Some src \<Rightarrow>
          (let dst = (if DstCgroupID e \<noteq> 0 then Resolve res (DstCgroupID e) else None)
           in if filtered (filterPrefixArg cfg) src dst then None
              else Some (e\<lparr>SrcContainer := Some src, DstContainer := dst\<rparr>)))"

text \<open>
  What a schedule brings in from outside: samples, cleanup ticks, and updates
  of the cache of containers.
\<close>

fun arrival :: "actor \<Rightarrow> bytes option" where
  "arrival (Kernel raw) = Some raw"
| "arrival a = None"

fun tick :: "actor \<Rightarrow> corr_op option" where
  "tick (CleanupTick now) = Some (Tick now)"
| "tick a = None"

fun container_change :: "actor \<Rightarrow> bool" where
  "container_change (DockerUpdate env) \<longleftrightarrow> True"
| "container_change a \<longleftrightarrow> False"

text \<open>
  The events that samples and cleanup ticks give to the fan-out: those of the
  correlator, for some order of its operations, merged with the events that
  need no correlation.
\<close>

definition event_histories :: "go_time \<Rightarrow> bytes list \<Rightarrow> corr_op list \<Rightarrow> Event list set" where
  "event_histories boot raws ticks =
     (\<Union>ops\<in>shuffles (sample_ops raws) ticks.
        shuffles (spec_events boot (time_Second * 5) (rev ops)) (direct_events boot raws))"

section \<open>Merging\<close>

lemma shuffles_snoc1: "zs \<in> shuffles xs ys \<Longrightarrow> zs @ [x] \<in> shuffles (xs @ [x]) ys"
proof (induction xs ys arbitrary: zs rule: shuffles.induct)
  case (1 ys)
  have "ys @ [x] \<in> shuffles [x] ys" for ys :: "'a list"
    by (induction ys) (auto intro: Cons_in_shuffles_rightI)
  with 1 show ?case by simp
next
  case (2 x' xs)
  then show ?case by simp
next
  case (3 x' xs y ys)
  then show ?case by (auto intro: Cons_in_shuffles_leftI Cons_in_shuffles_rightI)
qed

lemma shuffles_snoc2: "zs \<in> shuffles xs ys \<Longrightarrow> zs @ [y] \<in> shuffles xs (ys @ [y])"
  using shuffles_snoc1 [of zs ys xs y] by (simp add: shuffles_commutes)

lemma shuffles_Nil2 [simp]: "shuffles xs [] = {xs}"
  by (cases xs) simp_all

section \<open>The invariant\<close>

fun main_held :: "main_pc \<Rightarrow> Event list" where
  "main_held (MainSend e) = [e]"
| "main_held pc = []"

fun read_held :: "main_pc \<Rightarrow> bytes list \<Rightarrow> bool" where
  "read_held (MainGot ev) got \<longleftrightarrow> (\<exists>raw. got = [raw] \<and> ParseEvent raw = Some ev)"
| "read_held pc got \<longleftrightarrow> got = []"

fun fanin_held :: "fanin_pc \<Rightarrow> Event list" where
  "fanin_held (FiSend e) = [e]"
| "fanin_held pc = []"

text \<open>
  The samples \<open>ks\<close> that were dispatched and the ticks explain the correlator and the
  event that the main loop is about to send; \<open>taken\<close> are the events that the
  fan-in took.
\<close>

definition source_at :: "pipe_config \<Rightarrow> bytes list \<Rightarrow> corr_op list \<Rightarrow> corr_op list \<Rightarrow> Correlator \<Rightarrow> Event list \<Rightarrow> bool" where
  "source_at cfg ks ticks ops c taken \<longleftrightarrow>
     ops \<in> shuffles (sample_ops ks) ticks
     \<and> corr_abs (bootTime cfg) (time_Second * 5) (rev ops) (c, taken)"

text \<open>What was ever sent to \<open>eventsCh\<close> merges the two senders.\<close>

definition merged :: "fanin_pc \<Rightarrow> main_pc \<Rightarrow> Event list \<Rightarrow> Event list \<Rightarrow> Event list \<Rightarrow> bool" where
  "merged fpc mpc taken ds zs \<longleftrightarrow>
     (\<exists>xs ys. zs \<in> shuffles xs ys \<and> taken = xs @ fanin_held fpc \<and> ds = ys @ main_held mpc)"

text \<open>What the fan-out has made of the events it received.\<close>

fun fanout_at :: "pipe_config \<Rightarrow> Resolver \<Rightarrow> Event list \<Rightarrow> fanout_pc \<Rightarrow> Event list \<Rightarrow> bool" where
  "fanout_at cfg res passed (FoGot e) outs \<longleftrightarrow>
     (\<exists>es. passed = es @ [e] \<and> outs = List.map_filter (enrich cfg res) es)"
| "fanout_at cfg res passed (FoSrc e src) outs \<longleftrightarrow>
     (\<exists>es. passed = es @ [e] \<and> outs = List.map_filter (enrich cfg res) es \<and> Resolve res (SrcCgroupID e) = Some src)"
| "fanout_at cfg res passed (FoOut e) outs \<longleftrightarrow> outs @ [e] = List.map_filter (enrich cfg res) passed"
| "fanout_at cfg res passed pc outs \<longleftrightarrow> outs = List.map_filter (enrich cfg res) passed"

definition accounts :: "pipe_config \<Rightarrow> Resolver \<Rightarrow> actor list \<Rightarrow> pipeline \<Rightarrow> bool" where
  "accounts cfg res as s \<longleftrightarrow>
     resolver s = res
     \<and> (\<exists>ks got ops taken passed.
          List.map_filter arrival as = ks @ got @ ring s \<and> read_held (mainPC s) got
          \<and> source_at cfg ks (List.map_filter tick as) ops (corr s) taken
          \<and> merged (faninPC s) (mainPC s) taken (direct_events (bootTime cfg) ks) (passed @ chan_buf (eventsCh s))
          \<and> fanout_at cfg res passed (fanoutPC s) (outSeen s @ chan_buf (outputCh s)))"

lemma accountsI:
  assumes "resolver s = res" "List.map_filter arrival as = ks @ got @ ring s" "read_held (mainPC s) got"
    and "source_at cfg ks (List.map_filter tick as) ops (corr s) taken"
    and "merged (faninPC s) (mainPC s) taken (direct_events (bootTime cfg) ks) (passed @ chan_buf (eventsCh s))"
    and "fanout_at cfg res passed (fanoutPC s) (outSeen s @ chan_buf (outputCh s))"
  shows "accounts cfg res as s"
  using assms unfolding accounts_def by blast

lemma accountsE:
  assumes "accounts cfg res as s"
  obtains ks got ops taken passed where "resolver s = res" "List.map_filter arrival as = ks @ got @ ring s"
    "read_held (mainPC s) got"
    and "source_at cfg ks (List.map_filter tick as) ops (corr s) taken"
    and "merged (faninPC s) (mainPC s) taken (direct_events (bootTime cfg) ks) (passed @ chan_buf (eventsCh s))"
    and "fanout_at cfg res passed (fanoutPC s) (outSeen s @ chan_buf (outputCh s))"
  using assms unfolding accounts_def by blast

lemma accounts_start: "accounts cfg res [] (pipeline_start eng res)"
  by (rule accountsI [of _ _ _ "[]" "[]" _ "[]" "[]" "[]"])
    (simp_all add: pipeline_start_def List.map_filter_simps source_at_def sample_ops_def corr_abs_New
      merged_def direct_events_def make_chan_def)

section \<open>The senders\<close>

lemma merged_main_send: "merged fpc (MainSend e) taken ds zs \<Longrightarrow> merged fpc MainRead taken ds (zs @ [e])"
  unfolding merged_def by (auto dest: shuffles_snoc2)

lemma merged_fanin_send: "merged (FiSend e) mpc taken ds zs \<Longrightarrow> merged FiRecv mpc taken ds (zs @ [e])"
  unfolding merged_def by (auto dest: shuffles_snoc1)

lemma sample_snoc:
  "ParseEvent raw = None \<Longrightarrow> sample_ops (ks @ [raw]) = sample_ops ks"
  "ParseEvent raw = None \<Longrightarrow> direct_events boot (ks @ [raw]) = direct_events boot ks"
  "ParseEvent raw = Some ev \<Longrightarrow> sample_ops (ks @ [raw]) = sample_ops ks @ (case sample_op ev of None \<Rightarrow> [] | Some op \<Rightarrow> [op])"
  "ParseEvent raw = Some ev \<Longrightarrow>
     direct_events boot (ks @ [raw]) = direct_events boot ks @ (case direct_event boot ev of None \<Rightarrow> [] | Some e \<Rightarrow> [e])"
  by (simp_all add: sample_ops_def direct_events_def map_filter_append List.map_filter_simps split: option.splits)

lemma source_at_op:
  assumes "source_at cfg ks ticks ops c taken" and "sample_op ev = Some op" and "ParseEvent raw = Some ev"
    and "corr_step (bootTime cfg) op (c, taken) = Inr (Some (c', taken))"
  shows "source_at cfg (ks @ [raw]) ticks (ops @ [op]) c' taken"
  using assms corr_abs_step [of "bootTime cfg" _ "rev ops" "(c, taken)" op "(c', taken)"]
  by (simp add: source_at_def sample_snoc shuffles_snoc1)

lemma dispatch_cases:
  assumes "dispatch cfg ev s = Inr (Some s')"
  obtains (op) op c' where "sample_op ev = Some op" "direct_event (bootTime cfg) ev = None"
      "\<And>taken. corr_step (bootTime cfg) op (corr s, taken) = Inr (Some (c', taken))" "s' = s\<lparr>corr := c', mainPC := MainRead\<rparr>"
    | (event) e where "sample_op ev = None" "direct_event (bootTime cfg) ev = Some e" "s' = s\<lparr>mainPC := MainSend e\<rparr>"
    | (skip) "sample_op ev = None" "direct_event (bootTime cfg) ev = None" "s' = s\<lparr>mainPC := MainRead\<rparr>"
proof -
  consider "EventType ev = EVENT_NET_CONNECT" | "EventType ev = EVENT_NET_ACCEPT" | "EventType ev = EVENT_FILE_OPEN"
    | "EventType ev = EVENT_EXEC"
    | "EventType ev \<notin> {EVENT_NET_CONNECT, EVENT_NET_ACCEPT, EVENT_FILE_OPEN, EVENT_EXEC}" by blast
  then show thesis
  proof cases
    case 1
    with assms show thesis by (intro op) (auto simp: dispatch_def sample_op_def direct_event_def event_type_defs)
  next
    case 2
    with assms obtain c' where "HandleAccept (SrcAddr ev) (SrcPort ev) (DstAddr ev) (DstPort ev) (CgroupId ev) (Pid ev)
        (Comm ev) (corr s) = Inr (Some c')" "s' = s\<lparr>corr := c', mainPC := MainRead\<rparr>"
      by (auto simp: dispatch_def event_type_defs go_simps)
    with 2 show thesis by (intro op) (auto simp: sample_op_def direct_event_def event_type_defs)
  next
    case 3
    with assms show thesis by (intro event) (auto simp: dispatch_def sample_op_def direct_event_def event_type_defs)
  next
    case 4
    with assms show thesis by (intro event) (auto simp: dispatch_def sample_op_def direct_event_def event_type_defs)
  next
    case 5
    with assms show thesis by (intro skip) (auto simp: dispatch_def sample_op_def direct_event_def)
  qed
qed

lemma main_step_accounts:
  assumes step: "main_step cfg s = Inr (Some s')" and acc: "accounts cfg res as s"
  shows "accounts cfg res (as @ [MainLoop]) s'"
proof -
  from acc obtain ks got ops taken passed where res: "resolver s = res"
    and ring: "List.map_filter arrival as = ks @ got @ ring s" and got: "read_held (mainPC s) got"
    and src: "source_at cfg ks (List.map_filter tick as) ops (corr s) taken"
    and mrg: "merged (faninPC s) (mainPC s) taken (direct_events (bootTime cfg) ks) (passed @ chan_buf (eventsCh s))"
    and fo: "fanout_at cfg res passed (fanoutPC s) (outSeen s @ chan_buf (outputCh s))" by (rule accountsE)
  note hist = map_filter_append List.map_filter_simps
  show ?thesis
  proof (cases "mainPC s")
    case MainRead
    show ?thesis
    proof (cases "ringClosed s")
      case True
      with MainRead step have "s' = s\<lparr>mainPC := MainExit\<rparr>" by (simp add: main_step_def)
      with res ring got src mrg fo MainRead show ?thesis
        by (intro accountsI [of _ _ _ ks got _ ops taken passed]) (simp_all add: hist merged_def)
    next
      case False
      with MainRead step obtain raw rest where rest: "ring s = raw # rest"
        and s': "s' = (case ParseEvent raw of None \<Rightarrow> s\<lparr>ring := rest\<rparr> | Some ev \<Rightarrow> s\<lparr>ring := rest, mainPC := MainGot ev\<rparr>)"
        by (auto simp: main_step_def split: list.splits option.splits)
      from MainRead got have "got = []" by simp
      show ?thesis
      proof (cases "ParseEvent raw")
        case None
        with s' rest res ring src mrg fo MainRead \<open>got = []\<close> show ?thesis
          by (intro accountsI [of _ _ _ "ks @ [raw]" "[]" _ ops taken passed]) (simp_all add: hist source_at_def sample_snoc)
      next
        case (Some ev)
        with s' rest res ring src mrg fo MainRead \<open>got = []\<close> show ?thesis
          by (intro accountsI [of _ _ _ ks "[raw]" _ ops taken passed]) (simp_all add: hist merged_def)
      qed
    qed
  next
    case (MainGot ev)
    with step have "dispatch cfg ev s = Inr (Some s')" by (simp add: main_step_def)
    moreover from MainGot got obtain raw where raw: "got = [raw]" "ParseEvent raw = Some ev" by auto
    ultimately show ?thesis
    proof (cases rule: dispatch_cases)
      case (op op c')
      with source_at_op [OF src _ raw(2), of op c'] res ring mrg fo raw MainGot show ?thesis
        by (intro accountsI [of _ _ _ "ks @ [raw]" "[]" _ "ops @ [op]" taken passed])
          (simp_all add: hist sample_snoc merged_def)
    next
      case (event e)
      with res ring src mrg fo raw MainGot show ?thesis
        by (intro accountsI [of _ _ _ "ks @ [raw]" "[]" _ ops taken passed])
          (simp_all add: hist source_at_def sample_snoc merged_def)
    next
      case skip
      with res ring src mrg fo raw MainGot show ?thesis
        by (intro accountsI [of _ _ _ "ks @ [raw]" "[]" _ ops taken passed])
          (simp_all add: hist source_at_def sample_snoc merged_def)
    qed
  next
    case (MainSend e)
    with step obtain ch where ch: "chan_send e (eventsCh s) = Inr (Some ch)" and s': "s' = s\<lparr>eventsCh := ch, mainPC := MainRead\<rparr>"
      by (auto simp: main_step_def go_simps)
    from merged_main_send [OF mrg [unfolded MainSend]] chan_send_buf [OF ch] MainSend res ring got src fo s' show ?thesis
      by (intro accountsI [of _ _ _ ks got _ ops taken passed]) (simp_all add: hist)
  next
    case MainExit
    with step show ?thesis by (simp add: main_step_def)
  qed
qed

lemma fanin_step_accounts:
  assumes step: "fanin_step s = Inr (Some s')" and acc: "accounts cfg res as s"
  shows "accounts cfg res (as @ [FanIn]) s'"
proof -
  from acc obtain ks got ops taken passed where res: "resolver s = res"
    and ring: "List.map_filter arrival as = ks @ got @ ring s" and got: "read_held (mainPC s) got"
    and src: "source_at cfg ks (List.map_filter tick as) ops (corr s) taken"
    and mrg: "merged (faninPC s) (mainPC s) taken (direct_events (bootTime cfg) ks) (passed @ chan_buf (eventsCh s))"
    and fo: "fanout_at cfg res passed (fanoutPC s) (outSeen s @ chan_buf (outputCh s))" by (rule accountsE)
  note hist = map_filter_append List.map_filter_simps
  show ?thesis
  proof (cases "faninPC s")
    case FiRecv
    with step obtain ch v ch' where ch: "outch (corr s) = Some ch" "chan_recv ch = Some (v, ch')"
      by (auto simp: fanin_step_def split: option.splits)
    show ?thesis
    proof (cases v)
      case None
      with FiRecv step ch obtain ec where "chan_close (eventsCh s) = Inr ec" "s' = s\<lparr>eventsCh := ec, faninPC := FiDone\<rparr>"
        by (auto simp: fanin_step_def go_simps)
      with FiRecv res ring got src mrg fo show ?thesis
        by (intro accountsI [of _ _ _ ks got _ ops taken passed])
          (auto simp: hist merged_def chan_close_def split: if_splits)
    next
      case (Some e)
      with FiRecv step ch have s': "s' = s\<lparr>corr := (corr s)\<lparr>outch := Some ch'\<rparr>, faninPC := FiSend e\<rparr>"
        by (simp add: fanin_step_def)
      have "recv_step ch = Some (e, ch')" using ch Some by (simp add: recv_step_def)
      with corr_abs_receive [OF _ ch(1)] src have "source_at cfg ks (List.map_filter tick as) ops ((corr s)\<lparr>outch := Some ch'\<rparr>) (taken @ [e])"
        by (fastforce simp: source_at_def corr_abs_def)
      with FiRecv res ring got mrg fo s' show ?thesis
        by (intro accountsI [of _ _ _ ks got _ ops "taken @ [e]" passed]) (simp_all add: hist merged_def)
    qed
  next
    case (FiSend e)
    with step obtain ch where ch: "chan_send e (eventsCh s) = Inr (Some ch)" and s': "s' = s\<lparr>eventsCh := ch, faninPC := FiRecv\<rparr>"
      by (auto simp: fanin_step_def go_simps)
    from merged_fanin_send [OF mrg [unfolded FiSend]] chan_send_buf [OF ch] res ring got src fo s' show ?thesis
      by (intro accountsI [of _ _ _ ks got _ ops taken passed]) (simp_all add: hist)
  next
    case FiDone
    with step show ?thesis by (simp add: fanin_step_def)
  qed
qed

section \<open>The fan-out and the consumers\<close>

lemma fanout_step_at:
  assumes step: "fanout_step cfg s = Inr (Some s')" and res: "resolver s = res"
    and fo: "fanout_at cfg res passed (fanoutPC s) (outSeen s @ chan_buf (outputCh s))"
  shows "\<exists>passed'. passed' @ chan_buf (eventsCh s') = passed @ chan_buf (eventsCh s)
    \<and> fanout_at cfg res passed' (fanoutPC s') (outSeen s' @ chan_buf (outputCh s'))"
proof (cases "fanoutPC s")
  case FoRecv
  with step obtain v ch where ch: "chan_recv (eventsCh s) = Some (v, ch)"
    by (auto simp: fanout_step_def split: option.splits)
  show ?thesis
  proof (cases v)
    case None
    with FoRecv step ch fo show ?thesis by (intro exI [of _ passed]) (auto simp: fanout_step_def)
  next
    case (Some e)
    with ch have "chan_buf (eventsCh s) = e # chan_buf ch" by (auto dest: chan_recv_buf)
    with FoRecv step ch fo Some show ?thesis
      by (intro exI [of _ "passed @ [e]"]) (auto simp: fanout_step_def)
  qed
next
  case (FoGot e)
  with fo obtain es where "passed = es @ [e]" "outSeen s @ chan_buf (outputCh s) = List.map_filter (enrich cfg res) es" by auto
  with FoGot step res show ?thesis
    by (intro exI [of _ passed])
      (auto simp: fanout_step_def enrich_def map_filter_append List.map_filter_simps split: option.splits)
next
  case (FoSrc e src)
  with fo obtain es where "passed = es @ [e]" "outSeen s @ chan_buf (outputCh s) = List.map_filter (enrich cfg res) es"
      "Resolve res (SrcCgroupID e) = Some src" by auto
  with FoSrc step res show ?thesis
    by (intro exI [of _ passed])
      (auto simp: fanout_step_def Let_def enrich_def map_filter_append List.map_filter_simps split: if_splits)
next
  case (FoOut e)
  with step obtain ch where "chan_send e (outputCh s) = Inr (Some ch)" "s' = s\<lparr>outputCh := ch, fanoutPC := FoEng e\<rparr>"
    by (auto simp: fanout_step_def go_simps)
  with FoOut fo show ?thesis by (intro exI [of _ passed]) (auto dest: chan_send_buf)
next
  case (FoEng e)
  with step fo show ?thesis by (intro exI [of _ passed]) (auto simp: fanout_step_def go_simps)
next
  case FoDone
  with step show ?thesis by (simp add: fanout_step_def)
qed

lemma fanout_step_frame:
  "fanout_step cfg s = Inr (Some s') \<Longrightarrow>
   resolver s' = resolver s \<and> ring s' = ring s \<and> corr s' = corr s \<and> faninPC s' = faninPC s \<and> mainPC s' = mainPC s"
  by (cases "fanoutPC s") (auto simp: fanout_step_def go_simps Let_def split: option.splits prod.splits if_splits)

lemma fanout_step_accounts:
  assumes step: "fanout_step cfg s = Inr (Some s')" and acc: "accounts cfg res as s"
  shows "accounts cfg res (as @ [FanOut]) s'"
proof -
  from acc obtain ks got ops taken passed where res: "resolver s = res"
    and ring: "List.map_filter arrival as = ks @ got @ ring s" and got: "read_held (mainPC s) got"
    and src: "source_at cfg ks (List.map_filter tick as) ops (corr s) taken"
    and mrg: "merged (faninPC s) (mainPC s) taken (direct_events (bootTime cfg) ks) (passed @ chan_buf (eventsCh s))"
    and fo: "fanout_at cfg res passed (fanoutPC s) (outSeen s @ chan_buf (outputCh s))" by (rule accountsE)
  obtain passed' where "passed' @ chan_buf (eventsCh s') = passed @ chan_buf (eventsCh s)"
      "fanout_at cfg res passed' (fanoutPC s') (outSeen s' @ chan_buf (outputCh s'))"
    using fanout_step_at [OF step res fo] by blast
  with fanout_step_frame [OF step] res ring got src mrg show ?thesis
    by (intro accountsI [of _ _ _ ks got _ ops taken passed']) (simp_all add: map_filter_append List.map_filter_simps)
qed

text \<open>The other actors leave alone what the invariant reads, but for the marks of closed channels.\<close>

definition same_flow :: "pipeline \<Rightarrow> pipeline \<Rightarrow> bool" where
  "same_flow s s' \<longleftrightarrow>
     resolver s' = resolver s \<and> ring s' = ring s
     \<and> (\<forall>boot tmo h taken. corr_abs boot tmo h (corr s, taken) \<longrightarrow> corr_abs boot tmo h (corr s', taken))
     \<and> chan_buf (eventsCh s') = chan_buf (eventsCh s) \<and> mainPC s' = mainPC s \<and> faninPC s' = faninPC s
     \<and> fanoutPC s' = fanoutPC s
     \<and> outSeen s' @ chan_buf (outputCh s') = outSeen s @ chan_buf (outputCh s)"

lemma same_flow_accounts:
  assumes "same_flow s s'" and "accounts cfg res as s" and "arrival a = None" "tick a = None"
  shows "accounts cfg res (as @ [a]) s'"
  using assms unfolding accounts_def same_flow_def
  by (auto simp: map_filter_append List.map_filter_simps source_at_def) blast

lemma engine_gstep_flow: "engine_gstep s = Inr (Some s') \<Longrightarrow> same_flow s s'"
  by (cases "enginePC s")
    (auto simp: engine_gstep_def same_flow_def go_simps split: option.splits prod.splits list.splits)

lemma output_alert_step_flow: "output_alert_step cfg s = Some s' \<Longrightarrow> same_flow s s'"
  by (auto simp: output_alert_step_def same_flow_def split: option.splits simp del: output_round.simps)

lemma output_event_step_flow:
  assumes "output_event_step cfg s = Some s'"
  shows "same_flow s s'"
proof -
  from assms obtain v ch out where ch: "chan_recv (outputCh s) = Some (v, ch)"
    and s': "s' = s\<lparr>outputCh := ch, outp := out, outSeen := outSeen s @ (case v of None \<Rightarrow> [] | Some e \<Rightarrow> [e])\<rparr>"
    by (auto simp: output_event_step_def split: option.splits simp del: output_round.simps)
  have "(case v of None \<Rightarrow> [] | Some e \<Rightarrow> [e]) @ chan_buf ch = chan_buf (outputCh s)"
    using ch by (cases v) (auto dest: chan_recv_buf)
  then show ?thesis by (simp add: same_flow_def s')
qed

lemma Close_abs:
  "Close c = Inr c' \<Longrightarrow> \<forall>boot tmo h taken. corr_abs boot tmo h (c, taken) \<longrightarrow> corr_abs boot tmo h (c', taken)"
  by (auto simp: Close_def corr_abs_def chan_close_def chan_wf_def go_simps split: option.splits if_splits)

lemma shutdown_step_flow: "shutdown_step s = Inr (Some s') \<Longrightarrow> same_flow s s'"
  by (auto simp: shutdown_step_def same_flow_def go_simps chan_close_def
      split: shutdown_pc.splits if_splits dest!: Close_abs)

lemma docker_step_flow:
  assumes "docker_step msg s = Inr (Some s')"
  shows "same_flow s s'"
proof -
  obtain r pc where "s' = s\<lparr>resolver := r, dockerPC := pc\<rparr>" using docker_frame(1) [OF assms] by blast
  moreover have "resolver s' = resolver s"
    using assms by (auto simp: docker_step_def split: docker_msg.splits sum.splits if_splits)
  ultimately show ?thesis by (simp add: same_flow_def)
qed

lemma pipe_step_accounts:
  assumes "pipe_step cfg a s = Inr (Some s')" and acc: "accounts cfg res as s" and "\<not> container_change a"
  shows "accounts cfg res (as @ [a]) s'"
proof -
  have step: "actor_step cfg a s = Inr (Some s')" using assms(1) by (simp add: pipe_step_def split: if_splits)
  show ?thesis
  proof (cases a)
    case (Kernel raw)
    from acc obtain ks got ops taken passed where "resolver s = res" "List.map_filter arrival as = ks @ got @ ring s"
      "read_held (mainPC s) got"
      "source_at cfg ks (List.map_filter tick as) ops (corr s) taken"
      "merged (faninPC s) (mainPC s) taken (direct_events (bootTime cfg) ks) (passed @ chan_buf (eventsCh s))"
      "fanout_at cfg res passed (fanoutPC s) (outSeen s @ chan_buf (outputCh s))" by (rule accountsE)
    with step Kernel show ?thesis
      by (intro accountsI [of _ _ _ ks got _ ops taken passed]) (auto simp: map_filter_append List.map_filter_simps)
  next
    case (CleanupTick now)
    from acc obtain ks got ops taken passed where "resolver s = res" "List.map_filter arrival as = ks @ got @ ring s"
      "read_held (mainPC s) got"
      and src: "source_at cfg ks (List.map_filter tick as) ops (corr s) taken"
      and "merged (faninPC s) (mainPC s) taken (direct_events (bootTime cfg) ks) (passed @ chan_buf (eventsCh s))"
      and "fanout_at cfg res passed (fanoutPC s) (outSeen s @ chan_buf (outputCh s))" by (rule accountsE)
    moreover have "source_at cfg ks (List.map_filter tick as @ [Tick now]) (ops @ [Tick now]) (Cleanup_tick now (corr s)) taken"
      using src by (simp add: source_at_def shuffles_snoc2 corr_abs_tick)
    ultimately show ?thesis using step CleanupTick
      by (intro accountsI [of _ _ _ ks got _ "ops @ [Tick now]" taken passed])
        (auto simp: map_filter_append List.map_filter_simps)
  next
    case Signal
    with step have "same_flow s s'" by (auto simp: same_flow_def split: if_splits)
    with Signal acc show ?thesis by (auto intro: same_flow_accounts)
  qed (use step acc assms(3) in \<open>auto intro: main_step_accounts fanin_step_accounts fanout_step_accounts
      same_flow_accounts [OF engine_gstep_flow] same_flow_accounts [OF output_alert_step_flow]
      same_flow_accounts [OF output_event_step_flow] same_flow_accounts [OF shutdown_step_flow]
      same_flow_accounts [OF docker_step_flow]\<close>)
qed

lemma run_accounts:
  "accounts cfg res as s \<Longrightarrow> run (pipe_step cfg) bs s = Inr (Some s') \<Longrightarrow> list_all (\<lambda>a. \<not> container_change a) bs \<Longrightarrow>
   accounts cfg res (as @ bs) s'"
proof (induction bs arbitrary: as s)
  case (Cons b bs)
  from Cons.prems(2) obtain s1 where s1: "pipe_step cfg b s = Inr (Some s1)" "run (pipe_step cfg) bs s1 = Inr (Some s')"
    by (auto simp: run_Cons_Some simp del: run.simps)
  from Cons.IH [OF pipe_step_accounts [OF s1(1) Cons.prems(1)] s1(2)] Cons.prems(3) show ?case by simp
qed simp

section \<open>Nothing is lost\<close>

lemma idle_accounts:
  assumes "accounts cfg res as s" and "idle s"
  shows "\<exists>es\<in>event_histories (bootTime cfg) (List.map_filter arrival as) (List.map_filter tick as).
    outSeen s = List.map_filter (enrich cfg res) es"
proof -
  from assms(1) obtain ks got ops taken passed where ring: "List.map_filter arrival as = ks @ got @ ring s"
    and got: "read_held (mainPC s) got"
    and src: "source_at cfg ks (List.map_filter tick as) ops (corr s) taken"
    and mrg: "merged (faninPC s) (mainPC s) taken (direct_events (bootTime cfg) ks) (passed @ chan_buf (eventsCh s))"
    and fo: "fanout_at cfg res passed (fanoutPC s) (outSeen s @ chan_buf (outputCh s))" by (rule accountsE)
  have ks: "ks = List.map_filter arrival as" using ring got assms(2) by (simp add: idle_def)
  from src obtain ch where "outch (corr s) = Some ch" "taken @ chan_buf ch = spec_events (bootTime cfg) (time_Second * 5) (rev ops)"
    and ops: "ops \<in> shuffles (sample_ops ks) (List.map_filter tick as)"
    by (auto simp: source_at_def corr_abs_def)
  then have taken: "taken = spec_events (bootTime cfg) (time_Second * 5) (rev ops)"
    using assms(2) by (simp add: idle_def corr_queue_def)
  have "passed \<in> shuffles taken (direct_events (bootTime cfg) ks)"
    using mrg assms(2) by (auto simp: merged_def idle_def)
  with ops have "passed \<in> event_histories (bootTime cfg) ks (List.map_filter tick as)"
    unfolding event_histories_def taken by blast
  moreover have "outSeen s = List.map_filter (enrich cfg res) passed" using fo assms(2) by (simp add: idle_def)
  ultimately show ?thesis by (auto simp: ks)
qed

lemma events_conserved:
  assumes "run (pipe_step cfg) as (pipeline_start eng res) = Inr (Some s)" and "list_all (\<lambda>a. \<not> container_change a) as"
    and "idle s"
  shows "\<exists>es\<in>event_histories (bootTime cfg) (List.map_filter arrival as) (List.map_filter tick as).
    outSeen s = List.map_filter (enrich cfg res) es"
  using idle_accounts [OF run_accounts [OF accounts_start assms(1,2)] assms(3)] by simp

text \<open>The text on the standard output, once nothing is queued.\<close>

lemma monitor_exact:
  assumes run: "run (pipe_step cfg) as (pipeline_start eng res) = Inr (Some s)" "list_all (\<lambda>a. \<not> container_change a) as"
    and idle: "idle s" and zone: "\<forall>t. 60 dvd localZone cfg t"
    and eng: "chan_buf (alerts eng) = []" "thresholds eng = Map.empty"
  shows "\<exists>es\<in>event_histories (bootTime cfg) (List.map_filter arrival as) (List.map_filter tick as).
    (let evs = List.map_filter (enrich cfg res) es in
       stream_events (stdout_text (printed (outp s))) = map clean_event (filter (has_text (localZone cfg)) evs)
       \<and> (independent (rules eng) \<and> groups_sorted (rules eng) evs \<longrightarrow>
            stream_alerts (stdout_text (printed (outp s)))
              = map clean_alert (filter (alert_has_text (localZone cfg)) (owed_alerts (rules eng) evs))))"
proof -
  have reach: "reachable cfg eng res s" by (rule reachable_run [OF run(1) reachable.start])
  have "outSeen s = engSeen s"
    using reachable_delivers(2) [OF reach] idle by (simp add: same_stream_def idle_def)
  with events_conserved [OF run idle] printed_events [OF reach zone] exact_alerts(2) [OF reach zone _ eng _ idle]
  show ?thesis by (auto simp: Let_def)
qed

lemma internal_no_change: "internal a \<Longrightarrow> \<not> container_change a"
  by (cases a) simp_all

end
