(* ===== verification/Lag.thy ===== *)
theory Lag
  imports Conserve
begin

text \<open>
  How far the output can be behind: in every state, before and after the
  signal, the text is a prefix of what the samples taken from the ring give,
  and what is missing fits into the channels and the hands of the goroutines.
\<close>

section \<open>Events under way\<close>

lemma shuffles_append1: "zs \<in> shuffles xs ys \<Longrightarrow> zs @ us \<in> shuffles (xs @ us) ys"
proof (induction us rule: rev_induct)
  case (snoc u us)
  then show ?case using shuffles_snoc1 [of "zs @ us" "xs @ us" ys u] by simp
qed simp

lemma shuffles_append2: "zs \<in> shuffles xs ys \<Longrightarrow> zs @ us \<in> shuffles xs (ys @ us)"
  using shuffles_append1 [of zs ys xs us] by (simp add: shuffles_commutes)

lemma length_map_filter: "length (List.map_filter f xs) \<le> length xs"
  by (simp add: map_filter_def)

text \<open>The fan-out holds at most one event that a consumer has not been sent.\<close>

lemma fanout_at_ahead:
  assumes "fanout_at cfg res passed pc outs"
  shows "\<exists>x. List.map_filter (enrich cfg res) passed = outs @ x \<and> length x + length (half_sent pc) \<le> 1"
proof (cases pc)
  case (FoOut e)
  with assms show ?thesis by (intro exI [of _ "[e]"]) simp
qed (use assms in \<open>auto simp: map_filter_append List.map_filter_simps split: option.split\<close>)

lemma held_lengths: "length (main_held mpc) \<le> 1" "length (fanin_held fpc) \<le> 1"
  by (cases mpc; simp) (cases fpc; simp)

lemma read_held_length: "read_held pc got \<Longrightarrow> length got \<le> 1"
  by (cases pc) auto

lemma events_under_way:
  assumes acc: "accounts cfg res as s" and flow: "flow_ok s" and stream: "same_stream s"
  shows "\<exists>ks got. \<exists>es\<in>event_histories (bootTime cfg) ks (List.map_filter tick as).
     List.map_filter arrival as = ks @ got @ ring s \<and> length got \<le> 1
     \<and> (let evs = List.map_filter (enrich cfg res) es in
          (\<exists>x. evs = outSeen s @ x \<and> length x \<le> 3075) \<and> (\<exists>x. evs = engSeen s @ x \<and> length x \<le> 3075))"
proof -
  from acc obtain ks got ops taken passed where ring: "List.map_filter arrival as = ks @ got @ ring s"
    and got: "read_held (mainPC s) got"
    and src: "source_at cfg ks (List.map_filter tick as) ops (corr s) taken"
    and mrg: "merged (faninPC s) (mainPC s) taken (direct_events (bootTime cfg) ks) (passed @ chan_buf (eventsCh s))"
    and fo: "fanout_at cfg res passed (fanoutPC s) (outSeen s @ chan_buf (outputCh s))" by (rule accountsE)
  from src obtain ch where ch: "outch (corr s) = Some ch"
      "taken @ chan_buf ch = spec_events (bootTime cfg) (time_Second * 5) (rev ops)"
    and ops: "ops \<in> shuffles (sample_ops ks) (List.map_filter tick as)"
    by (auto simp: source_at_def corr_abs_def)
  from mrg obtain xs ys where zs: "passed @ chan_buf (eventsCh s) \<in> shuffles xs ys"
    and xs: "taken = xs @ fanin_held (faninPC s)"
    and ys: "direct_events (bootTime cfg) ks = ys @ main_held (mainPC s)" by (auto simp: merged_def)
  define rest where "rest = chan_buf (eventsCh s) @ (fanin_held (faninPC s) @ chan_buf ch) @ main_held (mainPC s)"
  have "passed @ rest \<in> shuffles (spec_events (bootTime cfg) (time_Second * 5) (rev ops)) (direct_events (bootTime cfg) ks)"
    using shuffles_append2 [OF shuffles_append1 [OF zs, of "fanin_held (faninPC s) @ chan_buf ch"], of "main_held (mainPC s)"]
    by (simp add: rest_def xs ys flip: ch(2))
  with ops have es: "passed @ rest \<in> event_histories (bootTime cfg) ks (List.map_filter tick as)"
    unfolding event_histories_def by blast
  have caps: "length (chan_buf (eventsCh s)) \<le> 1024" "length (chan_buf (outputCh s)) \<le> 1024"
      "length (chan_buf (engineCh s)) \<le> 1024" "length (chan_buf ch) \<le> 1024"
    using flow ch(1) by (simp_all add: flow_ok_def sized_def chan_wf_def)
  then have rest: "length (List.map_filter (enrich cfg res) rest) \<le> 2050"
    using length_map_filter [of "enrich cfg res" rest] held_lengths(1) [of "mainPC s"] held_lengths(2) [of "faninPC s"]
    by (simp add: rest_def)
  obtain x where x: "List.map_filter (enrich cfg res) passed = (outSeen s @ chan_buf (outputCh s)) @ x"
      "length x + length (half_sent (fanoutPC s)) \<le> 1" using fanout_at_ahead [OF fo] by blast
  have out: "List.map_filter (enrich cfg res) (passed @ rest)
      = outSeen s @ (chan_buf (outputCh s) @ x @ List.map_filter (enrich cfg res) rest)"
    by (simp add: map_filter_append x(1))
  have eng: "List.map_filter (enrich cfg res) (passed @ rest)
      = engSeen s @ (chan_buf (engineCh s) @ half_sent (fanoutPC s) @ x @ List.map_filter (enrich cfg res) rest)"
    using stream by (simp add: map_filter_append x(1) same_stream_def)
  show ?thesis
    unfolding Let_def
  proof (intro exI bexI conjI)
    show "passed @ rest \<in> event_histories (bootTime cfg) ks (List.map_filter tick as)" by (rule es)
    show "List.map_filter arrival as = ks @ got @ ring s" by (rule ring)
    show "length got \<le> 1" by (rule read_held_length [OF got])
  qed (fact out eng | use rest caps x(2) in simp)+
qed

section \<open>Alerts under way\<close>

lemma alerts_for_length: "length (alerts_for rs evs e) \<le> length rs"
  by (simp add: alerts_for_def)

lemma owed_alerts_append:
  "\<exists>zs. owed_alerts rs (xs @ ys) = owed_alerts rs xs @ zs \<and> length zs \<le> length ys * length rs"
proof (induction ys rule: rev_induct)
  case (snoc y ys)
  then obtain zs where zs: "owed_alerts rs (xs @ ys) = owed_alerts rs xs @ zs" "length zs \<le> length ys * length rs" by blast
  have "owed_alerts rs (xs @ ys @ [y]) = owed_alerts rs xs @ zs @ alerts_for rs (xs @ ys) y"
    using owed_alerts_snoc [of rs "xs @ ys" y] zs(1) by simp
  with zs(2) alerts_for_length [of rs "xs @ ys" y] show ?case
    by (intro exI [of _ "zs @ alerts_for rs (xs @ ys) y"]) simp
qed simp

lemma groups_sorted_append: "groups_sorted rs (xs @ ys) \<Longrightarrow> groups_sorted rs xs"
proof (induction ys rule: rev_induct)
  case (snoc y ys)
  then show ?case using groups_sorted_butlast [of rs "xs @ ys" y] by simp
qed simp

lemma at_event_lag:
  assumes "at_event rs seen pc (r, taken)"
  shows "\<exists>zs. owed_alerts rs seen = taken @ zs \<and> length zs \<le> length (chan_buf (alerts r)) + length rs"
proof (cases pc)
  case (EgRules e todo)
  with assms obtain evs past where "seen = evs @ [e]" and rs: "rs = past @ todo"
      and "taken @ chan_buf (alerts r) = owed_alerts rs evs @ alerts_for past evs e"
    by (auto simp: mid_event_def)
  then have "owed_alerts rs seen = taken @ chan_buf (alerts r) @ alerts_for todo evs e" by simp
  with alerts_for_length [of todo evs e] rs show ?thesis
    by (intro exI [of _ "chan_buf (alerts r) @ alerts_for todo evs e"]) simp
qed (use assms in \<open>auto simp: engine_at_def intro!: exI [of _ "chan_buf (alerts r)"] sym\<close>)

lemma alerts_under_way:
  assumes reach: "reachable cfg eng res s" and zone: "\<forall>t. 60 dvd localZone cfg t"
    and eng: "independent (rules eng)" "sized 100 (alerts eng)" "chan_buf (alerts eng) = []" "thresholds eng = Map.empty"
    and evs: "groups_sorted (rules eng) evs" "evs = engSeen s @ x" "length x \<le> 3075"
  shows "\<exists>zs. map clean_alert (filter (alert_has_text (localZone cfg)) (owed_alerts (rules eng) evs))
      = stream_alerts (stdout_text (printed (outp s))) @ zs
    \<and> length zs \<le> 100 + 3076 * length (rules eng)"
proof -
  have "groups_sorted (rules eng) (engSeen s)" using evs(1,2) groups_sorted_append by blast
  then obtain vs where log: "output_log (localZone cfg) s vs"
    and at: "at_event (rules eng) (engSeen s) (enginePC s) (engine s, List.map_filter OutAlert vs)"
    using reachable_exact [OF reach _ eng(1,3,4)] by (auto simp: exact_log_def engine_exact_def)
  obtain z1 where z1: "owed_alerts (rules eng) (engSeen s) = List.map_filter OutAlert vs @ z1"
      "length z1 \<le> length (chan_buf (alerts (engine s))) + length (rules eng)" using at_event_lag [OF at] by blast
  obtain z2 where z2: "owed_alerts (rules eng) evs = owed_alerts (rules eng) (engSeen s) @ z2"
      "length z2 \<le> length x * length (rules eng)" using owed_alerts_append evs(2) by blast
  have "length (chan_buf (alerts (engine s))) \<le> 100"
    using reachable_flow [OF reach eng(2)] by (simp add: flow_ok_def sized_def chan_wf_def)
  moreover have "length x * length (rules eng) \<le> 3075 * length (rules eng)" using evs(3) by (rule mult_le_mono1)
  ultimately have len: "length (z1 @ z2) \<le> 100 + 3076 * length (rules eng)"
    using z1(2) z2(2) unfolding length_append by linarith
  let ?f = "filter (alert_has_text (localZone cfg))"
  have "map clean_alert (?f (owed_alerts (rules eng) evs))
      = stream_alerts (stdout_text (printed (outp s))) @ map clean_alert (?f (z1 @ z2))"
    by (simp add: z1(1) z2(1) log_alerts [OF log zone])
  moreover have "length (?f (z1 @ z2)) \<le> 100 + 3076 * length (rules eng)"
    using len length_filter_le order_trans by blast
  moreover from calculation(2) have "length (map clean_alert (?f (z1 @ z2))) \<le> 100 + 3076 * length (rules eng)"
    by (simp only: length_map)
  ultimately show ?thesis by blast
qed

section \<open>The text\<close>

lemma output_lags:
  assumes run: "run (pipe_step cfg) as (pipeline_start eng res) = Inr (Some s)" "list_all (\<lambda>a. \<not> container_change a) as"
    and zone: "\<forall>t. 60 dvd localZone cfg t"
    and eng: "sized 100 (alerts eng)" "chan_buf (alerts eng) = []" "thresholds eng = Map.empty"
  shows "\<exists>ks got. \<exists>es\<in>event_histories (bootTime cfg) ks (List.map_filter tick as).
     List.map_filter arrival as = ks @ got @ ring s \<and> length got \<le> 1
     \<and> (let evs = List.map_filter (enrich cfg res) es in
          (\<exists>missing. map clean_event (filter (has_text (localZone cfg)) evs)
               = stream_events (stdout_text (printed (outp s))) @ missing \<and> length missing \<le> 3075)
        \<and> (independent (rules eng) \<and> groups_sorted (rules eng) evs \<longrightarrow>
             (\<exists>missing. map clean_alert (filter (alert_has_text (localZone cfg)) (owed_alerts (rules eng) evs))
                 = stream_alerts (stdout_text (printed (outp s))) @ missing
               \<and> length missing \<le> 100 + 3076 * length (rules eng))))"
proof -
  have reach: "reachable cfg eng res s" by (rule reachable_run [OF run(1) reachable.start])
  have "accounts cfg res as s" using run_accounts [OF accounts_start run] by simp
  from events_under_way [OF this reachable_flow [OF reach eng(1)] reachable_delivers(2) [OF reach]]
  obtain ks got es where es: "es \<in> event_histories (bootTime cfg) ks (List.map_filter tick as)"
      "List.map_filter arrival as = ks @ got @ ring s" "length got \<le> 1"
    and out: "\<exists>x. List.map_filter (enrich cfg res) es = outSeen s @ x \<and> length x \<le> 3075"
    and seen: "\<exists>x. List.map_filter (enrich cfg res) es = engSeen s @ x \<and> length x \<le> 3075"
    by (auto simp: Let_def)
  from out obtain x where x: "List.map_filter (enrich cfg res) es = outSeen s @ x" "length x \<le> 3075" by blast
  have "length (filter (has_text (localZone cfg)) x) \<le> 3075" using x(2) length_filter_le order_trans by blast
  then have "\<exists>missing. map clean_event (filter (has_text (localZone cfg)) (List.map_filter (enrich cfg res) es))
      = stream_events (stdout_text (printed (outp s))) @ missing \<and> length missing \<le> 3075"
    by (intro exI [of _ "map clean_event (filter (has_text (localZone cfg)) x)"])
      (simp add: x(1) printed_events [OF reach zone])
  moreover have "\<exists>missing. map clean_alert (filter (alert_has_text (localZone cfg))
        (owed_alerts (rules eng) (List.map_filter (enrich cfg res) es)))
      = stream_alerts (stdout_text (printed (outp s))) @ missing \<and> length missing \<le> 100 + 3076 * length (rules eng)"
    if "independent (rules eng)" "groups_sorted (rules eng) (List.map_filter (enrich cfg res) es)"
  proof -
    from seen obtain y where "List.map_filter (enrich cfg res) es = engSeen s @ y" "length y \<le> 3075" by blast
    from alerts_under_way [OF reach zone that(1) eng that(2) this] show ?thesis .
  qed
  ultimately show ?thesis
    unfolding Let_def using es by (intro exI [of _ ks] exI [of _ got] bexI [OF _ es(1)] conjI impI) simp_all
qed

end
