(* ===== verification/Sequence.thy ===== *)
theory Sequence
  imports Detect
begin

text \<open>
  Sequence rules: the trackers never index out of range, an event runs only
  the steps it matches, a sequence performed in order raises one alert. The
  engine that \<open>New\<close> returns has no map of trackers; what that means for a
  matching event is shown first.
\<close>

section \<open>The engine as constructed\<close>

lemma sequence_loop_nil_map:
  "trackers (sequences r) = None \<Longrightarrow>
   sequence_loop rule seq key e i steps r =
     (if \<exists>step\<in>set steps. MatchEvent step e then Inl NilMapWrite else Inr (Some r))"
  by (induction steps arbitrary: i) (auto simp: sequence_round_def)

lemma handleSequence_nil_map:
  assumes "rSequence rule = Some seq" and "trackers (sequences r) = None" and "SrcContainer e \<noteq> None"
  shows "handleSequence rule e r =
     (if \<exists>step\<in>set (Steps seq). MatchEvent step e then Inl NilMapWrite else Inr (Some r))"
  using assms buildGroupKey_ok [OF assms(3), of "rName rule" "seq_group seq"]
  by (auto simp: handleSequence_def sequence_loop_nil_map)

section \<open>Trackers\<close>

definition tracker_ok :: "nat \<Rightarrow> sequenceTracker \<Rightarrow> bool" where
  "tracker_ok n t \<longleftrightarrow> (0 < currentStep t \<longrightarrow> stepTimes t \<noteq> []) \<and> currentStep t \<le> n"

lemma advanceStep_ok:
  assumes "tracker_ok n t" and "i < n"
  shows "\<exists>t'. advanceStep i now t = Inr t' \<and> tracker_ok n t' \<and> window t' = window t"
  using assms by (auto simp: advanceStep_def tracker_ok_def split: list.splits)

definition trackers_ok :: "nat \<Rightarrow> string \<Rightarrow> RuleEngine \<Rightarrow> bool" where
  "trackers_ok n key r \<longleftrightarrow>
     (\<forall>m t. trackers (sequences r) = Some m \<longrightarrow> m key = Some t \<longrightarrow> tracker_ok n t)"

text \<open>The tracker a round works on, and the engine after the round.\<close>

definition tracker_for :: "SequenceConfig \<Rightarrow> Event \<Rightarrow> nat \<Rightarrow> sequenceTracker option \<Rightarrow> sequenceTracker" where
  "tracker_for seq e i old =
     (case old of Some t \<Rightarrow> t
      | None \<Rightarrow> \<lparr>currentStep = i, stepTimes = [EvTime e], window = seq_window seq\<rparr>)"

definition with_tracker :: "(string \<rightharpoonup> sequenceTracker) \<Rightarrow> string \<Rightarrow> sequenceTracker \<Rightarrow> RuleEngine \<Rightarrow> RuleEngine" where
  "with_tracker m key t r = r\<lparr>sequences := \<lparr>trackers = Some (m(key \<mapsto> t))\<rparr>\<rparr>"

lemma sequence_round_eq:
  assumes "trackers (sequences r) = Some m" and "MatchEvent step e"
    and "advanceStep i (EvTime e) (tracker_for seq e i (m key)) = Inr t'"
  shows "sequence_round rule seq key e i step r =
     (if length (Steps seq) \<le> currentStep t'
      then emitAlert (rule_alert rule e) (with_tracker m key t' r)
      else Inr (Some (with_tracker m key t' r)))"
  using assms by (cases "m key") (simp_all add: sequence_round_def tracker_for_def with_tracker_def Let_def)

lemma tracker_for_ok:
  "trackers_ok n key r \<Longrightarrow> trackers (sequences r) = Some m \<Longrightarrow> i < n \<Longrightarrow> tracker_ok n (tracker_for seq e i (m key))"
  by (auto simp: trackers_ok_def tracker_for_def tracker_ok_def split: option.split)

lemma sequence_round_ok:
  assumes ok: "trackers_ok (length (Steps seq)) key r" and i: "i < length (Steps seq)"
    and map: "trackers (sequences r) \<noteq> None" and op: "\<not> chan_closed (alerts r)"
  shows "\<exists>res. sequence_round rule seq key e i step r = Inr res
     \<and> (\<forall>r'. res = Some r' \<longrightarrow> trackers_ok (length (Steps seq)) key r'
            \<and> trackers (sequences r') \<noteq> None \<and> \<not> chan_closed (alerts r'))"
proof (cases "MatchEvent step e")
  case False
  with ok map op show ?thesis by (simp add: sequence_round_def)
next
  case match: True
  from map obtain m where m: "trackers (sequences r) = Some m" by auto
  obtain t' where t': "advanceStep i (EvTime e) (tracker_for seq e i (m key)) = Inr t'"
      "tracker_ok (length (Steps seq)) t'"
    using advanceStep_ok [OF tracker_for_ok [OF ok m i] i] by blast
  let ?r = "with_tracker m key t' r"
  have new: "trackers_ok (length (Steps seq)) key ?r" "trackers (sequences ?r) \<noteq> None"
      "\<not> chan_closed (alerts ?r)"
    using t'(2) op by (simp_all add: trackers_ok_def with_tracker_def)
  obtain res where "emitAlert (rule_alert rule e) ?r = Inr res"
    using emitAlert_no_panic [OF new(3)] by (cases "emitAlert (rule_alert rule e) ?r") auto
  moreover have "trackers_ok (length (Steps seq)) key r' \<and> trackers (sequences r') \<noteq> None
      \<and> \<not> chan_closed (alerts r')" if "emitAlert (rule_alert rule e) ?r = Inr (Some r')" for r'
    using emitAlert_keeps [OF that] new by (auto simp: trackers_ok_def)
  ultimately show ?thesis using sequence_round_eq [OF m match t'(1)] new by auto
qed

lemma sequence_loop_ok:
  assumes "trackers_ok (length (Steps seq)) key r" and "i + length steps \<le> length (Steps seq)"
    and "trackers (sequences r) \<noteq> None" and "\<not> chan_closed (alerts r)"
  shows "\<exists>res. sequence_loop rule seq key e i steps r = Inr res
     \<and> (\<forall>r'. res = Some r' \<longrightarrow> trackers_ok (length (Steps seq)) key r'
            \<and> trackers (sequences r') \<noteq> None \<and> \<not> chan_closed (alerts r'))"
  using assms
proof (induction steps arbitrary: i r)
  case (Cons step steps)
  then have "i < length (Steps seq)" by simp
  from sequence_round_ok [OF Cons.prems(1) this Cons.prems(3,4), of rule e step]
  obtain res where res: "sequence_round rule seq key e i step r = Inr res"
    "\<And>r'. res = Some r' \<Longrightarrow> trackers_ok (length (Steps seq)) key r'
       \<and> trackers (sequences r') \<noteq> None \<and> \<not> chan_closed (alerts r')" by blast
  show ?case
  proof (cases res)
    case None
    with res show ?thesis by simp
  next
    case (Some r1)
    with res Cons.IH [of r1 "Suc i"] Cons.prems(2) show ?thesis by simp
  qed
qed simp

section \<open>Events that match one step\<close>

definition only_step :: "SequenceConfig \<Rightarrow> nat \<Rightarrow> Event \<Rightarrow> bool" where
  "only_step seq i e \<longleftrightarrow> (\<forall>j<length (Steps seq). MatchEvent (Steps seq ! j) e \<longleftrightarrow> j = i)"

lemma sequence_loop_skip:
  "(\<forall>step\<in>set steps. \<not> MatchEvent step e) \<Longrightarrow> sequence_loop rule seq key e i steps r = Inr (Some r)"
  by (induction steps arbitrary: i) (auto simp: sequence_round_def)

lemma sequence_loop_append:
  "sequence_loop rule seq key e i (as @ bs) r =
     go_bind (sequence_loop rule seq key e i as r) (\<lambda>res.
       case res of None \<Rightarrow> Inr None | Some r' \<Rightarrow> sequence_loop rule seq key e (i + length as) bs r')"
proof (induction as arbitrary: i r)
  case (Cons a as)
  have len: "i + length (a # as) = Suc i + length as" by simp
  show ?case
  proof (cases "sequence_round rule seq key e i a r")
    case (Inr res)
    with Cons.IH show ?thesis unfolding len by (cases res) simp_all
  qed simp
qed simp

lemma sequence_loop_only:
  assumes only: "only_step seq i e" and i: "i < length (Steps seq)"
  shows "sequence_loop rule seq key e 0 (Steps seq) r = sequence_round rule seq key e i (Steps seq ! i) r"
proof -
  let ?s = "Steps seq"
  have split: "?s = take i ?s @ ?s ! i # drop (Suc i) ?s" by (rule id_take_nth_drop [OF i])
  have before: "\<forall>step\<in>set (take i ?s). \<not> MatchEvent step e"
    using only i by (auto simp: only_step_def in_set_conv_nth)
  have after: "\<forall>step\<in>set (drop (Suc i) ?s). \<not> MatchEvent step e"
    using only i by (auto simp: only_step_def in_set_conv_nth)
  have "sequence_loop rule seq key e 0 ?s r
      = sequence_loop rule seq key e 0 (take i ?s @ ?s ! i # drop (Suc i) ?s) r"
    using split by simp
  also have "\<dots> = sequence_loop rule seq key e i (?s ! i # drop (Suc i) ?s) r"
    using i by (simp add: sequence_loop_append sequence_loop_skip [OF before])
  also have "\<dots> = sequence_round rule seq key e i (?s ! i) r"
    by (cases "sequence_round rule seq key e i (?s ! i) r")
      (auto simp: sequence_loop_skip [OF after] split: option.split)
  finally show ?thesis .
qed

section \<open>Sequences performed in order\<close>

text \<open>The tracker after the steps performed at the given times.\<close>

definition progressed :: "SequenceConfig \<Rightarrow> go_time list \<Rightarrow> sequenceTracker" where
  "progressed seq ts = \<lparr>currentStep = length ts, stepTimes = ts, window = seq_window seq\<rparr>"

definition seq_engine :: "Rule \<Rightarrow> SequenceConfig \<Rightarrow> string \<Rightarrow> go_time list \<Rightarrow> RuleEngine \<Rightarrow> bool" where
  "seq_engine rule seq key ts r \<longleftrightarrow>
     rules r = [rule] \<and> rSequence rule = Some seq
     \<and> (\<exists>m. trackers (sequences r) = Some m
            \<and> m key = (if ts = [] then None else Some (progressed seq ts)))"

lemma advanceStep_progressed:
  assumes "ts \<noteq> [] \<longrightarrow> time_Sub now (hd ts) \<le> seq_window seq"
  shows "advanceStep (length ts) now
           (tracker_for seq e (length ts) (if ts = [] then None else Some (progressed seq ts)))
         = Inr (progressed seq (ts @ [now]))"
  using assms by (cases ts) (simp_all add: advanceStep_def tracker_for_def progressed_def)

lemma ProcessEvent_sequence:
  "rules r = [rule] \<Longrightarrow> rSequence rule = Some seq \<Longrightarrow> ProcessEvent e r = handleSequence rule e r"
  by (cases "handleSequence rule e r") (auto simp: ProcessEvent_def process_rule_def split: option.split)

lemma seq_engine_step:
  assumes eng: "seq_engine rule seq key ts r" and i: "length ts < length (Steps seq)"
    and only: "only_step seq (length ts) e"
    and key: "buildGroupKey (rName rule) (seq_group seq) e = Inr key"
    and win: "ts \<noteq> [] \<longrightarrow> time_Sub (EvTime e) (hd ts) \<le> seq_window seq"
    and ready: "engine_ready 1 r"
  shows "\<exists>r'. ProcessEvent e r = Inr (Some r') \<and> seq_engine rule seq key (ts @ [EvTime e]) r'
      \<and> alerts r' = alerts r\<lparr>chan_buf := chan_buf (alerts r) @
           (if Suc (length ts) = length (Steps seq) then [rule_alert rule e] else [])\<rparr>"
proof -
  from eng obtain m where m: "trackers (sequences r) = Some m"
      "m key = (if ts = [] then None else Some (progressed seq ts))"
      "rules r = [rule]" "rSequence rule = Some seq" by (auto simp: seq_engine_def)
  let ?t = "progressed seq (ts @ [EvTime e])"
  let ?r = "with_tracker m key ?t r"
  have match: "MatchEvent (Steps seq ! length ts) e" using only i by (simp add: only_step_def)
  have adv: "advanceStep (length ts) (EvTime e) (tracker_for seq e (length ts) (m key)) = Inr ?t"
    using advanceStep_progressed [of ts "EvTime e" seq e] win m(2) by simp
  have "ProcessEvent e r = handleSequence rule e r" by (rule ProcessEvent_sequence [OF m(3,4)])
  also have "\<dots> = sequence_round rule seq key e (length ts) (Steps seq ! length ts) r"
    using m key by (simp add: handleSequence_def sequence_loop_only [OF only i])
  also have "\<dots> = (if length (Steps seq) \<le> Suc (length ts)
      then emitAlert (rule_alert rule e) ?r else Inr (Some ?r))"
    using sequence_round_eq [OF m(1) match adv] by (simp add: progressed_def)
  finally have eq: "ProcessEvent e r = (if Suc (length ts) = length (Steps seq)
      then emitAlert (rule_alert rule e) ?r else Inr (Some ?r))"
    using i by (auto split: if_splits)
  have eng': "seq_engine rule seq key (ts @ [EvTime e]) (?r\<lparr>alerts := ch\<rparr>)" for ch
    using m by (simp add: seq_engine_def with_tracker_def)
  show ?thesis
  proof (cases "Suc (length ts) = length (Steps seq)")
    case True
    have "emitAlert (rule_alert rule e) ?r
        = Inr (Some (?r\<lparr>alerts := alerts r\<lparr>chan_buf := chan_buf (alerts r) @ [rule_alert rule e]\<rparr>\<rparr>))"
      using ready by (simp add: emitAlert_def chan_send_def engine_ready_def with_tracker_def)
    with True eq eng' show ?thesis by simp
  next
    case False
    with eq eng' [of "alerts r"] show ?thesis by (simp add: with_tracker_def)
  qed
qed

text \<open>
  A suffix of the steps, performed in order by events of one group: no alert
  before the last step, one alert with it.
\<close>

fun in_order :: "Rule \<Rightarrow> SequenceConfig \<Rightarrow> string \<Rightarrow> go_time list \<Rightarrow> Event list \<Rightarrow> bool" where
  "in_order rule seq key ts [] \<longleftrightarrow> length ts = length (Steps seq)"
| "in_order rule seq key ts (e # es) \<longleftrightarrow>
     length ts < length (Steps seq) \<and> only_step seq (length ts) e
     \<and> buildGroupKey (rName rule) (seq_group seq) e = Inr key
     \<and> (ts \<noteq> [] \<longrightarrow> time_Sub (EvTime e) (hd ts) \<le> seq_window seq)
     \<and> in_order rule seq key (ts @ [EvTime e]) es"

fun process_all :: "Event list \<Rightarrow> RuleEngine \<Rightarrow> RuleEngine option go" where
  "process_all [] r = Inr (Some r)"
| "process_all (e # es) r =
     go_bind (ProcessEvent e r) (\<lambda>res. case res of None \<Rightarrow> Inr None | Some r' \<Rightarrow> process_all es r')"

lemma in_order_alerts:
  "in_order rule seq key ts es \<Longrightarrow> es \<noteq> [] \<Longrightarrow> seq_engine rule seq key ts r \<Longrightarrow> engine_ready 1 r \<Longrightarrow>
   \<exists>r'. process_all es r = Inr (Some r')
      \<and> alerts r' = alerts r\<lparr>chan_buf := chan_buf (alerts r) @ [rule_alert rule (last es)]\<rparr>"
proof (induction es arbitrary: ts r)
  case (Cons e es)
  from Cons.prems have ord: "length ts < length (Steps seq)" "only_step seq (length ts) e"
    "buildGroupKey (rName rule) (seq_group seq) e = Inr key"
    "ts \<noteq> [] \<longrightarrow> time_Sub (EvTime e) (hd ts) \<le> seq_window seq"
    "in_order rule seq key (ts @ [EvTime e]) es" by simp_all
  from seq_engine_step [OF Cons.prems(3) ord(1-4) Cons.prems(4)]
  obtain r1 where r1: "ProcessEvent e r = Inr (Some r1)" "seq_engine rule seq key (ts @ [EvTime e]) r1"
      "alerts r1 = alerts r\<lparr>chan_buf := chan_buf (alerts r) @
           (if Suc (length ts) = length (Steps seq) then [rule_alert rule e] else [])\<rparr>" by blast
  show ?case
  proof (cases "es = []")
    case True
    with ord(5) r1 show ?thesis by simp
  next
    case False
    with ord(5) have "Suc (length ts) < length (Steps seq)" by (cases es) auto
    with r1(3) have same: "alerts r1 = alerts r" by simp
    then have "engine_ready 1 r1" using Cons.prems(4) by (simp add: engine_ready_def)
    from Cons.IH [OF ord(5) False r1(2) this] same r1(1) False show ?thesis by simp
  qed
qed simp

section \<open>A last step on its own\<close>

text \<open>
  A group without a tracker gets one that stands at the step just matched, so
  an event that matches only the last step completes the sequence.
\<close>

lemma last_step_alone:
  assumes r: "rules r = [rule]" "rSequence rule = Some seq"
    and m: "trackers (sequences r) = Some m" "m key = None"
    and only: "only_step seq i e" "Suc i = length (Steps seq)" "0 < i"
    and key: "buildGroupKey (rName rule) (seq_group seq) e = Inr key"
    and win: "0 \<le> seq_window seq" and ready: "engine_ready 1 r"
  shows "\<exists>r'. ProcessEvent e r = Inr (Some r')
      \<and> chan_buf (alerts r') = chan_buf (alerts r) @ [rule_alert rule e]"
proof -
  have i: "i < length (Steps seq)" using only(2) by simp
  let ?t = "\<lparr>currentStep = Suc i, stepTimes = [EvTime e, EvTime e], window = seq_window seq\<rparr>"
  let ?r = "with_tracker m key ?t r"
  have match: "MatchEvent (Steps seq ! i) e" using only(1) i by (simp add: only_step_def)
  have adv: "advanceStep i (EvTime e) (tracker_for seq e i (m key)) = Inr ?t"
    using only(3) win m(2) by (simp add: advanceStep_def tracker_for_def)
  have "ProcessEvent e r = sequence_round rule seq key e i (Steps seq ! i) r"
    using r key by (simp add: ProcessEvent_sequence handleSequence_def sequence_loop_only [OF only(1) i])
  also have "\<dots> = emitAlert (rule_alert rule e) ?r"
    using sequence_round_eq [OF m(1) match adv] only(2) by simp
  finally show ?thesis
    using ready by (simp add: emitAlert_def chan_send_def engine_ready_def with_tracker_def)
qed

end
