(* ===== verification/Flags.thy ===== *)
theory Flags
  imports GoLib
begin

text \<open>
  The command line: the three variables that \<open>init\<close> in \<open>cmd/main.go\<close> registers
  with package \<open>flag\<close>, and \<open>flag.Parse\<close>, which ends the process on a bad one.
  \<open>Inl n\<close>: the process exits with status \<open>n\<close>.
\<close>

record flag_vars =
  prefixArg :: string
  rulesFolderArg :: string
  debugArg :: bool

definition flag_defaults :: flag_vars where
  "flag_defaults = \<lparr>prefixArg = '''', rulesFolderArg = ''./rules'', debugArg = False\<rparr>"

definition ParseBool :: "string \<Rightarrow> bool option" where
  "ParseBool s =
     (if s \<in> set [''1'', ''t'', ''T'', ''TRUE'', ''true'', ''True''] then Some True
      else if s \<in> set [''0'', ''f'', ''F'', ''FALSE'', ''false'', ''False''] then Some False
      else None)"

definition set_string :: "string \<Rightarrow> string \<Rightarrow> flag_vars \<Rightarrow> flag_vars" where
  "set_string name v fv =
     (if name = ''rules'' then fv\<lparr>rulesFolderArg := v\<rparr> else fv\<lparr>prefixArg := v\<rparr>)"

text \<open>
  The end of \<open>parseOne\<close>: the flag has a name and perhaps a value after an equals
  sign; a string without one takes the next argument.
\<close>

definition set_flag ::
  "string \<Rightarrow> string option \<Rightarrow> string list \<Rightarrow> flag_vars \<Rightarrow> int + (flag_vars \<times> string list)" where
  "set_flag name value args fv =
     (if name = ''debug'' then
        (case ParseBool (case value of None \<Rightarrow> ''true'' | Some v \<Rightarrow> v) of
           None \<Rightarrow> Inl 2
         | Some b \<Rightarrow> Inr (fv\<lparr>debugArg := b\<rparr>, args))
      else if name = ''filter-prefix'' \<or> name = ''rules'' then
        (case value of
           Some v \<Rightarrow> Inr (set_string name v fv, args)
         | None \<Rightarrow>
             (case args of
                [] \<Rightarrow> Inl 2
              | v # args' \<Rightarrow> Inr (set_string name v fv, args')))
      else Inl (if name = ''help'' \<or> name = ''h'' then 0 else 2))"

text \<open>The start of \<open>parseOne\<close>: the name after one or two dashes, cut at the first equals sign.\<close>

definition flag_name :: "string \<Rightarrow> string" where
  "flag_name s = (if s ! 1 = CHR ''-'' then drop 2 s else drop 1 s)"

definition named_flag :: "string \<Rightarrow> string list \<Rightarrow> flag_vars \<Rightarrow> int + (flag_vars \<times> string list)" where
  "named_flag name args fv =
     (if name = '''' \<or> hd name = CHR ''-'' \<or> hd name = CHR ''='' then Inl 2
      else
        (case cut ''='' name of
           None \<Rightarrow> set_flag name None args fv
         | Some (n, v) \<Rightarrow> set_flag n (Some v) args fv))"

lemma named_flag_shorter: "named_flag name args fv = Inr (fv', args') \<Longrightarrow> length args' \<le> length args"
  by (auto simp: named_flag_def set_flag_def split: if_splits option.splits list.splits)

function Parse :: "string list \<Rightarrow> flag_vars \<Rightarrow> int + (flag_vars \<times> string list)" where
  "Parse [] fv = Inr (fv, [])"
| "Parse (s # args) fv =
     (if length s < 2 \<or> hd s \<noteq> CHR ''-'' then Inr (fv, s # args)
      else if s = ''--'' then Inr (fv, args)
      else
        (case named_flag (flag_name s) args fv of
           Inl status \<Rightarrow> Inl status
         | Inr (fv', args') \<Rightarrow> Parse args' fv'))"
  by pat_completeness auto
termination
  by (relation "measure (length \<circ> fst)") (auto dest: named_flag_shorter)

declare Parse.simps(2) [simp del]

section \<open>The command lines that are understood\<close>

datatype setting = FilterPrefix string | Rules string | Debug bool

fun apply_setting :: "setting \<Rightarrow> flag_vars \<Rightarrow> flag_vars" where
  "apply_setting (FilterPrefix v) fv = fv\<lparr>prefixArg := v\<rparr>"
| "apply_setting (Rules v) fv = fv\<lparr>rulesFolderArg := v\<rparr>"
| "apply_setting (Debug b) fv = fv\<lparr>debugArg := b\<rparr>"

text \<open>The ways to write a setting as arguments.\<close>

definition dashes :: "string \<Rightarrow> bool" where
  "dashes d \<longleftrightarrow> d = ''-'' \<or> d = ''--''"

inductive spells :: "setting \<Rightarrow> string list \<Rightarrow> bool" where
  prefix_next: "dashes d \<Longrightarrow> spells (FilterPrefix v) [d @ ''filter-prefix'', v]"
| prefix_eq: "dashes d \<Longrightarrow> spells (FilterPrefix v) [d @ ''filter-prefix='' @ v]"
| rules_next: "dashes d \<Longrightarrow> spells (Rules v) [d @ ''rules'', v]"
| rules_eq: "dashes d \<Longrightarrow> spells (Rules v) [d @ ''rules='' @ v]"
| debug_on: "dashes d \<Longrightarrow> spells (Debug True) [d @ ''debug'']"
| debug_eq: "dashes d \<Longrightarrow> ParseBool t = Some b \<Longrightarrow> spells (Debug b) [d @ ''debug='' @ t]"

text \<open>One flag with its name and value, whatever its dashes.\<close>

lemma Parse_flag:
  assumes "dashes d" "name \<noteq> ''''" "hd name \<noteq> CHR ''-''" "CHR ''='' \<notin> set name"
  shows "Parse ((d @ name) # args) fv =
      (case set_flag name None args fv of Inl n \<Rightarrow> Inl n | Inr (fv', args') \<Rightarrow> Parse args' fv')"
    and "Parse ((d @ name @ ''='' @ v) # args) fv =
      (case set_flag name (Some v) args fv of Inl n \<Rightarrow> Inl n | Inr (fv', args') \<Rightarrow> Parse args' fv')"
proof -
  obtain c m where name: "name = c # m" "c \<noteq> CHR ''-''" "c \<noteq> CHR ''=''" "CHR ''='' \<notin> set m"
    using assms(2-4) by (cases name) auto
  have "cut ''='' (c # m) = None" "cut ''='' (c # m @ CHR ''='' # v) = Some (c # m, v)"
    using cut_none [of "CHR ''=''" "c # m"] cut_append_sep [of "CHR ''=''" "c # m" v] name by simp_all
  with assms(1) name show
    "Parse ((d @ name) # args) fv =
      (case set_flag name None args fv of Inl n \<Rightarrow> Inl n | Inr (fv', args') \<Rightarrow> Parse args' fv')"
    "Parse ((d @ name @ ''='' @ v) # args) fv =
      (case set_flag name (Some v) args fv of Inl n \<Rightarrow> Inl n | Inr (fv', args') \<Rightarrow> Parse args' fv')"
    by (auto simp: dashes_def Parse.simps(2) flag_name_def named_flag_def)
qed

lemma Parse_spelled: "spells x ws \<Longrightarrow> Parse (ws @ args) fv = Parse args (apply_setting x fv)"
proof (induction rule: spells.induct)
  case (prefix_next d v)
  then show ?case using Parse_flag(1) [of d "''filter-prefix''"] by (simp add: set_flag_def set_string_def)
next
  case (prefix_eq d v)
  then show ?case using Parse_flag(2) [of d "''filter-prefix''"] by (simp add: set_flag_def set_string_def)
next
  case (rules_next d v)
  then show ?case using Parse_flag(1) [of d "''rules''"] by (simp add: set_flag_def set_string_def)
next
  case (rules_eq d v)
  then show ?case using Parse_flag(2) [of d "''rules''"] by (simp add: set_flag_def set_string_def)
next
  case (debug_on d)
  then show ?case using Parse_flag(1) [of d "''debug''"] by (simp add: set_flag_def ParseBool_def)
next
  case (debug_eq d t b)
  then show ?case using Parse_flag(2) [of d "''debug''"] by (simp add: set_flag_def)
qed

text \<open>Where the flags end: at an argument that is not one, which stays, or after two dashes.\<close>

definition operands :: "string list \<Rightarrow> string list \<Rightarrow> bool" where
  "operands tail rest \<longleftrightarrow>
     tail = ''--'' # rest \<or> tail = rest \<and> (rest = [] \<or> length (hd rest) < 2 \<or> hd (hd rest) \<noteq> CHR ''-'')"

lemma Parse_operands: "operands tail rest \<Longrightarrow> Parse tail fv = Inr (fv, rest)"
  by (cases rest) (auto simp: operands_def Parse.simps(2))

lemma cut_Some: "cut [c] s = Some (a, b) \<Longrightarrow> s = a @ c # b"
  by (induction s arbitrary: a) (auto split: if_splits option.splits)

text \<open>What one flag does when it does not end the process.\<close>

lemma set_flag_spelled:
  assumes "dashes d"
  shows "set_flag name None args fv = Inr (fv', args') \<Longrightarrow>
      \<exists>x ws. spells x ws \<and> (d @ name) # args = ws @ args' \<and> fv' = apply_setting x fv"
    and "set_flag name (Some v) args fv = Inr (fv', args') \<Longrightarrow>
      \<exists>x ws. spells x ws \<and> (d @ name @ ''='' @ v) # args = ws @ args' \<and> fv' = apply_setting x fv"
proof -
  note spellings = spells.intros [OF assms]
  assume "set_flag name None args fv = Inr (fv', args')"
  then consider "name = ''debug''" "fv' = fv\<lparr>debugArg := True\<rparr>" "args' = args"
    | w where "name = ''filter-prefix''" "args = w # args'" "fv' = fv\<lparr>prefixArg := w\<rparr>"
    | w where "name = ''rules''" "args = w # args'" "fv' = fv\<lparr>rulesFolderArg := w\<rparr>"
    by (auto simp: set_flag_def set_string_def ParseBool_def split: if_splits list.splits)
  then show "\<exists>x ws. spells x ws \<and> (d @ name) # args = ws @ args' \<and> fv' = apply_setting x fv"
  proof cases
    case 1
    with spellings(5) show ?thesis by (intro exI [of _ "Debug True"] exI [of _ "[d @ ''debug'']"]) simp
  next
    case (2 w)
    with spellings(1) show ?thesis
      by (intro exI [of _ "FilterPrefix w"] exI [of _ "[d @ ''filter-prefix'', w]"]) simp
  next
    case (3 w)
    with spellings(3) show ?thesis by (intro exI [of _ "Rules w"] exI [of _ "[d @ ''rules'', w]"]) simp
  qed
next
  note spellings = spells.intros [OF assms]
  assume "set_flag name (Some v) args fv = Inr (fv', args')"
  then consider b where "name = ''debug''" "ParseBool v = Some b" "fv' = fv\<lparr>debugArg := b\<rparr>" "args' = args"
    | "name = ''filter-prefix''" "args = args'" "fv' = fv\<lparr>prefixArg := v\<rparr>"
    | "name = ''rules''" "args = args'" "fv' = fv\<lparr>rulesFolderArg := v\<rparr>"
    by (auto simp: set_flag_def set_string_def split: if_splits option.splits)
  then show "\<exists>x ws. spells x ws \<and> (d @ name @ ''='' @ v) # args = ws @ args' \<and> fv' = apply_setting x fv"
  proof cases
    case (1 b)
    with spellings(6) show ?thesis by (intro exI [of _ "Debug b"] exI [of _ "[d @ ''debug='' @ v]"]) simp
  next
    case 2
    with spellings(2) show ?thesis
      by (intro exI [of _ "FilterPrefix v"] exI [of _ "[d @ ''filter-prefix='' @ v]"]) simp
  next
    case 3
    with spellings(4) show ?thesis by (intro exI [of _ "Rules v"] exI [of _ "[d @ ''rules='' @ v]"]) simp
  qed
qed

text \<open>
  A command line is accepted exactly when it is a sequence of settings,
  followed by operands; the settings take effect from left to right.
\<close>

definition command_line :: "setting list \<Rightarrow> string list \<Rightarrow> string list \<Rightarrow> bool" where
  "command_line xs args rest \<longleftrightarrow>
     (\<exists>wss tail. list_all2 spells xs wss \<and> args = concat wss @ tail \<and> operands tail rest)"

lemma command_line_Nil: "operands tail rest \<Longrightarrow> command_line [] tail rest"
  by (auto simp: command_line_def)

lemma command_line_Cons: "spells x ws \<Longrightarrow> command_line xs args rest \<Longrightarrow> command_line (x # xs) (ws @ args) rest"
  unfolding command_line_def by (metis append.assoc concat.simps(2) list_all2_Cons)

lemma Parse_command_line:
  assumes "command_line xs args rest"
  shows "Parse args fv = Inr (fold apply_setting xs fv, rest)"
proof -
  from assms obtain wss tail where "list_all2 spells xs wss" "args = concat wss @ tail" "operands tail rest"
    by (auto simp: command_line_def)
  then show ?thesis
    by (induction arbitrary: args fv rule: list_all2_induct) (simp_all add: Parse_spelled Parse_operands)
qed

text \<open>The argument that starts a flag, taken apart.\<close>

lemma flag_argument:
  assumes "\<not> (length s < 2 \<or> hd s \<noteq> CHR ''-'')" and "s \<noteq> ''--''"
  shows "\<exists>d. dashes d \<and> s = d @ flag_name s"
proof -
  obtain c t where s: "s = CHR ''-'' # c # t"
    using assms(1) by (cases s; cases "tl s") auto
  show ?thesis
  proof (cases "c = CHR ''-''")
    case True
    with s show ?thesis by (intro exI [of _ "''--''"]) (simp add: dashes_def flag_name_def)
  next
    case False
    with s show ?thesis by (intro exI [of _ "''-''"]) (simp add: dashes_def flag_name_def)
  qed
qed

lemma named_flag_spelled:
  assumes "dashes d" and "named_flag name args fv = Inr (fv', args')"
  shows "\<exists>x ws. spells x ws \<and> (d @ name) # args = ws @ args' \<and> fv' = apply_setting x fv"
proof (cases "cut ''='' name")
  case None
  with assms(2) have "set_flag name None args fv = Inr (fv', args')" by (simp add: named_flag_def split: if_splits)
  from set_flag_spelled(1) [OF assms(1) this] show ?thesis .
next
  case (Some p)
  obtain n v where p: "p = (n, v)" by fastforce
  with Some have name: "name = n @ ''='' @ v" using cut_Some [of "CHR ''=''" name n v] by simp
  from assms(2) Some p have "set_flag n (Some v) args fv = Inr (fv', args')" by (simp add: named_flag_def split: if_splits)
  from set_flag_spelled(2) [OF assms(1) this] show ?thesis by (simp add: name)
qed

lemma Parse_Inr_command_line:
  "Parse args fv = Inr (fv', rest) \<Longrightarrow> \<exists>xs. command_line xs args rest \<and> fv' = fold apply_setting xs fv"
proof (induction args fv arbitrary: fv' rest rule: Parse.induct)
  case (1 fv)
  then show ?case by (auto intro!: exI [of _ "[]"] command_line_Nil simp: operands_def)
next
  case (2 s args fv)
  show ?case
  proof (cases "(length s < 2 \<or> hd s \<noteq> CHR ''-'') \<or> s = ''--''")
    case True
    with 2(2) show ?thesis
      by (intro exI [of _ "[]"]) (auto intro!: command_line_Nil simp: operands_def Parse.simps(2) split: if_splits)
  next
    case False
    then have guards: "\<not> (length s < 2 \<or> hd s \<noteq> CHR ''-'')" "s \<noteq> ''--''" by auto
    with 2(2) obtain fv1 args1 where step: "named_flag (flag_name s) args fv = Inr (fv1, args1)"
      and rec: "Parse args1 fv1 = Inr (fv', rest)"
      by (auto simp: Parse.simps(2) split: sum.splits)
    obtain d where d: "dashes d" "s = d @ flag_name s" using flag_argument [OF guards] by blast
    have "\<exists>x ws. spells x ws \<and> s # args = ws @ args1 \<and> fv1 = apply_setting x fv"
      using named_flag_spelled [OF d(1) step] d(2) by simp
    then obtain x ws where x: "spells x ws" "s # args = ws @ args1" "fv1 = apply_setting x fv" by blast
    from 2(1) [OF guards step refl rec] obtain xs where
      "command_line xs args1 rest" "fv' = fold apply_setting xs fv1" by blast
    with x command_line_Cons [OF x(1)] show ?thesis by (intro exI [of _ "x # xs"]) simp
  qed
qed

lemma Parse_iff:
  "Parse args fv = Inr (fv', rest) \<longleftrightarrow> (\<exists>xs. command_line xs args rest \<and> fv' = fold apply_setting xs fv)"
  using Parse_command_line Parse_Inr_command_line by blast

text \<open>The status of a refused command line.\<close>

lemma Parse_status: "Parse args fv = Inl n \<Longrightarrow> n = 0 \<or> n = 2"
proof (induction args fv rule: Parse.induct)
  case (2 s args fv)
  have "named_flag name args fv = Inl k \<Longrightarrow> k = 0 \<or> k = 2" for name k
    by (auto simp: named_flag_def set_flag_def split: if_splits option.splits list.splits)
  with 2 show ?case by (auto simp: Parse.simps(2) split: if_splits sum.splits)
qed simp

end
