(* ===== verification/Startup.thy ===== *)
theory Startup
  imports AlertOrigin Drain Flags
begin

text \<open>
  The start of the process: the package initialisers of \<open>internal/helpers\<close> and
  \<open>cmd/main.go\<close>, in the order of the imports, then the set-up in \<open>main\<close>.
\<close>

section \<open>The boot time\<close>

lemma graphic_no_space: "graphic c \<Longrightarrow> head_token space_tokens (c # s) = 0"
  by (rule head_token_other) (simp add: space_token_ends)

lemma Fields_from_word:
  "\<forall>c\<in>set w. graphic c \<Longrightarrow> Fields_from cur (w @ s) = Fields_from (cur @ w) s"
proof (induction w arbitrary: cur)
  case (Cons c w)
  then have "Fields_from cur (c # w @ s) = Fields_from (cur @ [c]) (w @ s)"
    by (subst Fields_from.simps) (simp add: graphic_no_space)
  with Cons show ?case by simp
qed simp

lemma Fields_from_space:
  "cur \<noteq> [] \<Longrightarrow> Fields_from cur (CHR '' '' # s) = cur # Fields_from [] s"
proof -
  have "head_token space_tokens (CHR '' '' # s) = 1"
    by (simp add: space_tokens_def upt_rec char_of_def bit_0)
  then show "cur \<noteq> [] \<Longrightarrow> ?thesis" by (subst Fields_from.simps) simp
qed

lemma Fields_two:
  assumes "\<forall>c\<in>set a. graphic c" "\<forall>c\<in>set b. graphic c" "a \<noteq> []" "b \<noteq> []"
  shows "Fields (a @ '' '' @ b) = [a, b]"
  using assms Fields_from_word [of a "[]" "'' '' @ b"] Fields_from_word [of b "[]" "[]"] Fields_from_space [of a b]
  by (simp add: Fields_def Fields_from.simps [of b "[]"])

lemma dec_graphic: "c \<in> set (dec n) \<Longrightarrow> graphic c"
  using dec_digits [of n] by (auto simp: is_digit_def graphic_def)

lemma boot_time_line:
  assumes "n < 2 ^ 63" and "\<forall>l\<in>set pre. \<not> HasPrefix l ''btime ''"
  shows "boot_time_lines (pre @ (''btime '' @ dec n) # post) = Inr (int n * 1000000000)"
  using assms(2)
proof (induction pre)
  case Nil
  have "Fields (''btime'' @ '' '' @ dec n) = [''btime'', dec n]"
    by (rule Fields_two) (simp_all add: dec_graphic dec_nonempty, simp add: graphic_def)
  moreover have "fst (ParseUint (dec n) 64) = n" using assms(1) by (subst ParseUint_dec) simp_all
  moreover have "sint (of_nat n :: u64) = int n"
  proof -
    have "unat (of_nat n :: u64) = n" using assms(1) by (simp add: unat_of_nat take_bit_nat_eq_self)
    with sint_small [of "of_nat n"] assms(1) show ?thesis by simp
  qed
  ultimately show ?case by (simp add: HasPrefix_def time_Unix_def)
qed (simp add: HasPrefix_def)

text \<open>The seconds of the first line that names them, whatever surrounds it.\<close>

lemma boot_time_read:
  assumes "n < 2 ^ 63" and "\<forall>l\<in>set pre. newline \<notin> set l \<and> \<not> HasPrefix l ''btime ''"
  shows "init_bootTime (Some (stdout_text pre @ ''btime '' @ dec n @ newline # post)) now = Inr (int n * 1000000000)"
    and "boot_local (Some (stdout_text pre @ ''btime '' @ dec n @ newline # post))"
proof -
  have no_nl: "newline \<notin> set (''btime '' @ dec n)"
    using dec_digits [of n] by (auto simp: newline_def is_digit_def)
  have "Split (stdout_text pre @ (''btime '' @ dec n) @ newline # post) [newline]
      = pre @ (''btime '' @ dec n) # Split post [newline]"
    using assms(2)
  proof (induction pre)
    case Nil
    then show ?case using Split_cons [OF no_nl] by (simp add: stdout_text_def)
  next
    case (Cons l pre)
    then show ?case by (simp add: stdout_text_def Split_cons)
  qed
  then show "init_bootTime (Some (stdout_text pre @ ''btime '' @ dec n @ newline # post)) now = Inr (int n * 1000000000)"
    and "boot_local (Some (stdout_text pre @ ''btime '' @ dec n @ newline # post))"
    using boot_time_line [of n pre] assms by (simp_all add: init_bootTime_def boot_local_def newline_def HasPrefix_def)
qed

section \<open>The process\<close>

text \<open>What the process is started with and in.\<close>

record ('y, 'e) world =
  osArgs :: "string list"
  procStat :: "string option"
  nowTime :: go_time
  fileTree :: "string \<Rightarrow> fs_node option"
  decodeRule :: "string \<Rightarrow> 'y + Rule"
  probesAttached :: bool
  clientErr :: "'e option"
  dockerEnv :: "'e resolver_env"
  ringOpened :: bool
  zoneOffset :: "go_time \<Rightarrow> int"

text \<open>
  Event times are printed in the location of the boot time.
  \<open>Inr (Inl status)\<close>: the process exits before its loop; otherwise the
  configuration and the state in which the goroutines start. The logger and
  the memory limit, whose failure is only logged, have no part in them.
\<close>

definition time_zone :: "('y, 'e) world \<Rightarrow> go_time \<Rightarrow> int" where
  "time_zone w = (if boot_local (procStat w) then zoneOffset w else (\<lambda>t. 0))"

definition program_start :: "('y, 'e) world \<Rightarrow> (int + (pipe_config \<times> pipeline)) go" where
  "program_start w =
     go_bind (init_bootTime (procStat w) (nowTime w)) (\<lambda>boot.
       case Parse (osArgs w) flag_defaults of
         Inl status \<Rightarrow> Inr (Inl status)
       | Inr (fv, rest) \<Rightarrow>
           go_bind (main_setup (decodeRule w) (fileTree w (rulesFolderArg fv)) (probesAttached w)
                      (clientErr w) (dockerEnv w) (ringOpened w)) (\<lambda>st.
             Inr (case st of
                    None \<Rightarrow> Inl (- 1)
                  | Some s \<Rightarrow>
                      Inr (\<lparr>filterPrefixArg = prefixArg fv, bootTime = boot, localZone = time_zone w\<rparr>, s))))"

lemma program_start_iff:
  "program_start w = Inr (Inr (cfg, s)) \<longleftrightarrow>
     (\<exists>xs rest. command_line xs (osArgs w) rest
        \<and> init_bootTime (procStat w) (nowTime w) = Inr (bootTime cfg)
        \<and> main_setup (decodeRule w) (fileTree w (rulesFolderArg (fold apply_setting xs flag_defaults)))
            (probesAttached w) (clientErr w) (dockerEnv w) (ringOpened w) = Inr (Some s)
        \<and> filterPrefixArg cfg = prefixArg (fold apply_setting xs flag_defaults)
        \<and> localZone cfg = time_zone w)"
  (is "?start \<longleftrightarrow> ?ok")
proof
  assume start: ?start
  then obtain boot where boot: "init_bootTime (procStat w) (nowTime w) = Inr boot"
    by (auto simp: program_start_def go_simps)
  with start obtain fv rest where fv: "Parse (osArgs w) flag_defaults = Inr (fv, rest)"
    by (auto simp: program_start_def go_simps split: sum.splits)
  with start boot have "main_setup (decodeRule w) (fileTree w (rulesFolderArg fv))
        (probesAttached w) (clientErr w) (dockerEnv w) (ringOpened w) = Inr (Some s)
      \<and> cfg = \<lparr>filterPrefixArg = prefixArg fv, bootTime = boot, localZone = time_zone w\<rparr>"
    by (auto simp: program_start_def go_simps split: option.splits)
  with boot fv show ?ok by (auto simp: Parse_iff)
next
  assume ?ok
  then show ?start by (auto simp: program_start_def Parse_command_line go_simps)
qed

lemma program_start_refused:
  "init_bootTime (procStat w) (nowTime w) = Inr boot \<Longrightarrow> Parse (osArgs w) flag_defaults = Inl n \<Longrightarrow>
     program_start w = Inr (Inl n)"
  by (simp add: program_start_def)

text \<open>With a readable \<open>/proc/stat\<close>, the command line and the set-up decide.\<close>

lemma program_start_cases:
  assumes "procStat w = Some (stdout_text pre @ ''btime '' @ dec n @ newline # post)"
    and "n < 2 ^ 63" and "\<forall>l\<in>set pre. newline \<notin> set l \<and> \<not> HasPrefix l ''btime ''"
  shows "program_start w = Inr (Inr (cfg, s)) \<longleftrightarrow>
     (\<exists>xs rest. command_line xs (osArgs w) rest
        \<and> main_setup (decodeRule w) (fileTree w (rulesFolderArg (fold apply_setting xs flag_defaults)))
            (probesAttached w) (clientErr w) (dockerEnv w) (ringOpened w) = Inr (Some s)
        \<and> cfg = \<lparr>filterPrefixArg = prefixArg (fold apply_setting xs flag_defaults),
                 bootTime = int n * 1000000000, localZone = zoneOffset w\<rparr>)"
    and "(\<nexists>xs rest. command_line xs (osArgs w) rest) \<Longrightarrow> program_start w \<in> {Inr (Inl 0), Inr (Inl 2)}"
proof -
  note boot = boot_time_read(1) [OF assms(2,3), of post "nowTime w", folded assms(1)]
  have zone: "time_zone w = zoneOffset w"
    using boot_time_read(2) [OF assms(2,3), of post] by (simp add: time_zone_def assms(1))
  show "program_start w = Inr (Inr (cfg, s)) \<longleftrightarrow>
     (\<exists>xs rest. command_line xs (osArgs w) rest
        \<and> main_setup (decodeRule w) (fileTree w (rulesFolderArg (fold apply_setting xs flag_defaults)))
            (probesAttached w) (clientErr w) (dockerEnv w) (ringOpened w) = Inr (Some s)
        \<and> cfg = \<lparr>filterPrefixArg = prefixArg (fold apply_setting xs flag_defaults),
                 bootTime = int n * 1000000000, localZone = zoneOffset w\<rparr>)"
    unfolding program_start_iff boot zone by (cases cfg) auto
  assume "\<nexists>xs rest. command_line xs (osArgs w) rest"
  then have "Parse (osArgs w) flag_defaults \<noteq> Inr (fv, rest)" for fv rest by (auto simp: Parse_iff)
  then obtain k where "Parse (osArgs w) flag_defaults = Inl k" by (metis sumE surj_pair)
  with program_start_refused [OF boot this] Parse_status [OF this] show "program_start w \<in> {Inr (Inl 0), Inr (Inl 2)}"
    by auto
qed

text \<open>A start gives the first state of the pipeline; what follows is reachable, with the rules that were loaded.\<close>

lemma started_state:
  assumes "program_start w = Inr (Inr (cfg, s0))"
  shows "s0 = pipeline_start (engine s0) (resolver s0)" "chan_buf (alerts (engine s0)) = []"
    "thresholds (engine s0) = Map.empty"
proof -
  from assms obtain root where
    start: "main_setup (decodeRule w) root (probesAttached w) (clientErr w) (dockerEnv w) (ringOpened w) = Inr (Some s0)"
    by (auto simp: program_start_iff)
  then show "s0 = pipeline_start (engine s0) (resolver s0)" by (auto simp: main_setup_Some pipeline_start_def)
  from setup_fresh [OF start] show "chan_buf (alerts (engine s0)) = []" "thresholds (engine s0) = Map.empty" by blast+
qed

lemma started_reachable:
  assumes "program_start w = Inr (Inr (cfg, s0))" and "run (pipe_step cfg) as s0 = Inr (Some s)"
  shows "\<exists>eng res. reachable cfg eng res s \<and> chan_buf (alerts eng) = [] \<and> thresholds eng = Map.empty
    \<and> rules eng = rules (engine s0)"
proof -
  note start = started_state [OF assms(1)]
  have "reachable cfg (engine s0) (resolver s0) s0" by (subst (3) start(1)) (rule reachable.start)
  with start(2,3) reachable_run [OF assms(2)] show ?thesis by blast
qed

end
