(* ===== verification/Examples.thy ===== *)
theory Examples
  imports ShippedAlerts LiveRules Lag Sequence Startup
begin

text \<open>
  Concrete inputs on which the properties are exercised: a kernel with two
  sockets that are the ends of one connection, a container runtime, rules
  and events.
\<close>

section \<open>A kernel\<close>

text \<open>
  A memory with the client's socket at 4096 and the server's at 8192: the
  first twenty bytes of each, with addresses, ports and family.
\<close>

definition client_sock :: bytes where
  "client_sock = [10, 0, 0, 2, 10, 0, 0, 1, 0, 0, 0, 0, 21, 56, 64, 156, 2, 0, 0, 0]"

definition server_sock :: bytes where
  "server_sock = [10, 0, 0, 1, 10, 0, 0, 2, 0, 0, 0, 0, 156, 64, 56, 21, 2, 0, 0, 0]"

definition demo_memory :: "u64 \<Rightarrow> u8" where
  "demo_memory a =
     (if 4096 \<le> a \<and> a < 4116 then client_sock ! unat (a - 4096)
      else if 8192 \<le> a \<and> a < 8212 then server_sock ! unat (a - 8192)
      else 0)"

definition demo_env :: "u64 \<Rightarrow> bytes \<Rightarrow> bpf_env" where
  "demo_env cgroup name =
     \<lparr>bpf_get_current_pid_tgid = push_bit 32 42, bpf_get_current_cgroup_id = cgroup,
      bpf_ktime_get_ns = 1000, bpf_get_current_task = 12288,
      bpf_get_current_comm = write_cstr name,
      bpf_probe_read_kernel = (\<lambda>a n. map (\<lambda>i. demo_memory (a + of_nat i)) [0..<n]),
      bpf_probe_read_user_str = (\<lambda>a. write_cstr [47, 98]),
      bpf_probe_read_kernel_str = (\<lambda>src. write_cstr (take 15 (takeWhile (\<lambda>b. b \<noteq> 0) src))),
      bpf_ringbuf_reserve = (\<lambda>n. Some (replicate n 170))\<rparr>"

lemma demo_env_ok:
  assumes "0 \<notin> set name" and "length name < 16"
  shows "bpf_env_ok (demo_env cgroup name) name (\<lambda>a. [47, 98])"
proof -
  have "0 \<notin> set (take 15 (takeWhile (\<lambda>b. b \<noteq> 0) src))" for src :: bytes
    by (auto dest!: in_set_takeD dest: set_takeWhileD)
  then show ?thesis
    using assms by (auto simp: bpf_env_ok_def demo_env_def intro!: write_cstr_ok)
qed

lemma demo_reserve: "bpf_ringbuf_reserve (demo_env cgroup name) n = Some (replicate n 170)"
  by (simp add: demo_env_def)

lemma demo_cgroup: "bpf_get_current_cgroup_id (demo_env cgroup name) = cgroup"
  by (simp add: demo_env_def)

lemmas demo_simps = core_read_def sock_fieldof demo_env_def demo_memory_def client_sock_def server_sock_def

lemma demo_family:
  "sock_family (demo_env cgroup name) 4096 = AF_INET" "sock_family (demo_env cgroup name) 8192 = AF_INET"
  by (simp_all add: sock_family_def demo_simps AF_INET_def upt_rec)

lemma demo_endpoints:
  "sock_endpoints (demo_env cgroup name) 4096 = (16777226, 40000, 33554442, 5432)"
  "sock_endpoints (demo_env cgroup name) 8192 = (33554442, 5432, 16777226, 40000)"
  by (simp_all add: sock_endpoints_def demo_simps bpf_htons_def upt_rec)

lemma demo_read: "bpf_probe_read_kernel (demo_env cgroup name) = read_memory demo_memory"
  by (simp add: demo_env_def read_memory_def fun_eq_iff)

lemma demo_parent: "parent_task (demo_env cgroup name) = 0"
proof -
  have "demo_memory (15072 + of_nat i) = 0" if "i < 8" for i
  proof -
    from that have "i = 0 \<or> i = 1 \<or> i = 2 \<or> i = 3 \<or> i = 4 \<or> i = 5 \<or> i = 6 \<or> i = 7" by presburger
    then show ?thesis by (elim disjE) (simp_all add: demo_memory_def)
  qed
  then have "read_memory demo_memory 15072 8 = replicate 8 0"
    by (intro nth_equalityI) (simp_all add: read_memory_def)
  then have "core_read (demo_env cgroup name) struct_task_struct [''real_parent''] 12288 = replicate 8 0"
    by (simp add: core_read_def task_fieldof demo_read)
  then show ?thesis by (simp add: parent_task_def demo_env_def) (simp add: numeral_eq_Suc)
qed

section \<open>User space\<close>

definition demo_info :: ContainerInfo where
  "demo_info = \<lparr>ID = ''c1'', Name = ''web'', Image = ''nginx''\<rparr>"

definition demo_resolver :: Resolver where
  "demo_resolver = \<lparr>cache = [7 \<mapsto> demo_info]\<rparr>"

definition demo_cfg :: pipe_config where
  "demo_cfg = \<lparr>filterPrefixArg = ''we'', bootTime = 0, localZone = (\<lambda>t. 3600)\<rparr>"

definition demo_event :: "string \<Rightarrow> go_time \<Rightarrow> Event" where
  "demo_event ty t = zero_Event\<lparr>EvType := ty, EvTime := t, SrcContainer := Some demo_info\<rparr>"

definition type_block :: "string \<Rightarrow> MatchBlock" where
  "type_block ty = MatchBlock ty '''' '''' '''' '''' zero_PortExpr zero_PortExpr '''' '''' '''' '''' None"

definition demo_rule :: Rule where
  "demo_rule =
     \<lparr>rName = ''burst'', rDescription = ''many executions'', rSeverity = ''high'', rMitre = '''',
      rMatch = Some (type_block ''exec''), rAny = [], rAll = [],
      rDetect = \<lparr>Mode = ''threshold'', Count = 1, Window = ''10s'', GroupBy = [''src_container'']\<rparr>,
      rSequence = None\<rparr>"

definition demo_sequence :: SequenceConfig where
  "demo_sequence = \<lparr>seqWindow = ''5s'', seqGroupBy = [], Steps = [type_block ''exec'', type_block ''file_open'']\<rparr>"

definition sequence_rule :: Rule where
  "sequence_rule = demo_rule\<lparr>rMatch := None, rSequence := Some demo_sequence\<rparr>"

lemma type_block_match: "MatchEvent (type_block ty) e \<longleftrightarrow> ty = '''' \<or> ty = EvType e"
  by (simp add: MatchEvent_iff type_block_def accepts_def accepts_container_def accepts_port_def
      IsZero_def zero_PortExpr_def)

lemma demo_event_simps [simp]:
  "EvType (demo_event ty t) = ty" "EvTime (demo_event ty t) = t"
  "SrcContainer (demo_event ty t) = Some demo_info" "DstContainer (demo_event ty t) = None"
  "EvSrcAddr (demo_event ty t) = ''''" "EvDstAddr (demo_event ty t) = ''''"
  by (simp_all add: demo_event_def zero_Event_def)

lemma demo_rule_simps [simp]:
  "rSequence demo_rule = None" "Mode (rDetect demo_rule) = ''threshold''" "Count (rDetect demo_rule) = 1"
  "rName demo_rule = ''burst''" "GroupBy (rDetect demo_rule) = [''src_container'']"
  "Rule_MatchEvent demo_rule (demo_event ty t) \<longleftrightarrow> ty = ''exec''"
  by (simp_all add: demo_rule_def Rule_MatchEvent_def type_block_match) auto

lemma demo_key: "buildGroupKey n [''src_container''] (demo_event ty t) = Inr (n @ '':web'')"
  by (simp add: buildGroupKey_def demo_info_def)

lemma seconds_5: "ParseDuration ''5s'' = Some 5000000000"
proof -
  have "ParseDuration (dec 5 @ ''s'') = Some (int 5 * int 1000000000)"
    by (rule ParseDuration_dec) (simp_all add: unitMap_def)
  moreover have "dec 5 @ ''s'' = ''5s''" by (simp add: dec.simps digit_char_def char_of_def bit_0)
  ultimately show ?thesis by simp
qed

lemma demo_windows: "rule_window demo_rule = 10000000000" "seq_window demo_sequence = 5000000000"
  by (simp_all add: rule_window_def seq_window_def demo_rule_def demo_sequence_def seconds_10 seconds_5)

text \<open>A container runtime without running containers.\<close>

definition demo_runtime :: "string resolver_env" where
  "demo_runtime = \<lparr>ContainerList = Inr [], ContainerInspect = (\<lambda>c. Inl ''no such container''),
     ReadFile = (\<lambda>f. Inl ''no such file''), StatIno = (\<lambda>f. Inl ''no such file'')\<rparr>"

text \<open>A rules folder with one file, and the program started with it.\<close>

definition demo_folder :: fs_node where
  "demo_folder = Dir ''rules'' True [File ''a.yaml'' (Some ''x'')]"

definition demo_decode :: "string \<Rightarrow> string + Rule" where
  "demo_decode text = Inr demo_rule"

definition demo_start :: pipeline where
  "demo_start = pipeline_start (empty_engine\<lparr>rules := [demo_rule]\<rparr>) \<lparr>cache = Map.empty\<rparr>"

lemma demo_setup: "main_setup demo_decode (Some demo_folder) True None demo_runtime True = Inr (Some demo_start)"
proof -
  have "New_engine demo_decode (Some demo_folder) = Inr (Some (empty_engine\<lparr>rules := [demo_rule]\<rparr>))"
    unfolding New_engine_iff
    by (rule exI [of _ "[demo_rule]"]) (simp add: decodes_def demo_decode_def demo_folder_def HasSuffix_def suffix_def)
  moreover have "New_resolver None demo_runtime = Inr (Inr \<lparr>cache = Map.empty\<rparr>)"
    by (simp add: New_resolver_def updateInfo_def demo_runtime_def)
  ultimately show ?thesis by (auto simp: main_setup_Some demo_start_def)
qed

lemma demo_start_fields:
  "rules (engine demo_start) = [demo_rule]" "shutPC demo_start = ShWait" "ring demo_start = []"
  "mainPC demo_start = MainRead"
  by (simp_all add: demo_start_def pipeline_start_def)

text \<open>A sample has arrived that the program has not read yet.\<close>

lemma demo_arrival: "run (pipe_step demo_cfg) [Kernel raw] demo_start = Inr (Some (demo_start\<lparr>ring := [raw]\<rparr>))"
  by (simp add: pipe_step_def demo_start_fields)

section \<open>A start of the program\<close>

text \<open>A runtime with one container, whose cgroup the demo kernel reports.\<close>

definition live_runtime :: "string resolver_env" where
  "live_runtime =
     \<lparr>ContainerList = Inr [(''c1'', ''nginx'')],
      ContainerInspect = (\<lambda>c. Inr \<lparr>inspName = ''/web'', statePid = Some 1\<rparr>),
      ReadFile = (\<lambda>f. Inr (''0::/docker/ab'' @ [CHR 0x0A])),
      StatIno = (\<lambda>f. Inr 7)\<rparr>"

lemma live_resolver: "New_resolver None live_runtime = Inr (Inr demo_resolver)"
proof -
  have "getCgroupID live_runtime 1 = Inr (Inr 7)"
    by (subst getCgroupID_path [of "[''docker'', ''ab'']"])
      (simp_all add: live_runtime_def segment_def graphic_def)
  then have "update_one live_runtime (''c1'', ''nginx'') = Inr (Inr (7, demo_info))"
    by (simp add: update_one_def demo_info_def) (simp add: live_runtime_def TrimPrefix_def)
  then have "update_loop live_runtime [(''c1'', ''nginx'')] \<lparr>cache = Map.empty\<rparr> = Inr (demo_resolver, None)"
    by (simp add: demo_resolver_def)
  then show ?thesis by (simp add: New_resolver_def updateInfo_def) (simp add: live_runtime_def)
qed

text \<open>A rule that raises an alert for every execution.\<close>

definition single_rule :: Rule where
  "single_rule = demo_rule\<lparr>rDetect := (rDetect demo_rule)\<lparr>Mode := ''single''\<rparr>\<rparr>"

lemma single_rule_simps [simp]:
  "rSequence single_rule = None" "Mode (rDetect single_rule) = ''single''"
  "Rule_MatchEvent single_rule e \<longleftrightarrow> EvType e = ''exec''"
  by (simp_all add: single_rule_def demo_rule_def Rule_MatchEvent_def type_block_match) auto

text \<open>A second container, and a rule that raises an alert for every connection.\<close>

definition db_info :: ContainerInfo where
  "db_info = \<lparr>ID = ''c2'', Name = ''db'', Image = ''postgres''\<rparr>"

definition pair_resolver :: Resolver where
  "pair_resolver = \<lparr>cache = [7 \<mapsto> demo_info, 8 \<mapsto> db_info]\<rparr>"

definition connect_rule :: Rule where
  "connect_rule = single_rule\<lparr>rMatch := Some (type_block ''connection'')\<rparr>"

lemma connect_rule_simps [simp]:
  "rSequence connect_rule = None" "Mode (rDetect connect_rule) = ''single''"
  "Rule_MatchEvent connect_rule e \<longleftrightarrow> EvType e = ''connection''"
  by (simp_all add: connect_rule_def single_rule_def demo_rule_def Rule_MatchEvent_def type_block_match) auto

lemma pair_kept: "\<not> filtered ''we'' demo_info (Some db_info)"
  by (simp add: filtered_def HasPrefix_def demo_info_def db_info_def)

text \<open>A runtime in which the second of three containers cannot be inspected.\<close>

definition half_runtime :: "string resolver_env" where
  "half_runtime =
     live_runtime\<lparr>ContainerList := Inr [(''c1'', ''nginx''), (''c2'', ''img''), (''c3'', ''img'')],
       ContainerInspect := (\<lambda>c. if c = ''c1'' then Inr \<lparr>inspName = ''/web'', statePid = Some 1\<rparr> else Inl ''gone'')\<rparr>"

lemma half_update:
  "updateInfo half_runtime \<lparr>cache = [5 \<mapsto> db_info]\<rparr> = Inr (\<lparr>cache = [5 \<mapsto> db_info, 7 \<mapsto> demo_info]\<rparr>, Some ''gone'')"
proof -
  have "getCgroupID half_runtime 1 = Inr (Inr 7)"
    by (subst getCgroupID_path [of "[''docker'', ''ab'']"])
      (simp_all add: half_runtime_def live_runtime_def segment_def graphic_def)
  then have "update_one half_runtime (''c1'', ''nginx'') = Inr (Inr (7, demo_info))"
    by (simp add: update_one_def demo_info_def) (simp add: half_runtime_def TrimPrefix_def)
  moreover have "update_one half_runtime (''c2'', ''img'') = Inr (Inl ''gone'')"
    by (simp add: update_one_def half_runtime_def)
  ultimately show ?thesis by (simp add: updateInfo_def) (simp add: half_runtime_def)
qed

definition live_start :: pipeline where
  "live_start = pipeline_start (empty_engine\<lparr>rules := [single_rule]\<rparr>) demo_resolver"

definition live_cfg :: pipe_config where
  "live_cfg = \<lparr>filterPrefixArg = ''we'', bootTime = 1700000000 * 1000000000, localZone = (\<lambda>t. 3600)\<rparr>"

text \<open>The command line names the prefix and the folder; the boot time is in the second line.\<close>

definition demo_world :: "(string, string) world" where
  "demo_world =
     \<lparr>osArgs = [''-filter-prefix'', ''we'', ''--rules=/etc/rules''],
      procStat = Some (stdout_text [''cpu 1 2''] @ ''btime '' @ dec 1700000000 @ newline # ''processes 5''),
      nowTime = 0, fileTree = [''/etc/rules'' \<mapsto> demo_folder], decodeRule = (\<lambda>text. Inr single_rule),
      probesAttached = True, clientErr = None, dockerEnv = live_runtime, ringOpened = True, zoneOffset = (\<lambda>t. 3600)\<rparr>"

lemma demo_command_line:
  "command_line [FilterPrefix ''we'', Rules ''/etc/rules''] (osArgs demo_world) []"
proof -
  have "spells (FilterPrefix ''we'') [''-filter-prefix'', ''we'']" "spells (Rules ''/etc/rules'') [''--rules=/etc/rules'']"
    using spells.prefix_next [of "''-''" "''we''"] spells.rules_eq [of "''--''" "''/etc/rules''"]
    by (simp_all add: dashes_def)
  from command_line_Cons [OF this(1) command_line_Cons [OF this(2) command_line_Nil [of "[]" "[]"]]]
  show ?thesis by (simp add: operands_def demo_world_def)
qed

lemma demo_world_setup:
  "main_setup (decodeRule demo_world) (fileTree demo_world ''/etc/rules'') (probesAttached demo_world)
     (clientErr demo_world) (dockerEnv demo_world) (ringOpened demo_world) = Inr (Some live_start)"
proof -
  have "New_engine (\<lambda>text. Inr single_rule :: string + Rule) (Some demo_folder)
      = Inr (Some (empty_engine\<lparr>rules := [single_rule]\<rparr>))"
    unfolding New_engine_iff
    by (rule exI [of _ "[single_rule]"]) (simp add: decodes_def demo_folder_def HasSuffix_def suffix_def)
  with live_resolver show ?thesis by (simp add: main_setup_Some live_start_def demo_world_def)
qed

lemma demo_world_start: "program_start demo_world = Inr (Inr (live_cfg, live_start))"
proof -
  have "procStat demo_world = Some (stdout_text [''cpu 1 2''] @ ''btime '' @ dec 1700000000 @ newline # ''processes 5'')"
    by (simp add: demo_world_def)
  from program_start_cases(1) [OF this, of live_cfg live_start] demo_command_line demo_world_setup show ?thesis
    by (fastforce simp: HasPrefix_def newline_def flag_defaults_def live_cfg_def demo_world_def)
qed

section \<open>The shipped rules\<close>

text \<open>A folder with one file for each shipped rule, and a decoder that tells them apart by length.\<close>

definition ship_folder :: fs_node where
  "ship_folder =
     Dir ''rules'' True (map (\<lambda>i. File ''a.yaml'' (Some (replicate i (CHR ''x'')))) [0..<length shipped_rules])"

definition ship_decode :: "string \<Rightarrow> string + Rule" where
  "ship_decode text = Inr (shipped_rules ! length text)"

definition ship_start :: pipeline where
  "ship_start = pipeline_start (empty_engine\<lparr>rules := shipped_rules\<rparr>) demo_resolver"

lemma ship_decodes: "list_all2 (decodes ship_decode) (rule_files ship_folder) shipped_rules"
proof -
  have "rule_files ship_folder = map (\<lambda>i. (''a.yaml'', Some (replicate i (CHR ''x'')))) [0..<length shipped_rules]"
    by (simp add: ship_folder_def HasSuffix_def suffix_def concat_map_singleton comp_def)
  then show ?thesis by (simp add: list_all2_conv_all_nth decodes_def ship_decode_def)
qed

lemma ship_setup: "main_setup ship_decode (Some ship_folder) True None live_runtime True = Inr (Some ship_start)"
proof -
  have "New_engine ship_decode (Some ship_folder) = Inr (Some (empty_engine\<lparr>rules := shipped_rules\<rparr>))"
    unfolding New_engine_iff using ship_decodes by blast
  with live_resolver show ?thesis by (simp add: main_setup_Some ship_start_def)
qed

lemma demo_clock: "bpf_ktime_get_ns (demo_env cgroup name) = 1000"
  by (simp add: demo_env_def)

end
