(* ===== verification/Vmlinux_Proc.thy ===== *)
theory Vmlinux_Proc
  imports Vmlinux_Task
begin

text \<open>
  Kernel types of \<open>bpf/headers/vmlinux.h\<close> one pointer away from a task:
  control groups (whose kernfs inode number is the \<open>cgroup_id\<close> of an event),
  signal and process identifiers, credentials, name spaces and the address
  space.
\<close>

definition struct_css_set :: ctype where
  "struct_css_set = CStruct [
    CField ''subsys'' (CArray 15 c_u64),
    CField ''refcount'' typedef_refcount_t,
    CField ''dom_cset'' c_u64,
    CField ''dfl_cgrp'' c_u64,
    CField ''nr_tasks'' c_u32,
    CField ''tasks'' struct_list_head,
    CField ''mg_tasks'' struct_list_head,
    CField ''dying_tasks'' struct_list_head,
    CField ''task_iters'' struct_list_head,
    CField ''e_cset_node'' (CArray 15 struct_list_head),
    CField ''threaded_csets'' struct_list_head,
    CField ''threaded_csets_node'' struct_list_head,
    CField ''hlist'' struct_hlist_node,
    CField ''cgrp_links'' struct_list_head,
    CField ''mg_src_preload_node'' struct_list_head,
    CField ''mg_dst_preload_node'' struct_list_head,
    CField ''mg_node'' struct_list_head,
    CField ''mg_src_cgrp'' c_u64,
    CField ''mg_dst_cgrp'' c_u64,
    CField ''mg_dst_cset'' c_u64,
    CField ''dead'' typedef_bool,
    CField ''callback_head'' struct_callback_head]"

lemma struct_css_set_layout [layout_simps]:
  "sizeof struct_css_set = 616" "alignof struct_css_set = 8" "wf_ctype struct_css_set"
  by (simp_all add: struct_css_set_def layout_simps)

definition struct_percpu_ref :: ctype where
  "struct_percpu_ref = CStruct [
    CField ''percpu_count_ptr'' c_u64,
    CField ''data'' c_u64]"

lemma struct_percpu_ref_layout [layout_simps]:
  "sizeof struct_percpu_ref = 16" "alignof struct_percpu_ref = 8" "wf_ctype struct_percpu_ref"
  by (simp_all add: struct_percpu_ref_def layout_simps)

definition typedef_work_func_t :: ctype where
  "typedef_work_func_t = c_u64"

lemma typedef_work_func_t_layout [layout_simps]:
  "sizeof typedef_work_func_t = 8" "alignof typedef_work_func_t = 8" "wf_ctype typedef_work_func_t"
  by (simp_all add: typedef_work_func_t_def layout_simps)

definition struct_work_struct :: ctype where
  "struct_work_struct = CStruct [
    CField ''data'' typedef_atomic_long_t,
    CField ''entry'' struct_list_head,
    CField ''func'' typedef_work_func_t]"

lemma struct_work_struct_layout [layout_simps]:
  "sizeof struct_work_struct = 32" "alignof struct_work_struct = 8" "wf_ctype struct_work_struct"
  by (simp_all add: struct_work_struct_def layout_simps)

definition struct_rcu_work :: ctype where
  "struct_rcu_work = CStruct [
    CField ''work'' struct_work_struct,
    CField ''rcu'' struct_callback_head,
    CField ''wq'' c_u64]"

lemma struct_rcu_work_layout [layout_simps]:
  "sizeof struct_rcu_work = 56" "alignof struct_rcu_work = 8" "wf_ctype struct_rcu_work"
  by (simp_all add: struct_rcu_work_def layout_simps)

definition struct_cgroup_subsys_state :: ctype where
  "struct_cgroup_subsys_state = CStruct [
    CField ''cgroup'' c_u64,
    CField ''ss'' c_u64,
    CField ''refcnt'' struct_percpu_ref,
    CField ''rstat_cpu'' c_u64,
    CField ''sibling'' struct_list_head,
    CField ''children'' struct_list_head,
    CField ''id'' c_u32,
    CField ''flags'' c_u32,
    CField ''serial_nr'' typedef_u64,
    CField ''online_cnt'' typedef_atomic_t,
    CField ''destroy_work'' struct_work_struct,
    CField ''destroy_rwork'' struct_rcu_work,
    CField ''parent'' c_u64,
    CField ''nr_descendants'' c_u32,
    CField ''rstat_flush_next'' c_u64]"

lemma struct_cgroup_subsys_state_layout [layout_simps]:
  "sizeof struct_cgroup_subsys_state = 208" "alignof struct_cgroup_subsys_state = 8" "wf_ctype struct_cgroup_subsys_state"
  by (simp_all add: struct_cgroup_subsys_state_def layout_simps)

definition struct_cgroup_file :: ctype where
  "struct_cgroup_file = CStruct [
    CField ''kn'' c_u64,
    CField ''notified_at'' c_u64,
    CField ''notify_timer'' struct_timer_list]"

lemma struct_cgroup_file_layout [layout_simps]:
  "sizeof struct_cgroup_file = 56" "alignof struct_cgroup_file = 8" "wf_ctype struct_cgroup_file"
  by (simp_all add: struct_cgroup_file_def layout_simps)

definition struct_cacheline_padding :: ctype where
  "struct_cacheline_padding = CStruct [
    CField ''x'' (CArray 0 c_u8)]"

lemma struct_cacheline_padding_layout [layout_simps]:
  "sizeof struct_cacheline_padding = 0" "alignof struct_cacheline_padding = 1" "wf_ctype struct_cacheline_padding"
  by (simp_all add: struct_cacheline_padding_def layout_simps)

definition struct_task_cputime :: ctype where
  "struct_task_cputime = CStruct [
    CField ''stime'' typedef_u64,
    CField ''utime'' typedef_u64,
    CField ''sum_exec_runtime'' c_u64]"

lemma struct_task_cputime_layout [layout_simps]:
  "sizeof struct_task_cputime = 24" "alignof struct_task_cputime = 8" "wf_ctype struct_task_cputime"
  by (simp_all add: struct_task_cputime_def layout_simps)

definition struct_cgroup_base_stat :: ctype where
  "struct_cgroup_base_stat = CStruct [
    CField ''cputime'' struct_task_cputime,
    CField ''forceidle_sum'' typedef_u64,
    CField ''ntime'' typedef_u64]"

lemma struct_cgroup_base_stat_layout [layout_simps]:
  "sizeof struct_cgroup_base_stat = 40" "alignof struct_cgroup_base_stat = 8" "wf_ctype struct_cgroup_base_stat"
  by (simp_all add: struct_cgroup_base_stat_def layout_simps)

definition struct_cgroup_bpf :: ctype where
  "struct_cgroup_bpf = CStruct [
    CField ''effective'' (CArray 38 c_u64),
    CField ''progs'' (CArray 38 struct_hlist_head),
    CField ''flags'' (CArray 38 typedef_u8),
    CField ''revisions'' (CArray 38 typedef_u64),
    CField ''storages'' struct_list_head,
    CField ''inactive'' c_u64,
    CField ''refcnt'' struct_percpu_ref,
    CField ''release_work'' struct_work_struct]"

lemma struct_cgroup_bpf_layout [layout_simps]:
  "sizeof struct_cgroup_bpf = 1024" "alignof struct_cgroup_bpf = 8" "wf_ctype struct_cgroup_bpf"
  by (simp_all add: struct_cgroup_bpf_def layout_simps)

definition struct_cgroup_freezer_state :: ctype where
  "struct_cgroup_freezer_state = CStruct [
    CField ''freeze'' typedef_bool,
    CField ''e_freeze'' typedef_bool,
    CField ''nr_frozen_descendants'' c_u32,
    CField ''nr_frozen_tasks'' c_u32,
    CField ''freeze_seq'' typedef_seqcount_spinlock_t,
    CField ''freeze_start_nsec'' typedef_u64,
    CField ''frozen_nsec'' typedef_u64]"

lemma struct_cgroup_freezer_state_layout [layout_simps]:
  "sizeof struct_cgroup_freezer_state = 32" "alignof struct_cgroup_freezer_state = 8" "wf_ctype struct_cgroup_freezer_state"
  by (simp_all add: struct_cgroup_freezer_state_def layout_simps)

definition struct_cgroup :: ctype where
  "struct_cgroup = CStruct [
    CField ''self'' struct_cgroup_subsys_state,
    CField ''flags'' c_u64,
    CField ''level'' c_u32,
    CField ''max_depth'' c_u32,
    CField ''nr_descendants'' c_u32,
    CField ''nr_dying_descendants'' c_u32,
    CField ''max_descendants'' c_u32,
    CField ''nr_populated_csets'' c_u32,
    CField ''nr_populated_domain_children'' c_u32,
    CField ''nr_populated_threaded_children'' c_u32,
    CField ''nr_threaded_children'' c_u32,
    CField ''kill_seq'' c_u32,
    CField ''kn'' c_u64,
    CField ''procs_file'' struct_cgroup_file,
    CField ''events_file'' struct_cgroup_file,
    CField ''psi_files'' (CArray 4 struct_cgroup_file),
    CField ''subtree_control'' typedef_u16,
    CField ''subtree_ss_mask'' typedef_u16,
    CField ''old_subtree_control'' typedef_u16,
    CField ''old_subtree_ss_mask'' typedef_u16,
    CField ''subsys'' (CArray 15 c_u64),
    CField ''nr_dying_subsys'' (CArray 15 c_u32),
    CField ''root'' c_u64,
    CField ''cset_links'' struct_list_head,
    CField ''e_csets'' (CArray 15 struct_list_head),
    CField ''dom_cgrp'' c_u64,
    CField ''old_dom_cgrp'' c_u64,
    CField ''rstat_base_cpu'' c_u64,
    CBits '''' 8 64,
    CField ''_pad_'' struct_cacheline_padding,
    CField ''last_bstat'' struct_cgroup_base_stat,
    CField ''bstat'' struct_cgroup_base_stat,
    CField ''prev_cputime'' struct_prev_cputime,
    CField ''pidlists'' struct_list_head,
    CField ''pidlist_mutex'' struct_mutex,
    CField ''offline_waitq'' typedef_wait_queue_head_t,
    CField ''release_agent_work'' struct_work_struct,
    CField ''psi'' c_u64,
    CField ''bpf'' struct_cgroup_bpf,
    CField ''freezer'' struct_cgroup_freezer_state,
    CField ''bpf_cgrp_storage'' c_u64,
    CField ''ancestors'' (CArray 0 c_u64)]"

lemma struct_cgroup_layout [layout_simps]:
  "sizeof struct_cgroup = 2368" "alignof struct_cgroup = 8" "wf_ctype struct_cgroup"
  by (simp_all add: struct_cgroup_def layout_simps)

definition typedef_umode_t :: ctype where
  "typedef_umode_t = c_u16"

lemma typedef_umode_t_layout [layout_simps]:
  "sizeof typedef_umode_t = 2" "alignof typedef_umode_t = 2" "wf_ctype typedef_umode_t"
  by (simp_all add: typedef_umode_t_def layout_simps)

definition struct_kernfs_elem_dir :: ctype where
  "struct_kernfs_elem_dir = CStruct [
    CField ''subdirs'' c_u64,
    CField ''children'' struct_rb_root,
    CField ''root'' c_u64,
    CField ''rev'' c_u64]"

lemma struct_kernfs_elem_dir_layout [layout_simps]:
  "sizeof struct_kernfs_elem_dir = 32" "alignof struct_kernfs_elem_dir = 8" "wf_ctype struct_kernfs_elem_dir"
  by (simp_all add: struct_kernfs_elem_dir_def layout_simps)

definition struct_kernfs_elem_symlink :: ctype where
  "struct_kernfs_elem_symlink = CStruct [
    CField ''target_kn'' c_u64]"

lemma struct_kernfs_elem_symlink_layout [layout_simps]:
  "sizeof struct_kernfs_elem_symlink = 8" "alignof struct_kernfs_elem_symlink = 8" "wf_ctype struct_kernfs_elem_symlink"
  by (simp_all add: struct_kernfs_elem_symlink_def layout_simps)

definition typedef___kernel_loff_t :: ctype where
  "typedef___kernel_loff_t = c_u64"

lemma typedef___kernel_loff_t_layout [layout_simps]:
  "sizeof typedef___kernel_loff_t = 8" "alignof typedef___kernel_loff_t = 8" "wf_ctype typedef___kernel_loff_t"
  by (simp_all add: typedef___kernel_loff_t_def layout_simps)

definition typedef_loff_t :: ctype where
  "typedef_loff_t = typedef___kernel_loff_t"

lemma typedef_loff_t_layout [layout_simps]:
  "sizeof typedef_loff_t = 8" "alignof typedef_loff_t = 8" "wf_ctype typedef_loff_t"
  by (simp_all add: typedef_loff_t_def layout_simps)

definition struct_kernfs_elem_attr :: ctype where
  "struct_kernfs_elem_attr = CStruct [
    CField ''ops'' c_u64,
    CField ''open'' c_u64,
    CField ''size'' typedef_loff_t,
    CField ''notify_next'' c_u64]"

lemma struct_kernfs_elem_attr_layout [layout_simps]:
  "sizeof struct_kernfs_elem_attr = 32" "alignof struct_kernfs_elem_attr = 8" "wf_ctype struct_kernfs_elem_attr"
  by (simp_all add: struct_kernfs_elem_attr_def layout_simps)

definition struct_kernfs_node :: ctype where
  "struct_kernfs_node = CStruct [
    CField ''count'' typedef_atomic_t,
    CField ''active'' typedef_atomic_t,
    CField ''__parent'' c_u64,
    CField ''name'' c_u64,
    CField ''rb'' struct_rb_node,
    CField ''ns'' c_u64,
    CField ''hash'' c_u32,
    CField ''flags'' c_u16,
    CField ''mode'' typedef_umode_t,
    CField '''' (CUnion [
      CField ''dir'' struct_kernfs_elem_dir,
      CField ''symlink'' struct_kernfs_elem_symlink,
      CField ''attr'' struct_kernfs_elem_attr]),
    CField ''id'' typedef_u64,
    CField ''priv'' c_u64,
    CField ''iattr'' c_u64,
    CField ''rcu'' struct_callback_head]"

lemma struct_kernfs_node_layout [layout_simps]:
  "sizeof struct_kernfs_node = 136" "alignof struct_kernfs_node = 8" "wf_ctype struct_kernfs_node"
  by (simp_all add: struct_kernfs_node_def layout_simps)

definition struct_cpu_itimer :: ctype where
  "struct_cpu_itimer = CStruct [
    CField ''expires'' typedef_u64,
    CField ''incr'' typedef_u64]"

lemma struct_cpu_itimer_layout [layout_simps]:
  "sizeof struct_cpu_itimer = 16" "alignof struct_cpu_itimer = 8" "wf_ctype struct_cpu_itimer"
  by (simp_all add: struct_cpu_itimer_def layout_simps)

definition struct_task_cputime_atomic :: ctype where
  "struct_task_cputime_atomic = CStruct [
    CField ''utime'' typedef_atomic64_t,
    CField ''stime'' typedef_atomic64_t,
    CField ''sum_exec_runtime'' typedef_atomic64_t]"

lemma struct_task_cputime_atomic_layout [layout_simps]:
  "sizeof struct_task_cputime_atomic = 24" "alignof struct_task_cputime_atomic = 8" "wf_ctype struct_task_cputime_atomic"
  by (simp_all add: struct_task_cputime_atomic_def layout_simps)

definition struct_thread_group_cputimer :: ctype where
  "struct_thread_group_cputimer = CStruct [
    CField ''cputime_atomic'' struct_task_cputime_atomic]"

lemma struct_thread_group_cputimer_layout [layout_simps]:
  "sizeof struct_thread_group_cputimer = 24" "alignof struct_thread_group_cputimer = 8" "wf_ctype struct_thread_group_cputimer"
  by (simp_all add: struct_thread_group_cputimer_def layout_simps)

definition typedef_seqlock_t :: ctype where
  "typedef_seqlock_t = CStruct [
    CField ''seqcount'' typedef_seqcount_spinlock_t,
    CField ''lock'' typedef_spinlock_t]"

lemma typedef_seqlock_t_layout [layout_simps]:
  "sizeof typedef_seqlock_t = 8" "alignof typedef_seqlock_t = 4" "wf_ctype typedef_seqlock_t"
  by (simp_all add: typedef_seqlock_t_def layout_simps)

definition struct_rlimit :: ctype where
  "struct_rlimit = CStruct [
    CField ''rlim_cur'' typedef___kernel_ulong_t,
    CField ''rlim_max'' typedef___kernel_ulong_t]"

lemma struct_rlimit_layout [layout_simps]:
  "sizeof struct_rlimit = 16" "alignof struct_rlimit = 8" "wf_ctype struct_rlimit"
  by (simp_all add: struct_rlimit_def layout_simps)

definition struct_pacct_struct :: ctype where
  "struct_pacct_struct = CStruct [
    CField ''ac_flag'' c_u32,
    CField ''ac_exitcode'' c_u64,
    CField ''ac_mem'' c_u64,
    CField ''ac_utime'' typedef_u64,
    CField ''ac_stime'' typedef_u64,
    CField ''ac_minflt'' c_u64,
    CField ''ac_majflt'' c_u64]"

lemma struct_pacct_struct_layout [layout_simps]:
  "sizeof struct_pacct_struct = 56" "alignof struct_pacct_struct = 8" "wf_ctype struct_pacct_struct"
  by (simp_all add: struct_pacct_struct_def layout_simps)

definition struct_rw_semaphore :: ctype where
  "struct_rw_semaphore = CStruct [
    CField ''count'' typedef_atomic_long_t,
    CField ''owner'' typedef_atomic_long_t,
    CField ''osq'' struct_optimistic_spin_queue,
    CField ''wait_lock'' typedef_raw_spinlock_t,
    CField ''wait_list'' struct_list_head]"

lemma struct_rw_semaphore_layout [layout_simps]:
  "sizeof struct_rw_semaphore = 40" "alignof struct_rw_semaphore = 8" "wf_ctype struct_rw_semaphore"
  by (simp_all add: struct_rw_semaphore_def layout_simps)

definition struct_signal_struct :: ctype where
  "struct_signal_struct = CStruct [
    CField ''sigcnt'' typedef_refcount_t,
    CField ''live'' typedef_atomic_t,
    CField ''nr_threads'' c_u32,
    CField ''quick_threads'' c_u32,
    CField ''thread_head'' struct_list_head,
    CField ''wait_chldexit'' typedef_wait_queue_head_t,
    CField ''curr_target'' c_u64,
    CField ''shared_pending'' struct_sigpending,
    CField ''multiprocess'' struct_hlist_head,
    CField ''group_exit_code'' c_u32,
    CField ''notify_count'' c_u32,
    CField ''group_exec_task'' c_u64,
    CField ''group_stop_count'' c_u32,
    CField ''flags'' c_u32,
    CField ''core_state'' c_u64,
    CBits ''is_child_subreaper'' 4 1,
    CBits ''has_child_subreaper'' 4 1,
    CBits ''timer_create_restore_ids'' 4 1,
    CField ''next_posix_timer_id'' typedef_atomic_t,
    CField ''posix_timers'' struct_hlist_head,
    CField ''ignored_posix_timers'' struct_hlist_head,
    CField ''real_timer'' struct_hrtimer,
    CField ''it_real_incr'' typedef_ktime_t,
    CField ''it'' (CArray 2 struct_cpu_itimer),
    CField ''cputimer'' struct_thread_group_cputimer,
    CField ''posix_cputimers'' struct_posix_cputimers,
    CField ''pids'' (CArray 4 c_u64),
    CField ''tick_dep_mask'' typedef_atomic_t,
    CField ''tty_old_pgrp'' c_u64,
    CField ''leader'' c_u32,
    CField ''tty'' c_u64,
    CField ''autogroup'' c_u64,
    CField ''stats_lock'' typedef_seqlock_t,
    CField ''utime'' typedef_u64,
    CField ''stime'' typedef_u64,
    CField ''cutime'' typedef_u64,
    CField ''cstime'' typedef_u64,
    CField ''gtime'' typedef_u64,
    CField ''cgtime'' typedef_u64,
    CField ''prev_cputime'' struct_prev_cputime,
    CField ''nvcsw'' c_u64,
    CField ''nivcsw'' c_u64,
    CField ''cnvcsw'' c_u64,
    CField ''cnivcsw'' c_u64,
    CField ''min_flt'' c_u64,
    CField ''maj_flt'' c_u64,
    CField ''cmin_flt'' c_u64,
    CField ''cmaj_flt'' c_u64,
    CField ''inblock'' c_u64,
    CField ''oublock'' c_u64,
    CField ''cinblock'' c_u64,
    CField ''coublock'' c_u64,
    CField ''maxrss'' c_u64,
    CField ''cmaxrss'' c_u64,
    CField ''ioac'' struct_task_io_accounting,
    CField ''sum_sched_runtime'' c_u64,
    CField ''rlim'' (CArray 16 struct_rlimit),
    CField ''pacct'' struct_pacct_struct,
    CField ''stats'' c_u64,
    CField ''audit_tty'' c_u32,
    CField ''tty_audit_buf'' c_u64,
    CField ''cgroup_threadgroup_rwsem'' struct_rw_semaphore,
    CField ''oom_flag_origin'' typedef_bool,
    CField ''oom_score_adj'' c_u16,
    CField ''oom_score_adj_min'' c_u16,
    CField ''oom_mm'' c_u64,
    CField ''cred_guard_mutex'' struct_mutex,
    CField ''exec_update_lock'' struct_rw_semaphore]"

lemma struct_signal_struct_layout [layout_simps]:
  "sizeof struct_signal_struct = 1152" "alignof struct_signal_struct = 8" "wf_ctype struct_signal_struct"
  by (simp_all add: struct_signal_struct_def layout_simps)

definition typedef___sighandler_t :: ctype where
  "typedef___sighandler_t = c_u64"

lemma typedef___sighandler_t_layout [layout_simps]:
  "sizeof typedef___sighandler_t = 8" "alignof typedef___sighandler_t = 8" "wf_ctype typedef___sighandler_t"
  by (simp_all add: typedef___sighandler_t_def layout_simps)

definition typedef___sigrestore_t :: ctype where
  "typedef___sigrestore_t = c_u64"

lemma typedef___sigrestore_t_layout [layout_simps]:
  "sizeof typedef___sigrestore_t = 8" "alignof typedef___sigrestore_t = 8" "wf_ctype typedef___sigrestore_t"
  by (simp_all add: typedef___sigrestore_t_def layout_simps)

definition struct_sigaction :: ctype where
  "struct_sigaction = CStruct [
    CField ''sa_handler'' typedef___sighandler_t,
    CField ''sa_flags'' c_u64,
    CField ''sa_restorer'' typedef___sigrestore_t,
    CField ''sa_mask'' typedef_sigset_t]"

lemma struct_sigaction_layout [layout_simps]:
  "sizeof struct_sigaction = 32" "alignof struct_sigaction = 8" "wf_ctype struct_sigaction"
  by (simp_all add: struct_sigaction_def layout_simps)

definition struct_k_sigaction :: ctype where
  "struct_k_sigaction = CStruct [
    CField ''sa'' struct_sigaction]"

lemma struct_k_sigaction_layout [layout_simps]:
  "sizeof struct_k_sigaction = 32" "alignof struct_k_sigaction = 8" "wf_ctype struct_k_sigaction"
  by (simp_all add: struct_k_sigaction_def layout_simps)

definition struct_sighand_struct :: ctype where
  "struct_sighand_struct = CStruct [
    CField ''siglock'' typedef_spinlock_t,
    CField ''count'' typedef_refcount_t,
    CField ''signalfd_wqh'' typedef_wait_queue_head_t,
    CField ''action'' (CArray 64 struct_k_sigaction)]"

lemma struct_sighand_struct_layout [layout_simps]:
  "sizeof struct_sighand_struct = 2080" "alignof struct_sighand_struct = 8" "wf_ctype struct_sighand_struct"
  by (simp_all add: struct_sighand_struct_def layout_simps)

definition struct_upid :: ctype where
  "struct_upid = CStruct [
    CField ''nr'' c_u32,
    CField ''ns'' c_u64]"

lemma struct_upid_layout [layout_simps]:
  "sizeof struct_upid = 16" "alignof struct_upid = 8" "wf_ctype struct_upid"
  by (simp_all add: struct_upid_def layout_simps)

definition struct_pid :: ctype where
  "struct_pid = CStruct [
    CField ''count'' typedef_refcount_t,
    CField ''level'' c_u32,
    CField ''lock'' typedef_spinlock_t,
    CField '''' (CStruct [
      CField ''ino'' typedef_u64,
      CField ''pidfs_node'' struct_rb_node,
      CField ''stashed'' c_u64,
      CField ''attr'' c_u64]),
    CField ''tasks'' (CArray 4 struct_hlist_head),
    CField ''inodes'' struct_hlist_head,
    CField ''wait_pidfd'' typedef_wait_queue_head_t,
    CField ''rcu'' struct_callback_head,
    CField ''numbers'' (CArray 0 struct_upid)]"

lemma struct_pid_layout [layout_simps]:
  "sizeof struct_pid = 144" "alignof struct_pid = 8" "wf_ctype struct_pid"
  by (simp_all add: struct_pid_def layout_simps)

definition struct_idr :: ctype where
  "struct_idr = CStruct [
    CField ''idr_rt'' struct_xarray,
    CField ''idr_base'' c_u32,
    CField ''idr_next'' c_u32]"

lemma struct_idr_layout [layout_simps]:
  "sizeof struct_idr = 24" "alignof struct_idr = 8" "wf_ctype struct_idr"
  by (simp_all add: struct_idr_def layout_simps)

definition struct_ns_common :: ctype where
  "struct_ns_common = CStruct [
    CField ''ns_type'' typedef_u32,
    CField ''stashed'' c_u64,
    CField ''ops'' c_u64,
    CField ''inum'' c_u32,
    CField ''__ns_ref'' typedef_refcount_t,
    CField '''' (CUnion [
      CField '''' (CStruct [
        CField ''ns_id'' typedef_u64,
        CField ''ns_tree_node'' struct_rb_node,
        CField ''ns_list_node'' struct_list_head]),
      CField ''ns_rcu'' struct_callback_head])]"

lemma struct_ns_common_layout [layout_simps]:
  "sizeof struct_ns_common = 80" "alignof struct_ns_common = 8" "wf_ctype struct_ns_common"
  by (simp_all add: struct_ns_common_def layout_simps)

definition struct_ctl_table_header :: ctype where
  "struct_ctl_table_header = CStruct [
    CField '''' (CUnion [
      CField '''' (CStruct [
        CField ''ctl_table'' c_u64,
        CField ''ctl_table_size'' c_u32,
        CField ''used'' c_u32,
        CField ''count'' c_u32,
        CField ''nreg'' c_u32]),
      CField ''rcu'' struct_callback_head]),
    CField ''unregistering'' c_u64,
    CField ''ctl_table_arg'' c_u64,
    CField ''root'' c_u64,
    CField ''set'' c_u64,
    CField ''parent'' c_u64,
    CField ''node'' c_u64,
    CField ''inodes'' struct_hlist_head,
    CField ''type'' c_u32]"

lemma struct_ctl_table_header_layout [layout_simps]:
  "sizeof struct_ctl_table_header = 88" "alignof struct_ctl_table_header = 8" "wf_ctype struct_ctl_table_header"
  by (simp_all add: struct_ctl_table_header_def layout_simps)

definition struct_ctl_dir :: ctype where
  "struct_ctl_dir = CStruct [
    CField ''header'' struct_ctl_table_header,
    CField ''root'' struct_rb_root]"

lemma struct_ctl_dir_layout [layout_simps]:
  "sizeof struct_ctl_dir = 96" "alignof struct_ctl_dir = 8" "wf_ctype struct_ctl_dir"
  by (simp_all add: struct_ctl_dir_def layout_simps)

definition struct_ctl_table_set :: ctype where
  "struct_ctl_table_set = CStruct [
    CField ''is_seen'' c_u64,
    CField ''dir'' struct_ctl_dir]"

lemma struct_ctl_table_set_layout [layout_simps]:
  "sizeof struct_ctl_table_set = 104" "alignof struct_ctl_table_set = 8" "wf_ctype struct_ctl_table_set"
  by (simp_all add: struct_ctl_table_set_def layout_simps)

definition struct_pid_namespace :: ctype where
  "struct_pid_namespace = CStruct [
    CField ''idr'' struct_idr,
    CField ''rcu'' struct_callback_head,
    CField ''pid_allocated'' c_u32,
    CField ''child_reaper'' c_u64,
    CField ''pid_cachep'' c_u64,
    CField ''level'' c_u32,
    CField ''pid_max'' c_u32,
    CField ''parent'' c_u64,
    CField ''bacct'' c_u64,
    CField ''user_ns'' c_u64,
    CField ''ucounts'' c_u64,
    CField ''reboot'' c_u32,
    CField ''ns'' struct_ns_common,
    CField ''work'' struct_work_struct,
    CField ''set'' struct_ctl_table_set,
    CField ''sysctls'' c_u64,
    CField ''memfd_noexec_scope'' c_u32]"

lemma struct_pid_namespace_layout [layout_simps]:
  "sizeof struct_pid_namespace = 344" "alignof struct_pid_namespace = 8" "wf_ctype struct_pid_namespace"
  by (simp_all add: struct_pid_namespace_def layout_simps)

definition typedef___kernel_gid32_t :: ctype where
  "typedef___kernel_gid32_t = c_u32"

lemma typedef___kernel_gid32_t_layout [layout_simps]:
  "sizeof typedef___kernel_gid32_t = 4" "alignof typedef___kernel_gid32_t = 4" "wf_ctype typedef___kernel_gid32_t"
  by (simp_all add: typedef___kernel_gid32_t_def layout_simps)

definition typedef_gid_t :: ctype where
  "typedef_gid_t = typedef___kernel_gid32_t"

lemma typedef_gid_t_layout [layout_simps]:
  "sizeof typedef_gid_t = 4" "alignof typedef_gid_t = 4" "wf_ctype typedef_gid_t"
  by (simp_all add: typedef_gid_t_def layout_simps)

definition typedef_kgid_t :: ctype where
  "typedef_kgid_t = CStruct [
    CField ''val'' typedef_gid_t]"

lemma typedef_kgid_t_layout [layout_simps]:
  "sizeof typedef_kgid_t = 4" "alignof typedef_kgid_t = 4" "wf_ctype typedef_kgid_t"
  by (simp_all add: typedef_kgid_t_def layout_simps)

definition typedef_kernel_cap_t :: ctype where
  "typedef_kernel_cap_t = CStruct [
    CField ''val'' typedef_u64]"

lemma typedef_kernel_cap_t_layout [layout_simps]:
  "sizeof typedef_kernel_cap_t = 8" "alignof typedef_kernel_cap_t = 8" "wf_ctype typedef_kernel_cap_t"
  by (simp_all add: typedef_kernel_cap_t_def layout_simps)

definition struct_cred :: ctype where
  "struct_cred = CStruct [
    CField ''usage'' typedef_atomic_long_t,
    CField ''uid'' typedef_kuid_t,
    CField ''gid'' typedef_kgid_t,
    CField ''suid'' typedef_kuid_t,
    CField ''sgid'' typedef_kgid_t,
    CField ''euid'' typedef_kuid_t,
    CField ''egid'' typedef_kgid_t,
    CField ''fsuid'' typedef_kuid_t,
    CField ''fsgid'' typedef_kgid_t,
    CField ''securebits'' c_u32,
    CField ''cap_inheritable'' typedef_kernel_cap_t,
    CField ''cap_permitted'' typedef_kernel_cap_t,
    CField ''cap_effective'' typedef_kernel_cap_t,
    CField ''cap_bset'' typedef_kernel_cap_t,
    CField ''cap_ambient'' typedef_kernel_cap_t,
    CField ''jit_keyring'' c_u8,
    CField ''session_keyring'' c_u64,
    CField ''process_keyring'' c_u64,
    CField ''thread_keyring'' c_u64,
    CField ''request_key_auth'' c_u64,
    CField ''security'' c_u64,
    CField ''user'' c_u64,
    CField ''user_ns'' c_u64,
    CField ''ucounts'' c_u64,
    CField ''group_info'' c_u64,
    CField '''' (CUnion [
      CField ''non_rcu'' c_u32,
      CField ''rcu'' struct_callback_head])]"

lemma struct_cred_layout [layout_simps]:
  "sizeof struct_cred = 184" "alignof struct_cred = 8" "wf_ctype struct_cred"
  by (simp_all add: struct_cred_def layout_simps)

definition struct_nsproxy :: ctype where
  "struct_nsproxy = CStruct [
    CField ''count'' typedef_refcount_t,
    CField ''uts_ns'' c_u64,
    CField ''ipc_ns'' c_u64,
    CField ''mnt_ns'' c_u64,
    CField ''pid_ns_for_children'' c_u64,
    CField ''net_ns'' c_u64,
    CField ''time_ns'' c_u64,
    CField ''time_ns_for_children'' c_u64,
    CField ''cgroup_ns'' c_u64]"

lemma struct_nsproxy_layout [layout_simps]:
  "sizeof struct_nsproxy = 72" "alignof struct_nsproxy = 8" "wf_ctype struct_nsproxy"
  by (simp_all add: struct_nsproxy_def layout_simps)

definition struct_maple_tree :: ctype where
  "struct_maple_tree = CStruct [
    CField '''' (CUnion [
      CField ''ma_lock'' typedef_spinlock_t]),
    CField ''ma_flags'' c_u32,
    CField ''ma_root'' c_u64]"

lemma struct_maple_tree_layout [layout_simps]:
  "sizeof struct_maple_tree = 16" "alignof struct_maple_tree = 8" "wf_ctype struct_maple_tree"
  by (simp_all add: struct_maple_tree_def layout_simps)

definition struct_rcuwait :: ctype where
  "struct_rcuwait = CStruct [
    CField ''task'' c_u64]"

lemma struct_rcuwait_layout [layout_simps]:
  "sizeof struct_rcuwait = 8" "alignof struct_rcuwait = 8" "wf_ctype struct_rcuwait"
  by (simp_all add: struct_rcuwait_def layout_simps)

definition typedef_vm_flags_t :: ctype where
  "typedef_vm_flags_t = c_u64"

lemma typedef_vm_flags_t_layout [layout_simps]:
  "sizeof typedef_vm_flags_t = 8" "alignof typedef_vm_flags_t = 8" "wf_ctype typedef_vm_flags_t"
  by (simp_all add: typedef_vm_flags_t_def layout_simps)

definition struct_percpu_counter :: ctype where
  "struct_percpu_counter = CStruct [
    CField ''lock'' typedef_raw_spinlock_t,
    CField ''count'' typedef_s64,
    CField ''list'' struct_list_head,
    CField ''counters'' c_u64]"

lemma struct_percpu_counter_layout [layout_simps]:
  "sizeof struct_percpu_counter = 40" "alignof struct_percpu_counter = 8" "wf_ctype struct_percpu_counter"
  by (simp_all add: struct_percpu_counter_def layout_simps)

definition typedef_s16 :: ctype where
  "typedef_s16 = typedef___s16"

lemma typedef_s16_layout [layout_simps]:
  "sizeof typedef_s16 = 2" "alignof typedef_s16 = 2" "wf_ctype typedef_s16"
  by (simp_all add: typedef_s16_def layout_simps)

definition typedef_mm_context_t :: ctype where
  "typedef_mm_context_t = CStruct [
    CField ''ctx_id'' typedef_u64,
    CField ''tlb_gen'' typedef_atomic64_t,
    CField ''next_trim_cpumask'' c_u64,
    CField ''ldt_usr_sem'' struct_rw_semaphore,
    CField ''ldt'' c_u64,
    CField ''flags'' c_u64,
    CField ''lock'' struct_mutex,
    CField ''vdso'' c_u64,
    CField ''vdso_image'' c_u64,
    CField ''perf_rdpmc_allowed'' typedef_atomic_t,
    CField ''pkey_allocation_map'' typedef_u16,
    CField ''execute_only_pkey'' typedef_s16,
    CField ''global_asid'' typedef_u16,
    CField ''asid_transition'' typedef_bool]"

lemma typedef_mm_context_t_layout [layout_simps]:
  "sizeof typedef_mm_context_t = 144" "alignof typedef_mm_context_t = 8" "wf_ctype typedef_mm_context_t"
  by (simp_all add: typedef_mm_context_t_def layout_simps)

definition typedef_mm_flags_t :: ctype where
  "typedef_mm_flags_t = CStruct [
    CField ''__mm_flags'' (CArray 1 c_u64)]"

lemma typedef_mm_flags_t_layout [layout_simps]:
  "sizeof typedef_mm_flags_t = 8" "alignof typedef_mm_flags_t = 8" "wf_ctype typedef_mm_flags_t"
  by (simp_all add: typedef_mm_flags_t_def layout_simps)

definition struct_uprobes_state :: ctype where
  "struct_uprobes_state = CStruct [
    CField ''xol_area'' c_u64,
    CField ''head_tramps'' struct_hlist_head]"

lemma struct_uprobes_state_layout [layout_simps]:
  "sizeof struct_uprobes_state = 16" "alignof struct_uprobes_state = 8" "wf_ctype struct_uprobes_state"
  by (simp_all add: struct_uprobes_state_def layout_simps)

definition typedef_mm_id_t :: ctype where
  "typedef_mm_id_t = c_u32"

lemma typedef_mm_id_t_layout [layout_simps]:
  "sizeof typedef_mm_id_t = 4" "alignof typedef_mm_id_t = 4" "wf_ctype typedef_mm_id_t"
  by (simp_all add: typedef_mm_id_t_def layout_simps)

definition struct_mm_struct :: ctype where
  "struct_mm_struct = CStruct [
    CField '''' (CStruct [
      CField '''' (CStruct [
        CField ''mm_count'' typedef_atomic_t,
        CBits '''' 8 64,
        CBits '''' 8 64,
        CBits '''' 8 64,
        CBits '''' 8 64,
        CBits '''' 8 64,
        CBits '''' 8 64,
        CBits '''' 8 64]),
      CField ''mm_mt'' struct_maple_tree,
      CField ''mmap_base'' c_u64,
      CField ''mmap_legacy_base'' c_u64,
      CField ''mmap_compat_base'' c_u64,
      CField ''mmap_compat_legacy_base'' c_u64,
      CField ''task_size'' c_u64,
      CField ''pgd'' c_u64,
      CField ''membarrier_state'' typedef_atomic_t,
      CField ''mm_users'' typedef_atomic_t,
      CField ''pcpu_cid'' c_u64,
      CField ''mm_cid_next_scan'' c_u64,
      CField ''nr_cpus_allowed'' c_u32,
      CField ''max_nr_cid'' typedef_atomic_t,
      CField ''cpus_allowed_lock'' typedef_raw_spinlock_t,
      CField ''pgtables_bytes'' typedef_atomic_long_t,
      CField ''map_count'' c_u32,
      CField ''page_table_lock'' typedef_spinlock_t,
      CField ''mmap_lock'' struct_rw_semaphore,
      CField ''mmlist'' struct_list_head,
      CField ''vma_writer_wait'' struct_rcuwait,
      CField ''mm_lock_seq'' typedef_seqcount_t,
      CField ''futex_hash_lock'' struct_mutex,
      CField ''futex_phash'' c_u64,
      CField ''futex_phash_new'' c_u64,
      CField ''futex_batches'' c_u64,
      CField ''futex_rcu'' struct_callback_head,
      CField ''futex_atomic'' typedef_atomic_long_t,
      CField ''futex_ref'' c_u64,
      CField ''hiwater_rss'' c_u64,
      CField ''hiwater_vm'' c_u64,
      CField ''total_vm'' c_u64,
      CField ''locked_vm'' c_u64,
      CField ''pinned_vm'' typedef_atomic64_t,
      CField ''data_vm'' c_u64,
      CField ''exec_vm'' c_u64,
      CField ''stack_vm'' c_u64,
      CField ''def_flags'' typedef_vm_flags_t,
      CField ''write_protect_seq'' typedef_seqcount_t,
      CField ''arg_lock'' typedef_spinlock_t,
      CField ''start_code'' c_u64,
      CField ''end_code'' c_u64,
      CField ''start_data'' c_u64,
      CField ''end_data'' c_u64,
      CField ''start_brk'' c_u64,
      CField ''brk'' c_u64,
      CField ''start_stack'' c_u64,
      CField ''arg_start'' c_u64,
      CField ''arg_end'' c_u64,
      CField ''env_start'' c_u64,
      CField ''env_end'' c_u64,
      CField ''saved_auxv'' (CArray 52 c_u64),
      CField ''rss_stat'' (CArray 4 struct_percpu_counter),
      CField ''binfmt'' c_u64,
      CField ''context'' typedef_mm_context_t,
      CField ''flags'' typedef_mm_flags_t,
      CField ''ioctx_lock'' typedef_spinlock_t,
      CField ''ioctx_table'' c_u64,
      CField ''owner'' c_u64,
      CField ''user_ns'' c_u64,
      CField ''exe_file'' c_u64,
      CField ''notifier_subscriptions'' c_u64,
      CField ''numa_next_scan'' c_u64,
      CField ''numa_scan_offset'' c_u64,
      CField ''numa_scan_seq'' c_u32,
      CField ''tlb_flush_pending'' typedef_atomic_t,
      CField ''tlb_flush_batched'' typedef_atomic_t,
      CField ''uprobes_state'' struct_uprobes_state,
      CField ''hugetlb_usage'' typedef_atomic_long_t,
      CField ''async_put_work'' struct_work_struct,
      CField ''iommu_mm'' c_u64,
      CField ''ksm_merging_pages'' c_u64,
      CField ''ksm_rmap_items'' c_u64,
      CField ''ksm_zero_pages'' typedef_atomic_long_t,
      CField ''lru_gen'' (CStruct [
        CField ''list'' struct_list_head,
        CField ''bitmap'' c_u64,
        CField ''memcg'' c_u64]),
      CField ''mm_id'' typedef_mm_id_t,
      CBits '''' 8 64,
      CBits '''' 8 64]),
    CField ''cpu_bitmap'' (CArray 0 c_u64)]"

lemma struct_mm_struct_layout [layout_simps]:
  "sizeof struct_mm_struct = 1472" "alignof struct_mm_struct = 8" "wf_ctype struct_mm_struct"
  by (simp_all add: struct_mm_struct_def layout_simps)

definition typedef_freeptr_t :: ctype where
  "typedef_freeptr_t = CStruct [
    CField ''v'' c_u64]"

lemma typedef_freeptr_t_layout [layout_simps]:
  "sizeof typedef_freeptr_t = 8" "alignof typedef_freeptr_t = 8" "wf_ctype typedef_freeptr_t"
  by (simp_all add: typedef_freeptr_t_def layout_simps)

definition typedef_pgprotval_t :: ctype where
  "typedef_pgprotval_t = c_u64"

lemma typedef_pgprotval_t_layout [layout_simps]:
  "sizeof typedef_pgprotval_t = 8" "alignof typedef_pgprotval_t = 8" "wf_ctype typedef_pgprotval_t"
  by (simp_all add: typedef_pgprotval_t_def layout_simps)

definition struct_pgprot :: ctype where
  "struct_pgprot = CStruct [
    CField ''pgprot'' typedef_pgprotval_t]"

lemma struct_pgprot_layout [layout_simps]:
  "sizeof struct_pgprot = 8" "alignof struct_pgprot = 8" "wf_ctype struct_pgprot"
  by (simp_all add: struct_pgprot_def layout_simps)

definition typedef_pgprot_t :: ctype where
  "typedef_pgprot_t = struct_pgprot"

lemma typedef_pgprot_t_layout [layout_simps]:
  "sizeof typedef_pgprot_t = 8" "alignof typedef_pgprot_t = 8" "wf_ctype typedef_pgprot_t"
  by (simp_all add: typedef_pgprot_t_def layout_simps)

definition struct_vm_userfaultfd_ctx :: ctype where
  "struct_vm_userfaultfd_ctx = CStruct [
    CField ''ctx'' c_u64]"

lemma struct_vm_userfaultfd_ctx_layout [layout_simps]:
  "sizeof struct_vm_userfaultfd_ctx = 8" "alignof struct_vm_userfaultfd_ctx = 8" "wf_ctype struct_vm_userfaultfd_ctx"
  by (simp_all add: struct_vm_userfaultfd_ctx_def layout_simps)

definition struct_vm_area_struct :: ctype where
  "struct_vm_area_struct = CStruct [
    CField '''' (CUnion [
      CField '''' (CStruct [
        CField ''vm_start'' c_u64,
        CField ''vm_end'' c_u64]),
      CField ''vm_freeptr'' typedef_freeptr_t]),
    CField ''vm_mm'' c_u64,
    CField ''vm_page_prot'' typedef_pgprot_t,
    CField '''' (CUnion [
      CField ''vm_flags'' typedef_vm_flags_t,
      CField ''__vm_flags'' typedef_vm_flags_t]),
    CField ''vm_lock_seq'' c_u32,
    CField ''anon_vma_chain'' struct_list_head,
    CField ''anon_vma'' c_u64,
    CField ''vm_ops'' c_u64,
    CField ''vm_pgoff'' c_u64,
    CField ''vm_file'' c_u64,
    CField ''vm_private_data'' c_u64,
    CField ''swap_readahead_info'' typedef_atomic_long_t,
    CField ''vm_policy'' c_u64,
    CField ''numab_state'' c_u64,
    CField ''vm_refcnt'' typedef_refcount_t,
    CField ''shared'' (CStruct [
      CField ''rb'' struct_rb_node,
      CField ''rb_subtree_last'' c_u64]),
    CField ''anon_name'' c_u64,
    CField ''vm_userfaultfd_ctx'' struct_vm_userfaultfd_ctx,
    CField ''pfnmap_track_ctx'' c_u64]"

lemma struct_vm_area_struct_layout [layout_simps]:
  "sizeof struct_vm_area_struct = 192" "alignof struct_vm_area_struct = 8" "wf_ctype struct_vm_area_struct"
  by (simp_all add: struct_vm_area_struct_def layout_simps)

end
