(* ===== verification/Vmlinux_Fs.thy ===== *)
theory Vmlinux_Fs
  imports Vmlinux_Proc
begin

text \<open>
  Kernel file system types of \<open>bpf/headers/vmlinux.h\<close> behind the \<open>openat\<close> and
  \<open>execve\<close> system calls that the tracepoints observe.
\<close>

definition typedef_fmode_t :: ctype where
  "typedef_fmode_t = c_u32"

lemma typedef_fmode_t_layout [layout_simps]:
  "sizeof typedef_fmode_t = 4" "alignof typedef_fmode_t = 4" "wf_ctype typedef_fmode_t"
  by (simp_all add: typedef_fmode_t_def layout_simps)

definition struct_path :: ctype where
  "struct_path = CStruct [
    CField ''mnt'' c_u64,
    CField ''dentry'' c_u64]"

lemma struct_path_layout [layout_simps]:
  "sizeof struct_path = 16" "alignof struct_path = 8" "wf_ctype struct_path"
  by (simp_all add: struct_path_def layout_simps)

definition typedef_errseq_t :: ctype where
  "typedef_errseq_t = typedef_u32"

lemma typedef_errseq_t_layout [layout_simps]:
  "sizeof typedef_errseq_t = 4" "alignof typedef_errseq_t = 4" "wf_ctype typedef_errseq_t"
  by (simp_all add: typedef_errseq_t_def layout_simps)

definition struct_file_ra_state :: ctype where
  "struct_file_ra_state = CStruct [
    CField ''start'' c_u64,
    CField ''size'' c_u32,
    CField ''async_size'' c_u32,
    CField ''ra_pages'' c_u32,
    CField ''order'' c_u16,
    CField ''mmap_miss'' c_u16,
    CField ''prev_pos'' typedef_loff_t]"

lemma struct_file_ra_state_layout [layout_simps]:
  "sizeof struct_file_ra_state = 32" "alignof struct_file_ra_state = 8" "wf_ctype struct_file_ra_state"
  by (simp_all add: struct_file_ra_state_def layout_simps)

definition typedef_file_ref_t :: ctype where
  "typedef_file_ref_t = CStruct [
    CField ''refcnt'' typedef_atomic64_t]"

lemma typedef_file_ref_t_layout [layout_simps]:
  "sizeof typedef_file_ref_t = 8" "alignof typedef_file_ref_t = 8" "wf_ctype typedef_file_ref_t"
  by (simp_all add: typedef_file_ref_t_def layout_simps)

definition struct_file :: ctype where
  "struct_file = CStruct [
    CField ''f_lock'' typedef_spinlock_t,
    CField ''f_mode'' typedef_fmode_t,
    CField ''f_op'' c_u64,
    CField ''f_mapping'' c_u64,
    CField ''private_data'' c_u64,
    CField ''f_inode'' c_u64,
    CField ''f_flags'' c_u32,
    CField ''f_iocb_flags'' c_u32,
    CField ''f_cred'' c_u64,
    CField ''f_owner'' c_u64,
    CField '''' (CUnion [
      CField ''f_path'' struct_path,
      CField ''__f_path'' struct_path]),
    CField '''' (CUnion [
      CField ''f_pos_lock'' struct_mutex,
      CField ''f_pipe'' typedef_u64]),
    CField ''f_pos'' typedef_loff_t,
    CField ''f_security'' c_u64,
    CField ''f_wb_err'' typedef_errseq_t,
    CField ''f_sb_err'' typedef_errseq_t,
    CField ''f_ep'' c_u64,
    CField '''' (CUnion [
      CField ''f_task_work'' struct_callback_head,
      CField ''f_llist'' struct_llist_node,
      CField ''f_ra'' struct_file_ra_state,
      CField ''f_freeptr'' typedef_freeptr_t]),
    CField ''f_ref'' typedef_file_ref_t]"

lemma struct_file_layout [layout_simps]:
  "sizeof struct_file = 184" "alignof struct_file = 8" "wf_ctype struct_file"
  by (simp_all add: struct_file_def layout_simps)

definition struct_filename :: ctype where
  "struct_filename = CStruct [
    CField ''name'' c_u64,
    CField ''uptr'' c_u64,
    CField ''refcnt'' typedef_atomic_t,
    CField ''aname'' c_u64,
    CField ''iname'' (CArray 0 c_u8)]"

lemma struct_filename_layout [layout_simps]:
  "sizeof struct_filename = 32" "alignof struct_filename = 8" "wf_ctype struct_filename"
  by (simp_all add: struct_filename_def layout_simps)

definition typedef___kernel_dev_t :: ctype where
  "typedef___kernel_dev_t = typedef_u32"

lemma typedef___kernel_dev_t_layout [layout_simps]:
  "sizeof typedef___kernel_dev_t = 4" "alignof typedef___kernel_dev_t = 4" "wf_ctype typedef___kernel_dev_t"
  by (simp_all add: typedef___kernel_dev_t_def layout_simps)

definition typedef_dev_t :: ctype where
  "typedef_dev_t = typedef___kernel_dev_t"

lemma typedef_dev_t_layout [layout_simps]:
  "sizeof typedef_dev_t = 4" "alignof typedef_dev_t = 4" "wf_ctype typedef_dev_t"
  by (simp_all add: typedef_dev_t_def layout_simps)

definition typedef_time64_t :: ctype where
  "typedef_time64_t = typedef___s64"

lemma typedef_time64_t_layout [layout_simps]:
  "sizeof typedef_time64_t = 8" "alignof typedef_time64_t = 8" "wf_ctype typedef_time64_t"
  by (simp_all add: typedef_time64_t_def layout_simps)

definition enum_rw_hint :: ctype where
  "enum_rw_hint = c_u8"

lemma enum_rw_hint_layout [layout_simps]:
  "sizeof enum_rw_hint = 1" "alignof enum_rw_hint = 1" "wf_ctype enum_rw_hint"
  by (simp_all add: enum_rw_hint_def layout_simps)

definition typedef_blkcnt_t :: ctype where
  "typedef_blkcnt_t = typedef_u64"

lemma typedef_blkcnt_t_layout [layout_simps]:
  "sizeof typedef_blkcnt_t = 8" "alignof typedef_blkcnt_t = 8" "wf_ctype typedef_blkcnt_t"
  by (simp_all add: typedef_blkcnt_t_def layout_simps)

definition enum_inode_state_flags_t :: ctype where
  "enum_inode_state_flags_t = c_u32"

lemma enum_inode_state_flags_t_layout [layout_simps]:
  "sizeof enum_inode_state_flags_t = 4" "alignof enum_inode_state_flags_t = 4" "wf_ctype enum_inode_state_flags_t"
  by (simp_all add: enum_inode_state_flags_t_def layout_simps)

definition struct_address_space :: ctype where
  "struct_address_space = CStruct [
    CField ''host'' c_u64,
    CField ''i_pages'' struct_xarray,
    CField ''invalidate_lock'' struct_rw_semaphore,
    CField ''gfp_mask'' typedef_gfp_t,
    CField ''i_mmap_writable'' typedef_atomic_t,
    CField ''nr_thps'' typedef_atomic_t,
    CField ''i_mmap'' struct_rb_root_cached,
    CField ''nrpages'' c_u64,
    CField ''writeback_index'' c_u64,
    CField ''a_ops'' c_u64,
    CField ''flags'' c_u64,
    CField ''wb_err'' typedef_errseq_t,
    CField ''i_private_lock'' typedef_spinlock_t,
    CField ''i_private_list'' struct_list_head,
    CField ''i_mmap_rwsem'' struct_rw_semaphore,
    CField ''i_private_data'' c_u64]"

lemma struct_address_space_layout [layout_simps]:
  "sizeof struct_address_space = 200" "alignof struct_address_space = 8" "wf_ctype struct_address_space"
  by (simp_all add: struct_address_space_def layout_simps)

definition struct_inode :: ctype where
  "struct_inode = CStruct [
    CField ''i_mode'' typedef_umode_t,
    CField ''i_opflags'' c_u16,
    CField ''i_uid'' typedef_kuid_t,
    CField ''i_gid'' typedef_kgid_t,
    CField ''i_flags'' c_u32,
    CField ''i_acl'' c_u64,
    CField ''i_default_acl'' c_u64,
    CField ''i_op'' c_u64,
    CField ''i_sb'' c_u64,
    CField ''i_mapping'' c_u64,
    CField ''i_security'' c_u64,
    CField ''i_ino'' c_u64,
    CField '''' (CUnion [
      CField ''i_nlink'' c_u32,
      CField ''__i_nlink'' c_u32]),
    CField ''i_rdev'' typedef_dev_t,
    CField ''i_size'' typedef_loff_t,
    CField ''i_atime_sec'' typedef_time64_t,
    CField ''i_mtime_sec'' typedef_time64_t,
    CField ''i_ctime_sec'' typedef_time64_t,
    CField ''i_atime_nsec'' typedef_u32,
    CField ''i_mtime_nsec'' typedef_u32,
    CField ''i_ctime_nsec'' typedef_u32,
    CField ''i_generation'' typedef_u32,
    CField ''i_lock'' typedef_spinlock_t,
    CField ''i_bytes'' c_u16,
    CField ''i_blkbits'' typedef_u8,
    CField ''i_write_hint'' enum_rw_hint,
    CField ''i_blocks'' typedef_blkcnt_t,
    CField ''i_state'' enum_inode_state_flags_t,
    CField ''i_rwsem'' struct_rw_semaphore,
    CField ''dirtied_when'' c_u64,
    CField ''dirtied_time_when'' c_u64,
    CField ''i_hash'' struct_hlist_node,
    CField ''i_io_list'' struct_list_head,
    CField ''i_wb'' c_u64,
    CField ''i_wb_frn_winner'' c_u32,
    CField ''i_wb_frn_avg_time'' typedef_u16,
    CField ''i_wb_frn_history'' typedef_u16,
    CField ''i_lru'' struct_list_head,
    CField ''i_sb_list'' struct_list_head,
    CField ''i_wb_list'' struct_list_head,
    CField '''' (CUnion [
      CField ''i_dentry'' struct_hlist_head,
      CField ''i_rcu'' struct_callback_head]),
    CField ''i_version'' typedef_atomic64_t,
    CField ''i_sequence'' typedef_atomic64_t,
    CField ''i_count'' typedef_atomic_t,
    CField ''i_dio_count'' typedef_atomic_t,
    CField ''i_writecount'' typedef_atomic_t,
    CField ''i_readcount'' typedef_atomic_t,
    CField '''' (CUnion [
      CField ''i_fop'' c_u64,
      CField ''free_inode'' c_u64]),
    CField ''i_flctx'' c_u64,
    CField ''i_data'' struct_address_space,
    CField '''' (CUnion [
      CField ''i_devices'' struct_list_head,
      CField ''i_linklen'' c_u32]),
    CField '''' (CUnion [
      CField ''i_pipe'' c_u64,
      CField ''i_cdev'' c_u64,
      CField ''i_link'' c_u64,
      CField ''i_dir_seq'' c_u32]),
    CField ''i_fsnotify_mask'' typedef___u32,
    CField ''i_fsnotify_marks'' c_u64,
    CField ''i_private'' c_u64]"

lemma struct_inode_layout [layout_simps]:
  "sizeof struct_inode = 616" "alignof struct_inode = 8" "wf_ctype struct_inode"
  by (simp_all add: struct_inode_def layout_simps)

definition struct_hlist_bl_node :: ctype where
  "struct_hlist_bl_node = CStruct [
    CField ''next'' c_u64,
    CField ''pprev'' c_u64]"

lemma struct_hlist_bl_node_layout [layout_simps]:
  "sizeof struct_hlist_bl_node = 16" "alignof struct_hlist_bl_node = 8" "wf_ctype struct_hlist_bl_node"
  by (simp_all add: struct_hlist_bl_node_def layout_simps)

definition struct_qstr :: ctype where
  "struct_qstr = CStruct [
    CField '''' (CUnion [
      CField '''' (CStruct [
        CField ''hash'' typedef_u32,
        CField ''len'' typedef_u32]),
      CField ''hash_len'' typedef_u64]),
    CField ''name'' c_u64]"

lemma struct_qstr_layout [layout_simps]:
  "sizeof struct_qstr = 16" "alignof struct_qstr = 8" "wf_ctype struct_qstr"
  by (simp_all add: struct_qstr_def layout_simps)

definition union_shortname_store :: ctype where
  "union_shortname_store = CUnion [
    CField ''string'' (CArray 40 c_u8),
    CField ''words'' (CArray 5 c_u64)]"

lemma union_shortname_store_layout [layout_simps]:
  "sizeof union_shortname_store = 40" "alignof union_shortname_store = 8" "wf_ctype union_shortname_store"
  by (simp_all add: union_shortname_store_def layout_simps)

definition struct_lockref :: ctype where
  "struct_lockref = CStruct [
    CField '''' (CUnion [
      CField ''lock_count'' typedef___u64,
      CField '''' (CStruct [
        CField ''lock'' typedef_spinlock_t,
        CField ''count'' c_u32])])]"

lemma struct_lockref_layout [layout_simps]:
  "sizeof struct_lockref = 8" "alignof struct_lockref = 8" "wf_ctype struct_lockref"
  by (simp_all add: struct_lockref_def layout_simps)

definition struct_dentry :: ctype where
  "struct_dentry = CStruct [
    CField ''d_flags'' c_u32,
    CField ''d_seq'' typedef_seqcount_spinlock_t,
    CField ''d_hash'' struct_hlist_bl_node,
    CField ''d_parent'' c_u64,
    CField '''' (CUnion [
      CField ''__d_name'' struct_qstr,
      CField ''d_name'' struct_qstr]),
    CField ''d_inode'' c_u64,
    CField ''d_shortname'' union_shortname_store,
    CField ''d_op'' c_u64,
    CField ''d_sb'' c_u64,
    CField ''d_time'' c_u64,
    CField ''d_fsdata'' c_u64,
    CField ''d_lockref'' struct_lockref,
    CField '''' (CUnion [
      CField ''d_lru'' struct_list_head,
      CField ''d_wait'' c_u64]),
    CField ''d_sib'' struct_hlist_node,
    CField ''d_children'' struct_hlist_head,
    CField ''d_u'' (CUnion [
      CField ''d_alias'' struct_hlist_node,
      CField ''d_in_lookup_hash'' struct_hlist_bl_node,
      CField ''d_rcu'' struct_callback_head])]"

lemma struct_dentry_layout [layout_simps]:
  "sizeof struct_dentry = 192" "alignof struct_dentry = 8" "wf_ctype struct_dentry"
  by (simp_all add: struct_dentry_def layout_simps)

definition struct_linux_binprm :: ctype where
  "struct_linux_binprm = CStruct [
    CField ''vma'' c_u64,
    CField ''vma_pages'' c_u64,
    CField ''argmin'' c_u64,
    CField ''mm'' c_u64,
    CField ''p'' c_u64,
    CBits ''have_execfd'' 4 1,
    CBits ''execfd_creds'' 4 1,
    CBits ''secureexec'' 4 1,
    CBits ''point_of_no_return'' 4 1,
    CBits ''comm_from_dentry'' 4 1,
    CBits ''is_check'' 4 1,
    CField ''executable'' c_u64,
    CField ''interpreter'' c_u64,
    CField ''file'' c_u64,
    CField ''cred'' c_u64,
    CField ''unsafe'' c_u32,
    CField ''per_clear'' c_u32,
    CField ''argc'' c_u32,
    CField ''envc'' c_u32,
    CField ''filename'' c_u64,
    CField ''interp'' c_u64,
    CField ''fdpath'' c_u64,
    CField ''interp_flags'' c_u32,
    CField ''execfd'' c_u32,
    CField ''exec'' c_u64,
    CField ''rlim_stack'' struct_rlimit,
    CField ''buf'' (CArray 256 c_u8)]"

lemma struct_linux_binprm_layout [layout_simps]:
  "sizeof struct_linux_binprm = 408" "alignof struct_linux_binprm = 8" "wf_ctype struct_linux_binprm"
  by (simp_all add: struct_linux_binprm_def layout_simps)

definition struct_fs_struct :: ctype where
  "struct_fs_struct = CStruct [
    CField ''users'' c_u32,
    CField ''seq'' typedef_seqlock_t,
    CField ''umask'' c_u32,
    CField ''in_exec'' c_u32,
    CField ''root'' struct_path,
    CField ''pwd'' struct_path]"

lemma struct_fs_struct_layout [layout_simps]:
  "sizeof struct_fs_struct = 56" "alignof struct_fs_struct = 8" "wf_ctype struct_fs_struct"
  by (simp_all add: struct_fs_struct_def layout_simps)

definition struct_fdtable :: ctype where
  "struct_fdtable = CStruct [
    CField ''max_fds'' c_u32,
    CField ''fd'' c_u64,
    CField ''close_on_exec'' c_u64,
    CField ''open_fds'' c_u64,
    CField ''full_fds_bits'' c_u64,
    CField ''rcu'' struct_callback_head]"

lemma struct_fdtable_layout [layout_simps]:
  "sizeof struct_fdtable = 56" "alignof struct_fdtable = 8" "wf_ctype struct_fdtable"
  by (simp_all add: struct_fdtable_def layout_simps)

definition struct_files_struct :: ctype where
  "struct_files_struct = CStruct [
    CField ''count'' typedef_atomic_t,
    CField ''resize_in_progress'' typedef_bool,
    CField ''resize_wait'' typedef_wait_queue_head_t,
    CField ''fdt'' c_u64,
    CField ''fdtab'' struct_fdtable,
    CBits '''' 8 64,
    CBits '''' 8 64,
    CBits '''' 8 64,
    CBits '''' 8 64,
    CField ''file_lock'' typedef_spinlock_t,
    CField ''next_fd'' c_u32,
    CField ''close_on_exec_init'' (CArray 1 c_u64),
    CField ''open_fds_init'' (CArray 1 c_u64),
    CField ''full_fds_bits_init'' (CArray 1 c_u64),
    CField ''fd_array'' (CArray 64 c_u64),
    CBits '''' 8 64,
    CBits '''' 8 64,
    CBits '''' 8 64,
    CBits '''' 8 64]"

lemma struct_files_struct_layout [layout_simps]:
  "sizeof struct_files_struct = 704" "alignof struct_files_struct = 8" "wf_ctype struct_files_struct"
  by (simp_all add: struct_files_struct_def layout_simps)

definition struct_hlist_bl_head :: ctype where
  "struct_hlist_bl_head = CStruct [
    CField ''first'' c_u64]"

lemma struct_hlist_bl_head_layout [layout_simps]:
  "sizeof struct_hlist_bl_head = 8" "alignof struct_hlist_bl_head = 8" "wf_ctype struct_hlist_bl_head"
  by (simp_all add: struct_hlist_bl_head_def layout_simps)

definition typedef_qsize_t :: ctype where
  "typedef_qsize_t = c_u64"

lemma typedef_qsize_t_layout [layout_simps]:
  "sizeof typedef_qsize_t = 8" "alignof typedef_qsize_t = 8" "wf_ctype typedef_qsize_t"
  by (simp_all add: typedef_qsize_t_def layout_simps)

definition struct_mem_dqinfo :: ctype where
  "struct_mem_dqinfo = CStruct [
    CField ''dqi_format'' c_u64,
    CField ''dqi_fmt_id'' c_u32,
    CField ''dqi_dirty_list'' struct_list_head,
    CField ''dqi_flags'' c_u64,
    CField ''dqi_bgrace'' c_u32,
    CField ''dqi_igrace'' c_u32,
    CField ''dqi_max_spc_limit'' typedef_qsize_t,
    CField ''dqi_max_ino_limit'' typedef_qsize_t,
    CField ''dqi_priv'' c_u64]"

lemma struct_mem_dqinfo_layout [layout_simps]:
  "sizeof struct_mem_dqinfo = 72" "alignof struct_mem_dqinfo = 8" "wf_ctype struct_mem_dqinfo"
  by (simp_all add: struct_mem_dqinfo_def layout_simps)

definition struct_quota_info :: ctype where
  "struct_quota_info = CStruct [
    CField ''flags'' c_u32,
    CField ''dqio_sem'' struct_rw_semaphore,
    CField ''files'' (CArray 3 c_u64),
    CField ''info'' (CArray 3 struct_mem_dqinfo),
    CField ''ops'' (CArray 3 c_u64)]"

lemma struct_quota_info_layout [layout_simps]:
  "sizeof struct_quota_info = 312" "alignof struct_quota_info = 8" "wf_ctype struct_quota_info"
  by (simp_all add: struct_quota_info_def layout_simps)

definition struct_rcu_sync :: ctype where
  "struct_rcu_sync = CStruct [
    CField ''gp_state'' c_u32,
    CField ''gp_count'' c_u32,
    CField ''gp_wait'' typedef_wait_queue_head_t,
    CField ''cb_head'' struct_callback_head]"

lemma struct_rcu_sync_layout [layout_simps]:
  "sizeof struct_rcu_sync = 48" "alignof struct_rcu_sync = 8" "wf_ctype struct_rcu_sync"
  by (simp_all add: struct_rcu_sync_def layout_simps)

definition struct_percpu_rw_semaphore :: ctype where
  "struct_percpu_rw_semaphore = CStruct [
    CField ''rss'' struct_rcu_sync,
    CField ''read_count'' c_u64,
    CField ''writer'' struct_rcuwait,
    CField ''waiters'' typedef_wait_queue_head_t,
    CField ''block'' typedef_atomic_t]"

lemma struct_percpu_rw_semaphore_layout [layout_simps]:
  "sizeof struct_percpu_rw_semaphore = 96" "alignof struct_percpu_rw_semaphore = 8" "wf_ctype struct_percpu_rw_semaphore"
  by (simp_all add: struct_percpu_rw_semaphore_def layout_simps)

definition struct_sb_writers :: ctype where
  "struct_sb_writers = CStruct [
    CField ''frozen'' c_u16,
    CField ''freeze_kcount'' c_u32,
    CField ''freeze_ucount'' c_u32,
    CField ''freeze_owner'' c_u64,
    CField ''rw_sem'' (CArray 3 struct_percpu_rw_semaphore)]"

lemma struct_sb_writers_layout [layout_simps]:
  "sizeof struct_sb_writers = 312" "alignof struct_sb_writers = 8" "wf_ctype struct_sb_writers"
  by (simp_all add: struct_sb_writers_def layout_simps)

definition typedef_uuid_t :: ctype where
  "typedef_uuid_t = CStruct [
    CField ''b'' (CArray 16 typedef___u8)]"

lemma typedef_uuid_t_layout [layout_simps]:
  "sizeof typedef_uuid_t = 16" "alignof typedef_uuid_t = 1" "wf_ctype typedef_uuid_t"
  by (simp_all add: typedef_uuid_t_def layout_simps)

definition struct_list_lru :: ctype where
  "struct_list_lru = CStruct [
    CField ''node'' c_u64,
    CField ''list'' struct_list_head,
    CField ''shrinker_id'' c_u32,
    CField ''memcg_aware'' typedef_bool,
    CField ''xa'' struct_xarray]"

lemma struct_list_lru_layout [layout_simps]:
  "sizeof struct_list_lru = 48" "alignof struct_list_lru = 8" "wf_ctype struct_list_lru"
  by (simp_all add: struct_list_lru_def layout_simps)

definition struct_super_block :: ctype where
  "struct_super_block = CStruct [
    CField ''s_list'' struct_list_head,
    CField ''s_dev'' typedef_dev_t,
    CField ''s_blocksize_bits'' c_u8,
    CField ''s_blocksize'' c_u64,
    CField ''s_maxbytes'' typedef_loff_t,
    CField ''s_type'' c_u64,
    CField ''s_op'' c_u64,
    CField ''dq_op'' c_u64,
    CField ''s_qcop'' c_u64,
    CField ''s_export_op'' c_u64,
    CField ''s_flags'' c_u64,
    CField ''s_iflags'' c_u64,
    CField ''s_magic'' c_u64,
    CField ''s_root'' c_u64,
    CField ''s_umount'' struct_rw_semaphore,
    CField ''s_count'' c_u32,
    CField ''s_active'' typedef_atomic_t,
    CField ''s_security'' c_u64,
    CField ''s_xattr'' c_u64,
    CField ''s_cop'' c_u64,
    CField ''s_master_keys'' c_u64,
    CField ''s_vop'' c_u64,
    CField ''s_encoding'' c_u64,
    CField ''s_encoding_flags'' typedef___u16,
    CField ''s_roots'' struct_hlist_bl_head,
    CField ''s_mounts'' c_u64,
    CField ''s_bdev'' c_u64,
    CField ''s_bdev_file'' c_u64,
    CField ''s_bdi'' c_u64,
    CField ''s_mtd'' c_u64,
    CField ''s_instances'' struct_hlist_node,
    CField ''s_quota_types'' c_u32,
    CField ''s_dquot'' struct_quota_info,
    CField ''s_writers'' struct_sb_writers,
    CField ''s_fs_info'' c_u64,
    CField ''s_time_gran'' typedef_u32,
    CField ''s_time_min'' typedef_time64_t,
    CField ''s_time_max'' typedef_time64_t,
    CField ''s_fsnotify_mask'' typedef_u32,
    CField ''s_fsnotify_info'' c_u64,
    CField ''s_id'' (CArray 32 c_u8),
    CField ''s_uuid'' typedef_uuid_t,
    CField ''s_uuid_len'' typedef_u8,
    CField ''s_sysfs_name'' (CArray 37 c_u8),
    CField ''s_max_links'' c_u32,
    CField ''s_d_flags'' c_u32,
    CField ''s_vfs_rename_mutex'' struct_mutex,
    CField ''s_subtype'' c_u64,
    CField ''__s_d_op'' c_u64,
    CField ''s_shrink'' c_u64,
    CField ''s_remove_count'' typedef_atomic_long_t,
    CField ''s_readonly_remount'' c_u32,
    CField ''s_wb_err'' typedef_errseq_t,
    CField ''s_dio_done_wq'' c_u64,
    CField ''s_pins'' struct_hlist_head,
    CField ''s_user_ns'' c_u64,
    CField ''s_dentry_lru'' struct_list_lru,
    CField ''s_inode_lru'' struct_list_lru,
    CField ''rcu'' struct_callback_head,
    CField ''destroy_work'' struct_work_struct,
    CField ''s_sync_lock'' struct_mutex,
    CField ''s_stack_depth'' c_u32,
    CBits '''' 8 64,
    CField ''s_inode_list_lock'' typedef_spinlock_t,
    CField ''s_inodes'' struct_list_head,
    CField ''s_inode_wblist_lock'' typedef_spinlock_t,
    CField ''s_inodes_wb'' struct_list_head,
    CBits '''' 8 64,
    CBits '''' 8 64]"

lemma struct_super_block_layout [layout_simps]:
  "sizeof struct_super_block = 1408" "alignof struct_super_block = 8" "wf_ctype struct_super_block"
  by (simp_all add: struct_super_block_def layout_simps)

end
