(* ===== verification/Vmlinux_Net.thy ===== *)
theory Vmlinux_Net
  imports Vmlinux_Fs
begin

text \<open>
  The network name space of \<open>bpf/headers/vmlinux.h\<close> that \<open>skc_net\<close> of a socket
  points to, with every type it contains by value.
\<close>

definition struct_ref_tracker_dir :: ctype where
  "struct_ref_tracker_dir = CStruct []"

lemma struct_ref_tracker_dir_layout [layout_simps]:
  "sizeof struct_ref_tracker_dir = 0" "alignof struct_ref_tracker_dir = 1" "wf_ctype struct_ref_tracker_dir"
  by (simp_all add: struct_ref_tracker_dir_def layout_simps)

definition struct_raw_notifier_head :: ctype where
  "struct_raw_notifier_head = CStruct [
    CField ''head'' c_u64]"

lemma struct_raw_notifier_head_layout [layout_simps]:
  "sizeof struct_raw_notifier_head = 8" "alignof struct_raw_notifier_head = 8" "wf_ctype struct_raw_notifier_head"
  by (simp_all add: struct_raw_notifier_head_def layout_simps)

definition struct_netns_core :: ctype where
  "struct_netns_core = CStruct [
    CField ''sysctl_hdr'' c_u64,
    CField ''sysctl_somaxconn'' c_u32,
    CField ''sysctl_optmem_max'' c_u32,
    CField ''sysctl_txrehash'' typedef_u8,
    CField ''sysctl_tstamp_allow_data'' typedef_u8,
    CField ''prot_inuse'' c_u64,
    CField ''rps_default_mask'' c_u64]"

lemma struct_netns_core_layout [layout_simps]:
  "sizeof struct_netns_core = 40" "alignof struct_netns_core = 8" "wf_ctype struct_netns_core"
  by (simp_all add: struct_netns_core_def layout_simps)

definition struct_netns_mib :: ctype where
  "struct_netns_mib = CStruct [
    CField ''ip_statistics'' c_u64,
    CField ''ipv6_statistics'' c_u64,
    CField ''tcp_statistics'' c_u64,
    CField ''net_statistics'' c_u64,
    CField ''udp_statistics'' c_u64,
    CField ''udp_stats_in6'' c_u64,
    CField ''xfrm_statistics'' c_u64,
    CField ''tls_statistics'' c_u64,
    CField ''mptcp_statistics'' c_u64,
    CField ''udplite_statistics'' c_u64,
    CField ''udplite_stats_in6'' c_u64,
    CField ''icmp_statistics'' c_u64,
    CField ''icmpmsg_statistics'' c_u64,
    CField ''icmpv6_statistics'' c_u64,
    CField ''icmpv6msg_statistics'' c_u64,
    CField ''proc_net_devsnmp6'' c_u64]"

lemma struct_netns_mib_layout [layout_simps]:
  "sizeof struct_netns_mib = 128" "alignof struct_netns_mib = 8" "wf_ctype struct_netns_mib"
  by (simp_all add: struct_netns_mib_def layout_simps)

definition struct_netns_packet :: ctype where
  "struct_netns_packet = CStruct [
    CField ''sklist_lock'' struct_mutex,
    CField ''sklist'' struct_hlist_head]"

lemma struct_netns_packet_layout [layout_simps]:
  "sizeof struct_netns_packet = 40" "alignof struct_netns_packet = 8" "wf_ctype struct_netns_packet"
  by (simp_all add: struct_netns_packet_def layout_simps)

definition struct_unix_table :: ctype where
  "struct_unix_table = CStruct [
    CField ''locks'' c_u64,
    CField ''buckets'' c_u64]"

lemma struct_unix_table_layout [layout_simps]:
  "sizeof struct_unix_table = 16" "alignof struct_unix_table = 8" "wf_ctype struct_unix_table"
  by (simp_all add: struct_unix_table_def layout_simps)

definition struct_netns_unix :: ctype where
  "struct_netns_unix = CStruct [
    CField ''table'' struct_unix_table,
    CField ''sysctl_max_dgram_qlen'' c_u32,
    CField ''ctl'' c_u64]"

lemma struct_netns_unix_layout [layout_simps]:
  "sizeof struct_netns_unix = 32" "alignof struct_netns_unix = 8" "wf_ctype struct_netns_unix"
  by (simp_all add: struct_netns_unix_def layout_simps)

definition struct_blocking_notifier_head :: ctype where
  "struct_blocking_notifier_head = CStruct [
    CField ''rwsem'' struct_rw_semaphore,
    CField ''head'' c_u64]"

lemma struct_blocking_notifier_head_layout [layout_simps]:
  "sizeof struct_blocking_notifier_head = 48" "alignof struct_blocking_notifier_head = 8" "wf_ctype struct_blocking_notifier_head"
  by (simp_all add: struct_blocking_notifier_head_def layout_simps)

definition struct_netns_nexthop :: ctype where
  "struct_netns_nexthop = CStruct [
    CField ''rb_root'' struct_rb_root,
    CField ''devhash'' c_u64,
    CField ''seq'' c_u32,
    CField ''last_id_allocated'' typedef_u32,
    CField ''notifier_chain'' struct_blocking_notifier_head]"

lemma struct_netns_nexthop_layout [layout_simps]:
  "sizeof struct_netns_nexthop = 72" "alignof struct_netns_nexthop = 8" "wf_ctype struct_netns_nexthop"
  by (simp_all add: struct_netns_nexthop_def layout_simps)

definition struct_inet_timewait_death_row :: ctype where
  "struct_inet_timewait_death_row = CStruct [
    CField ''tw_refcount'' typedef_refcount_t,
    CBits '''' 8 64,
    CBits '''' 8 64,
    CBits '''' 8 64,
    CBits '''' 8 64,
    CBits '''' 8 64,
    CBits '''' 8 64,
    CBits '''' 8 64,
    CField ''hashinfo'' c_u64,
    CField ''sysctl_max_tw_buckets'' c_u32,
    CBits '''' 8 64,
    CBits '''' 8 64,
    CBits '''' 8 64,
    CBits '''' 8 64,
    CBits '''' 8 64,
    CBits '''' 8 64]"

lemma struct_inet_timewait_death_row_layout [layout_simps]:
  "sizeof struct_inet_timewait_death_row = 128" "alignof struct_inet_timewait_death_row = 8" "wf_ctype struct_inet_timewait_death_row"
  by (simp_all add: struct_inet_timewait_death_row_def layout_simps)

definition struct_udp_tunnel_gro :: ctype where
  "struct_udp_tunnel_gro = CStruct [
    CField ''sk'' c_u64,
    CField ''list'' struct_hlist_head]"

lemma struct_udp_tunnel_gro_layout [layout_simps]:
  "sizeof struct_udp_tunnel_gro = 16" "alignof struct_udp_tunnel_gro = 8" "wf_ctype struct_udp_tunnel_gro"
  by (simp_all add: struct_udp_tunnel_gro_def layout_simps)

definition struct_local_ports :: ctype where
  "struct_local_ports = CStruct [
    CField ''range'' typedef_u32,
    CField ''warned'' typedef_bool]"

lemma struct_local_ports_layout [layout_simps]:
  "sizeof struct_local_ports = 8" "alignof struct_local_ports = 4" "wf_ctype struct_local_ports"
  by (simp_all add: struct_local_ports_def layout_simps)

definition struct_ping_group_range :: ctype where
  "struct_ping_group_range = CStruct [
    CField ''lock'' typedef_seqlock_t,
    CField ''range'' (CArray 2 typedef_kgid_t)]"

lemma struct_ping_group_range_layout [layout_simps]:
  "sizeof struct_ping_group_range = 16" "alignof struct_ping_group_range = 4" "wf_ctype struct_ping_group_range"
  by (simp_all add: struct_ping_group_range_def layout_simps)

definition struct_sysctl_fib_multipath_hash_seed :: ctype where
  "struct_sysctl_fib_multipath_hash_seed = CStruct [
    CField ''user_seed'' typedef_u32,
    CField ''mp_seed'' typedef_u32]"

lemma struct_sysctl_fib_multipath_hash_seed_layout [layout_simps]:
  "sizeof struct_sysctl_fib_multipath_hash_seed = 8" "alignof struct_sysctl_fib_multipath_hash_seed = 4" "wf_ctype struct_sysctl_fib_multipath_hash_seed"
  by (simp_all add: struct_sysctl_fib_multipath_hash_seed_def layout_simps)

definition typedef_siphash_key_t :: ctype where
  "typedef_siphash_key_t = CStruct [
    CField ''key'' (CArray 2 typedef_u64)]"

lemma typedef_siphash_key_t_layout [layout_simps]:
  "sizeof typedef_siphash_key_t = 16" "alignof typedef_siphash_key_t = 8" "wf_ctype typedef_siphash_key_t"
  by (simp_all add: typedef_siphash_key_t_def layout_simps)

definition struct_delayed_work :: ctype where
  "struct_delayed_work = CStruct [
    CField ''work'' struct_work_struct,
    CField ''timer'' struct_timer_list,
    CField ''wq'' c_u64,
    CField ''cpu'' c_u32]"

lemma struct_delayed_work_layout [layout_simps]:
  "sizeof struct_delayed_work = 88" "alignof struct_delayed_work = 8" "wf_ctype struct_delayed_work"
  by (simp_all add: struct_delayed_work_def layout_simps)

definition struct_netns_ipv4_members_1 :: "cmember list" where
  "struct_netns_ipv4_members_1 = [
    CField ''__cacheline_group_begin__netns_ipv4_read_tx'' (CArray 0 typedef___u8),
    CField ''sysctl_tcp_early_retrans'' typedef_u8,
    CField ''sysctl_tcp_tso_win_divisor'' typedef_u8,
    CField ''sysctl_tcp_tso_rtt_log'' typedef_u8,
    CField ''sysctl_tcp_autocorking'' typedef_u8,
    CField ''sysctl_tcp_min_snd_mss'' c_u32,
    CField ''sysctl_tcp_notsent_lowat'' c_u32,
    CField ''sysctl_tcp_limit_output_bytes'' c_u32,
    CField ''sysctl_tcp_min_rtt_wlen'' c_u32,
    CField ''sysctl_tcp_wmem'' (CArray 3 c_u32),
    CField ''sysctl_ip_fwd_use_pmtu'' typedef_u8,
    CField ''__cacheline_group_end__netns_ipv4_read_tx'' (CArray 0 typedef___u8),
    CField ''__cacheline_group_begin__netns_ipv4_read_txrx'' (CArray 0 typedef___u8),
    CField ''sysctl_tcp_moderate_rcvbuf'' typedef_u8,
    CField ''__cacheline_group_end__netns_ipv4_read_txrx'' (CArray 0 typedef___u8),
    CField ''__cacheline_group_begin__netns_ipv4_read_rx'' (CArray 0 typedef___u8),
    CField ''sysctl_ip_early_demux'' typedef_u8,
    CField ''sysctl_tcp_early_demux'' typedef_u8,
    CField ''sysctl_tcp_l3mdev_accept'' typedef_u8,
    CField ''sysctl_tcp_reordering'' c_u32,
    CField ''sysctl_tcp_rmem'' (CArray 3 c_u32),
    CField ''__cacheline_group_end__netns_ipv4_read_rx'' (CArray 0 typedef___u8),
    CBits '''' 8 64,
    CField ''tcp_death_row'' struct_inet_timewait_death_row,
    CField ''udp_table'' c_u64,
    CField ''udp_tunnel_gro'' (CArray 2 struct_udp_tunnel_gro),
    CField ''forw_hdr'' c_u64,
    CField ''frags_hdr'' c_u64,
    CField ''ipv4_hdr'' c_u64,
    CField ''route_hdr'' c_u64,
    CField ''xfrm4_hdr'' c_u64,
    CField ''devconf_all'' c_u64,
    CField ''devconf_dflt'' c_u64,
    CField ''ra_chain'' c_u64,
    CField ''ra_mutex'' struct_mutex,
    CField ''rules_ops'' c_u64,
    CField ''fib_main'' c_u64,
    CField ''fib_default'' c_u64,
    CField ''fib_rules_require_fldissect'' c_u32,
    CField ''fib_has_custom_rules'' typedef_bool,
    CField ''fib_has_custom_local_routes'' typedef_bool,
    CField ''fib_offload_disabled'' typedef_bool,
    CField ''sysctl_tcp_shrink_window'' typedef_u8,
    CField ''fib_num_tclassid_users'' typedef_atomic_t,
    CField ''fib_table_hash'' c_u64,
    CField ''fibnl'' c_u64,
    CField ''fib_info_hash'' c_u64,
    CField ''fib_info_hash_bits'' c_u32,
    CField ''fib_info_cnt'' c_u32,
    CField ''mc_autojoin_sk'' c_u64,
    CField ''peers'' c_u64,
    CField ''fqdir'' c_u64,
    CField ''sysctl_icmp_echo_ignore_all'' typedef_u8,
    CField ''sysctl_icmp_echo_enable_probe'' typedef_u8,
    CField ''sysctl_icmp_echo_ignore_broadcasts'' typedef_u8,
    CField ''sysctl_icmp_ignore_bogus_error_responses'' typedef_u8,
    CField ''sysctl_icmp_errors_use_inbound_ifaddr'' typedef_u8,
    CField ''sysctl_icmp_ratelimit'' c_u32,
    CField ''sysctl_icmp_ratemask'' c_u32,
    CField ''sysctl_icmp_msgs_per_sec'' c_u32,
    CField ''sysctl_icmp_msgs_burst'' c_u32,
    CField ''icmp_global_credit'' typedef_atomic_t,
    CField ''icmp_global_stamp'' typedef_u32,
    CField ''ip_rt_min_pmtu'' typedef_u32,
    CField ''ip_rt_mtu_expires'' c_u32,
    CField ''ip_rt_min_advmss'' c_u32,
    CField ''ip_local_ports'' struct_local_ports,
    CField ''sysctl_tcp_ecn'' typedef_u8,
    CField ''sysctl_tcp_ecn_option'' typedef_u8,
    CField ''sysctl_tcp_ecn_option_beacon'' typedef_u8,
    CField ''sysctl_tcp_ecn_fallback'' typedef_u8,
    CField ''sysctl_ip_default_ttl'' typedef_u8,
    CField ''sysctl_ip_no_pmtu_disc'' typedef_u8,
    CField ''sysctl_ip_fwd_update_priority'' typedef_u8,
    CField ''sysctl_ip_nonlocal_bind'' typedef_u8,
    CField ''sysctl_ip_autobind_reuse'' typedef_u8,
    CField ''sysctl_ip_dynaddr'' typedef_u8,
    CField ''sysctl_raw_l3mdev_accept'' typedef_u8,
    CField ''sysctl_udp_early_demux'' typedef_u8,
    CField ''sysctl_nexthop_compat_mode'' typedef_u8,
    CField ''sysctl_fwmark_reflect'' typedef_u8,
    CField ''sysctl_tcp_fwmark_accept'' typedef_u8,
    CField ''sysctl_tcp_mtu_probing'' typedef_u8,
    CField ''sysctl_tcp_mtu_probe_floor'' c_u32,
    CField ''sysctl_tcp_base_mss'' c_u32,
    CField ''sysctl_tcp_probe_threshold'' c_u32,
    CField ''sysctl_tcp_probe_interval'' typedef_u32,
    CField ''sysctl_tcp_keepalive_time'' c_u32,
    CField ''sysctl_tcp_keepalive_intvl'' c_u32,
    CField ''sysctl_tcp_keepalive_probes'' typedef_u8,
    CField ''sysctl_tcp_syn_retries'' typedef_u8,
    CField ''sysctl_tcp_synack_retries'' typedef_u8,
    CField ''sysctl_tcp_syncookies'' typedef_u8,
    CField ''sysctl_tcp_migrate_req'' typedef_u8,
    CField ''sysctl_tcp_comp_sack_nr'' typedef_u8,
    CField ''sysctl_tcp_backlog_ack_defer'' typedef_u8,
    CField ''sysctl_tcp_pingpong_thresh'' typedef_u8,
    CField ''sysctl_tcp_retries1'' typedef_u8,
    CField ''sysctl_tcp_retries2'' typedef_u8,
    CField ''sysctl_tcp_orphan_retries'' typedef_u8,
    CField ''sysctl_tcp_tw_reuse'' typedef_u8,
    CField ''sysctl_tcp_tw_reuse_delay'' c_u32,
    CField ''sysctl_tcp_fin_timeout'' c_u32,
    CField ''sysctl_tcp_sack'' typedef_u8,
    CField ''sysctl_tcp_window_scaling'' typedef_u8,
    CField ''sysctl_tcp_timestamps'' typedef_u8,
    CField ''sysctl_tcp_rto_min_us'' c_u32,
    CField ''sysctl_tcp_rto_max_ms'' c_u32,
    CField ''sysctl_tcp_recovery'' typedef_u8,
    CField ''sysctl_tcp_thin_linear_timeouts'' typedef_u8,
    CField ''sysctl_tcp_slow_start_after_idle'' typedef_u8,
    CField ''sysctl_tcp_retrans_collapse'' typedef_u8,
    CField ''sysctl_tcp_stdurg'' typedef_u8,
    CField ''sysctl_tcp_rfc1337'' typedef_u8,
    CField ''sysctl_tcp_abort_on_overflow'' typedef_u8,
    CField ''sysctl_tcp_fack'' typedef_u8,
    CField ''sysctl_tcp_max_reordering'' c_u32,
    CField ''sysctl_tcp_adv_win_scale'' c_u32,
    CField ''sysctl_tcp_dsack'' typedef_u8,
    CField ''sysctl_tcp_app_win'' typedef_u8,
    CField ''sysctl_tcp_frto'' typedef_u8,
    CField ''sysctl_tcp_nometrics_save'' typedef_u8,
    CField ''sysctl_tcp_no_ssthresh_metrics_save'' typedef_u8,
    CField ''sysctl_tcp_workaround_signed_windows'' typedef_u8,
    CField ''sysctl_tcp_challenge_ack_limit'' c_u32,
    CField ''sysctl_tcp_min_tso_segs'' typedef_u8,
    CField ''sysctl_tcp_reflect_tos'' typedef_u8,
    CField ''sysctl_tcp_invalid_ratelimit'' c_u32,
    CField ''sysctl_tcp_pacing_ss_ratio'' c_u32,
    CField ''sysctl_tcp_pacing_ca_ratio'' c_u32,
    CField ''sysctl_tcp_child_ehash_entries'' c_u32,
    CField ''sysctl_tcp_comp_sack_delay_ns'' c_u64,
    CField ''sysctl_tcp_comp_sack_slack_ns'' c_u64,
    CField ''sysctl_max_syn_backlog'' c_u32,
    CField ''sysctl_tcp_fastopen'' c_u32,
    CField ''tcp_congestion_control'' c_u64,
    CField ''tcp_fastopen_ctx'' c_u64,
    CField ''sysctl_tcp_fastopen_blackhole_timeout'' c_u32,
    CField ''tfo_active_disable_times'' typedef_atomic_t,
    CField ''tfo_active_disable_stamp'' c_u64,
    CField ''tcp_challenge_timestamp'' typedef_u32,
    CField ''tcp_challenge_count'' typedef_u32,
    CField ''sysctl_tcp_plb_enabled'' typedef_u8,
    CField ''sysctl_tcp_plb_idle_rehash_rounds'' typedef_u8]"

definition struct_netns_ipv4_members_2 :: "cmember list" where
  "struct_netns_ipv4_members_2 = [
    CField ''sysctl_tcp_plb_rehash_rounds'' typedef_u8,
    CField ''sysctl_tcp_plb_suspend_rto_sec'' typedef_u8,
    CField ''sysctl_tcp_plb_cong_thresh'' c_u32,
    CField ''sysctl_udp_wmem_min'' c_u32,
    CField ''sysctl_udp_rmem_min'' c_u32,
    CField ''sysctl_fib_notify_on_flag_change'' typedef_u8,
    CField ''sysctl_tcp_syn_linear_timeouts'' typedef_u8,
    CField ''sysctl_udp_l3mdev_accept'' typedef_u8,
    CField ''sysctl_igmp_llm_reports'' typedef_u8,
    CField ''sysctl_igmp_max_memberships'' c_u32,
    CField ''sysctl_igmp_max_msf'' c_u32,
    CField ''sysctl_igmp_qrv'' c_u32,
    CField ''ping_group_range'' struct_ping_group_range,
    CField ''ping_port_rover'' typedef_u16,
    CField ''dev_addr_genid'' typedef_atomic_t,
    CField ''sysctl_udp_child_hash_entries'' c_u32,
    CField ''sysctl_local_reserved_ports'' c_u64,
    CField ''sysctl_ip_prot_sock'' c_u32,
    CField ''mr_tables'' struct_list_head,
    CField ''mr_rules_ops'' c_u64,
    CField ''sysctl_fib_multipath_hash_seed'' struct_sysctl_fib_multipath_hash_seed,
    CField ''sysctl_fib_multipath_hash_fields'' typedef_u32,
    CField ''sysctl_fib_multipath_use_neigh'' typedef_u8,
    CField ''sysctl_fib_multipath_hash_policy'' typedef_u8,
    CField ''notifier_ops'' c_u64,
    CField ''fib_seq'' c_u32,
    CField ''ipmr_notifier_ops'' c_u64,
    CField ''ipmr_seq'' c_u32,
    CField ''rt_genid'' typedef_atomic_t,
    CField ''ip_id_key'' typedef_siphash_key_t,
    CField ''inet_addr_lst'' c_u64,
    CField ''addr_chk_work'' struct_delayed_work,
    CBits '''' 8 64,
    CBits '''' 8 64,
    CBits '''' 8 64,
    CBits '''' 8 64]"

definition struct_netns_ipv4 :: ctype where
  "struct_netns_ipv4 = CStruct (struct_netns_ipv4_members_1 @ struct_netns_ipv4_members_2)"

lemmas struct_netns_ipv4_defs = struct_netns_ipv4_def struct_netns_ipv4_members_1_def struct_netns_ipv4_members_2_def

lemma struct_netns_ipv4_layout [layout_simps]:
  "sizeof struct_netns_ipv4 = 960" "alignof struct_netns_ipv4 = 8" "wf_ctype struct_netns_ipv4"
  by (simp_all add: struct_netns_ipv4_defs layout_simps)

definition struct_dst_ops :: ctype where
  "struct_dst_ops = CStruct [
    CField ''family'' c_u16,
    CField ''gc_thresh'' c_u32,
    CField ''gc'' c_u64,
    CField ''check'' c_u64,
    CField ''default_advmss'' c_u64,
    CField ''mtu'' c_u64,
    CField ''cow_metrics'' c_u64,
    CField ''destroy'' c_u64,
    CField ''ifdown'' c_u64,
    CField ''negative_advice'' c_u64,
    CField ''link_failure'' c_u64,
    CField ''update_pmtu'' c_u64,
    CField ''redirect'' c_u64,
    CField ''local_out'' c_u64,
    CField ''neigh_lookup'' c_u64,
    CField ''confirm_neigh'' c_u64,
    CField ''kmem_cachep'' c_u64,
    CField ''pcpuc_entries'' struct_percpu_counter,
    CBits '''' 8 64,
    CBits '''' 8 64,
    CBits '''' 8 64]"

lemma struct_dst_ops_layout [layout_simps]:
  "sizeof struct_dst_ops = 192" "alignof struct_dst_ops = 8" "wf_ctype struct_dst_ops"
  by (simp_all add: struct_dst_ops_def layout_simps)

definition struct_netns_sysctl_ipv6 :: ctype where
  "struct_netns_sysctl_ipv6 = CStruct [
    CField ''hdr'' c_u64,
    CField ''route_hdr'' c_u64,
    CField ''icmp_hdr'' c_u64,
    CField ''frags_hdr'' c_u64,
    CField ''xfrm6_hdr'' c_u64,
    CField ''flush_delay'' c_u32,
    CField ''ip6_rt_max_size'' c_u32,
    CField ''ip6_rt_gc_min_interval'' c_u32,
    CField ''ip6_rt_gc_timeout'' c_u32,
    CField ''ip6_rt_gc_interval'' c_u32,
    CField ''ip6_rt_gc_elasticity'' c_u32,
    CField ''ip6_rt_mtu_expires'' c_u32,
    CField ''ip6_rt_min_advmss'' c_u32,
    CField ''multipath_hash_fields'' typedef_u32,
    CField ''multipath_hash_policy'' typedef_u8,
    CField ''bindv6only'' typedef_u8,
    CField ''flowlabel_consistency'' typedef_u8,
    CField ''auto_flowlabels'' typedef_u8,
    CField ''icmpv6_time'' c_u32,
    CField ''icmpv6_echo_ignore_all'' typedef_u8,
    CField ''icmpv6_echo_ignore_multicast'' typedef_u8,
    CField ''icmpv6_echo_ignore_anycast'' typedef_u8,
    CField ''icmpv6_ratemask'' (CArray 4 c_u64),
    CField ''icmpv6_ratemask_ptr'' c_u64,
    CField ''anycast_src_echo_reply'' typedef_u8,
    CField ''ip_nonlocal_bind'' typedef_u8,
    CField ''fwmark_reflect'' typedef_u8,
    CField ''flowlabel_state_ranges'' typedef_u8,
    CField ''idgen_retries'' c_u32,
    CField ''idgen_delay'' c_u32,
    CField ''flowlabel_reflect'' c_u32,
    CField ''max_dst_opts_cnt'' c_u32,
    CField ''max_hbh_opts_cnt'' c_u32,
    CField ''max_dst_opts_len'' c_u32,
    CField ''max_hbh_opts_len'' c_u32,
    CField ''seg6_flowlabel'' c_u32,
    CField ''ioam6_id'' typedef_u32,
    CField ''ioam6_id_wide'' typedef_u64,
    CField ''skip_notify_on_dev_down'' typedef_u8,
    CField ''fib_notify_on_flag_change'' typedef_u8,
    CField ''icmpv6_error_anycast_as_unicast'' typedef_u8]"

lemma struct_netns_sysctl_ipv6_layout [layout_simps]:
  "sizeof struct_netns_sysctl_ipv6 = 184" "alignof struct_netns_sysctl_ipv6 = 8" "wf_ctype struct_netns_sysctl_ipv6"
  by (simp_all add: struct_netns_sysctl_ipv6_def layout_simps)

definition struct_netns_ipv6 :: ctype where
  "struct_netns_ipv6 = CStruct [
    CField ''ip6_dst_ops'' struct_dst_ops,
    CField ''sysctl'' struct_netns_sysctl_ipv6,
    CField ''devconf_all'' c_u64,
    CField ''devconf_dflt'' c_u64,
    CField ''peers'' c_u64,
    CField ''fqdir'' c_u64,
    CField ''fib6_null_entry'' c_u64,
    CField ''ip6_null_entry'' c_u64,
    CField ''rt6_stats'' c_u64,
    CField ''ip6_fib_timer'' struct_timer_list,
    CField ''fib_table_hash'' c_u64,
    CField ''fib_table_hash_lock'' typedef_spinlock_t,
    CField ''fib6_main_tbl'' c_u64,
    CField ''fib6_walkers'' struct_list_head,
    CField ''fib6_walker_lock'' typedef_rwlock_t,
    CField ''fib6_gc_lock'' typedef_spinlock_t,
    CField ''ip6_rt_gc_expire'' typedef_atomic_t,
    CField ''ip6_rt_last_gc'' c_u64,
    CField ''flowlabel_has_excl'' c_u8,
    CField ''fib6_has_custom_rules'' typedef_bool,
    CField ''fib6_rules_require_fldissect'' c_u32,
    CField ''fib6_routes_require_src'' c_u32,
    CField ''ip6_prohibit_entry'' c_u64,
    CField ''ip6_blk_hole_entry'' c_u64,
    CField ''fib6_local_tbl'' c_u64,
    CField ''fib6_rules_ops'' c_u64,
    CField ''ndisc_sk'' c_u64,
    CField ''tcp_sk'' c_u64,
    CField ''igmp_sk'' c_u64,
    CField ''mc_autojoin_sk'' c_u64,
    CField ''inet6_addr_lst'' c_u64,
    CField ''addrconf_hash_lock'' typedef_spinlock_t,
    CField ''addr_chk_work'' struct_delayed_work,
    CField ''mr6_tables'' struct_list_head,
    CField ''mr6_rules_ops'' c_u64,
    CField ''dev_addr_genid'' typedef_atomic_t,
    CField ''fib6_sernum'' typedef_atomic_t,
    CField ''seg6_data'' c_u64,
    CField ''notifier_ops'' c_u64,
    CField ''ip6mr_notifier_ops'' c_u64,
    CField ''ipmr_seq'' c_u32,
    CField ''ip6addrlbl_table'' (CStruct [
      CField ''head'' struct_hlist_head,
      CField ''lock'' typedef_spinlock_t,
      CField ''seq'' typedef_u32]),
    CField ''ioam6_data'' c_u64,
    CBits '''' 8 64,
    CBits '''' 8 64,
    CBits '''' 8 64]"

lemma struct_netns_ipv6_layout [layout_simps]:
  "sizeof struct_netns_ipv6 = 832" "alignof struct_netns_ipv6 = 8" "wf_ctype struct_netns_ipv6"
  by (simp_all add: struct_netns_ipv6_def layout_simps)

definition struct_netns_sysctl_lowpan :: ctype where
  "struct_netns_sysctl_lowpan = CStruct [
    CField ''frags_hdr'' c_u64]"

lemma struct_netns_sysctl_lowpan_layout [layout_simps]:
  "sizeof struct_netns_sysctl_lowpan = 8" "alignof struct_netns_sysctl_lowpan = 8" "wf_ctype struct_netns_sysctl_lowpan"
  by (simp_all add: struct_netns_sysctl_lowpan_def layout_simps)

definition struct_netns_ieee802154_lowpan :: ctype where
  "struct_netns_ieee802154_lowpan = CStruct [
    CField ''sysctl'' struct_netns_sysctl_lowpan,
    CField ''fqdir'' c_u64]"

lemma struct_netns_ieee802154_lowpan_layout [layout_simps]:
  "sizeof struct_netns_ieee802154_lowpan = 16" "alignof struct_netns_ieee802154_lowpan = 8" "wf_ctype struct_netns_ieee802154_lowpan"
  by (simp_all add: struct_netns_ieee802154_lowpan_def layout_simps)

definition struct_netns_sctp :: ctype where
  "struct_netns_sctp = CStruct [
    CField ''sctp_statistics'' c_u64,
    CField ''proc_net_sctp'' c_u64,
    CField ''sysctl_header'' c_u64,
    CField ''ctl_sock'' c_u64,
    CField ''udp4_sock'' c_u64,
    CField ''udp6_sock'' c_u64,
    CField ''udp_port'' c_u32,
    CField ''encap_port'' c_u32,
    CField ''local_addr_list'' struct_list_head,
    CField ''addr_waitq'' struct_list_head,
    CField ''addr_wq_timer'' struct_timer_list,
    CField ''auto_asconf_splist'' struct_list_head,
    CField ''addr_wq_lock'' typedef_spinlock_t,
    CField ''local_addr_lock'' typedef_spinlock_t,
    CField ''rto_initial'' c_u32,
    CField ''rto_min'' c_u32,
    CField ''rto_max'' c_u32,
    CField ''rto_alpha'' c_u32,
    CField ''rto_beta'' c_u32,
    CField ''max_burst'' c_u32,
    CField ''cookie_preserve_enable'' c_u32,
    CField ''cookie_auth_enable'' c_u32,
    CField ''valid_cookie_life'' c_u32,
    CField ''sack_timeout'' c_u32,
    CField ''hb_interval'' c_u32,
    CField ''probe_interval'' c_u32,
    CField ''max_retrans_association'' c_u32,
    CField ''max_retrans_path'' c_u32,
    CField ''max_retrans_init'' c_u32,
    CField ''pf_retrans'' c_u32,
    CField ''ps_retrans'' c_u32,
    CField ''pf_enable'' c_u32,
    CField ''pf_expose'' c_u32,
    CField ''sndbuf_policy'' c_u32,
    CField ''rcvbuf_policy'' c_u32,
    CField ''default_auto_asconf'' c_u32,
    CField ''addip_enable'' c_u32,
    CField ''addip_noauth'' c_u32,
    CField ''prsctp_enable'' c_u32,
    CField ''reconf_enable'' c_u32,
    CField ''auth_enable'' c_u32,
    CField ''intl_enable'' c_u32,
    CField ''ecn_enable'' c_u32,
    CField ''scope_policy'' c_u32,
    CField ''rwnd_upd_shift'' c_u32,
    CField ''max_autoclose'' c_u64,
    CField ''l3mdev_accept'' c_u32]"

lemma struct_netns_sctp_layout [layout_simps]:
  "sizeof struct_netns_sctp = 296" "alignof struct_netns_sctp = 8" "wf_ctype struct_netns_sctp"
  by (simp_all add: struct_netns_sctp_def layout_simps)

definition struct_netns_nf :: ctype where
  "struct_netns_nf = CStruct [
    CField ''proc_netfilter'' c_u64,
    CField ''nf_loggers'' (CArray 11 c_u64),
    CField ''nf_log_dir_header'' c_u64,
    CField ''nf_lwtnl_dir_header'' c_u64,
    CField ''hooks_ipv4'' (CArray 5 c_u64),
    CField ''hooks_ipv6'' (CArray 5 c_u64),
    CField ''hooks_arp'' (CArray 3 c_u64),
    CField ''hooks_bridge'' (CArray 5 c_u64),
    CField ''defrag_ipv4_users'' c_u32,
    CField ''defrag_ipv6_users'' c_u32]"

lemma struct_netns_nf_layout [layout_simps]:
  "sizeof struct_netns_nf = 264" "alignof struct_netns_nf = 8" "wf_ctype struct_netns_nf"
  by (simp_all add: struct_netns_nf_def layout_simps)

definition struct_nf_generic_net :: ctype where
  "struct_nf_generic_net = CStruct [
    CField ''timeout'' c_u32]"

lemma struct_nf_generic_net_layout [layout_simps]:
  "sizeof struct_nf_generic_net = 4" "alignof struct_nf_generic_net = 4" "wf_ctype struct_nf_generic_net"
  by (simp_all add: struct_nf_generic_net_def layout_simps)

definition struct_nf_tcp_net :: ctype where
  "struct_nf_tcp_net = CStruct [
    CField ''timeouts'' (CArray 14 c_u32),
    CField ''tcp_loose'' typedef_u8,
    CField ''tcp_be_liberal'' typedef_u8,
    CField ''tcp_max_retrans'' typedef_u8,
    CField ''tcp_ignore_invalid_rst'' typedef_u8,
    CField ''offload_timeout'' c_u32]"

lemma struct_nf_tcp_net_layout [layout_simps]:
  "sizeof struct_nf_tcp_net = 64" "alignof struct_nf_tcp_net = 4" "wf_ctype struct_nf_tcp_net"
  by (simp_all add: struct_nf_tcp_net_def layout_simps)

definition struct_nf_udp_net :: ctype where
  "struct_nf_udp_net = CStruct [
    CField ''timeouts'' (CArray 2 c_u32),
    CField ''offload_timeout'' c_u32]"

lemma struct_nf_udp_net_layout [layout_simps]:
  "sizeof struct_nf_udp_net = 12" "alignof struct_nf_udp_net = 4" "wf_ctype struct_nf_udp_net"
  by (simp_all add: struct_nf_udp_net_def layout_simps)

definition struct_nf_icmp_net :: ctype where
  "struct_nf_icmp_net = CStruct [
    CField ''timeout'' c_u32]"

lemma struct_nf_icmp_net_layout [layout_simps]:
  "sizeof struct_nf_icmp_net = 4" "alignof struct_nf_icmp_net = 4" "wf_ctype struct_nf_icmp_net"
  by (simp_all add: struct_nf_icmp_net_def layout_simps)

definition struct_nf_sctp_net :: ctype where
  "struct_nf_sctp_net = CStruct [
    CField ''timeouts'' (CArray 10 c_u32)]"

lemma struct_nf_sctp_net_layout [layout_simps]:
  "sizeof struct_nf_sctp_net = 40" "alignof struct_nf_sctp_net = 4" "wf_ctype struct_nf_sctp_net"
  by (simp_all add: struct_nf_sctp_net_def layout_simps)

definition struct_nf_gre_net :: ctype where
  "struct_nf_gre_net = CStruct [
    CField ''keymap_list'' struct_list_head,
    CField ''timeouts'' (CArray 2 c_u32)]"

lemma struct_nf_gre_net_layout [layout_simps]:
  "sizeof struct_nf_gre_net = 24" "alignof struct_nf_gre_net = 8" "wf_ctype struct_nf_gre_net"
  by (simp_all add: struct_nf_gre_net_def layout_simps)

definition struct_nf_ip_net :: ctype where
  "struct_nf_ip_net = CStruct [
    CField ''generic'' struct_nf_generic_net,
    CField ''tcp'' struct_nf_tcp_net,
    CField ''udp'' struct_nf_udp_net,
    CField ''icmp'' struct_nf_icmp_net,
    CField ''icmpv6'' struct_nf_icmp_net,
    CField ''sctp'' struct_nf_sctp_net,
    CField ''gre'' struct_nf_gre_net]"

lemma struct_nf_ip_net_layout [layout_simps]:
  "sizeof struct_nf_ip_net = 152" "alignof struct_nf_ip_net = 8" "wf_ctype struct_nf_ip_net"
  by (simp_all add: struct_nf_ip_net_def layout_simps)

definition struct_netns_ct :: ctype where
  "struct_netns_ct = CStruct [
    CField ''ecache_dwork_pending'' typedef_bool,
    CField ''sysctl_log_invalid'' typedef_u8,
    CField ''sysctl_events'' typedef_u8,
    CField ''sysctl_acct'' typedef_u8,
    CField ''sysctl_tstamp'' typedef_u8,
    CField ''sysctl_checksum'' typedef_u8,
    CField ''stat'' c_u64,
    CField ''nf_conntrack_event_cb'' c_u64,
    CField ''nf_ct_proto'' struct_nf_ip_net,
    CField ''labels_used'' typedef_atomic_t]"

lemma struct_netns_ct_layout [layout_simps]:
  "sizeof struct_netns_ct = 184" "alignof struct_netns_ct = 8" "wf_ctype struct_netns_ct"
  by (simp_all add: struct_netns_ct_def layout_simps)

definition struct_netns_nftables :: ctype where
  "struct_netns_nftables = CStruct [
    CField ''base_seq'' c_u32,
    CField ''gencursor'' typedef_u8]"

lemma struct_netns_nftables_layout [layout_simps]:
  "sizeof struct_netns_nftables = 8" "alignof struct_netns_nftables = 4" "wf_ctype struct_netns_nftables"
  by (simp_all add: struct_netns_nftables_def layout_simps)

definition struct_netns_ft :: ctype where
  "struct_netns_ft = CStruct [
    CField ''stat'' c_u64]"

lemma struct_netns_ft_layout [layout_simps]:
  "sizeof struct_netns_ft = 8" "alignof struct_netns_ft = 8" "wf_ctype struct_netns_ft"
  by (simp_all add: struct_netns_ft_def layout_simps)

definition struct_netns_bpf :: ctype where
  "struct_netns_bpf = CStruct [
    CField ''run_array'' (CArray 2 c_u64),
    CField ''progs'' (CArray 2 c_u64),
    CField ''links'' (CArray 2 struct_list_head)]"

lemma struct_netns_bpf_layout [layout_simps]:
  "sizeof struct_netns_bpf = 64" "alignof struct_netns_bpf = 8" "wf_ctype struct_netns_bpf"
  by (simp_all add: struct_netns_bpf_def layout_simps)

definition struct_xfrm_policy_hash :: ctype where
  "struct_xfrm_policy_hash = CStruct [
    CField ''table'' c_u64,
    CField ''hmask'' c_u32,
    CField ''dbits4'' typedef_u8,
    CField ''sbits4'' typedef_u8,
    CField ''dbits6'' typedef_u8,
    CField ''sbits6'' typedef_u8]"

lemma struct_xfrm_policy_hash_layout [layout_simps]:
  "sizeof struct_xfrm_policy_hash = 16" "alignof struct_xfrm_policy_hash = 8" "wf_ctype struct_xfrm_policy_hash"
  by (simp_all add: struct_xfrm_policy_hash_def layout_simps)

definition struct_xfrm_policy_hthresh :: ctype where
  "struct_xfrm_policy_hthresh = CStruct [
    CField ''work'' struct_work_struct,
    CField ''lock'' typedef_seqlock_t,
    CField ''lbits4'' typedef_u8,
    CField ''rbits4'' typedef_u8,
    CField ''lbits6'' typedef_u8,
    CField ''rbits6'' typedef_u8]"

lemma struct_xfrm_policy_hthresh_layout [layout_simps]:
  "sizeof struct_xfrm_policy_hthresh = 48" "alignof struct_xfrm_policy_hthresh = 8" "wf_ctype struct_xfrm_policy_hthresh"
  by (simp_all add: struct_xfrm_policy_hthresh_def layout_simps)

definition struct_netns_xfrm :: ctype where
  "struct_netns_xfrm = CStruct [
    CField ''state_all'' struct_list_head,
    CField ''state_bydst'' c_u64,
    CField ''state_bysrc'' c_u64,
    CField ''state_byspi'' c_u64,
    CField ''state_byseq'' c_u64,
    CField ''state_cache_input'' c_u64,
    CField ''state_hmask'' c_u32,
    CField ''state_num'' c_u32,
    CField ''state_hash_work'' struct_work_struct,
    CField ''policy_all'' struct_list_head,
    CField ''policy_byidx'' c_u64,
    CField ''policy_idx_hmask'' c_u32,
    CField ''idx_generator'' c_u32,
    CField ''policy_bydst'' (CArray 3 struct_xfrm_policy_hash),
    CField ''policy_count'' (CArray 6 c_u32),
    CField ''policy_hash_work'' struct_work_struct,
    CField ''policy_hthresh'' struct_xfrm_policy_hthresh,
    CField ''inexact_bins'' struct_list_head,
    CField ''nlsk'' c_u64,
    CField ''nlsk_stash'' c_u64,
    CField ''sysctl_aevent_etime'' typedef_u32,
    CField ''sysctl_aevent_rseqth'' typedef_u32,
    CField ''sysctl_larval_drop'' c_u32,
    CField ''sysctl_acq_expires'' typedef_u32,
    CField ''policy_default'' (CArray 3 typedef_u8),
    CField ''sysctl_hdr'' c_u64,
    CBits '''' 8 64,
    CBits '''' 8 64,
    CBits '''' 8 64,
    CBits '''' 8 64,
    CBits '''' 8 64,
    CField ''xfrm4_dst_ops'' struct_dst_ops,
    CField ''xfrm6_dst_ops'' struct_dst_ops,
    CField ''xfrm_state_lock'' typedef_spinlock_t,
    CField ''xfrm_state_hash_generation'' typedef_seqcount_spinlock_t,
    CField ''xfrm_policy_hash_generation'' typedef_seqcount_spinlock_t,
    CField ''xfrm_policy_lock'' typedef_spinlock_t,
    CField ''xfrm_cfg_mutex'' struct_mutex,
    CField ''nat_keepalive_work'' struct_delayed_work,
    CBits '''' 8 64,
    CBits '''' 8 64,
    CBits '''' 8 64,
    CBits '''' 8 64,
    CBits '''' 8 64,
    CBits '''' 8 64,
    CBits '''' 8 64]"

lemma struct_netns_xfrm_layout [layout_simps]:
  "sizeof struct_netns_xfrm = 960" "alignof struct_netns_xfrm = 8" "wf_ctype struct_netns_xfrm"
  by (simp_all add: struct_netns_xfrm_def layout_simps)

definition struct_netns_mpls :: ctype where
  "struct_netns_mpls = CStruct [
    CField ''ip_ttl_propagate'' c_u32,
    CField ''default_ttl'' c_u32,
    CField ''platform_labels'' typedef_size_t,
    CField ''platform_label'' c_u64,
    CField ''ctl'' c_u64]"

lemma struct_netns_mpls_layout [layout_simps]:
  "sizeof struct_netns_mpls = 32" "alignof struct_netns_mpls = 8" "wf_ctype struct_netns_mpls"
  by (simp_all add: struct_netns_mpls_def layout_simps)

definition struct_netns_can :: ctype where
  "struct_netns_can = CStruct [
    CField ''proc_dir'' c_u64,
    CField ''pde_stats'' c_u64,
    CField ''pde_reset_stats'' c_u64,
    CField ''pde_rcvlist_all'' c_u64,
    CField ''pde_rcvlist_fil'' c_u64,
    CField ''pde_rcvlist_inv'' c_u64,
    CField ''pde_rcvlist_sff'' c_u64,
    CField ''pde_rcvlist_eff'' c_u64,
    CField ''pde_rcvlist_err'' c_u64,
    CField ''bcmproc_dir'' c_u64,
    CField ''rx_alldev_list'' c_u64,
    CField ''rcvlists_lock'' typedef_spinlock_t,
    CField ''stattimer'' struct_timer_list,
    CField ''pkg_stats'' c_u64,
    CField ''rcv_lists_stats'' c_u64,
    CField ''cgw_list'' struct_hlist_head]"

lemma struct_netns_can_layout [layout_simps]:
  "sizeof struct_netns_can = 160" "alignof struct_netns_can = 8" "wf_ctype struct_netns_can"
  by (simp_all add: struct_netns_can_def layout_simps)

definition struct_netns_xdp :: ctype where
  "struct_netns_xdp = CStruct [
    CField ''lock'' struct_mutex,
    CField ''list'' struct_hlist_head]"

lemma struct_netns_xdp_layout [layout_simps]:
  "sizeof struct_netns_xdp = 40" "alignof struct_netns_xdp = 8" "wf_ctype struct_netns_xdp"
  by (simp_all add: struct_netns_xdp_def layout_simps)

definition struct_netns_mctp :: ctype where
  "struct_netns_mctp = CStruct [
    CField ''routes'' struct_list_head,
    CField ''bind_lock'' struct_mutex,
    CField ''binds'' (CArray 128 struct_hlist_head),
    CField ''keys_lock'' typedef_spinlock_t,
    CField ''keys'' struct_hlist_head,
    CField ''default_net'' c_u32,
    CField ''neigh_lock'' struct_mutex,
    CField ''neighbours'' struct_list_head]"

lemma struct_netns_mctp_layout [layout_simps]:
  "sizeof struct_netns_mctp = 1144" "alignof struct_netns_mctp = 8" "wf_ctype struct_netns_mctp"
  by (simp_all add: struct_netns_mctp_def layout_simps)

definition struct_netns_smc :: ctype where
  "struct_netns_smc = CStruct [
    CField ''smc_stats'' c_u64,
    CField ''mutex_fback_rsn'' struct_mutex,
    CField ''fback_rsn'' c_u64,
    CField ''limit_smc_hs'' typedef_bool,
    CField ''smc_hdr'' c_u64,
    CField ''sysctl_autocorking_size'' c_u32,
    CField ''sysctl_smcr_buf_type'' c_u32,
    CField ''sysctl_smcr_testlink_time'' c_u32,
    CField ''sysctl_wmem'' c_u32,
    CField ''sysctl_rmem'' c_u32,
    CField ''sysctl_max_links_per_lgr'' c_u32,
    CField ''sysctl_max_conns_per_lgr'' c_u32]"

lemma struct_netns_smc_layout [layout_simps]:
  "sizeof struct_netns_smc = 96" "alignof struct_netns_smc = 8" "wf_ctype struct_netns_smc"
  by (simp_all add: struct_netns_smc_def layout_simps)

definition struct_net :: ctype where
  "struct_net = CStruct [
    CField ''passive'' typedef_refcount_t,
    CField ''rules_mod_lock'' typedef_spinlock_t,
    CField ''dev_base_seq'' c_u32,
    CField ''ifindex'' typedef_u32,
    CField ''nsid_lock'' typedef_spinlock_t,
    CField ''fnhe_genid'' typedef_atomic_t,
    CField ''list'' struct_list_head,
    CField ''exit_list'' struct_list_head,
    CField ''defer_free_list'' struct_llist_node,
    CField ''cleanup_list'' struct_llist_node,
    CField ''ptype_all'' struct_list_head,
    CField ''ptype_specific'' struct_list_head,
    CField ''key_domain'' c_u64,
    CField ''user_ns'' c_u64,
    CField ''ucounts'' c_u64,
    CField ''netns_ids'' struct_idr,
    CField ''ns'' struct_ns_common,
    CField ''refcnt_tracker'' struct_ref_tracker_dir,
    CField ''notrefcnt_tracker'' struct_ref_tracker_dir,
    CField ''dev_base_head'' struct_list_head,
    CField ''proc_net'' c_u64,
    CField ''proc_net_stat'' c_u64,
    CField ''sysctls'' struct_ctl_table_set,
    CField ''rtnl'' c_u64,
    CField ''genl_sock'' c_u64,
    CField ''uevent_sock'' c_u64,
    CField ''dev_name_head'' c_u64,
    CField ''dev_index_head'' c_u64,
    CField ''dev_by_index'' struct_xarray,
    CField ''netdev_chain'' struct_raw_notifier_head,
    CField ''hash_mix'' typedef_u32,
    CField ''loopback_dev'' c_u64,
    CField ''rules_ops'' struct_list_head,
    CField ''core'' struct_netns_core,
    CField ''mib'' struct_netns_mib,
    CField ''packet'' struct_netns_packet,
    CField ''unx'' struct_netns_unix,
    CField ''nexthop'' struct_netns_nexthop,
    CBits '''' 8 64,
    CBits '''' 8 64,
    CBits '''' 8 64,
    CBits '''' 8 64,
    CBits '''' 8 64,
    CBits '''' 8 64,
    CBits '''' 8 64,
    CField ''ipv4'' struct_netns_ipv4,
    CField ''ipv6'' struct_netns_ipv6,
    CField ''ieee802154_lowpan'' struct_netns_ieee802154_lowpan,
    CField ''sctp'' struct_netns_sctp,
    CField ''nf'' struct_netns_nf,
    CField ''ct'' struct_netns_ct,
    CField ''nft'' struct_netns_nftables,
    CField ''ft'' struct_netns_ft,
    CField ''wext_nlevents'' struct_sk_buff_head,
    CField ''gen'' c_u64,
    CField ''bpf'' struct_netns_bpf,
    CBits '''' 8 64,
    CBits '''' 8 64,
    CBits '''' 8 64,
    CField ''xfrm'' struct_netns_xfrm,
    CField ''net_cookie'' typedef_u64,
    CField ''ipvs'' c_u64,
    CField ''mpls'' struct_netns_mpls,
    CField ''can'' struct_netns_can,
    CField ''xdp'' struct_netns_xdp,
    CField ''mctp'' struct_netns_mctp,
    CField ''crypto_nlsk'' c_u64,
    CField ''diag_nlsk'' c_u64,
    CField ''smc'' struct_netns_smc,
    CBits '''' 8 64,
    CBits '''' 8 64,
    CBits '''' 8 64,
    CBits '''' 8 64]"

lemma struct_net_layout [layout_simps]:
  "sizeof struct_net = 6016" "alignof struct_net = 8" "wf_ctype struct_net"
  by (simp_all add: struct_net_def layout_simps)

end
