(* ===== verification/KernelTypes.thy ===== *)
theory KernelTypes
  imports Vmlinux_Net
begin

text \<open>
  All translated type declarations of \<open>bpf/headers/vmlinux.h\<close> in one table, so
  that the layout theorems of \<open>CLayout\<close> can be stated for each of them.
\<close>

definition kernel_types :: "(string \<times> ctype) list" where
  "kernel_types =
    [(''typedef___u64'', typedef___u64),
     (''typedef___addrpair'', typedef___addrpair),
     (''typedef___u32'', typedef___u32),
     (''typedef___be32'', typedef___be32),
     (''typedef___u16'', typedef___u16),
     (''typedef___portpair'', typedef___portpair),
     (''typedef___be16'', typedef___be16),
     (''struct_hlist_node'', struct_hlist_node),
     (''typedef_possible_net_t'', typedef_possible_net_t),
     (''typedef___u8'', typedef___u8),
     (''struct_in6_addr'', struct_in6_addr),
     (''typedef___s64'', typedef___s64),
     (''typedef_s64'', typedef_s64),
     (''typedef_atomic64_t'', typedef_atomic64_t),
     (''struct_hlist_nulls_node'', struct_hlist_nulls_node),
     (''typedef_u32'', typedef_u32),
     (''typedef_atomic_t'', typedef_atomic_t),
     (''struct_refcount_struct'', struct_refcount_struct),
     (''typedef_refcount_t'', typedef_refcount_t),
     (''struct_sock_common'', struct_sock_common),
     (''typedef___s32'', typedef___s32),
     (''struct_sk_buff_list'', struct_sk_buff_list),
     (''typedef_u8'', typedef_u8),
     (''typedef_u16'', typedef_u16),
     (''struct_qspinlock'', struct_qspinlock),
     (''typedef_arch_spinlock_t'', typedef_arch_spinlock_t),
     (''struct_raw_spinlock'', struct_raw_spinlock),
     (''struct_spinlock'', struct_spinlock),
     (''typedef_spinlock_t'', typedef_spinlock_t),
     (''struct_sk_buff_head'', struct_sk_buff_head),
     (''struct_list_head'', struct_list_head),
     (''struct_wait_queue_head'', struct_wait_queue_head),
     (''typedef_wait_queue_head_t'', typedef_wait_queue_head_t),
     (''typedef_socket_lock_t'', typedef_socket_lock_t),
     (''struct_rb_root'', struct_rb_root),
     (''struct_page_frag'', struct_page_frag),
     (''struct_timer_list'', struct_timer_list),
     (''typedef___kernel_uid32_t'', typedef___kernel_uid32_t),
     (''typedef_uid_t'', typedef_uid_t),
     (''typedef_kuid_t'', typedef_kuid_t),
     (''typedef_u64'', typedef_u64),
     (''typedef_netdev_features_t'', typedef_netdev_features_t),
     (''typedef_gfp_t'', typedef_gfp_t),
     (''typedef_bool'', typedef_bool),
     (''struct_qrwlock'', struct_qrwlock),
     (''typedef_arch_rwlock_t'', typedef_arch_rwlock_t),
     (''typedef_rwlock_t'', typedef_rwlock_t),
     (''typedef_ktime_t'', typedef_ktime_t),
     (''struct_sock_cgroup_data'', struct_sock_cgroup_data),
     (''struct_callback_head'', struct_callback_head),
     (''typedef_netns_tracker'', typedef_netns_tracker),
     (''struct_xarray'', struct_xarray),
     (''struct_sock'', struct_sock),
     (''typedef___s16'', typedef___s16),
     (''struct_inet_cork'', struct_inet_cork),
     (''typedef_dscp_t'', typedef_dscp_t),
     (''typedef___be64'', typedef___be64),
     (''struct_flowi_tunnel'', struct_flowi_tunnel),
     (''struct_flowi_common'', struct_flowi_common),
     (''union_flowi_uli'', union_flowi_uli),
     (''struct_flowi4'', struct_flowi4),
     (''struct_flowi6'', struct_flowi6),
     (''struct_flowi'', struct_flowi),
     (''struct_inet_cork_full'', struct_inet_cork_full),
     (''struct_inet_sock'', struct_inet_sock),
     (''struct_fastopen_queue'', struct_fastopen_queue),
     (''struct_request_sock_queue'', struct_request_sock_queue),
     (''struct_inet_connection_sock'', struct_inet_connection_sock),
     (''struct_minmax_sample'', struct_minmax_sample),
     (''struct_minmax'', struct_minmax),
     (''struct_tcp_options_received'', struct_tcp_options_received),
     (''struct_tcp_rack'', struct_tcp_rack),
     (''struct_rb_node'', struct_rb_node),
     (''struct_timerqueue_node'', struct_timerqueue_node),
     (''struct_hrtimer'', struct_hrtimer),
     (''struct_tcp_sack_block'', struct_tcp_sack_block),
     (''struct_tcp_sock'', struct_tcp_sock),
     (''struct_request_sock'', struct_request_sock),
     (''struct_inet_request_sock'', struct_inet_request_sock),
     (''struct_tcp_request_sock'', struct_tcp_request_sock),
     (''struct_thread_info'', struct_thread_info),
     (''struct_llist_node'', struct_llist_node),
     (''struct___call_single_node'', struct___call_single_node),
     (''struct_load_weight'', struct_load_weight),
     (''struct_sched_avg'', struct_sched_avg),
     (''struct_sched_entity'', struct_sched_entity),
     (''struct_sched_rt_entity'', struct_sched_rt_entity),
     (''typedef_dl_server_pick_f'', typedef_dl_server_pick_f),
     (''struct_sched_dl_entity'', struct_sched_dl_entity),
     (''struct_scx_dsq_list_node'', struct_scx_dsq_list_node),
     (''typedef_s32'', typedef_s32),
     (''typedef_atomic_long_t'', typedef_atomic_long_t),
     (''struct_sched_ext_entity'', struct_sched_ext_entity),
     (''struct_uclamp_se'', struct_uclamp_se),
     (''struct_sched_statistics'', struct_sched_statistics),
     (''struct_hlist_head'', struct_hlist_head),
     (''struct_cpumask'', struct_cpumask),
     (''typedef_cpumask_t'', typedef_cpumask_t),
     (''union_rcu_special'', union_rcu_special),
     (''struct_sched_info'', struct_sched_info),
     (''struct_plist_node'', struct_plist_node),
     (''typedef___kernel_clockid_t'', typedef___kernel_clockid_t),
     (''typedef_clockid_t'', typedef_clockid_t),
     (''enum_timespec_type'', enum_timespec_type),
     (''struct_restart_block'', struct_restart_block),
     (''typedef___kernel_pid_t'', typedef___kernel_pid_t),
     (''typedef_pid_t'', typedef_pid_t),
     (''typedef_raw_spinlock_t'', typedef_raw_spinlock_t),
     (''struct_prev_cputime'', struct_prev_cputime),
     (''struct_seqcount'', struct_seqcount),
     (''typedef_seqcount_t'', typedef_seqcount_t),
     (''enum_vtime_state'', enum_vtime_state),
     (''struct_vtime'', struct_vtime),
     (''struct_rb_root_cached'', struct_rb_root_cached),
     (''struct_timerqueue_head'', struct_timerqueue_head),
     (''struct_posix_cputimer_base'', struct_posix_cputimer_base),
     (''struct_posix_cputimers'', struct_posix_cputimers),
     (''struct_optimistic_spin_queue'', struct_optimistic_spin_queue),
     (''struct_mutex'', struct_mutex),
     (''struct_posix_cputimers_work'', struct_posix_cputimers_work),
     (''struct_sysv_sem'', struct_sysv_sem),
     (''struct_sysv_shm'', struct_sysv_shm),
     (''typedef_sigset_t'', typedef_sigset_t),
     (''struct_sigpending'', struct_sigpending),
     (''typedef___kernel_ulong_t'', typedef___kernel_ulong_t),
     (''typedef___kernel_size_t'', typedef___kernel_size_t),
     (''typedef_size_t'', typedef_size_t),
     (''struct_seccomp'', struct_seccomp),
     (''struct_syscall_user_dispatch'', struct_syscall_user_dispatch),
     (''struct_wake_q_node'', struct_wake_q_node),
     (''struct_task_io_accounting'', struct_task_io_accounting),
     (''typedef_nodemask_t'', typedef_nodemask_t),
     (''struct_seqcount_spinlock'', struct_seqcount_spinlock),
     (''typedef_seqcount_spinlock_t'', typedef_seqcount_spinlock_t),
     (''struct_arch_tlbflush_unmap_batch'', struct_arch_tlbflush_unmap_batch),
     (''struct_tlbflush_unmap_batch'', struct_tlbflush_unmap_batch),
     (''struct_kmap_ctrl'', struct_kmap_ctrl),
     (''struct_llist_head'', struct_llist_head),
     (''struct_desc_struct'', struct_desc_struct),
     (''struct_thread_shstk'', struct_thread_shstk),
     (''struct_thread_struct'', struct_thread_struct),
     (''struct_task_struct'', struct_task_struct),
     (''struct_fred_cs'', struct_fred_cs),
     (''struct_fred_ss'', struct_fred_ss),
     (''struct_pt_regs'', struct_pt_regs),
     (''struct_trace_entry'', struct_trace_entry),
     (''struct_trace_event_raw_sys_enter'', struct_trace_event_raw_sys_enter),
     (''struct_css_set'', struct_css_set),
     (''struct_percpu_ref'', struct_percpu_ref),
     (''typedef_work_func_t'', typedef_work_func_t),
     (''struct_work_struct'', struct_work_struct),
     (''struct_rcu_work'', struct_rcu_work),
     (''struct_cgroup_subsys_state'', struct_cgroup_subsys_state),
     (''struct_cgroup_file'', struct_cgroup_file),
     (''struct_cacheline_padding'', struct_cacheline_padding),
     (''struct_task_cputime'', struct_task_cputime),
     (''struct_cgroup_base_stat'', struct_cgroup_base_stat),
     (''struct_cgroup_bpf'', struct_cgroup_bpf),
     (''struct_cgroup_freezer_state'', struct_cgroup_freezer_state),
     (''struct_cgroup'', struct_cgroup),
     (''typedef_umode_t'', typedef_umode_t),
     (''struct_kernfs_elem_dir'', struct_kernfs_elem_dir),
     (''struct_kernfs_elem_symlink'', struct_kernfs_elem_symlink),
     (''typedef___kernel_loff_t'', typedef___kernel_loff_t),
     (''typedef_loff_t'', typedef_loff_t),
     (''struct_kernfs_elem_attr'', struct_kernfs_elem_attr),
     (''struct_kernfs_node'', struct_kernfs_node),
     (''struct_cpu_itimer'', struct_cpu_itimer),
     (''struct_task_cputime_atomic'', struct_task_cputime_atomic),
     (''struct_thread_group_cputimer'', struct_thread_group_cputimer),
     (''typedef_seqlock_t'', typedef_seqlock_t),
     (''struct_rlimit'', struct_rlimit),
     (''struct_pacct_struct'', struct_pacct_struct),
     (''struct_rw_semaphore'', struct_rw_semaphore),
     (''struct_signal_struct'', struct_signal_struct),
     (''typedef___sighandler_t'', typedef___sighandler_t),
     (''typedef___sigrestore_t'', typedef___sigrestore_t),
     (''struct_sigaction'', struct_sigaction),
     (''struct_k_sigaction'', struct_k_sigaction),
     (''struct_sighand_struct'', struct_sighand_struct),
     (''struct_upid'', struct_upid),
     (''struct_pid'', struct_pid),
     (''struct_idr'', struct_idr),
     (''struct_ns_common'', struct_ns_common),
     (''struct_ctl_table_header'', struct_ctl_table_header),
     (''struct_ctl_dir'', struct_ctl_dir),
     (''struct_ctl_table_set'', struct_ctl_table_set),
     (''struct_pid_namespace'', struct_pid_namespace),
     (''typedef___kernel_gid32_t'', typedef___kernel_gid32_t),
     (''typedef_gid_t'', typedef_gid_t),
     (''typedef_kgid_t'', typedef_kgid_t),
     (''typedef_kernel_cap_t'', typedef_kernel_cap_t),
     (''struct_cred'', struct_cred),
     (''struct_nsproxy'', struct_nsproxy),
     (''struct_maple_tree'', struct_maple_tree),
     (''struct_rcuwait'', struct_rcuwait),
     (''typedef_vm_flags_t'', typedef_vm_flags_t),
     (''struct_percpu_counter'', struct_percpu_counter),
     (''typedef_s16'', typedef_s16),
     (''typedef_mm_context_t'', typedef_mm_context_t),
     (''typedef_mm_flags_t'', typedef_mm_flags_t),
     (''struct_uprobes_state'', struct_uprobes_state),
     (''typedef_mm_id_t'', typedef_mm_id_t),
     (''struct_mm_struct'', struct_mm_struct),
     (''typedef_freeptr_t'', typedef_freeptr_t),
     (''typedef_pgprotval_t'', typedef_pgprotval_t),
     (''struct_pgprot'', struct_pgprot),
     (''typedef_pgprot_t'', typedef_pgprot_t),
     (''struct_vm_userfaultfd_ctx'', struct_vm_userfaultfd_ctx),
     (''struct_vm_area_struct'', struct_vm_area_struct),
     (''typedef_fmode_t'', typedef_fmode_t),
     (''struct_path'', struct_path),
     (''typedef_errseq_t'', typedef_errseq_t),
     (''struct_file_ra_state'', struct_file_ra_state),
     (''typedef_file_ref_t'', typedef_file_ref_t),
     (''struct_file'', struct_file),
     (''struct_filename'', struct_filename),
     (''typedef___kernel_dev_t'', typedef___kernel_dev_t),
     (''typedef_dev_t'', typedef_dev_t),
     (''typedef_time64_t'', typedef_time64_t),
     (''enum_rw_hint'', enum_rw_hint),
     (''typedef_blkcnt_t'', typedef_blkcnt_t),
     (''enum_inode_state_flags_t'', enum_inode_state_flags_t),
     (''struct_address_space'', struct_address_space),
     (''struct_inode'', struct_inode),
     (''struct_hlist_bl_node'', struct_hlist_bl_node),
     (''struct_qstr'', struct_qstr),
     (''union_shortname_store'', union_shortname_store),
     (''struct_lockref'', struct_lockref),
     (''struct_dentry'', struct_dentry),
     (''struct_linux_binprm'', struct_linux_binprm),
     (''struct_fs_struct'', struct_fs_struct),
     (''struct_fdtable'', struct_fdtable),
     (''struct_files_struct'', struct_files_struct),
     (''struct_hlist_bl_head'', struct_hlist_bl_head),
     (''typedef_qsize_t'', typedef_qsize_t),
     (''struct_mem_dqinfo'', struct_mem_dqinfo),
     (''struct_quota_info'', struct_quota_info),
     (''struct_rcu_sync'', struct_rcu_sync),
     (''struct_percpu_rw_semaphore'', struct_percpu_rw_semaphore),
     (''struct_sb_writers'', struct_sb_writers),
     (''typedef_uuid_t'', typedef_uuid_t),
     (''struct_list_lru'', struct_list_lru),
     (''struct_super_block'', struct_super_block),
     (''struct_ref_tracker_dir'', struct_ref_tracker_dir),
     (''struct_raw_notifier_head'', struct_raw_notifier_head),
     (''struct_netns_core'', struct_netns_core),
     (''struct_netns_mib'', struct_netns_mib),
     (''struct_netns_packet'', struct_netns_packet),
     (''struct_unix_table'', struct_unix_table),
     (''struct_netns_unix'', struct_netns_unix),
     (''struct_blocking_notifier_head'', struct_blocking_notifier_head),
     (''struct_netns_nexthop'', struct_netns_nexthop),
     (''struct_inet_timewait_death_row'', struct_inet_timewait_death_row),
     (''struct_udp_tunnel_gro'', struct_udp_tunnel_gro),
     (''struct_local_ports'', struct_local_ports),
     (''struct_ping_group_range'', struct_ping_group_range),
     (''struct_sysctl_fib_multipath_hash_seed'', struct_sysctl_fib_multipath_hash_seed),
     (''typedef_siphash_key_t'', typedef_siphash_key_t),
     (''struct_delayed_work'', struct_delayed_work),
     (''struct_netns_ipv4'', struct_netns_ipv4),
     (''struct_dst_ops'', struct_dst_ops),
     (''struct_netns_sysctl_ipv6'', struct_netns_sysctl_ipv6),
     (''struct_netns_ipv6'', struct_netns_ipv6),
     (''struct_netns_sysctl_lowpan'', struct_netns_sysctl_lowpan),
     (''struct_netns_ieee802154_lowpan'', struct_netns_ieee802154_lowpan),
     (''struct_netns_sctp'', struct_netns_sctp),
     (''struct_netns_nf'', struct_netns_nf),
     (''struct_nf_generic_net'', struct_nf_generic_net),
     (''struct_nf_tcp_net'', struct_nf_tcp_net),
     (''struct_nf_udp_net'', struct_nf_udp_net),
     (''struct_nf_icmp_net'', struct_nf_icmp_net),
     (''struct_nf_sctp_net'', struct_nf_sctp_net),
     (''struct_nf_gre_net'', struct_nf_gre_net),
     (''struct_nf_ip_net'', struct_nf_ip_net),
     (''struct_netns_ct'', struct_netns_ct),
     (''struct_netns_nftables'', struct_netns_nftables),
     (''struct_netns_ft'', struct_netns_ft),
     (''struct_netns_bpf'', struct_netns_bpf),
     (''struct_xfrm_policy_hash'', struct_xfrm_policy_hash),
     (''struct_xfrm_policy_hthresh'', struct_xfrm_policy_hthresh),
     (''struct_netns_xfrm'', struct_netns_xfrm),
     (''struct_netns_mpls'', struct_netns_mpls),
     (''struct_netns_can'', struct_netns_can),
     (''struct_netns_xdp'', struct_netns_xdp),
     (''struct_netns_mctp'', struct_netns_mctp),
     (''struct_netns_smc'', struct_netns_smc),
     (''struct_net'', struct_net)]"

lemma kernel_types_wf: "list_all (\<lambda>(n, t). wf_ctype t) kernel_types"
  by (simp add: kernel_types_def layout_simps)

lemma kernel_types_member:
  "(n, t) \<in> set kernel_types \<Longrightarrow> path_at t fs = Some (off, u) \<Longrightarrow>
   fits u off (sizeof t) (alignof t)"
  using kernel_types_wf by (auto simp: list_all_iff intro: path_at_fits)

lemma tcp_sock_embeds_sock:
  "path_at struct_tcp_sock [''inet_conn'', ''icsk_inet'', ''sk''] = Some (0, struct_sock)"
  by (simp add: struct_tcp_sock_def struct_tcp_sock_members_1_def struct_tcp_sock_members_2_def
      struct_inet_connection_sock_def struct_inet_sock_def layout_simps)

end
