(* ===== verification/Spec2Isabelle.thy ===== *)
theory Spec2Isabelle
  imports Examples KernelTypes Vmlinux_Bpf
begin

text \<open>
  A verification of eBPF-monitor, a tool that watches what containers do to
  each other. Four probes in the kernel (\<open>bpf/monitor.c\<close>) put samples about
  connects, accepts, opens and executions into a ring buffer; a Go program
  (\<open>cmd/main.go\<close> and the packages under \<open>internal/\<close>) reads them, pairs the two
  ends of a connection, attaches container names, prints the events and
  raises alerts by rules.

  \<^bold>\<open>How the parts interact.\<close> A probe fills a \<open>struct event\<close> and submits it.
  The main loop decodes it with \<open>ParseEvent\<close>; connects and accepts go to the
  correlator, opens and executions go straight to \<open>eventsCh\<close>. The fan-in
  goroutine moves the correlator's connections to \<open>eventsCh\<close>. The fan-out
  goroutine asks the resolver for the containers, filters, and sends each
  event to the output goroutine and to the rule engine; the engine sends its
  alerts to the output. A signal starts the shutdown goroutine, which closes
  the ring and the channels one after the other.

  \<^bold>\<open>Theories and sources.\<close> Paths are relative to \<open>src/\<close>.

  \<^item> \<open>Prelude\<close>: machine integers, byte strings and their little-endian image,
    outcomes of Go statements (\<open>go\<close>: \<open>Inl\<close> a panic, \<open>Inr\<close> a result), the
    collections \<open>bytes_simps\<close> and \<open>go_simps\<close>.
  \<^item> \<open>CLayout\<close>: C types, \<open>sizeof\<close>, \<open>alignof\<close> and the offset of a member, as clang
    computes them for the BPF target; \<open>Vmlinux_Sock\<close>, \<open>Vmlinux_Task\<close>,
    \<open>Vmlinux_Proc\<close>, \<open>Vmlinux_Fs\<close>, \<open>Vmlinux_Net\<close>, \<open>Vmlinux_Bpf\<close>: the declarations of
    \<open>bpf/headers/vmlinux.h\<close> that the probes reach, one definition for each;
    \<open>KernelTypes\<close>: all of them in one table.
  \<^item> \<open>Monitor\<close>: \<open>bpf/monitor.c\<close>, the record \<open>struct_event\<close>, \<open>fill_common_fields\<close> and
    the handlers \<open>tcp_connect\<close>, \<open>inet_csk_accept\<close>, \<open>handle_openat\<close> and
    \<open>handle_execve\<close> on bytes: the state is the list of submitted samples.
  \<^item> \<open>Wire\<close>: \<open>internal/ebpf/types.go\<close>, \<open>MonitorEvent\<close> and \<open>ParseEvent\<close>; \<open>Samples\<close>: what
    \<open>ParseEvent\<close> reads from the samples of the four handlers; \<open>Footprint\<close>: which
    bytes of kernel memory they depend on.
  \<^item> \<open>GoLib\<close>, \<open>Duration\<close>, \<open>Glob\<close>, \<open>Calendar\<close>, \<open>Json\<close>: the parts of Go's standard
    library that the program calls (strings, decimal numbers, time,
    \<open>time.ParseDuration\<close>, \<open>path.Match\<close>, the RFC 3339 form of a time, the text of
    \<open>encoding/json\<close> with a reader for it); \<open>GlobSpec\<close>: the meaning of glob patterns
    by backtracking.
  \<^item> \<open>Helpers\<close>: \<open>internal/helpers/string.go\<close>, \<open>network.go\<close> and \<open>time.go\<close>; \<open>Core\<close>:
    \<open>internal/core\<close>, the records \<open>Event\<close>, \<open>Alert\<close> and \<open>ContainerInfo\<close>; \<open>Encode\<close>:
    their JSON form by the tags of their fields, and that it can be read back.
  \<^item> \<open>Chan\<close>: buffered channels with the contract \<open>fifo\<close>; \<open>Machine\<close>: runs of
    operations with the contracts \<open>machine\<close> (a component and a specification
    that reads the history) and \<open>draining\<close> (a system that works off its
    input).
  \<^item> \<open>Correlator\<close>: \<open>internal/correlator/correlator.go\<close>, its record (\<open>pending\<close>, \<open>outch\<close>,
    \<open>timeout\<close>) and \<open>New\<close>, \<open>HandleConnect\<close>, \<open>HandleAccept\<close>, \<open>Cleanup_tick\<close>, \<open>Close\<close>.
  \<^item> \<open>PortExpr\<close>, \<open>Rule\<close>, \<open>Engine\<close>: \<open>internal/ruleengine/portexpr.go\<close>, \<open>rule.go\<close>,
    \<open>engine.go\<close> and \<open>sequence.go\<close>; the engine's record holds the rules, the
    channel of alerts, the threshold windows and the sequence trackers.
    \<open>Threshold\<close> (contract \<open>event_window\<close>, and the alerts that rules owe),
    \<open>Sequence\<close> and \<open>Detect\<close> hold the properties of the detection modes, of loading
    and of dispatch; \<open>RuleFiles\<close> the files of \<open>rules/\<close>, one definition for each.
  \<^item> \<open>Resolver\<close>: \<open>internal/resolver/resolver.go\<close>; \<open>Output\<close>: \<open>internal/output/output.go\<close>;
    \<open>OutputText\<close>: the lines it prints, with the contract \<open>line_format\<close>.
  \<^item> \<open>Pipeline\<close>: \<open>cmd/main.go\<close>. The record \<open>pipeline\<close> has a field for every
    component and channel and a program counter for every goroutine; \<open>main_setup\<close>
    is the part before the loop, \<open>actor_step\<close> one statement of a goroutine
    that touches shared state, \<open>pipe_step\<close> any of them, \<open>reachable\<close> their
    interleavings. \<open>PipelineInv\<close>, \<open>EndToEnd\<close> and \<open>Drain\<close> hold the invariants, the
    paths from a probe to the consumers, and the absence of deadlock; \<open>Printed\<close>
    and \<open>AlertOrigin\<close> relate the standard output to the events received and the
    rules, \<open>Exact\<close> and \<open>ShippedAlerts\<close> to the alerts that the rules owe,
    \<open>Conserve\<close> to the samples, and \<open>Lag\<close> to the samples while work is queued;
    \<open>LiveRules\<close> has a run of the program for every block of the shipped rules.
    \<open>Flags\<close> and \<open>Startup\<close>: the command line, the initialisers and the start of the
    process (\<open>program_start\<close>).
  \<^item> \<open>Examples\<close>: the concrete kernel, rules and events of the witnesses.

  \<^bold>\<open>What is shown.\<close> C1 follows a connection from the two probes, C2 an
  execution from its probe to the event and the alert on the standard output.
  C3 is the refinement of the whole program: once nothing is queued, the text
  on the standard output is what a specification makes of the samples, up to
  the order in which goroutines merge them. C4 says that the alerts printed
  are those that the rules owe to the events also while work is queued; C8 and
  C9 are the refinements of the correlator and of the engine. C5 and C13 to C18
  are about the format of samples, the handlers, the layouts they depend on
  and the kernel memory they reveal. C6, C7, C10 to C12 and C19 to C23 are about the goroutines: no panic and
  no deadlock before the signal, a bound on the work a sample can cause, the
  standard output as a log of the events and of justified alerts, agreement
  of the two consumers, a bound on how far the output is behind the samples, the
  stages of the shutdown, the panics it allows and the exit it leads to, and the start of the process.
  C24 to C33 are about rules, group keys, sequences, loading and the shipped
  rules, for which C30 gives the alerts without hypotheses on rules, C31
  spells out what the threshold rule counts and C32 has a run for every block; C34 and C35 about port
  expressions; C36 to C40 about the resolver, the output and the clock.

  \<^bold>\<open>Bounds and termination.\<close> All definitions are total and no fuel is used:
  loops over data are recursive functions whose termination is proved, the
  endless loops of the goroutines are steps of a transition system. A
  statement that has to wait gives \<open>Inr None\<close> and takes no step. Machine
  integers keep their width. The channels have the capacities of the source,
  1024 and, for alerts, 100. The fractions of durations are rounded to 53 bits
  as \<open>float64\<close> does.

  \<^bold>\<open>Granularity.\<close> A critical section under a mutex is one step. Reading a
  sample and dispatching it are two steps of the main loop, so that the
  shutdown can close a channel in between. \<open>updateInfo\<close> in \<open>MonitorEventsLoop\<close>
  takes a step for each container, in which the container is inspected and its
  entry written; the fan-out can look up containers in between
  (\<open>docker_round\<close> in \<open>Pipeline\<close>: steps that meet the same daemon and system are
  one round of the loop). The engine
  goroutine takes one step for each rule, which is faithful because no other
  goroutine reads its windows. A \<open>HandleAccept\<close> that waits for the full channel
  has not begun in the model, while the program holds the mutex with the
  entry looked up already: a cleanup tick can come before it in both, and the
  model allows it at more points.

  \<^bold>\<open>Parameters.\<close> Kernel memory and the BPF helpers (\<open>bpf_env\<close>, with \<open>bpf_env_ok\<close>
  for what the helpers document), the Docker client and the files it leads
  to (\<open>resolver_env\<close>), the YAML decoder of a rule file (\<open>unmarshal\<close>), the
  offset of the local time zone (\<open>zoneOffset\<close>; times are printed in it, and in
  UTC when \<open>/proc/stat\<close> has no line for the boot time), the content of \<open>/proc/stat\<close>, the
  arguments of the process, and whether the objects were loaded and attached
  (together the record \<open>world\<close> of \<open>Startup\<close>). That the offset is a whole number of
  minutes is a hypothesis where times are read back: RFC 3339 cannot write
  seconds of an offset.

  \<^bold>\<open>Not modelled.\<close> Log messages; the YAML parser, a third-party package
  (\<open>RuleFiles\<close> holds the values it gives for the shipped files); the Docker client; the code that
  bpf2go generates and \<open>internal/ebpf/loader.go\<close>, which only asks for it; the
  verifier's and the loader's relocation of field offsets; the part of \<open>vmlinux.h\<close> that the probes do not reach, since
  it is a generated dump of all kernel types. Slices that share memory play
  no role: no two of the program's slices are written through.
\<close>

section \<open>The main guarantees\<close>

text \<open>
  C1: From two system calls to the terminal: when the connect probe fires on one end of
  an IPv4 connection and the accept probe on the other end, both in containers that the
  resolver knows and the filter keeps, and the first rule raises an alert for such a
  connection, then on the schedule of one delivery the text on the standard output reads
  as exactly one event, with the container, process name, address and port of both sides
  and the time of the connect, and one alert of that rule for it, whatever bytes the
  reserved samples held before. The zone is less than a day and a whole number of
  minutes from UTC, the machine was booted after the first day of 1970 and before 2262,
  and its clock does not wrap.
\<close>

theorem connection_end_to_end:
  assumes "bpf_env_ok env1 comm1 ustr1" "sk1 \<noteq> 0" "sock_family env1 sk1 = AF_INET"
      "bpf_ringbuf_reserve env1 (sizeof struct_event) = Some stale1"
    and "bpf_env_ok env2 comm2 ustr2" "sk2 \<noteq> 0" "sock_family env2 sk2 = AF_INET"
      "bpf_ringbuf_reserve env2 (sizeof struct_event) = Some stale2"
    and "sock_endpoints env1 sk1 = (la, lp, ra, rp)" "sock_endpoints env2 sk2 = (ra, rp, la, lp)"
    and "cache res (bpf_get_current_cgroup_id env1) = Some info1" "bpf_get_current_cgroup_id env2 \<noteq> 0"
      "cache res (bpf_get_current_cgroup_id env2) = Some info2"
    and "\<not> filtered (filterPrefixArg cfg) info1 (Some info2)"
    and "rules eng = rule # rs" "rSequence rule = None" "Mode (rDetect rule) \<noteq> ''threshold''"
      "\<forall>e. EvType e = ''connection'' \<and> SrcContainer e = Some info1 \<and> DstContainer e = Some info2
         \<and> EvSrcAddr e = BytesToIPv4 la \<and> EvSrcPort e = lp \<and> EvDstAddr e = BytesToIPv4 ra \<and> EvDstPort e = rp
         \<longrightarrow> Rule_MatchEvent rule e"
    and "chan_buf (alerts eng) = []" "engine_ready 1 eng"
    and "\<forall>t. 60 dvd localZone cfg t \<and> \<bar>localZone cfg t\<bar> < 86400"
    and "86400 * 10 ^ 9 \<le> bootTime cfg" "bootTime cfg < 2 ^ 63" "unat (bpf_ktime_get_ns env1) < 2 ^ 63"
  shows "\<exists>raw1 raw2 s e. tcp_connect env1 sk1 [] = (0, [raw1]) \<and> inet_csk_accept env2 sk2 [] = (0, [raw2])
     \<and> run (pipe_step cfg) (([Kernel raw1, MainLoop, MainLoop, Kernel raw2, MainLoop, MainLoop] @ forwarding) @ alerting) (pipeline_start eng res)
         = Inr (Some s)
     \<and> stream_events (stdout_text (printed (outp s))) = [clean_event e]
     \<and> stream_alerts (stdout_text (printed (outp s))) = [clean_alert (rule_alert rule e)]
     \<and> EvType e = ''connection'' \<and> SrcContainer e = Some info1 \<and> DstContainer e = Some info2
     \<and> EvTime e = bootTime cfg + int (unat (bpf_ktime_get_ns env1))
     \<and> SrcProcessName e = go_string comm1 \<and> DstProcessName e = go_string comm2
     \<and> EvSrcAddr e = BytesToIPv4 la \<and> EvSrcPort e = lp \<and> EvDstAddr e = BytesToIPv4 ra \<and> EvDstPort e = rp"
  by (rule connection_alerted [OF assms])

theorem connection_end_to_end_witness:
  "\<exists>raw1 raw2 s e. tcp_connect (demo_env 7 [99]) 4096 [] = (0, [raw1])
     \<and> inet_csk_accept (demo_env 8 [115]) 8192 [] = (0, [raw2])
     \<and> run (pipe_step live_cfg) (([Kernel raw1, MainLoop, MainLoop, Kernel raw2, MainLoop, MainLoop] @ forwarding) @ alerting)
          (pipeline_start (empty_engine\<lparr>rules := [connect_rule]\<rparr>) pair_resolver) = Inr (Some s)
     \<and> stream_events (stdout_text (printed (outp s))) = [clean_event e]
     \<and> stream_alerts (stdout_text (printed (outp s))) = [clean_alert (rule_alert connect_rule e)]
     \<and> SrcContainer e = Some demo_info \<and> DstContainer e = Some db_info \<and> EvSrcPort e = 40000 \<and> EvDstPort e = 5432"
  using connection_end_to_end [of "demo_env 7 [99]" "[99]" "\<lambda>a. [47, 98]" 4096 "replicate 344 170"
      "demo_env 8 [115]" "[115]" "\<lambda>a. [47, 98]" 8192 "replicate 344 170" 16777226 40000 33554442 5432
      pair_resolver demo_info db_info live_cfg "empty_engine\<lparr>rules := [connect_rule]\<rparr>" connect_rule "[]"]
  by (simp add: demo_env_ok demo_family demo_reserve demo_endpoints demo_cgroup sizeof_struct_event pair_resolver_def
      pair_kept live_cfg_def engine_ready_def empty_engine_def make_chan_def demo_clock del: run.simps) blast

text \<open>
  C2: From a system call to the terminal: an execution in a known container, for which
  the first rule raises an alert at once, is reported by the probe, and on the schedule
  of one delivery the text on the standard output reads as exactly one event, with the
  container, the process name, the path and the time of the call, and one alert of that
  rule for it. The zone is less than a day and a whole number of minutes from UTC, the
  machine was booted after the first day of 1970 and before 2262, and its clock does not
  wrap.
\<close>

theorem exec_alert_printed:
  assumes "bpf_env_ok env comm ustr" "bpf_get_current_cgroup_id env \<noteq> 0"
      "bpf_ringbuf_reserve env (sizeof struct_event) = Some stale"
    and "cache res (bpf_get_current_cgroup_id env) = Some info"
    and "rules eng = rule # rs" "rSequence rule = None" "Mode (rDetect rule) \<noteq> ''threshold''"
      "\<forall>e. EvType e = ''exec'' \<and> SrcContainer e = Some info \<and> ExecPath e = go_string (ustr (ctx_arg ctx 0))
         \<longrightarrow> Rule_MatchEvent rule e"
    and "chan_buf (alerts eng) = []" "engine_ready 1 eng"
    and "\<forall>t. 60 dvd localZone cfg t \<and> \<bar>localZone cfg t\<bar> < 86400"
    and "86400 * 10 ^ 9 \<le> bootTime cfg" "bootTime cfg < 2 ^ 63" "unat (bpf_ktime_get_ns env) < 2 ^ 63"
  shows "\<exists>raw s e. handle_execve env ctx [] = (0, [raw])
     \<and> run (pipe_step cfg) (Kernel raw # delivery @ alerting) (pipeline_start eng res) = Inr (Some s)
     \<and> stream_events (stdout_text (printed (outp s))) = [clean_event e]
     \<and> stream_alerts (stdout_text (printed (outp s))) = [clean_alert (rule_alert rule e)]
     \<and> EvType e = ''exec'' \<and> SrcContainer e = Some info
     \<and> EvTime e = bootTime cfg + int (unat (bpf_ktime_get_ns env))
     \<and> SrcProcessName e = go_string comm \<and> ExecPath e = go_string (ustr (ctx_arg ctx 0))"
  by (rule exec_alerted [OF assms])

theorem exec_alert_printed_witness:
  "\<exists>raw s e. handle_execve (demo_env 7 [99]) (replicate 64 0) [] = (0, [raw])
     \<and> run (pipe_step live_cfg) (Kernel raw # delivery @ alerting) live_start = Inr (Some s)
     \<and> stream_events (stdout_text (printed (outp s))) = [clean_event e]
     \<and> stream_alerts (stdout_text (printed (outp s))) = [clean_alert (rule_alert single_rule e)]
     \<and> ExecPath e = go_string [47, 98]"
  using exec_alert_printed [of "demo_env 7 [99]" "[99]" "\<lambda>a. [47, 98]" "replicate 344 170" demo_resolver demo_info
      "empty_engine\<lparr>rules := [single_rule]\<rparr>" single_rule "[]" "replicate 64 0" live_cfg, folded live_start_def]
  by (simp add: demo_env_ok demo_cgroup demo_reserve sizeof_struct_event demo_resolver_def engine_ready_def
      empty_engine_def make_chan_def live_cfg_def demo_clock del: run.simps) blast

text \<open>
  C3: The standard output is a function of the samples, up to the order in which
  goroutines merge them: after any run of the program during which the containers do not
  change, once nothing is queued, there is an order of the cleanup ticks among the
  samples and a merge of the correlated connections with the opens and executions such
  that the printed events are exactly the merged ones whose source container is known
  and whose names pass the filter, each with its containers, and the printed alerts are
  exactly those that the rules owe to these events, for rules that are no sequences and
  share no window key and events in time order within each group. No event is lost,
  repeated or made up on any interleaving; events and alerts whose time has no text are
  left out of it, and invalid UTF-8 in names is replaced.
\<close>

theorem monitor_refines:
  assumes "program_start w = Inr (Inr (cfg, s0))" and "run (pipe_step cfg) as s0 = Inr (Some s)"
    and "list_all (\<lambda>a. \<not> container_change a) as" and "idle s"
    and "\<forall>t. 60 dvd localZone cfg t"
  shows "\<exists>es\<in>event_histories (bootTime cfg) (List.map_filter arrival as) (List.map_filter tick as).
    (let evs = List.map_filter (enrich cfg (resolver s0)) es in
       stream_events (stdout_text (printed (outp s))) = map clean_event (filter (has_text (localZone cfg)) evs)
       \<and> (independent (rules (engine s0)) \<and> groups_sorted (rules (engine s0)) evs \<longrightarrow>
            stream_alerts (stdout_text (printed (outp s)))
              = map clean_alert (filter (alert_has_text (localZone cfg)) (owed_alerts (rules (engine s0)) evs))))"
proof -
  note start = started_state [OF assms(1)]
  have "run (pipe_step cfg) as (pipeline_start (engine s0) (resolver s0)) = Inr (Some s)"
    using assms(2) by (simp only: start(1) [symmetric])
  from monitor_exact [OF this assms(3-5) start(2,3)] show ?thesis .
qed

theorem monitor_refines_witness:
  "\<exists>raw as s. handle_execve (demo_env 7 [99]) (replicate 64 0) [] = (0, [raw])
     \<and> run (pipe_step live_cfg) (Kernel raw # as) live_start = Inr (Some s) \<and> idle s
     \<and> (\<exists>es\<in>event_histories (bootTime live_cfg) [raw] [].
          stream_events (stdout_text (printed (outp s)))
            = map clean_event (filter (has_text (localZone live_cfg)) (List.map_filter (enrich live_cfg demo_resolver) es)))"
proof -
  obtain raw where raw: "handle_execve (demo_env 7 [99]) (replicate 64 0) [] = (0, [raw])"
    using handle_execve_sample [of "demo_env 7 [99]" "[99]" "\<lambda>a. [47, 98]" "replicate 344 170" "replicate 64 0" "[]"]
    by (auto simp: demo_env_ok demo_cgroup demo_reserve sizeof_struct_event)
  let ?s = "live_start\<lparr>ring := [raw]\<rparr>"
  have one: "run (pipe_step live_cfg) [Kernel raw] live_start = Inr (Some ?s)"
    by (simp add: pipe_step_def live_start_def pipeline_start_def)
  have "running live_cfg (engine live_start) ?s"
    by (rule setup_running [OF demo_world_setup one]) (simp_all add: live_start_def pipeline_start_def)
  from pd.drains [OF this] obtain as s where as: "list_all internal as"
      "run (pipe_step live_cfg) as ?s = Inr (Some s)" "idle s" by blast
  have run: "run (pipe_step live_cfg) ([Kernel raw] @ as) live_start = Inr (Some s)"
    by (simp only: run_append one go_bind_simps option.case as(2))
  have quiet: "List.map_filter arrival as = []" "List.map_filter tick as = []"
    using as(1) by (auto simp: map_filter_def filter_empty_conv list_all_iff elim!: internal.elims)
  have "list_all (\<lambda>a. \<not> container_change a) ([Kernel raw] @ as)"
    using as(1) by (auto simp: list_all_iff dest: internal_no_change)
  moreover have "\<forall>t. 60 dvd localZone live_cfg t" by (simp add: live_cfg_def)
  moreover have "resolver live_start = demo_resolver" by (simp add: live_start_def pipeline_start_def)
  ultimately show ?thesis
    using monitor_refines [OF demo_world_start run _ as(3)] raw run as(3) quiet
    by (intro exI [of _ raw] exI [of _ as] exI [of _ s])
      (auto simp: List.map_filter_simps Let_def simp del: run.simps)
qed

text \<open>
  C4: The program prints exactly the alerts that its rules owe: with rules other than
  sequences, of which no two threshold rules can build the same window key, and events
  that reach the engine in time order within each group, the alerts on the standard
  output are in every interleaving the first of those that the rules owe to the events
  received, in the order of events and then of rules, and all of them when nothing is
  queued. A rule owes an alert for each event that matches it; a threshold rule, for
  each such event that is the Count + 1st or a later one of its group within the window.
\<close>

theorem alerts_exact:
  assumes "program_start w = Inr (Inr (cfg, s0))" and "run (pipe_step cfg) as s0 = Inr (Some s)"
    and "\<forall>t. 60 dvd localZone cfg t"
    and "independent (rules (engine s0))" "groups_sorted (rules (engine s0)) (engSeen s)"
  shows "prefix (stream_alerts (stdout_text (printed (outp s))))
        (map clean_alert (filter (alert_has_text (localZone cfg)) (owed_alerts (rules (engine s0)) (engSeen s))))
     \<and> (idle s \<longrightarrow> stream_alerts (stdout_text (printed (outp s)))
          = map clean_alert (filter (alert_has_text (localZone cfg)) (owed_alerts (rules (engine s0)) (outSeen s))))"
proof -
  obtain eng res where eng: "reachable cfg eng res s" "chan_buf (alerts eng) = []" "thresholds eng = Map.empty"
      "rules eng = rules (engine s0)"
    using started_reachable [OF assms(1,2)] by blast
  from exact_alerts [OF eng(1) assms(3) _ eng(2,3)] assms(4,5) show ?thesis by (simp add: eng(4))
qed

theorem alerts_exact_witness:
  "\<exists>as s. run (pipe_step live_cfg) as live_start = Inr (Some s)
     \<and> length (stream_alerts (stdout_text (printed (outp s)))) = 1
     \<and> prefix (stream_alerts (stdout_text (printed (outp s))))
         (map clean_alert (filter (alert_has_text (localZone live_cfg)) (owed_alerts [single_rule] (engSeen s))))"
proof -
  obtain raw s e where s: "run (pipe_step live_cfg) (Kernel raw # delivery @ alerting) live_start = Inr (Some s)"
    "stream_alerts (stdout_text (printed (outp s))) = [clean_alert (rule_alert single_rule e)]"
    using exec_alerted [of "demo_env 7 [99]" "[99]" "\<lambda>a. [47, 98]" "replicate 344 170" demo_resolver demo_info
        "empty_engine\<lparr>rules := [single_rule]\<rparr>" single_rule "[]" "replicate 64 0" live_cfg, folded live_start_def]
    by (simp add: demo_env_ok demo_cgroup demo_reserve sizeof_struct_event demo_resolver_def engine_ready_def
        empty_engine_def make_chan_def live_cfg_def demo_clock del: run.simps) blast
  have rules: "rules (engine live_start) = [single_rule]" by (simp add: live_start_def pipeline_start_def)
  have "independent [single_rule]" by (simp add: independent_def)
  moreover have "groups_sorted [single_rule] (engSeen s)" by (simp add: groups_sorted_def threshold_rule_def)
  moreover have "\<forall>t. 60 dvd localZone live_cfg t" by (simp add: live_cfg_def)
  ultimately show ?thesis
    using alerts_exact [OF demo_world_start s(1)] s
    by (intro exI [of _ "Kernel raw # delivery @ alerting"] exI [of _ s]) (simp add: rules del: run.simps)
qed

text \<open>
  C5: The Go decoder and the C record agree on the format: every sample of the size of
  the C record parses, and each of the 13 fields of the result is the value of the
  member of the same name.
\<close>

theorem wire_format_agrees:
  assumes "length data = sizeof struct_event"
  shows "\<exists>e. ParseEvent data = Some e
     \<and> Pid e = le_decode (get_field ''pid'' data) \<and> CgroupId e = le_decode (get_field ''cgroup_id'' data)
     \<and> Timestamp e = le_decode (get_field ''timestamp'' data)
     \<and> EventType e = le_decode (get_field ''event_type'' data)
     \<and> SrcAddr e = le_decode (get_field ''src_addr'' data) \<and> SrcPort e = le_decode (get_field ''src_port'' data)
     \<and> DstAddr e = le_decode (get_field ''dst_addr'' data) \<and> DstPort e = le_decode (get_field ''dst_port'' data)
     \<and> Comm e = get_field ''comm'' data \<and> Filepath e = get_field ''filepath'' data
     \<and> Ppid e = le_decode (get_field ''ppid'' data) \<and> ParentComm e = get_field ''parent_comm'' data
     \<and> Flags e = le_decode (get_field ''flags'' data)"
  using assms by (simp add: sizeof_struct_event ParseEvent_loads get_field_def event_fields)

theorem wire_format_agrees_witness:
  "\<exists>e. ParseEvent (replicate 344 1) = Some e \<and> SrcPort e = le_decode (get_field ''src_port'' (replicate 344 1))"
  using wire_format_agrees [of "replicate 344 1"] by (auto simp: sizeof_struct_event)

text \<open>
  C6: From a set-up that succeeds with rules other than sequences, in every state that
  any interleaving of the goroutines reaches before the termination signal, no
  goroutine's next statement panics; only what the container runtime reports in that
  step has to be what the resolver relies on.
\<close>

theorem no_panic_until_signal:
  assumes "main_setup unmarshal root attached client_err env opened = Inr (Some s0)"
    and "run (pipe_step cfg) as s0 = Inr (Some s)" and "shutPC s = ShWait"
    and "\<forall>rule\<in>set (rules (engine s0)). rSequence rule = None" and "docker_ok a"
  shows "pipe_step cfg a s \<noteq> Inl p"
  by (rule setup_no_panic [OF assms])

theorem no_panic_until_signal_witness:
  "main_setup demo_decode (Some demo_folder) True None demo_runtime True = Inr (Some demo_start)
     \<and> pipe_step demo_cfg MainLoop (demo_start\<lparr>ring := [[]]\<rparr>) \<noteq> Inl SendOnClosedChannel"
  using no_panic_until_signal [OF demo_setup demo_arrival, of "[]" MainLoop SendOnClosedChannel] demo_setup
  by (simp add: demo_start_fields)

text \<open>
  C7: The goroutines cannot block each other and cannot run for ever: from every state
  reached before the signal, with rules other than sequences, the six working goroutines
  execute at most a computed number of statements without new input, one of them can
  continue unless all queues are empty and all goroutines wait for input, and that idle
  state can be reached.
\<close>

theorem pipeline_drains:
  assumes "main_setup unmarshal root attached client_err env opened = Inr (Some s0)"
    and "run (pipe_step cfg) as s0 = Inr (Some s)" and "shutPC s = ShWait"
    and "\<forall>rule\<in>set (rules (engine s0)). rSequence rule = None"
  shows "(\<forall>bs s'. list_all internal bs \<and> run (pipe_step cfg) bs s = Inr (Some s') \<longrightarrow>
        length bs \<le> work (length (rules (engine s0))) s
        \<and> (idle s' \<or> (\<exists>a s''. internal a \<and> pipe_step cfg a s' = Inr (Some s''))))
     \<and> (\<exists>bs s'. list_all internal bs \<and> run (pipe_step cfg) bs s = Inr (Some s') \<and> idle s')"
  using pd.run_works [OF setup_running [OF assms]] pd.drains [OF setup_running [OF assms]] pd.progress
  by (meson add_leD2)

theorem pipeline_drains_witness:
  "\<exists>bs s'. list_all internal bs \<and> run (pipe_step demo_cfg) bs (demo_start\<lparr>ring := [[]]\<rparr>) = Inr (Some s') \<and> idle s'"
  using pipeline_drains [OF demo_setup demo_arrival, of "[]"] by (simp add: demo_start_fields)

text \<open>
  C8: After any sequence of connects, accepts, cleanup ticks and receives that completes
  from a new correlator, the pending map holds exactly the connections whose latest
  connect has been followed by no accept and no tick that found it expired, and what was
  received followed by what is queued is one event for each accept of a pending
  connection, in order.
\<close>

theorem correlator_refines:
  assumes "corr_run boot ops (New tmo, []) = Inr (Some (c, received))"
  shows "pending c = spec_pending boot tmo (rev ops)
     \<and> (\<exists>ch. outch c = Some ch \<and> received @ chan_buf ch = spec_events boot tmo (rev ops))"
  using corr_abs_run [OF assms] by (auto simp: corr_abs_def)

theorem correlator_refines_witness:
  "\<exists>c received. corr_run 0 [Connect 1 2 3 4 7 42 [99, 0] 1000, Accept 3 4 1 2 8 43 [115, 0], Receive] (New 5, [])
       = Inr (Some (c, received))
     \<and> pending c (connect_key 1 2 3 4) = None \<and> length received = 1"
proof -
  obtain c received where run: "corr_run 0 [Connect 1 2 3 4 7 42 [99, 0] 1000, Accept 3 4 1 2 8 43 [115, 0], Receive] (New 5, [])
       = Inr (Some (c, received))" and len: "length received = 1"
    by (simp add: corr_run_def New_def HandleConnect_def HandleAccept_def Let_def make_chan_def chan_send_def
        recv_step_def chan_recv_def)
  from correlator_refines [OF run] have "pending c (connect_key 1 2 3 4) = None" by (simp add: connect_key_def)
  with run len show ?thesis by blast
qed

text \<open>
  C9: The engine refines a specification over histories: over any sequence of processed
  events and taken alerts that completes, rules other than sequences, with separate
  window keys, emit exactly the alerts owed to the events, in the order of events and
  then of rules, provided the events of each group come in time order; a threshold rule
  owes one for each matching event such that more than Count matching events of its
  group, itself included, are at most the window older than it.
\<close>

theorem engine_refines:
  assumes "independent rs" and "groups_sorted rs (processed (rev ops))"
    and "run engine_step ops (empty_engine\<lparr>rules := rs\<rparr>, []) = Inr (Some (r, taken))"
  shows "taken @ chan_buf (alerts r) = owed_alerts rs (processed (rev ops))"
  by (rule engine_run [OF assms])

theorem engine_refines_witness:
  "\<exists>r taken. run engine_step [Process (demo_event ''exec'' 0), Process (demo_event ''exec'' 5), TakeAlert]
        (empty_engine\<lparr>rules := [demo_rule]\<rparr>, []) = Inr (Some (r, taken))
     \<and> taken @ chan_buf (alerts r) = [rule_alert demo_rule (demo_event ''exec'' 5)]"
proof -
  let ?ops = "[Process (demo_event ''exec'' 0), Process (demo_event ''exec'' 5), TakeAlert]"
  have key: "group_of demo_rule (demo_event ''exec'' t) = ''burst:web''" for t
    by (simp add: group_of_def demo_key)
  have "\<exists>s. run engine_step ?ops (empty_engine\<lparr>rules := [demo_rule]\<rparr>, []) = Inr (Some s)"
    by (simp add: empty_engine_def ProcessEvent_def process_rule_def handleThreshold_def demo_key
        demo_windows AddEvent_def Let_def time_Sub_def emitAlert_def chan_send_def make_chan_def
        recv_step_def chan_recv_def)
  then obtain r taken where run: "run engine_step ?ops (empty_engine\<lparr>rules := [demo_rule]\<rparr>, []) = Inr (Some (r, taken))"
    by auto
  have "groups_sorted [demo_rule] (processed (rev ?ops))" by (simp add: groups_sorted_def group_times_def)
  moreover have "independent [demo_rule]" by (simp add: independent_def)
  ultimately have "taken @ chan_buf (alerts r) = owed_alerts [demo_rule] (processed (rev ?ops))"
    using engine_refines [OF _ _ run] by blast
  also have "\<dots> = [rule_alert demo_rule (demo_event ''exec'' 5)]"
    by (simp add: owed_alerts_def alerts_for_def fires_def threshold_rule_def over_threshold_def group_times_def key
        recent_def demo_windows time_Sub_def)
  finally show ?thesis using run by blast
qed

text \<open>
  C10: Whatever the interleaving, the standard output is a faithful log: cut at its line
  breaks it gives the lines that were printed, whatever bytes the names and paths have,
  and a reader of these lines finds exactly the events that the output goroutine has
  received, in their order, with invalid UTF-8 replaced and without the events whose
  time has no RFC 3339 text.
\<close>

theorem printed_stream:
  assumes "reachable cfg eng res s" and "\<forall>t. 60 dvd localZone cfg t"
  shows "lines_of (stdout_text (printed (outp s))) = printed (outp s)
     \<and> stream_events (stdout_text (printed (outp s)))
         = map clean_event (filter (has_text (localZone cfg)) (outSeen s))"
  using printed_lines [OF assms(1)] printed_events [OF assms] by simp

theorem printed_stream_witness:
  "\<exists>raw s e. run (pipe_step live_cfg) (Kernel raw # delivery) live_start = Inr (Some s) \<and> outSeen s = [e]
     \<and> stream_events (stdout_text (printed (outp s))) = [clean_event e]"
proof -
  obtain raw s e where s: "run (pipe_step live_cfg) (Kernel raw # delivery) live_start = Inr (Some s)"
    and e: "consumed live_cfg (empty_engine\<lparr>rules := [single_rule]\<rparr>) e s"
      "EvTime e = KTimeToTime (bootTime live_cfg) (bpf_ktime_get_ns (demo_env 7 [99]))"
    using exec_delivered [of "demo_env 7 [99]" "[99]" "\<lambda>a. [47, 98]" "replicate 344 170" demo_resolver
        demo_info "replicate 64 0" live_cfg "empty_engine\<lparr>rules := [single_rule]\<rparr>", folded live_start_def]
    by (simp add: demo_env_ok demo_cgroup demo_reserve sizeof_struct_event demo_resolver_def del: run.simps) blast
  have "has_text (localZone live_cfg) e"
    by (rule kernel_time_has_text [OF _ _ _ _ e(2)]) (simp_all add: live_cfg_def demo_clock)
  moreover have "reachable live_cfg (empty_engine\<lparr>rules := [single_rule]\<rparr>) demo_resolver s"
    using reachable_run [OF s [unfolded live_start_def] reachable.start] .
  moreover have "\<forall>t. 60 dvd localZone live_cfg t" by (simp add: live_cfg_def)
  moreover have "outSeen s = [e]" using e(1) by (simp add: consumed_def)
  ultimately have "stream_events (stdout_text (printed (outp s))) = [clean_event e]"
    using printed_stream [of live_cfg _ _ s] by auto
  with s \<open>outSeen s = [e]\<close> show ?thesis by blast
qed

text \<open>
  C11: No alert is made up: in every run after a start of the program, each alert that a
  reader finds on the standard output carries the name, severity and description of one
  of the loaded rules and the time and containers of an event that the engine received
  and that the rule, or for a sequence one of its steps, matches.
\<close>

theorem printed_alerts_justified:
  assumes "program_start w = Inr (Inr (cfg, s0))" and "run (pipe_step cfg) as s0 = Inr (Some s)"
    and "\<forall>t. 60 dvd localZone cfg t" and "a \<in> set (stream_alerts (stdout_text (printed (outp s))))"
  shows "\<exists>rule\<in>set (rules (engine s0)). \<exists>e\<in>set (engSeen s).
      (case rSequence rule of
         None \<Rightarrow> Rule_MatchEvent rule e
       | Some seq \<Rightarrow> \<exists>step\<in>set (Steps seq). MatchEvent step e)
      \<and> a = clean_alert (rule_alert rule e)"
proof -
  obtain eng res where "reachable cfg eng res s" "chan_buf (alerts eng) = []" "rules eng = rules (engine s0)"
    using started_reachable [OF assms(1,2)] by blast
  with printed_alerts [OF this(1) assms(3) this(2) assms(4)] show ?thesis by (simp add: may_alert_def)
qed

theorem printed_alerts_justified_witness:
  "\<exists>as s a. run (pipe_step live_cfg) as live_start = Inr (Some s)
     \<and> a \<in> set (stream_alerts (stdout_text (printed (outp s))))
     \<and> (\<exists>e\<in>set (engSeen s). EvType e = ''exec'' \<and> a = clean_alert (rule_alert single_rule e))"
proof -
  obtain raw s e where s: "run (pipe_step live_cfg) (Kernel raw # delivery @ alerting) live_start = Inr (Some s)"
    "stream_alerts (stdout_text (printed (outp s))) = [clean_alert (rule_alert single_rule e)]"
    using exec_alerted [of "demo_env 7 [99]" "[99]" "\<lambda>a. [47, 98]" "replicate 344 170" demo_resolver demo_info
        "empty_engine\<lparr>rules := [single_rule]\<rparr>" single_rule "[]" "replicate 64 0" live_cfg, folded live_start_def]
    by (simp add: demo_env_ok demo_cgroup demo_reserve sizeof_struct_event demo_resolver_def engine_ready_def
        empty_engine_def make_chan_def live_cfg_def demo_clock del: run.simps) blast
  have "rules (engine live_start) = [single_rule]" by (simp add: live_start_def pipeline_start_def)
  with printed_alerts_justified [OF demo_world_start s(1), of "clean_alert (rule_alert single_rule e)"] s(2)
  have "\<exists>e'\<in>set (engSeen s). EvType e' = ''exec'' \<and> clean_alert (rule_alert single_rule e) = clean_alert (rule_alert single_rule e')"
    by (simp add: live_cfg_def)
  with s show ?thesis by (metis list.set_intros(1))
qed

text \<open>
  C12: In every reachable state the output and the rule engine have been sent the same
  events in the same order, the engine lagging by at most the one the fan-out is about
  to send; and every event they have received or will receive carries a resolved source
  container and passes the name filter.
\<close>

theorem consumers_agree:
  assumes "reachable cfg eng res s"
  shows "outSeen s @ chan_buf (outputCh s)
           = engSeen s @ chan_buf (engineCh s) @ (case fanoutPC s of FoEng e \<Rightarrow> [e] | _ \<Rightarrow> [])
     \<and> list_all (delivered_ok cfg) (outSeen s @ chan_buf (outputCh s) @ engSeen s @ chan_buf (engineCh s))"
  using reachable_delivers [OF assms]
  by (cases "fanoutPC s") (simp_all add: same_stream_def deliveries_ok_def)

theorem consumers_agree_witness:
  "\<exists>s e. reachable demo_cfg empty_engine demo_resolver s \<and> outSeen s = [e] \<and> delivered_ok demo_cfg e"
proof -
  obtain raw s e where "run (pipe_step demo_cfg) (Kernel raw # delivery)
      (pipeline_start empty_engine demo_resolver) = Inr (Some s)" and seen: "outSeen s = [e]"
    using exec_delivered [of "demo_env 7 [99]" "[99]" "\<lambda>a. [47, 98]" "replicate 344 170" demo_resolver
        demo_info "replicate 64 0" demo_cfg empty_engine]
    by (simp add: demo_env_ok demo_cgroup demo_reserve sizeof_struct_event demo_resolver_def consumed_def del: run.simps) blast
  then have "reachable demo_cfg empty_engine demo_resolver s" by (blast intro: reachable_run reachable.start)
  with consumers_agree [OF this] seen show ?thesis by auto
qed

section \<open>The kernel half\<close>

text \<open>
  C13: A connect on an IPv4 socket and the accept of one submit one sample each, of
  their type; user space reads from it the process, cgroup, time and name of the caller
  and the local and remote endpoint of the socket, with ports in host order.
\<close>

theorem socket_probes_report:
  assumes "bpf_env_ok env comm ustr" and "sk \<noteq> 0" and "sock_family env sk = AF_INET"
    and "bpf_ringbuf_reserve env (sizeof struct_event) = Some stale"
  shows "(\<exists>s e. tcp_connect env sk rb = (0, rb @ [s]) \<and> ParseEvent s = Some e
       \<and> common_view env comm EVENT_NET_CONNECT e
       \<and> (SrcAddr e, SrcPort e, DstAddr e, DstPort e) = sock_endpoints env sk)
     \<and> (\<exists>s e. inet_csk_accept env sk rb = (0, rb @ [s]) \<and> ParseEvent s = Some e
       \<and> common_view env comm EVENT_NET_ACCEPT e
       \<and> (SrcAddr e, SrcPort e, DstAddr e, DstPort e) = sock_endpoints env sk)"
  by (intro conjI tcp_connect_sample [OF assms] inet_csk_accept_sample [OF assms])

theorem socket_probes_report_witness:
  "(\<exists>s e. tcp_connect (demo_env 7 [99]) 4096 [] = (0, [s]) \<and> ParseEvent s = Some e
     \<and> (SrcAddr e, SrcPort e, DstAddr e, DstPort e) = (16777226, 40000, 33554442, 5432))
   \<and> (\<exists>s e. inet_csk_accept (demo_env 8 [115]) 8192 [] = (0, [s]) \<and> ParseEvent s = Some e
     \<and> (SrcAddr e, SrcPort e, DstAddr e, DstPort e) = (33554442, 5432, 16777226, 40000))"
proof
  show "\<exists>s e. tcp_connect (demo_env 7 [99]) 4096 [] = (0, [s]) \<and> ParseEvent s = Some e
     \<and> (SrcAddr e, SrcPort e, DstAddr e, DstPort e) = (16777226, 40000, 33554442, 5432)"
    using socket_probes_report [of "demo_env 7 [99]" "[99]" "\<lambda>a. [47, 98]" 4096 "replicate 344 170" "[]"]
    by (simp add: demo_env_ok demo_family demo_reserve demo_endpoints sizeof_struct_event) blast
  show "\<exists>s e. inet_csk_accept (demo_env 8 [115]) 8192 [] = (0, [s]) \<and> ParseEvent s = Some e
     \<and> (SrcAddr e, SrcPort e, DstAddr e, DstPort e) = (33554442, 5432, 16777226, 40000)"
    using socket_probes_report [of "demo_env 8 [115]" "[115]" "\<lambda>a. [47, 98]" 8192 "replicate 344 170" "[]"]
    by (simp add: demo_env_ok demo_family demo_reserve demo_endpoints sizeof_struct_event) blast
qed

text \<open>
  C14: An openat call of a process in a cgroup submits one sample whose path, as user
  space reads it, is the string behind the second argument and whose flags are the low
  32 bits of the third, whatever the sample held before.
\<close>

theorem handle_openat_reports:
  assumes "bpf_env_ok env comm ustr" and "bpf_get_current_cgroup_id env \<noteq> 0"
    and "bpf_ringbuf_reserve env (sizeof struct_event) = Some stale"
  shows "\<exists>s e. handle_openat env ctx rb = (0, rb @ [s]) \<and> ParseEvent s = Some e
     \<and> common_view env comm EVENT_FILE_OPEN e
     \<and> NullTermStr (Filepath e) = go_string (ustr (ctx_arg ctx 1)) \<and> Flags e = ucast (ctx_arg ctx 2)"
  by (rule handle_openat_sample [OF assms])

theorem handle_openat_reports_witness:
  "\<exists>s e. handle_openat (demo_env 7 [99]) (replicate 64 0) [] = (0, [s]) \<and> ParseEvent s = Some e
     \<and> NullTermStr (Filepath e) = go_string [47, 98]"
  using handle_openat_reports [of "demo_env 7 [99]" "[99]" "\<lambda>a. [47, 98]" "replicate 344 170" "replicate 64 0" "[]"]
  by (simp add: demo_env_ok demo_cgroup demo_reserve sizeof_struct_event) blast

text \<open>
  C15: An execve call of a process in a cgroup submits one sample with the path behind
  the first argument, the thread group id of the parent task, and the parent's name up
  to its terminator, at most 15 bytes.
\<close>

theorem handle_execve_reports:
  assumes "bpf_env_ok env comm ustr" and "bpf_get_current_cgroup_id env \<noteq> 0"
    and "bpf_ringbuf_reserve env (sizeof struct_event) = Some stale"
  shows "\<exists>s e. handle_execve env ctx rb = (0, rb @ [s]) \<and> ParseEvent s = Some e
     \<and> common_view env comm EVENT_EXEC e
     \<and> NullTermStr (Filepath e) = go_string (ustr (ctx_arg ctx 0))
     \<and> Ppid e = le_decode (core_read env struct_task_struct [''tgid''] (parent_task env))
     \<and> NullTermStr (ParentComm e) = go_string (take 15 (takeWhile (\<lambda>b. b \<noteq> 0)
          (core_read env struct_task_struct [''comm''] (parent_task env))))"
  by (rule handle_execve_sample [OF assms])

theorem handle_execve_reports_witness:
  "\<exists>s e. handle_execve (demo_env 7 [99]) (replicate 64 0) [] = (0, [s]) \<and> ParseEvent s = Some e
     \<and> common_view (demo_env 7 [99]) [99] EVENT_EXEC e \<and> NullTermStr (Filepath e) = go_string [47, 98]"
  using handle_execve_reports [of "demo_env 7 [99]" "[99]" "\<lambda>a. [47, 98]" "replicate 344 170" "replicate 64 0" "[]"]
  by (simp add: demo_env_ok demo_cgroup demo_reserve sizeof_struct_event) blast

text \<open>
  C16: The probes submit a sample exactly when their guards allow it: a non-null IPv4
  socket for the socket probes, a process in a cgroup for the syscall probes, room in
  the ring buffer for all four; they always return 0.
\<close>

theorem probes_silent:
  "(snd (tcp_connect env sk rb) \<noteq> rb \<longleftrightarrow>
      sk \<noteq> 0 \<and> sock_family env sk = AF_INET \<and> bpf_ringbuf_reserve env (sizeof struct_event) \<noteq> None)
   \<and> (snd (inet_csk_accept env sk rb) \<noteq> rb \<longleftrightarrow>
      sk \<noteq> 0 \<and> sock_family env sk = AF_INET \<and> bpf_ringbuf_reserve env (sizeof struct_event) \<noteq> None)
   \<and> (snd (handle_openat env ctx rb) \<noteq> rb \<longleftrightarrow>
      bpf_get_current_cgroup_id env \<noteq> 0 \<and> bpf_ringbuf_reserve env (sizeof struct_event) \<noteq> None)
   \<and> (snd (handle_execve env ctx rb) \<noteq> rb \<longleftrightarrow>
      bpf_get_current_cgroup_id env \<noteq> 0 \<and> bpf_ringbuf_reserve env (sizeof struct_event) \<noteq> None)
   \<and> fst (tcp_connect env sk rb) = 0 \<and> fst (inet_csk_accept env sk rb) = 0
   \<and> fst (handle_openat env ctx rb) = 0 \<and> fst (handle_execve env ctx rb) = 0"
  using sock_probes_submit [of env sk rb] syscall_probes_submit [of env ctx rb] by auto

text \<open>
  C17: The layouts the probes depend on: the record they fill has the 13 members at the
  offsets and with the sizes that the comment in types.go documents, in 344 bytes
  aligned to 8; the endpoint and family of a socket, the identity and name of a task and
  the arguments of a system call lie at the given offsets; and a TCP socket can be read
  through a pointer to its first member.
\<close>

theorem probe_layouts:
  "map (\<lambda>f. fieldof struct_event [f])
      [''pid'', ''cgroup_id'', ''timestamp'', ''event_type'', ''src_addr'', ''src_port'', ''dst_addr'',
       ''dst_port'', ''comm'', ''filepath'', ''ppid'', ''parent_comm'', ''flags'']
     = [(0, 4), (8, 8), (16, 8), (24, 1), (28, 4), (32, 2), (36, 4), (40, 2), (42, 16), (58, 256),
        (316, 4), (320, 16), (336, 4)]
   \<and> sizeof struct_event = 344 \<and> alignof struct_event = 8
   \<and> map (\<lambda>f. fieldof struct_sock [''__sk_common'', f])
      [''skc_daddr'', ''skc_rcv_saddr'', ''skc_dport'', ''skc_num'', ''skc_family'']
     = [(0, 4), (4, 4), (12, 2), (14, 2), (16, 2)]
   \<and> map (\<lambda>f. fieldof struct_task_struct [f]) [''tgid'', ''real_parent'', ''comm'']
     = [(2772, 4), (2784, 8), (3312, 16)]
   \<and> fieldof struct_trace_event_raw_sys_enter [''args''] = (16, 48)
   \<and> path_at struct_tcp_sock [''inet_conn'', ''icsk_inet'', ''sk''] = Some (0, struct_sock)"
proof -
  have "alignof struct_event = 8" by (simp add: struct_event_def layout_simps)
  then show ?thesis
    by (simp only: list.map event_fields sizeof_struct_event sock_fieldof task_fieldof args_fieldof tcp_sock_embeds_sock simp_thms)
qed



section \<open>The goroutines\<close>

text \<open>
  C19: How far the output can be behind, in every state of every interleaving, after the
  signal too, while the containers do not change. All samples are dispatched, or in the
  ring, but for one that the main loop holds. There is a merge of what the dispatched
  samples and the cleanup ticks give, such that the printed events are a prefix of its
  events with their containers and all but at most 3075 of them, and the printed alerts
  are a prefix of those that the rules owe to these events and all but at most 100 and
  3076 for each rule, for rules that are no sequences and share no window key and events
  in time order within each group. Events and alerts whose time has no text are left
  out, and invalid UTF-8 in names is replaced.
\<close>

theorem output_lag:
  assumes "main_setup unmarshal root attached client_err env opened = Inr (Some s0)"
    and "run (pipe_step cfg) as s0 = Inr (Some s)" and "list_all (\<lambda>a. \<not> container_change a) as"
    and "\<forall>t. 60 dvd localZone cfg t"
  shows "\<exists>dispatched held. \<exists>es\<in>event_histories (bootTime cfg) dispatched (List.map_filter tick as).
     List.map_filter arrival as = dispatched @ held @ ring s \<and> length held \<le> 1
     \<and> (let evs = List.map_filter (enrich cfg (resolver s0)) es in
          (\<exists>missing. map clean_event (filter (has_text (localZone cfg)) evs)
               = stream_events (stdout_text (printed (outp s))) @ missing \<and> length missing \<le> 3075)
        \<and> (independent (rules (engine s0)) \<and> groups_sorted (rules (engine s0)) evs \<longrightarrow>
             (\<exists>missing. map clean_alert (filter (alert_has_text (localZone cfg)) (owed_alerts (rules (engine s0)) evs))
                 = stream_alerts (stdout_text (printed (outp s))) @ missing
               \<and> length missing \<le> 100 + 3076 * length (rules (engine s0)))))"
proof -
  have "s0 = pipeline_start (engine s0) (resolver s0)"
    using assms(1) by (auto simp: main_setup_Some pipeline_start_def)
  then have run: "run (pipe_step cfg) as (pipeline_start (engine s0) (resolver s0)) = Inr (Some s)"
    using assms(2) by simp
  obtain res where "sized 100 (alerts (engine s0))" using setup_reachable [OF assms(1,2)] by blast
  from output_lags [OF run assms(3,4) this setup_fresh [OF assms(1)]] show ?thesis .
qed

theorem output_lag_witness:
  "\<exists>raw as s. handle_execve (demo_env 7 [99]) (replicate 64 0) [] = (0, [raw])
     \<and> run (pipe_step live_cfg) (Kernel raw # as) live_start = Inr (Some s) \<and> outSeen s \<noteq> []
     \<and> (\<exists>dispatched held. \<exists>es\<in>event_histories (bootTime live_cfg) dispatched [].
          [raw] = dispatched @ held @ ring s \<and> length held \<le> 1
        \<and> (\<exists>missing. map clean_event (filter (has_text (localZone live_cfg)) (List.map_filter (enrich live_cfg demo_resolver) es))
             = stream_events (stdout_text (printed (outp s))) @ missing \<and> length missing \<le> 3075))"
proof -
  obtain raw s e where raw: "handle_execve (demo_env 7 [99]) (replicate 64 0) [] = (0, [raw])"
    and run: "run (pipe_step live_cfg) (Kernel raw # delivery) live_start = Inr (Some s)" and seen: "outSeen s = [e]"
    using exec_delivered [of "demo_env 7 [99]" "[99]" "\<lambda>a. [47, 98]" "replicate 344 170" demo_resolver
        demo_info "replicate 64 0" live_cfg "empty_engine\<lparr>rules := [single_rule]\<rparr>"]
    by (simp add: demo_env_ok demo_cgroup demo_reserve sizeof_struct_event demo_resolver_def consumed_def live_start_def
        del: run.simps) blast
  have "list_all (\<lambda>a. \<not> container_change a) (Kernel raw # delivery)" by (simp add: delivery_def)
  moreover have "\<forall>t. 60 dvd localZone live_cfg t" by (simp add: live_cfg_def)
  moreover have "List.map_filter tick (Kernel raw # delivery) = []" "List.map_filter arrival (Kernel raw # delivery) = [raw]"
    by (simp_all add: delivery_def List.map_filter_simps)
  moreover have "resolver live_start = demo_resolver" by (simp add: live_start_def pipeline_start_def)
  ultimately show ?thesis
    using output_lag [OF demo_world_setup run] raw run seen
    by (intro exI [of _ raw] exI [of _ delivery] exI [of _ s]) (simp add: Let_def del: run.simps, blast)
qed

text \<open>
  C20: In every reachable state the stage of the shutdown goroutine tells which channels
  are closed: the ring from its second statement on, then the correlator's channel, the
  engine's, the output's; the fan-in closes its channel only after the correlator's, and
  nobody ever closes the channel of alerts.
\<close>

theorem shutdown_stages:
  assumes "reachable cfg eng res s" and "\<not> chan_closed (alerts eng)"
  shows "(ringClosed s \<longleftrightarrow> 2 \<le> stage (shutPC s)) \<and> (corr_closed s \<longleftrightarrow> 3 \<le> stage (shutPC s))
     \<and> (chan_closed (engineCh s) \<longleftrightarrow> 5 \<le> stage (shutPC s))
     \<and> (chan_closed (outputCh s) \<longleftrightarrow> 6 \<le> stage (shutPC s))
     \<and> (chan_closed (eventsCh s) \<longleftrightarrow> faninPC s = FiDone) \<and> (faninPC s = FiDone \<longrightarrow> corr_closed s)
     \<and> \<not> chan_closed (alerts (engine s))"
  using reachable_closing [OF assms] by (simp add: closing_ok_def)

theorem shutdown_stages_witness:
  "\<exists>s. pipe_step demo_cfg Signal (pipeline_start empty_engine demo_resolver) = Inr (Some s)
     \<and> \<not> ringClosed s \<and> \<not> chan_closed (outputCh s)"
proof -
  let ?s = "(pipeline_start empty_engine demo_resolver)\<lparr>shutPC := ShRun 0\<rparr>"
  have step: "pipe_step demo_cfg Signal (pipeline_start empty_engine demo_resolver) = Inr (Some ?s)"
    by (simp add: pipe_step_def pipeline_start_def)
  have "reachable demo_cfg empty_engine demo_resolver ?s" by (rule reachable.step [OF reachable.start step])
  from shutdown_stages [OF this] step show ?thesis by (simp add: empty_engine_def make_chan_def)
qed

text \<open>
  C21: After the signal the program can panic, in two ways. When an execution has just
  been read from the ring, closing the correlator lets the fan-in goroutine close the
  channel on which the main loop then sends; and when the accept of a connection whose
  connect is pending has just been read, the accept itself sends on the correlator's
  channel after it was closed.
\<close>

theorem shutdown_panics:
  "(ParseEvent raw = Some ev \<and> EventType ev = EVENT_EXEC \<longrightarrow>
      run (pipe_step cfg) [Kernel raw, MainLoop, MainLoop, Signal, Shutdown, Shutdown, FanIn, MainLoop]
        (pipeline_start eng res) = Inl SendOnClosedChannel)
   \<and> (ParseEvent raw1 = Some e1 \<and> EventType e1 = EVENT_NET_CONNECT
        \<and> ParseEvent raw2 = Some e2 \<and> EventType e2 = EVENT_NET_ACCEPT
        \<and> SrcAddr e2 = DstAddr e1 \<and> SrcPort e2 = DstPort e1 \<and> DstAddr e2 = SrcAddr e1 \<and> DstPort e2 = SrcPort e1 \<longrightarrow>
      run (pipe_step cfg) [Kernel raw1, MainLoop, MainLoop, Kernel raw2, MainLoop, Signal, Shutdown, Shutdown, MainLoop]
        (pipeline_start eng res) = Inl SendOnClosedChannel)"
  using shutdown_race [of raw ev cfg eng res] accept_race [of raw1 e1 raw2 e2 cfg eng res] by blast

theorem shutdown_panics_witness:
  "run (pipe_step demo_cfg) [Kernel (replicate 340 5), MainLoop, MainLoop, Signal, Shutdown, Shutdown, FanIn, MainLoop]
      (pipeline_start empty_engine demo_resolver) = Inl SendOnClosedChannel
   \<and> (\<exists>raw1 raw2. tcp_connect (demo_env 7 [99]) 4096 [] = (0, [raw1])
        \<and> inet_csk_accept (demo_env 8 [115]) 8192 [] = (0, [raw2])
        \<and> run (pipe_step demo_cfg) [Kernel raw1, MainLoop, MainLoop, Kernel raw2, MainLoop, Signal, Shutdown, Shutdown, MainLoop]
            (pipeline_start empty_engine demo_resolver) = Inl SendOnClosedChannel)"
proof -
  obtain ev where ev: "ParseEvent (replicate 340 5) = Some ev"
      "EventType ev = le_decode (load 24 1 (replicate 340 (5 :: u8)))"
    using ParseEvent_loads [of "replicate 340 5"] by simp
  have "load 24 1 (replicate 340 (5 :: u8)) = [5]" by (simp add: load_def)
  with ev have "EventType ev = EVENT_EXEC" by (simp add: EVENT_EXEC_def)
  with ev(1) have one: "run (pipe_step demo_cfg) [Kernel (replicate 340 5), MainLoop, MainLoop, Signal, Shutdown, Shutdown, FanIn, MainLoop]
      (pipeline_start empty_engine demo_resolver) = Inl SendOnClosedChannel"
    by (intro shutdown_panics [THEN conjunct1, THEN mp]) simp
  obtain raw1 e1 where c: "tcp_connect (demo_env 7 [99]) 4096 [] = (0, [raw1])" "ParseEvent raw1 = Some e1"
      "common_view (demo_env 7 [99]) [99] EVENT_NET_CONNECT e1"
      "(SrcAddr e1, SrcPort e1, DstAddr e1, DstPort e1) = (16777226, 40000, 33554442, 5432)"
    using tcp_connect_sample [of "demo_env 7 [99]" "[99]" "\<lambda>a. [47, 98]" 4096 "replicate 344 170" "[]"]
    by (auto simp: demo_env_ok demo_family demo_reserve demo_endpoints sizeof_struct_event)
  obtain raw2 e2 where a: "inet_csk_accept (demo_env 8 [115]) 8192 [] = (0, [raw2])" "ParseEvent raw2 = Some e2"
      "common_view (demo_env 8 [115]) [115] EVENT_NET_ACCEPT e2"
      "(SrcAddr e2, SrcPort e2, DstAddr e2, DstPort e2) = (33554442, 5432, 16777226, 40000)"
    using inet_csk_accept_sample [of "demo_env 8 [115]" "[115]" "\<lambda>a. [47, 98]" 8192 "replicate 344 170" "[]"]
    by (auto simp: demo_env_ok demo_family demo_reserve demo_endpoints sizeof_struct_event)
  have "run (pipe_step demo_cfg) [Kernel raw1, MainLoop, MainLoop, Kernel raw2, MainLoop, Signal, Shutdown, Shutdown, MainLoop]
      (pipeline_start empty_engine demo_resolver) = Inl SendOnClosedChannel"
    by (rule shutdown_panics [of _ _ demo_cfg empty_engine demo_resolver raw1 e1 raw2 e2, THEN conjunct2, THEN mp]) (use a c in \<open>simp add: common_view_def\<close>)
  with one a(1) c(1) show ?thesis by blast
qed

text \<open>
  C22: After the signal the main loop ends the process: whenever it is about to read, at
  most one statement of the shutdown goroutine and its own next read lead to the exit of
  the read-error branch, from which no goroutine continues; samples in the ring and
  events that are still queued are neither processed nor printed.
\<close>

theorem shutdown_exits:
  assumes "main_setup unmarshal root attached client_err env opened = Inr (Some s0)"
    and "run (pipe_step cfg) as s0 = Inr (Some s)" and "shutPC s \<noteq> ShWait" and "mainPC s = MainRead"
  shows "\<exists>bs s'. bs \<in> {[MainLoop], [Shutdown, MainLoop]} \<and> run (pipe_step cfg) bs s = Inr (Some s')
     \<and> mainPC s' = MainExit \<and> outp s' = outp s \<and> ring s' = ring s \<and> (\<forall>a. pipe_step cfg a s' = Inr None)"
proof -
  obtain res where "reachable cfg (engine s0) res s" "\<not> chan_closed (alerts (engine s0))"
    using setup_reachable [OF assms(1,2)] by blast
  then show ?thesis by (rule exit_after_signal [OF _ _ assms(3,4)])
qed

theorem shutdown_exits_witness:
  "\<exists>s bs s'. run (pipe_step demo_cfg) [Kernel [1], Signal] demo_start = Inr (Some s)
     \<and> run (pipe_step demo_cfg) bs s = Inr (Some s') \<and> mainPC s' = MainExit \<and> ring s' = [[1]]"
proof -
  let ?s = "demo_start\<lparr>ring := [[1]], shutPC := ShRun 0\<rparr>"
  have run: "run (pipe_step demo_cfg) [Kernel [1], Signal] demo_start = Inr (Some ?s)"
    by (simp add: pipe_step_def demo_start_fields)
  have "mainPC ?s = MainRead" by (simp add: demo_start_fields)
  with shutdown_exits [OF demo_setup run] obtain bs s' where
    "run (pipe_step demo_cfg) bs ?s = Inr (Some s')" "mainPC s' = MainExit" "ring s' = ring ?s"
    by (auto simp del: run.simps)
  with run show ?thesis
    by (intro exI [of _ ?s] exI [of _ bs] exI [of _ s']) (simp del: run.simps)
qed

text \<open>
  C23: How the process starts, given a /proc/stat with a line for the boot time: it
  reaches its loop exactly when its arguments are a sequence of its flags, each with one
  or two dashes and its value, followed by operands, and the set-up with the rules
  folder they name succeeds; then the last value of each flag is in force and the boot
  time is the one of that line. On any other command line it exits with status 0 or 2.
\<close>

theorem program_starts:
  assumes "procStat w = Some (stdout_text pre @ ''btime '' @ dec n @ newline # post)"
    and "n < 2 ^ 63" and "\<forall>l\<in>set pre. newline \<notin> set l \<and> \<not> HasPrefix l ''btime ''"
  shows "(program_start w = Inr (Inr (cfg, s)) \<longleftrightarrow>
     (\<exists>xs rest. command_line xs (osArgs w) rest
        \<and> main_setup (decodeRule w) (fileTree w (rulesFolderArg (fold apply_setting xs flag_defaults)))
            (probesAttached w) (clientErr w) (dockerEnv w) (ringOpened w) = Inr (Some s)
        \<and> cfg = \<lparr>filterPrefixArg = prefixArg (fold apply_setting xs flag_defaults),
                 bootTime = int n * 1000000000, localZone = zoneOffset w\<rparr>))
   \<and> ((\<nexists>xs rest. command_line xs (osArgs w) rest) \<longrightarrow> program_start w \<in> {Inr (Inl 0), Inr (Inl 2)})"
  using program_start_cases [OF assms] by blast

theorem program_starts_witness:
  "program_start demo_world = Inr (Inr (live_cfg, live_start))"
proof -
  have "procStat demo_world = Some (stdout_text [''cpu 1 2''] @ ''btime '' @ dec 1700000000 @ newline # ''processes 5'')"
    by (simp add: demo_world_def)
  from program_starts [OF this, of live_cfg live_start] demo_command_line demo_world_setup show ?thesis
    by (fastforce simp: HasPrefix_def newline_def flag_defaults_def live_cfg_def demo_world_def)
qed

section \<open>Rules and detection\<close>

text \<open>
  C24: The greedy matcher behind rule patterns agrees with the definition of globbing by
  backtracking: on patterns of literals, question marks and stars and on ASCII values, a
  pattern matches exactly when the value can be cut into runs free of slashes for the
  stars, characters other than a slash for the question marks, and the literals.
\<close>

theorem glob_matching:
  assumes "plain pattern" and "ascii v"
  shows "matchPattern pattern v \<longleftrightarrow> glob pattern v"
  by (simp add: matchPattern_def path_Match_plain [OF assms])

theorem glob_matching_witness:
  "matchPattern ''/etc/*.c?nf'' ''/etc/my.conf'' \<and> \<not> matchPattern ''/etc/*'' ''/etc/ssh/key''"
  using glob_matching [of "''/etc/*.c?nf''" "''/etc/my.conf''"] glob_matching [of "''/etc/*''" "''/etc/ssh/key''"]
  by (simp add: plain_def ascii_def char_ok_def)

text \<open>
  C25: What a match block accepts: a block with a negation is decided by the parity of
  nested negations and its innermost block alone; that block accepts an event when its
  type and every pattern and port expression it sets fits, where patterns on containers
  and ports constrain only events that have them.
\<close>

theorem match_block_meaning:
  "(MatchEvent m e \<longleftrightarrow> (MatchEvent (innermost m) e \<longleftrightarrow> even (not_depth m)))
   \<and> (MatchEvent (innermost m) e \<longleftrightarrow>
        (mbEventType (innermost m) = '''' \<or> mbEventType (innermost m) = EvType e)
        \<and> accepts (mbSrcProcess (innermost m)) (SrcProcessName e)
        \<and> accepts (mbDstProcess (innermost m)) (DstProcessName e)
        \<and> accepts_container (mbSrcContainer (innermost m)) (SrcContainer e)
        \<and> accepts_container (mbDstContainer (innermost m)) (DstContainer e)
        \<and> accepts_port (mbSrcPort (innermost m)) (EvSrcPort e)
        \<and> accepts_port (mbDstPort (innermost m)) (EvDstPort e)
        \<and> accepts (mbExecPath (innermost m)) (ExecPath e)
        \<and> accepts (mbParentProcess (innermost m)) (ParentProcessName e)
        \<and> accepts (mbFilePath (innermost m)) (FilePath e) \<and> accepts (mbFileOp (innermost m)) (FileOp e))"
  using MatchEvent_innermost [of m e] MatchEvent_iff [of "innermost m" e] innermost_Not [of m] by simp

text \<open>
  C26: Two events with a source container fall into the same group of a rule exactly
  when they agree on every known grouping field, as long as no container name or address
  contains a colon.
\<close>

theorem group_keys:
  assumes "SrcContainer e \<noteq> None" "SrcContainer e' \<noteq> None" and "colon_free e" "colon_free e'"
  shows "buildGroupKey n fs e = buildGroupKey n fs e' \<longleftrightarrow> (\<forall>f\<in>set fs. field_value e f = field_value e' f)"
  by (rule buildGroupKey_eq_iff [OF assms])

theorem group_keys_witness:
  "buildGroupKey ''r'' [''src_container''] (demo_event ''exec'' 1)
     = buildGroupKey ''r'' [''src_container''] (demo_event ''exec'' 2)"
  using group_keys [of "demo_event ''exec'' 1" "demo_event ''exec'' 2" "''r''" "[''src_container'']"]
  by (simp add: colon_free_def demo_info_def field_value_def)

text \<open>
  C27: In the engine as it is constructed the map of trackers is nil: the first event
  that matches any step of a sequence rule panics.
\<close>

theorem sequence_rules_panic:
  assumes "New_engine unmarshal root = Inr (Some r)" and "rSequence rule = Some seq"
    and "SrcContainer e \<noteq> None"
  shows "handleSequence rule e r =
     (if \<exists>step\<in>set (Steps seq). MatchEvent step e then Inl NilMapWrite else Inr (Some r))"
proof -
  obtain d where "root = Some d" using assms(1) by (cases root) (auto simp: New_engine_def LoadRules_def visit_def)
  with assms(1) have "trackers (sequences r) = None" by (auto simp: New_engine_iff empty_engine_def)
  then show ?thesis by (rule handleSequence_nil_map [OF assms(2) _ assms(3)])
qed

theorem sequence_rules_panic_witness:
  "handleSequence sequence_rule (demo_event ''exec'' 1) (empty_engine\<lparr>rules := []\<rparr>) = Inl NilMapWrite"
proof -
  have "New_engine (\<lambda>text. Inr demo_rule :: string + Rule) (Some (Dir ''rules'' True [])) = Inr (Some (empty_engine\<lparr>rules := []\<rparr>))"
    by (simp add: New_engine_iff)
  from sequence_rules_panic [OF this, of sequence_rule demo_sequence "demo_event ''exec'' 1"] show ?thesis
    by (simp add: sequence_rule_def) (simp add: demo_sequence_def type_block_match)
qed

text \<open>
  C28: With a map of trackers, an event that matches only the last step of a sequence
  raises the alert although no earlier step has been seen, because a new tracker starts
  at the step it was created for.
\<close>

theorem sequence_last_step_suffices:
  assumes "rules r = [rule]" "rSequence rule = Some seq"
    and "trackers (sequences r) = Some m" "m key = None"
    and "only_step seq i e" "Suc i = length (Steps seq)" "0 < i"
    and "buildGroupKey (rName rule) (seq_group seq) e = Inr key"
    and "0 \<le> seq_window seq" and "engine_ready 1 r"
  shows "\<exists>r'. ProcessEvent e r = Inr (Some r')
     \<and> chan_buf (alerts r') = chan_buf (alerts r) @ [rule_alert rule e]"
  by (rule last_step_alone [OF assms])

theorem sequence_last_step_suffices_witness:
  "\<exists>r'. ProcessEvent (demo_event ''file_open'' 2)
          (empty_engine\<lparr>rules := [sequence_rule], sequences := \<lparr>trackers = Some Map.empty\<rparr>\<rparr>) = Inr (Some r')
     \<and> chan_buf (alerts r') = [rule_alert sequence_rule (demo_event ''file_open'' 2)]"
proof -
  let ?r = "empty_engine\<lparr>rules := [sequence_rule], sequences := \<lparr>trackers = Some Map.empty\<rparr>\<rparr>"
  have "only_step demo_sequence 1 (demo_event ''file_open'' 2)"
    by (auto simp: only_step_def demo_sequence_def type_block_match nth_Cons' less_Suc_eq)
  from sequence_last_step_suffices [OF _ _ _ _ this, of ?r sequence_rule Map.empty "''burst:web''"] show ?thesis
    using demo_key [of "''burst''"] demo_windows(2)
    by (auto simp: engine_ready_def empty_engine_def make_chan_def sequence_rule_def seq_group_def demo_sequence_def)
qed

text \<open>
  C29: A rules folder yields an engine exactly when every file with a YAML suffix under
  it can be read and decoded; the engine's rules are the decoded ones in the order of
  the walk. For a folder that exists the constructor never panics; when it does not
  exist the engine is not reported as unusable: the constructor panics.
\<close>

theorem rules_loaded:
  "(New_engine unmarshal (Some d) = Inr (Some r) \<longleftrightarrow>
     (\<exists>rs. r = empty_engine\<lparr>rules := rs\<rparr> \<and> list_all2 (decodes unmarshal) (rule_files d) rs))
   \<and> New_engine unmarshal (Some d) \<noteq> Inl p
   \<and> New_engine unmarshal None = Inl NilDereference"
  using New_engine_iff [of unmarshal d r] walk_no_panic(1) [of unmarshal d "[]"]
  by (auto simp: New_engine_def LoadRules_def visit_def go_simps empty_engine_def)

theorem rules_loaded_witness:
  "New_engine (\<lambda>text. Inr demo_rule :: string + Rule)
      (Some (Dir ''rules'' True [File ''a.yaml'' (Some ''x''), File ''README'' None]))
     = Inr (Some (empty_engine\<lparr>rules := [demo_rule]\<rparr>))"
  by (rule conjunct1 [OF rules_loaded, THEN iffD2], rule exI [of _ "[demo_rule]"])
    (simp add: decodes_def HasSuffix_def suffix_def)

text \<open>
  C30: With the rule files of the repository, each decoded to the rule it writes down,
  the engine holds exactly these rules, none is a sequence and no two share a window, so
  the guarantees hold without further hypotheses on rules: until the signal no statement
  panics, and the goroutines can always work off what is queued, after which the alerts
  on the standard output are exactly those that these rules owe to the events, if the
  events of each window group came in time order.
\<close>

theorem shipped_rules_run:
  assumes "main_setup unmarshal (Some d) attached client_err env opened = Inr (Some s0)"
    and "list_all2 (decodes unmarshal) (rule_files d) shipped_rules"
    and "run (pipe_step cfg) as s0 = Inr (Some s)" and "shutPC s = ShWait" and "docker_ok a"
    and "\<forall>t. 60 dvd localZone cfg t"
  shows "rules (engine s0) = shipped_rules \<and> pipe_step cfg a s \<noteq> Inl p
     \<and> (\<exists>bs s'. list_all internal bs \<and> run (pipe_step cfg) bs s = Inr (Some s') \<and> idle s'
          \<and> (groups_sorted shipped_rules (engSeen s') \<longrightarrow> stream_alerts (stdout_text (printed (outp s')))
               = map clean_alert (filter (alert_has_text (localZone cfg)) (owed_alerts shipped_rules (outSeen s')))))"
  using shipped_start [OF assms(1,2)] setup_no_panic [OF assms(1,3,4) _ assms(5)] shipped_drain [OF assms(1-4,6)]
  by (simp del: run.simps)

theorem shipped_rules_run_witness:
  "main_setup ship_decode (Some ship_folder) True None live_runtime True = Inr (Some ship_start)
     \<and> rules (engine ship_start) = shipped_rules \<and> pipe_step demo_cfg MainLoop ship_start \<noteq> Inl SendOnClosedChannel"
  using shipped_rules_run [OF ship_setup ship_decodes, of demo_cfg "[]" ship_start MainLoop SendOnClosedChannel] ship_setup
  by (simp add: ship_start_def pipeline_start_def demo_cfg_def)

text \<open>
  C31: What the shipped brute-force rule counts: it owes an alert for an event exactly
  when the event is a connection to port 22 (or to an unknown port, 0) and, with itself,
  more than three such connections between containers of the same two names lie at most
  ten seconds before it, as long as no container name contains a colon.
\<close>

theorem brute_force_rule:
  assumes "\<forall>x\<in>set (evs @ [e]). SrcContainer x \<noteq> None \<and> colon_free x"
  shows "fires rule_ssh_brute_force evs e \<longleftrightarrow> ssh_connection e
    \<and> 3 < length (filter (\<lambda>x. ssh_connection x \<and> same_containers x e
            \<and> time_Sub (EvTime e) (EvTime x) \<le> 10 * 10 ^ 9) (evs @ [e]))"
  by (rule brute_force_fires [OF assms])

theorem brute_force_rule_witness:
  "fires rule_ssh_brute_force (map (demo_event ''connection'') [1, 2, 3]) (demo_event ''connection'' 4)
   \<and> \<not> fires rule_ssh_brute_force (map (demo_event ''connection'') [1, 2]) (demo_event ''connection'' 4)"
proof -
  have "EvDstPort (demo_event ty t) = 0" for ty t by (simp add: demo_event_def zero_Event_def)
  then have ssh: "ssh_connection (demo_event ''connection'' t)" for t by (simp add: ssh_connection_def)
  have free: "SrcContainer (demo_event ty t) \<noteq> None \<and> colon_free (demo_event ty t)" for ty t
    by (simp add: colon_free_def demo_info_def)
  have same: "same_containers (demo_event ty t) (demo_event ty t')" for ty t t' by (simp add: same_containers_def)
  show ?thesis
    using brute_force_rule [of "map (demo_event ''connection'') [1, 2, 3]" "demo_event ''connection'' 4"]
      brute_force_rule [of "map (demo_event ''connection'') [1, 2]" "demo_event ''connection'' 4"]
    by (simp add: ssh same free time_Sub_def del: not_None_eq)
qed

text \<open>
  C32: No block of a shipped rule is dead: a rule of the repository matches an event
  exactly when one of its blocks does, and every block matches an event that the program
  can receive. Whatever the rules in force and in every configuration in which the
  resolver knows a container whose name passes the filter, there are calls of the probes
  and a schedule that starts with the program and brings to the output and the engine
  exactly one event, made from the samples of these probes, that the block matches.
\<close>

theorem shipped_rules_live:
  assumes "rule \<in> set shipped_rules"
    and "cache res c = Some info" and "c \<noteq> 0" and "HasPrefix (Name info) (filterPrefixArg cfg)"
  shows "(Rule_MatchEvent rule e \<longleftrightarrow> (\<exists>m\<in>set (rule_blocks rule). MatchEvent m e)) \<and> rule_blocks rule \<noteq> []
     \<and> (\<forall>m\<in>set (rule_blocks rule). \<exists>as s e'.
          (\<forall>raw. Kernel raw \<in> set as \<longrightarrow> probe_sample raw)
        \<and> run (pipe_step cfg) as (pipeline_start eng res) = Inr (Some s)
        \<and> outSeen s = [e'] \<and> engSeen s = [e'] \<and> MatchEvent m e')"
  using shipped_match [OF assms(1)] shipped_live [OF assms(1) _ assms(2-4)] shipped_blocks assms(1)
  unfolding list_all_iff observed_def by blast

theorem shipped_rules_live_witness:
  "\<exists>as s e. (\<forall>raw. Kernel raw \<in> set as \<longrightarrow> probe_sample raw)
     \<and> run (pipe_step live_cfg) as ship_start = Inr (Some s) \<and> engSeen s = [e]
     \<and> MatchEvent (file_block '''' ''/proc/*/environ'' ''read'') e"
proof -
  have rule: "rule_proc_environ_enumeration \<in> set shipped_rules" by (simp add: shipped_rules_def)
  have block: "file_block '''' ''/proc/*/environ'' ''read'' \<in> set (rule_blocks rule_proc_environ_enumeration)"
    by (simp add: rule_blocks_def rule_proc_environ_enumeration_def empty_rule_def)
  have "HasPrefix (Name demo_info) (filterPrefixArg live_cfg)"
    by (simp add: HasPrefix_def demo_info_def live_cfg_def)
  from shipped_rules_live [OF rule _ _ this, of demo_resolver 7] block show ?thesis
    unfolding ship_start_def demo_resolver_def by fastforce
qed

text \<open>
  C33: The shipped rule against container escapes matches a write below /proc/1/root
  exactly when the file is one, two or three levels down, since a star does not cross a
  slash: a write further down raises no alert. The parts of the path are ASCII text.
\<close>

theorem escape_rule_depth:
  assumes "\<forall>s\<in>set parts. CHR ''/'' \<notin> set s \<and> ascii s"
    and "EvType e = ''file_open''" "FileOp e = ''write''" "FilePath e = below ''/proc/1/root'' parts"
  shows "Rule_MatchEvent rule_privileged_container_proc_escape e \<longleftrightarrow> 1 \<le> length parts \<and> length parts \<le> 3"
  using escape_depth [OF assms] by auto

theorem escape_rule_depth_witness:
  "\<not> Rule_MatchEvent rule_privileged_container_proc_escape
      (zero_Event\<lparr>EvType := ''file_open'', FileOp := ''write'', FilePath := ''/proc/1/root/root/.ssh/x/authorized_keys''\<rparr>)"
  using escape_rule_depth [of "[''root'', ''.ssh'', ''x'', ''authorized_keys'']"
      "zero_Event\<lparr>EvType := ''file_open'', FileOp := ''write'', FilePath := ''/proc/1/root/root/.ssh/x/authorized_keys''\<rparr>"]
  by (simp add: below_def ascii_def)

section \<open>Port expressions\<close>

text \<open>
  C34: Printing a port expression that lists at least one port or range and parsing the
  text gives the expression back, negation included.
\<close>

theorem port_roundtrip:
  assumes "\<not> Wildcard p" and "Ports p \<noteq> [] \<or> Ranges p \<noteq> []"
  shows "ParsePortExpr (show_PortExpr p) = Inr p"
  by (rule ParsePortExpr_show [OF assms])

theorem port_roundtrip_witness:
  "ParsePortExpr (show_PortExpr \<lparr>Ports = [22, 443], Ranges = [(8000, 9000)], Negate = True, Wildcard = False\<rparr>)
     = Inr \<lparr>Ports = [22, 443], Ranges = [(8000, 9000)], Negate = True, Wildcard = False\<rparr>"
  by (rule port_roundtrip) simp_all

text \<open>
  C35: The limits of port expressions: decoding a YAML list of expressions never sets a
  negation or a wildcard, whatever its items say, but collects their ports and ranges
  only, as the comment on negations in lists admits; and the wildcard, in both
  spellings, parses to an expression that counts as set but matches no port, so that a
  block with it rejects every event that has the port.
\<close>

theorem port_expression_gaps:
  assumes "UnmarshalYAML (SequenceNode items) p = Inr q"
  shows "Negate q = Negate p \<and> Wildcard q = Wildcard p
     \<and> (\<exists>ps. list_all2 (\<lambda>i x. ParsePortExpr (node_value i) = Inr x) items ps
          \<and> Ports q = Ports p @ concat (map Ports ps) \<and> Ranges q = Ranges p @ concat (map Ranges ps))
     \<and> ParsePortExpr ''*'' = Inr (zero_PortExpr\<lparr>Wildcard := True\<rparr>)
     \<and> ParsePortExpr '''' = Inr (zero_PortExpr\<lparr>Wildcard := True\<rparr>)
     \<and> (accepts_port (zero_PortExpr\<lparr>Wildcard := True\<rparr>) port \<longleftrightarrow> port = 0)"
proof -
  have "TrimSpace ''*'' = ''*''" by (rule TrimSpace_graphic) (simp_all add: graphic_def)
  moreover have "TrimSpace '''' = ''''" by (simp add: TrimSpace_def strip_tokens.simps)
  ultimately have "ParsePortExpr ''*'' = Inr (zero_PortExpr\<lparr>Wildcard := True\<rparr>)"
      "ParsePortExpr '''' = Inr (zero_PortExpr\<lparr>Wildcard := True\<rparr>)"
      "accepts_port (zero_PortExpr\<lparr>Wildcard := True\<rparr>) port \<longleftrightarrow> port = 0"
    by (simp_all add: ParsePortExpr_def IsZero_def Match_iff zero_PortExpr_def accepts_port_def)
  with assms unmarshal_items_collects show ?thesis by simp
qed

theorem port_expression_gaps_witness:
  "\<exists>q. UnmarshalYAML (SequenceNode [ScalarNode ''!22'']) zero_PortExpr = Inr q \<and> Ports q = [22] \<and> \<not> Negate q"
proof -
  have "ParsePortExpr ''!22'' = Inr (one_port True 22)"
    using scalar_ports(2) by (simp add: scalar_port_def one_port_def zero_PortExpr_def split: sum.splits)
  then have q: "UnmarshalYAML (SequenceNode [ScalarNode ''!22'']) zero_PortExpr = Inr (zero_PortExpr\<lparr>Ports := [22]\<rparr>)"
    by (simp add: one_port_def zero_PortExpr_def)
  with port_expression_gaps [OF q] show ?thesis by (simp add: zero_PortExpr_def)
qed

section \<open>Containers, output and time\<close>

text \<open>
  C36: An update of the container cache stores the entries of the containers it got
  through, later ones over earlier ones, and keeps every other entry, so also those of
  containers that no longer run; only when it reports no error has it got through all of
  them.
\<close>

theorem resolver_update:
  assumes "ContainerList env = Inr cs" and "updateInfo env r = Inr (r', err)"
  shows "\<exists>n es. n \<le> length cs \<and> (err = None \<longrightarrow> n = length cs)
     \<and> list_all2 (\<lambda>c e. update_one env c = Inr (Inr e)) (take n cs) es
     \<and> cache r' = cache r ++ map_of (rev es)"
  using update_loop_cache [of env cs r r' err] assms by (simp add: updateInfo_def)

theorem resolver_update_witness:
  "\<exists>r' n es. updateInfo half_runtime \<lparr>cache = [5 \<mapsto> db_info]\<rparr> = Inr (r', Some ''gone'')
     \<and> n \<le> 3 \<and> list_all2 (\<lambda>c e. update_one half_runtime c = Inr (Inr e))
          (take n [(''c1'', ''nginx''), (''c2'', ''img''), (''c3'', ''img'')]) es
     \<and> cache r' = [5 \<mapsto> db_info] ++ map_of (rev es) \<and> cache r' 7 = Some demo_info"
proof -
  have "ContainerList half_runtime = Inr [(''c1'', ''nginx''), (''c2'', ''img''), (''c3'', ''img'')]"
    by (simp add: half_runtime_def)
  from resolver_update [OF this half_update] obtain n es where
      n: "n \<le> length [(''c1'', ''nginx''), (''c2'', ''img''), (''c3'', ''img'')]"
    and es: "list_all2 (\<lambda>c e. update_one half_runtime c = Inr (Inr e))
          (take n [(''c1'', ''nginx''), (''c2'', ''img''), (''c3'', ''img'')]) es"
    and cache: "cache \<lparr>cache = [5 \<mapsto> db_info, 7 \<mapsto> demo_info]\<rparr> = cache \<lparr>cache = [5 \<mapsto> db_info]\<rparr> ++ map_of (rev es)"
    by blast
  have "n \<le> 3" using n by simp
  moreover have "cache \<lparr>cache = [5 \<mapsto> db_info, 7 \<mapsto> demo_info]\<rparr> = [5 \<mapsto> db_info] ++ map_of (rev es)"
    using cache by simp
  moreover have "cache \<lparr>cache = [5 \<mapsto> db_info, 7 \<mapsto> demo_info]\<rparr> 7 = Some demo_info" by simp
  ultimately show ?thesis using half_update es by blast
qed

text \<open>
  C37: For a process whose cgroup file holds one line of the unified hierarchy, with a
  path whose parts are visible ASCII text other than single and double dots, the
  resolver takes the inode of exactly that path under the cgroup mount point. A path
  that begins with n double dots, as the kernel writes it for a cgroup outside the
  reader's cgroup namespace, leaves the mount point by n levels, up to the root of the
  file system.
\<close>

theorem cgroup_path:
  assumes "list_all segment ps"
    and "ReadFile env (''/proc/'' @ dec_int pid @ ''/cgroup'')
           = Inr (''0::/'' @ Join (replicate n ''..'' @ ps) ''/'' @ [CHR 0x0A])"
  shows "getCgroupID env pid
           = Inr (StatIno env (CHR ''/'' # Join (take (3 - n) [''sys'', ''fs'', ''cgroup''] @ ps) ''/''))"
  by (rule getCgroupID_up_down [OF assms [folded up_down_def]])

theorem cgroup_path_witness:
  "getCgroupID \<lparr>ContainerList = Inr [], ContainerInspect = (\<lambda>c. Inl ''x''),
      ReadFile = (\<lambda>f. Inr (''0::/docker/ab'' @ [CHR 0x0A])),
      StatIno = (\<lambda>f. if f = ''/sys/fs/cgroup/docker/ab'' then Inr 7 else Inl ''x'')\<rparr> 1 = Inr (Inr 7)
   \<and> getCgroupID \<lparr>ContainerList = Inr [], ContainerInspect = (\<lambda>c. Inl ''x''),
      ReadFile = (\<lambda>f. Inr (''0::/../x'' @ [CHR 0x0A])),
      StatIno = (\<lambda>f. if f = ''/sys/fs/x'' then Inr 7 else Inl ''x'')\<rparr> 1 = Inr (Inr 7)"
proof
  show "getCgroupID \<lparr>ContainerList = Inr [], ContainerInspect = (\<lambda>c. Inl ''x''),
      ReadFile = (\<lambda>f. Inr (''0::/docker/ab'' @ [CHR 0x0A])),
      StatIno = (\<lambda>f. if f = ''/sys/fs/cgroup/docker/ab'' then Inr 7 else Inl ''x'')\<rparr> 1 = Inr (Inr 7)"
    by (subst cgroup_path [of "[''docker'', ''ab'']" _ _ 0]) (simp_all add: segment_def graphic_def)
  show "getCgroupID \<lparr>ContainerList = Inr [], ContainerInspect = (\<lambda>c. Inl ''x''),
      ReadFile = (\<lambda>f. Inr (''0::/../x'' @ [CHR 0x0A])),
      StatIno = (\<lambda>f. if f = ''/sys/fs/x'' then Inr 7 else Inl ''x'')\<rparr> 1 = Inr (Inr 7)"
    by (subst cgroup_path [of "[''x'']" _ _ 1]) (simp_all add: segment_def graphic_def)
qed

text \<open>
  C38: What is printed for an event or an alert can be read back without loss, in a zone
  that is a whole number of minutes from UTC: the line has no byte below 32, in
  particular no line feed, so that no name or path can break it (the control characters
  DEL and U+0080 to U+009F are passed on as they are), and reading the JSON text by the
  names of its members gives all fields again, the omitted ones as zero values, strings
  with invalid UTF-8 replaced.
\<close>

theorem output_lines:
  assumes "json_Marshal zone v = Some line" and "whole_minutes zone v"
  shows "no_C0 line \<and> newline \<notin> set line
     \<and> read_output line
         = Some \<lparr>OutType = utf8_clean (OutType v), OutEvent = map_option clean_event (OutEvent v),
                 OutAlert = map_option clean_alert (OutAlert v)\<rparr>"
  using json_Marshal_no_C0 [OF assms(1)] json_lines.one_line [OF assms(1)] read_marshalled [OF assms]
  by (simp add: clean_output_def)

theorem output_lines_witness:
  "\<exists>line. json_Marshal (\<lambda>t. 3600) (event_output (demo_event ''exec'' 1)) = Some line
     \<and> read_output line = Some (clean_output (event_output (demo_event ''exec'' 1)))"
proof -
  have "appendStrictRFC3339 3600 1 \<noteq> None" by (rule time_text_exists) simp_all
  then obtain line where line: "json_Marshal (\<lambda>t. 3600) (event_output (demo_event ''exec'' 1)) = Some line"
    using json_Marshal_event [of "\<lambda>t. 3600" "demo_event ''exec'' 1"] by auto
  moreover have "whole_minutes (\<lambda>t. 3600) (event_output (demo_event ''exec'' 1))" by (simp add: whole_minutes_def)
  ultimately show ?thesis using output_lines [OF line] by (simp add: clean_output_def)
qed

text \<open>
  C39: The output loop prints what it receives in the order of reception and never
  returns: its test for two closed channels is skipped on every path that closes one, so
  once both are closed it waits for ever.
\<close>

theorem output_loop_never_returns:
  assumes "OutputLoop zone cs output_start = Some s"
  shows "printed s = List.map_filter (json_Marshal zone) (concat (map case_values cs)) \<and> \<not> returned s
     \<and> (EventCase None \<in> set cs \<and> AlertCase None \<in> set cs \<longrightarrow> (\<forall>c. output_round zone c s = None))"
  using OutputLoop_Some [OF assms] OutputLoop_stuck [OF assms] by (auto simp: output_start_def case_lines_concat)

theorem output_loop_never_returns_witness:
  "\<exists>s. OutputLoop (\<lambda>t. 0) [EventCase None, AlertCase None] output_start = Some s \<and> printed s = [] \<and> \<not> returned s
     \<and> output_round (\<lambda>t. 0) (EventCase (Some zero_Event)) s = None"
proof -
  obtain s where s: "OutputLoop (\<lambda>t. 0) [EventCase None, AlertCase None] output_start = Some s"
    by (simp add: output_start_def)
  from output_loop_never_returns [OF s] have "printed s = [] \<and> \<not> returned s \<and> (\<forall>c. output_round (\<lambda>t. 0) c s = None)"
    by (simp add: List.map_filter_simps)
  with s show ?thesis by blast
qed

text \<open>
  C40: A kernel time below half the range of 64 bits is added exactly to the boot time;
  from there on the conversion to a signed duration wraps, and the result lies before
  the boot time. On a machine booted after the first day of 1970 and before 2262 every
  event with a time that does not wrap is printed, in any zone less than a day from UTC.
\<close>

theorem kernel_times:
  assumes "unat k < 2 ^ 63"
  shows "KTimeToTime t k = t + int (unat k) \<and> KTimeToTime t (k + 2 ^ 63) = t + int (unat k) - 2 ^ 63
     \<and> (86400 * 10 ^ 9 \<le> t \<and> t < 2 ^ 63 \<and> (\<forall>u. \<bar>zone u\<bar> < 86400) \<and> EvTime e = KTimeToTime t k
          \<longrightarrow> json_Marshal zone (event_output e) \<noteq> None)"
  using KTimeToTime_small [OF assms, of t] KTimeToTime_large [OF assms, of t]
    kernel_time_has_text [OF _ _ assms, of t zone e]
  unfolding json_Marshal_event has_text_def by blast

theorem kernel_times_witness:
  "KTimeToTime 100 5 = 105 \<and> KTimeToTime 100 (5 + 2 ^ 63) = 105 - 2 ^ 63
     \<and> json_Marshal (\<lambda>t. 0) (event_output (demo_event ''exec'' (KTimeToTime (1700000000 * 10 ^ 9) 5))) \<noteq> None"
proof -
  let ?t = "1700000000 * 10 ^ 9" and ?k = "5 :: u64"
  have "unat ?k < 2 ^ 63" by simp
  note times = kernel_times [OF this]
  have "KTimeToTime 100 5 = 105 \<and> KTimeToTime 100 (5 + 2 ^ 63) = 105 - 2 ^ 63" using times [of 100] by simp
  moreover have "json_Marshal (\<lambda>t. 0) (event_output (demo_event ''exec'' (KTimeToTime ?t ?k))) \<noteq> None"
    by (rule times [THEN conjunct2, THEN conjunct2, THEN mp, of ?t]) simp
  ultimately show ?thesis by blast
qed

end
